(* ===== verification/Spdm_Prelude.thy ===== *)
theory Spdm_Prelude
  imports Main "HOL-Library.Word"
begin

unbundle bit_operations_syntax

text \<open>
  Shared foundations of the development: the machine types of the C code, the error
  codes of \<^verbatim>\<open>wolfspdm/spdm_error.h\<close> as a datatype, the error-and-state shape of
  every C function (\<^verbatim>\<open>rc\<close> returned, context mutated), its weakest-precondition and
  frame rules, and the list and word lemmas every component uses.

  A C function \<^verbatim>\<open>int f(CTX* ctx, ...)\<close> becomes an operation of type
  \<open>('s, 'a) op\<close>: it takes the context, returns \<open>Inl e\<close> for an error code or \<open>Inr a\<close>
  for \<^verbatim>\<open>WOLFSPDM_SUCCESS\<close> with the out-parameters as \<open>a\<close>, and returns the context as the
  function leaves it on either path.
\<close>

section \<open>Machine types\<close>

type_synonym byte = "8 word"
type_synonym word16 = "16 word"
type_synonym word32 = "32 word"
type_synonym word64 = "64 word"
type_synonym bytes = "8 word list"

section \<open>Error codes\<close>

datatype WOLFSPDM_ERROR =
    E_INVALID_ARG | E_BUFFER_SMALL | E_BAD_STATE | E_VERSION_MISMATCH
  | E_CRYPTO_FAIL | E_BAD_SIGNATURE | E_BAD_HMAC | E_IO_FAIL | E_TIMEOUT
  | E_PEER_ERROR | E_DECRYPT_FAIL | E_SEQUENCE | E_NOT_CONNECTED
  | E_ALREADY_INIT | E_NO_MEMORY | E_SESSION_INVALID | E_KEY_EXCHANGE
  | E_NOT_AVAILABLE | E_FRAMING | E_NOT_IMPL | E_CERT_FAIL | E_CAPS_MISMATCH
  | E_ALGO_MISMATCH | E_CERT_PARSE | E_KEY_UPDATE | E_MEASUREMENT
  | E_CHALLENGE | E_CHUNK

type_synonym ('s, 'a) op = "'s \<Rightarrow> (WOLFSPDM_ERROR + 'a) \<times> 's"

section \<open>Operations\<close>

definition retE :: "'a \<Rightarrow> ('s, 'a) op" where
  "retE a s = (Inr a, s)"

definition failE :: "WOLFSPDM_ERROR \<Rightarrow> ('s, 'a) op" where
  "failE e s = (Inl e, s)"

definition bindE :: "('s, 'a) op \<Rightarrow> ('a \<Rightarrow> ('s, 'b) op) \<Rightarrow> ('s, 'b) op" where
  "bindE m f s = (case m s of (Inl e, t) \<Rightarrow> (Inl e, t) | (Inr a, t) \<Rightarrow> f a t)"

abbreviation thenE :: "('s, 'a) op \<Rightarrow> ('s, 'b) op \<Rightarrow> ('s, 'b) op" where
  "thenE m n \<equiv> bindE m (\<lambda>_. n)"

definition guardE :: "bool \<Rightarrow> WOLFSPDM_ERROR \<Rightarrow> ('s, unit) op" where
  "guardE b e = (if b then retE () else failE e)"

definition getE :: "('s \<Rightarrow> 'a) \<Rightarrow> ('s, 'a) op" where
  "getE f s = (Inr (f s), s)"

definition modE :: "('s \<Rightarrow> 's) \<Rightarrow> ('s, unit) op" where
  "modE f s = (Inr (), f s)"

definition liftE :: "WOLFSPDM_ERROR \<Rightarrow> 'a option \<Rightarrow> ('s, 'a) op" where
  "liftE e r = (case r of None \<Rightarrow> failE e | Some a \<Rightarrow> retE a)"

text \<open>Run \<open>h\<close> on the context when \<open>m\<close> fails; the error code stays.\<close>

definition onFailE :: "('s, 'a) op \<Rightarrow> ('s \<Rightarrow> 's) \<Rightarrow> ('s, 'a) op" where
  "onFailE m h s = (case m s of (Inl e, t) \<Rightarrow> (Inl e, h t) | (Inr a, t) \<Rightarrow> (Inr a, t))"

text \<open>Run \<open>h\<close> on the context on every path, as the C functions do before \<^verbatim>\<open>return rc\<close>.\<close>

definition finallyE :: "('s, 'a) op \<Rightarrow> ('s \<Rightarrow> 's) \<Rightarrow> ('s, 'a) op" where
  "finallyE m h s = (case m s of (r, t) \<Rightarrow> (r, h t))"

text \<open>Read the return code without leaving the function, as \<^verbatim>\<open>rc = f(...)\<close> does.\<close>

definition tryE :: "('s, 'a) op \<Rightarrow> ('s, WOLFSPDM_ERROR + 'a) op" where
  "tryE m s = (case m s of (r, t) \<Rightarrow> (Inr r, t))"

lemmas opE_defs = retE_def failE_def bindE_def guardE_def getE_def modE_def liftE_def
  onFailE_def finallyE_def tryE_def

lemma bindE_assoc: "bindE (bindE m f) g = bindE m (\<lambda>x. bindE (f x) g)"
  by (rule ext) (simp add: bindE_def split: prod.splits sum.splits)

section \<open>Weakest preconditions\<close>

definition wpE :: "('s, 'a) op \<Rightarrow> ('a \<Rightarrow> 's \<Rightarrow> bool) \<Rightarrow> (WOLFSPDM_ERROR \<Rightarrow> 's \<Rightarrow> bool) \<Rightarrow> 's \<Rightarrow> bool" where
  "wpE m Q E s = (case m s of (Inl e, t) \<Rightarrow> E e t | (Inr a, t) \<Rightarrow> Q a t)"

named_theorems wp_simps
named_theorems keeps_intros

lemma wpE_ret [wp_simps]: "wpE (retE a) Q E s = Q a s"
  by (simp add: wpE_def retE_def)

lemma wpE_fail [wp_simps]: "wpE (failE e) Q E s = E e s"
  by (simp add: wpE_def failE_def)

lemma wpE_bind [wp_simps]: "wpE (bindE m f) Q E s = wpE m (\<lambda>a. wpE (f a) Q E) E s"
  by (simp add: wpE_def bindE_def split: prod.splits sum.splits)

lemma wpE_guard [wp_simps]: "wpE (guardE b e) Q E s = (if b then Q () s else E e s)"
  by (simp add: guardE_def wp_simps)

lemma wpE_get [wp_simps]: "wpE (getE f) Q E s = Q (f s) s"
  by (simp add: wpE_def getE_def)

lemma wpE_mod [wp_simps]: "wpE (modE f) Q E s = Q () (f s)"
  by (simp add: wpE_def modE_def)

lemma wpE_lift [wp_simps]:
  "wpE (liftE e r) Q E s = (case r of None \<Rightarrow> E e s | Some a \<Rightarrow> Q a s)"
  by (simp add: liftE_def wp_simps split: option.splits)

lemma wpE_if [wp_simps]:
  "wpE (if b then m else n) Q E s = (if b then wpE m Q E s else wpE n Q E s)"
  by simp

lemma wpE_onFail [wp_simps]: "wpE (onFailE m h) Q E s = wpE m Q (\<lambda>e t. E e (h t)) s"
  by (simp add: wpE_def onFailE_def split: prod.splits sum.splits)

lemma wpE_finally [wp_simps]:
  "wpE (finallyE m h) Q E s = wpE m (\<lambda>a t. Q a (h t)) (\<lambda>e t. E e (h t)) s"
  by (simp add: wpE_def finallyE_def split: prod.splits sum.splits)

lemma wpE_try [wp_simps]:
  "wpE (tryE m) Q E s = wpE m (\<lambda>a. Q (Inr a)) (\<lambda>e. Q (Inl e)) s"
  by (simp add: wpE_def tryE_def split: prod.splits sum.splits)

lemma wpE_mono:
  assumes "wpE m Q E s" "\<And>a t. Q a t \<Longrightarrow> Q' a t" "\<And>e t. E e t \<Longrightarrow> E' e t"
  shows "wpE m Q' E' s"
  using assms by (auto simp: wpE_def split: prod.splits sum.splits)

lemma wpE_conj:
  "wpE m Q E s \<Longrightarrow> wpE m Q' E' s \<Longrightarrow> wpE m (\<lambda>a t. Q a t \<and> Q' a t) (\<lambda>e t. E e t \<and> E' e t) s"
  by (auto simp: wpE_def split: prod.splits sum.splits)

lemma wpE_Inr: "wpE m Q E s \<Longrightarrow> m s = (Inr a, t) \<Longrightarrow> Q a t"
  by (simp add: wpE_def)

lemma wpE_Inl: "wpE m Q E s \<Longrightarrow> m s = (Inl e, t) \<Longrightarrow> E e t"
  by (simp add: wpE_def)

lemma wpE_iff:
  "wpE m Q E s \<longleftrightarrow> (\<forall>a t. m s = (Inr a, t) \<longrightarrow> Q a t) \<and> (\<forall>e t. m s = (Inl e, t) \<longrightarrow> E e t)"
  by (auto simp: wpE_def split: prod.splits sum.splits)

section \<open>Frames: what an operation leaves alone\<close>

definition keeps :: "('s \<Rightarrow> 'v) \<Rightarrow> ('s, 'a) op \<Rightarrow> bool" where
  "keeps f m \<longleftrightarrow> (\<forall>s. f (snd (m s)) = f s)"

lemma keepsD: "keeps f m \<Longrightarrow> m s = (r, t) \<Longrightarrow> f t = f s"
  by (metis keeps_def snd_conv)

lemma keeps_wpE: "keeps f m \<Longrightarrow> wpE m (\<lambda>_ t. f t = f s) (\<lambda>_ t. f t = f s) s"
  by (auto simp: wpE_iff dest: keepsD)

lemma keeps_ret [keeps_intros]: "keeps f (retE a)"
  by (simp add: keeps_def retE_def)

lemma keeps_fail [keeps_intros]: "keeps f (failE e)"
  by (simp add: keeps_def failE_def)

lemma keeps_bind [keeps_intros]: "keeps f m \<Longrightarrow> (\<And>a. keeps f (n a)) \<Longrightarrow> keeps f (bindE m n)"
  by (auto simp: keeps_def bindE_def split: prod.splits sum.splits) (metis snd_conv)+

lemma keeps_guard [keeps_intros]: "keeps f (guardE b e)"
  by (simp add: guardE_def keeps_ret keeps_fail)

lemma keeps_get [keeps_intros]: "keeps f (getE g)"
  by (simp add: keeps_def getE_def)

lemma keeps_mod [keeps_intros]: "(\<And>s. f (g s) = f s) \<Longrightarrow> keeps f (modE g)"
  by (simp add: keeps_def modE_def)

lemma keeps_lift [keeps_intros]: "keeps f (liftE e r)"
  by (simp add: liftE_def keeps_ret keeps_fail split: option.splits)

lemma keeps_if [keeps_intros]: "(b \<Longrightarrow> keeps f m) \<Longrightarrow> (\<not> b \<Longrightarrow> keeps f n) \<Longrightarrow> keeps f (if b then m else n)"
  by simp

lemma keeps_onFail [keeps_intros]: "keeps f m \<Longrightarrow> (\<And>s. f (h s) = f s) \<Longrightarrow> keeps f (onFailE m h)"
  by (auto simp: keeps_def onFailE_def split: prod.splits sum.splits) (metis snd_conv)+

lemma keeps_finally [keeps_intros]: "keeps f m \<Longrightarrow> (\<And>s. f (h s) = f s) \<Longrightarrow> keeps f (finallyE m h)"
  by (auto simp: keeps_def finallyE_def split: prod.splits) (metis snd_conv)+

lemma keeps_try [keeps_intros]: "keeps f m \<Longrightarrow> keeps f (tryE m)"
  by (auto simp: keeps_def tryE_def split: prod.splits) (metis snd_conv)

lemma keeps_case_option [keeps_intros]:
  "(x = None \<Longrightarrow> keeps f m) \<Longrightarrow> (\<And>a. x = Some a \<Longrightarrow> keeps f (n a)) \<Longrightarrow> keeps f (case x of None \<Rightarrow> m | Some a \<Rightarrow> n a)"
  by (cases x) auto

lemma keeps_case_sum [keeps_intros]:
  "(\<And>e. x = Inl e \<Longrightarrow> keeps f (m e)) \<Longrightarrow> (\<And>a. x = Inr a \<Longrightarrow> keeps f (n a)) \<Longrightarrow> keeps f (case x of Inl e \<Rightarrow> m e | Inr a \<Rightarrow> n a)"
  by (cases x) auto

lemma keeps_case_prod [keeps_intros]:
  "(\<And>a b. x = (a, b) \<Longrightarrow> keeps f (m a b)) \<Longrightarrow> keeps f (case x of (a, b) \<Rightarrow> m a b)"
  by (cases x) auto

lemma keeps_let [keeps_intros]: "keeps f (m x) \<Longrightarrow> keeps f (let y = x in m y)"
  by simp

section \<open>State invariants\<close>

definition holdsE :: "('s \<Rightarrow> bool) \<Rightarrow> ('s, 'a) op \<Rightarrow> bool" where
  "holdsE P m \<longleftrightarrow> (\<forall>s. P s \<longrightarrow> P (snd (m s)))"

named_theorems holds_intros

lemma holdsE_D: "holdsE P m \<Longrightarrow> P s \<Longrightarrow> m s = (r, t) \<Longrightarrow> P t"
  by (metis holdsE_def snd_conv)

lemma holdsE_ret [holds_intros]: "holdsE P (retE a)"
  by (simp add: holdsE_def retE_def)

lemma holdsE_fail [holds_intros]: "holdsE P (failE e)"
  by (simp add: holdsE_def failE_def)

lemma holdsE_bind [holds_intros]: "holdsE P m \<Longrightarrow> (\<And>a. holdsE P (n a)) \<Longrightarrow> holdsE P (bindE m n)"
  by (auto simp: holdsE_def bindE_def split: prod.splits sum.splits)

lemma holdsE_guard [holds_intros]: "holdsE P (guardE b e)"
  by (simp add: guardE_def holdsE_ret holdsE_fail)

lemma holdsE_get [holds_intros]: "holdsE P (getE g)"
  by (simp add: holdsE_def getE_def)

lemma holdsE_mod [holds_intros]: "(\<And>s. P s \<Longrightarrow> P (g s)) \<Longrightarrow> holdsE P (modE g)"
  by (simp add: holdsE_def modE_def)

lemma holdsE_lift [holds_intros]: "holdsE P (liftE e r)"
  by (simp add: liftE_def holdsE_ret holdsE_fail split: option.splits)

lemma holdsE_if [holds_intros]: "(b \<Longrightarrow> holdsE P m) \<Longrightarrow> (\<not> b \<Longrightarrow> holdsE P n) \<Longrightarrow> holdsE P (if b then m else n)"
  by simp

lemma holdsE_onFail [holds_intros]: "holdsE P m \<Longrightarrow> (\<And>s. P s \<Longrightarrow> P (h s)) \<Longrightarrow> holdsE P (onFailE m h)"
  by (auto simp: holdsE_def onFailE_def split: prod.splits sum.splits)

lemma holdsE_finally [holds_intros]: "holdsE P m \<Longrightarrow> (\<And>s. P s \<Longrightarrow> P (h s)) \<Longrightarrow> holdsE P (finallyE m h)"
  by (auto simp: holdsE_def finallyE_def split: prod.splits)

lemma holdsE_try [holds_intros]: "holdsE P m \<Longrightarrow> holdsE P (tryE m)"
  by (auto simp: holdsE_def tryE_def split: prod.splits)

lemma holdsE_case_option [holds_intros]:
  "(x = None \<Longrightarrow> holdsE P m) \<Longrightarrow> (\<And>a. x = Some a \<Longrightarrow> holdsE P (n a)) \<Longrightarrow> holdsE P (case x of None \<Rightarrow> m | Some a \<Rightarrow> n a)"
  by (cases x) auto

lemma holdsE_case_sum [holds_intros]:
  "(\<And>e. x = Inl e \<Longrightarrow> holdsE P (m e)) \<Longrightarrow> (\<And>a. x = Inr a \<Longrightarrow> holdsE P (n a)) \<Longrightarrow> holdsE P (case x of Inl e \<Rightarrow> m e | Inr a \<Rightarrow> n a)"
  by (cases x) auto

lemma holdsE_case_prod [holds_intros]:
  "(\<And>a b. x = (a, b) \<Longrightarrow> holdsE P (m a b)) \<Longrightarrow> holdsE P (case x of (a, b) \<Rightarrow> m a b)"
  by (cases x) auto

lemma holdsE_let [holds_intros]: "holdsE P (m x) \<Longrightarrow> holdsE P (let y = x in m y)"
  by simp

lemma keeps_holdsE: "keeps f m \<Longrightarrow> holdsE (\<lambda>s. P (f s)) m"
  by (simp add: keeps_def holdsE_def)

section \<open>What a failure leaves alone\<close>

text \<open>\<open>failKeeps f m\<close>: when \<open>m\<close> fails, \<open>f\<close> of the context is as it was.\<close>

definition failKeeps :: "('s \<Rightarrow> 'v) \<Rightarrow> ('s, 'a) op \<Rightarrow> bool" where
  "failKeeps f m \<longleftrightarrow> (\<forall>s e t. m s = (Inl e, t) \<longrightarrow> f t = f s)"

named_theorems failKeeps_intros

lemma failKeepsD: "failKeeps f m \<Longrightarrow> m s = (Inl e, t) \<Longrightarrow> f t = f s"
  by (simp add: failKeeps_def)

lemma failKeeps_keeps: "keeps f m \<Longrightarrow> failKeeps f m"
  by (auto simp: failKeeps_def dest: keepsD)

lemma failKeeps_bind [failKeeps_intros]:
  "keeps f m \<Longrightarrow> (\<And>a. failKeeps f (n a)) \<Longrightarrow> failKeeps f (bindE m n)"
  by (fastforce simp: failKeeps_def bindE_def dest: keepsD split: prod.splits sum.splits)

lemma failKeeps_mod [failKeeps_intros]: "failKeeps f (modE g)"
  by (simp add: failKeeps_def modE_def)

lemma failKeeps_if [failKeeps_intros]:
  "failKeeps f m \<Longrightarrow> failKeeps f n \<Longrightarrow> failKeeps f (if b then m else n)"
  by simp

lemma failKeeps_let [failKeeps_intros]: "failKeeps f (m x) \<Longrightarrow> failKeeps f (let y = x in m y)"
  by simp

lemma failKeeps_fail [failKeeps_intros]: "failKeeps f (failE e)"
  by (simp add: failKeeps_def failE_def)

section \<open>Successful runs\<close>

text \<open>A successful run of a composite operation is a chain of successful runs.\<close>

named_theorems succ_simps

lemma succ_ret [succ_simps]: "retE a s = (Inr b, t) \<longleftrightarrow> b = a \<and> t = s"
  by (auto simp: retE_def)

lemma succ_fail [succ_simps]: "failE e s = (Inr b, t) \<longleftrightarrow> False"
  by (simp add: failE_def)

lemma succ_bind [succ_simps]:
  "bindE m f s = (Inr b, t) \<longleftrightarrow> (\<exists>a u. m s = (Inr a, u) \<and> f a u = (Inr b, t))"
  by (auto simp: bindE_def split: prod.splits sum.splits)

lemma succ_guard [succ_simps]: "guardE p e s = (Inr b, t) \<longleftrightarrow> p \<and> t = s"
  by (auto simp: guardE_def retE_def failE_def)

lemma succ_get [succ_simps]: "getE f s = (Inr b, t) \<longleftrightarrow> b = f s \<and> t = s"
  by (auto simp: getE_def)

lemma succ_mod [succ_simps]: "modE f s = (Inr b, t) \<longleftrightarrow> t = f s"
  by (auto simp: modE_def)

lemma succ_lift [succ_simps]: "liftE e r s = (Inr b, t) \<longleftrightarrow> r = Some b \<and> t = s"
  by (auto simp: liftE_def retE_def failE_def split: option.splits)

lemma succ_onFail [succ_simps]: "onFailE m h s = (Inr b, t) \<longleftrightarrow> m s = (Inr b, t)"
  by (auto simp: onFailE_def split: prod.splits sum.splits)

lemma succ_finally [succ_simps]: "finallyE m h s = (Inr b, t) \<longleftrightarrow> (\<exists>u. m s = (Inr b, u) \<and> t = h u)"
  by (auto simp: finallyE_def split: prod.splits)

lemma succ_try [succ_simps]: "tryE m s = (Inr r, t) \<longleftrightarrow> m s = (r, t)"
  by (auto simp: tryE_def split: prod.splits)

lemma succ_let [succ_simps]: "(let y = x in m y) s = (Inr b, t) \<longleftrightarrow> m x s = (Inr b, t)"
  by simp

end
