(* ===== verification/Spdm_Types.thy ===== *)
theory Spdm_Types
  imports Spdm_Prelude
begin

text \<open>
  The data of the library: protocol constants (\<^verbatim>\<open>wolfspdm/spdm_types.h\<close>,
  \<^verbatim>\<open>wolfspdm/spdm_tcg.h\<close>), the modes, the context \<^verbatim>\<open>struct WOLFSPDM_CTX\<close> of
  \<^verbatim>\<open>src/spdm_internal.h\<close>, and its byte-order helpers.

  The build modelled is the full one: TCG, Nuvoton, Nations and PSK, the responder, the
  certificate requester, MCTP, chunking, measurements, challenge, heartbeat, key update,
  ML-DSA and ML-KEM with every parameter set. \<^verbatim>\<open>WOLFSPDM_DATA_TRANSFER_SIZE\<close>, which a
  build may set, is a field of the environment.

  A buffer with its length (\<^verbatim>\<open>transcript\<close>/\<^verbatim>\<open>transcriptLen\<close>, \<^verbatim>\<open>psk\<close>/\<^verbatim>\<open>pskSz\<close>,
  \<^verbatim>\<open>certChain\<close>/\<^verbatim>\<open>certChainLen\<close>, \<dots>) is the list of its valid bytes. A buffer whose whole
  fixed size is used (keys, IVs, hashes) is a list of that size. wolfCrypt, which is not
  part of the repository, is the record \<open>wc_env\<close> of the functions the library calls; its
  opaque objects (\<^verbatim>\<open>WC_RNG\<close>, \<^verbatim>\<open>ecc_key\<close>, \<^verbatim>\<open>MlKemKey\<close>) are their byte images.
\<close>

section \<open>Protocol constants\<close>

abbreviation (input) SPDM_VERSION_10 :: byte where "SPDM_VERSION_10 \<equiv> 0x10"
abbreviation (input) SPDM_VERSION_12 :: byte where "SPDM_VERSION_12 \<equiv> 0x12"
abbreviation (input) SPDM_VERSION_13 :: byte where "SPDM_VERSION_13 \<equiv> 0x13"
abbreviation (input) SPDM_VERSION_14 :: byte where "SPDM_VERSION_14 \<equiv> 0x14"
abbreviation (input) WOLFSPDM_MIN_SPDM_VERSION :: byte where "WOLFSPDM_MIN_SPDM_VERSION \<equiv> 0x12"
abbreviation (input) WOLFSPDM_MAX_SPDM_VERSION :: byte where "WOLFSPDM_MAX_SPDM_VERSION \<equiv> 0x14"

abbreviation (input) SPDM_GET_VERSION :: byte where "SPDM_GET_VERSION \<equiv> 0x84"
abbreviation (input) SPDM_KEY_EXCHANGE :: byte where "SPDM_KEY_EXCHANGE \<equiv> 0xE4"
abbreviation (input) SPDM_FINISH :: byte where "SPDM_FINISH \<equiv> 0xE5"
abbreviation (input) SPDM_END_SESSION :: byte where "SPDM_END_SESSION \<equiv> 0xEC"
abbreviation (input) SPDM_VENDOR_DEFINED_REQUEST :: byte where "SPDM_VENDOR_DEFINED_REQUEST \<equiv> 0xFE"
abbreviation (input) SPDM_VERSION :: byte where "SPDM_VERSION \<equiv> 0x04"
abbreviation (input) SPDM_KEY_EXCHANGE_RSP :: byte where "SPDM_KEY_EXCHANGE_RSP \<equiv> 0x64"
abbreviation (input) SPDM_FINISH_RSP :: byte where "SPDM_FINISH_RSP \<equiv> 0x65"
abbreviation (input) SPDM_END_SESSION_ACK :: byte where "SPDM_END_SESSION_ACK \<equiv> 0x6C"
abbreviation (input) SPDM_ERROR :: byte where "SPDM_ERROR \<equiv> 0x7F"
abbreviation (input) SPDM_HEARTBEAT :: byte where "SPDM_HEARTBEAT \<equiv> 0xE8"
abbreviation (input) SPDM_HEARTBEAT_ACK :: byte where "SPDM_HEARTBEAT_ACK \<equiv> 0x68"
abbreviation (input) SPDM_KEY_UPDATE :: byte where "SPDM_KEY_UPDATE \<equiv> 0xE9"
abbreviation (input) SPDM_KEY_UPDATE_ACK :: byte where "SPDM_KEY_UPDATE_ACK \<equiv> 0x69"
abbreviation (input) SPDM_PSK_EXCHANGE :: byte where "SPDM_PSK_EXCHANGE \<equiv> 0xE6"
abbreviation (input) SPDM_PSK_EXCHANGE_RSP :: byte where "SPDM_PSK_EXCHANGE_RSP \<equiv> 0x66"
abbreviation (input) SPDM_PSK_FINISH :: byte where "SPDM_PSK_FINISH \<equiv> 0xE7"
abbreviation (input) SPDM_PSK_FINISH_RSP :: byte where "SPDM_PSK_FINISH_RSP \<equiv> 0x67"
abbreviation (input) SPDM_GET_DIGESTS :: byte where "SPDM_GET_DIGESTS \<equiv> 0x81"
abbreviation (input) SPDM_GET_CERTIFICATE :: byte where "SPDM_GET_CERTIFICATE \<equiv> 0x82"
abbreviation (input) SPDM_GET_CAPABILITIES :: byte where "SPDM_GET_CAPABILITIES \<equiv> 0xE1"
abbreviation (input) SPDM_NEGOTIATE_ALGORITHMS :: byte where "SPDM_NEGOTIATE_ALGORITHMS \<equiv> 0xE3"
abbreviation (input) SPDM_DIGESTS :: byte where "SPDM_DIGESTS \<equiv> 0x01"
abbreviation (input) SPDM_CERTIFICATE :: byte where "SPDM_CERTIFICATE \<equiv> 0x02"
abbreviation (input) SPDM_CAPABILITIES :: byte where "SPDM_CAPABILITIES \<equiv> 0x61"
abbreviation (input) SPDM_ALGORITHMS :: byte where "SPDM_ALGORITHMS \<equiv> 0x63"
abbreviation (input) SPDM_GET_MEASUREMENTS :: byte where "SPDM_GET_MEASUREMENTS \<equiv> 0xE0"
abbreviation (input) SPDM_MEASUREMENTS :: byte where "SPDM_MEASUREMENTS \<equiv> 0x60"
abbreviation (input) SPDM_CHALLENGE :: byte where "SPDM_CHALLENGE \<equiv> 0x83"
abbreviation (input) SPDM_CHALLENGE_AUTH :: byte where "SPDM_CHALLENGE_AUTH \<equiv> 0x03"
abbreviation (input) SPDM_CHUNK_SEND :: byte where "SPDM_CHUNK_SEND \<equiv> 0x85"
abbreviation (input) SPDM_CHUNK_GET :: byte where "SPDM_CHUNK_GET \<equiv> 0x86"
abbreviation (input) SPDM_CHUNK_SEND_ACK :: byte where "SPDM_CHUNK_SEND_ACK \<equiv> 0x05"
abbreviation (input) SPDM_CHUNK_RESPONSE :: byte where "SPDM_CHUNK_RESPONSE \<equiv> 0x06"

abbreviation (input) SPDM_ERROR_UNEXPECTED_REQUEST :: byte where "SPDM_ERROR_UNEXPECTED_REQUEST \<equiv> 0x04"
abbreviation (input) SPDM_ERROR_UNSUPPORTED_REQUEST :: byte where "SPDM_ERROR_UNSUPPORTED_REQUEST \<equiv> 0x07"
abbreviation (input) SPDM_ERROR_LARGE_RESPONSE :: byte where "SPDM_ERROR_LARGE_RESPONSE \<equiv> 0x0F"
abbreviation (input) SPDM_ERROR_MAJOR_VERSION_MISMATCH :: byte where "SPDM_ERROR_MAJOR_VERSION_MISMATCH \<equiv> 0x41"

abbreviation (input) SPDM_CAP_CERT_CAP :: word32 where "SPDM_CAP_CERT_CAP \<equiv> 0x00000002"
abbreviation (input) SPDM_CAP_CHAL_CAP :: word32 where "SPDM_CAP_CHAL_CAP \<equiv> 0x00000004"
abbreviation (input) SPDM_CAP_MEAS_CAP_NO_SIG :: word32 where "SPDM_CAP_MEAS_CAP_NO_SIG \<equiv> 0x00000008"
abbreviation (input) SPDM_CAP_MEAS_CAP_SIG :: word32 where "SPDM_CAP_MEAS_CAP_SIG \<equiv> 0x00000010"
abbreviation (input) SPDM_CAP_ENCRYPT_CAP :: word32 where "SPDM_CAP_ENCRYPT_CAP \<equiv> 0x00000040"
abbreviation (input) SPDM_CAP_MAC_CAP :: word32 where "SPDM_CAP_MAC_CAP \<equiv> 0x00000080"
abbreviation (input) SPDM_CAP_KEY_EX_CAP :: word32 where "SPDM_CAP_KEY_EX_CAP \<equiv> 0x00000200"
abbreviation (input) SPDM_CAP_HBEAT_CAP :: word32 where "SPDM_CAP_HBEAT_CAP \<equiv> 0x00002000"
abbreviation (input) SPDM_CAP_KEY_UPD_CAP :: word32 where "SPDM_CAP_KEY_UPD_CAP \<equiv> 0x00004000"
abbreviation (input) SPDM_CAP_CHUNK_CAP :: word32 where "SPDM_CAP_CHUNK_CAP \<equiv> 0x00020000"

definition WOLFSPDM_REQ_CAPS :: word32 where
  "WOLFSPDM_REQ_CAPS = SPDM_CAP_ENCRYPT_CAP OR SPDM_CAP_MAC_CAP OR SPDM_CAP_KEY_EX_CAP
     OR SPDM_CAP_HBEAT_CAP OR SPDM_CAP_KEY_UPD_CAP OR SPDM_CAP_CHUNK_CAP"

abbreviation (input) WOLFSPDM_HASH_SIZE :: nat where "WOLFSPDM_HASH_SIZE \<equiv> 48"
abbreviation (input) WOLFSPDM_ECC_KEY_SIZE :: nat where "WOLFSPDM_ECC_KEY_SIZE \<equiv> 48"
abbreviation (input) WOLFSPDM_ECC_POINT_SIZE :: nat where "WOLFSPDM_ECC_POINT_SIZE \<equiv> 96"
abbreviation (input) WOLFSPDM_ECC_SIG_SIZE :: nat where "WOLFSPDM_ECC_SIG_SIZE \<equiv> 96"
abbreviation (input) WOLFSPDM_AEAD_KEY_SIZE :: nat where "WOLFSPDM_AEAD_KEY_SIZE \<equiv> 32"
abbreviation (input) WOLFSPDM_AEAD_IV_SIZE :: nat where "WOLFSPDM_AEAD_IV_SIZE \<equiv> 12"
abbreviation (input) WOLFSPDM_AEAD_TAG_SIZE :: nat where "WOLFSPDM_AEAD_TAG_SIZE \<equiv> 16"
abbreviation (input) WOLFSPDM_SECURED_PAD :: nat where "WOLFSPDM_SECURED_PAD \<equiv> 48"
abbreviation (input) WOLFSPDM_AEAD_OVERHEAD :: nat where "WOLFSPDM_AEAD_OVERHEAD \<equiv> 80"
abbreviation (input) WOLFSPDM_RANDOM_SIZE :: nat where "WOLFSPDM_RANDOM_SIZE \<equiv> 32"
abbreviation (input) WOLFSPDM_MAX_MSG_SIZE :: nat where "WOLFSPDM_MAX_MSG_SIZE \<equiv> 8192"
abbreviation (input) WOLFSPDM_XFER_MSG_SIZE :: nat where "WOLFSPDM_XFER_MSG_SIZE \<equiv> 8192"
abbreviation (input) WOLFSPDM_MAX_TRANSCRIPT :: nat where "WOLFSPDM_MAX_TRANSCRIPT \<equiv> 16384"
abbreviation (input) WOLFSPDM_MAX_CERT_CHAIN :: nat where "WOLFSPDM_MAX_CERT_CHAIN \<equiv> 24576"
abbreviation (input) WOLFSPDM_MAX_TRUSTED_CA :: nat where "WOLFSPDM_MAX_TRUSTED_CA \<equiv> 8192"
abbreviation (input) WOLFSPDM_CERT_CHAIN_HDR_SZ :: nat where "WOLFSPDM_CERT_CHAIN_HDR_SZ \<equiv> 52"
abbreviation (input) WOLFSPDM_RSP_PUBKEY_SZ :: nat where "WOLFSPDM_RSP_PUBKEY_SZ \<equiv> 2592"
abbreviation (input) WOLFSPDM_MAX_KEX_DATA :: nat where "WOLFSPDM_MAX_KEX_DATA \<equiv> 1568"
abbreviation (input) WOLFSPDM_MAX_SIG_SIZE :: nat where "WOLFSPDM_MAX_SIG_SIZE \<equiv> 4627"
abbreviation (input) WOLFSPDM_KEY_EX_TX_SZ :: nat where "WOLFSPDM_KEY_EX_TX_SZ \<equiv> 96 + 1568"
abbreviation (input) WOLFSPDM_KEY_EX_RX_SZ :: nat where "WOLFSPDM_KEY_EX_RX_SZ \<equiv> 192 + 1568 + 4627"
abbreviation (input) WOLFSPDM_FINISH_BUF_SZ :: nat where "WOLFSPDM_FINISH_BUF_SZ \<equiv> 152"
abbreviation (input) WOLFSPDM_FINISH_OPAQUE_MAX :: nat where "WOLFSPDM_FINISH_OPAQUE_MAX \<equiv> 256"
abbreviation (input) WOLFSPDM_FINISH_RSP_MAX :: nat where "WOLFSPDM_FINISH_RSP_MAX \<equiv> 262"
abbreviation (input) WOLFSPDM_VENDOR_BUF_SZ :: nat where "WOLFSPDM_VENDOR_BUF_SZ \<equiv> 256"
abbreviation (input) WOLFSPDM_VENDOR_RX_SZ :: nat where "WOLFSPDM_VENDOR_RX_SZ \<equiv> 512"
abbreviation (input) WOLFSPDM_PUBKEY_BUF_SZ :: nat where "WOLFSPDM_PUBKEY_BUF_SZ \<equiv> 256"
abbreviation (input) WOLFSPDM_MAX_MEAS_RECORD :: nat where "WOLFSPDM_MAX_MEAS_RECORD \<equiv> 1024"
abbreviation (input) WOLFSPDM_PSK_MAX_SIZE :: nat where "WOLFSPDM_PSK_MAX_SIZE \<equiv> 64"
abbreviation (input) WOLFSPDM_PSK_HINT_MAX :: nat where "WOLFSPDM_PSK_HINT_MAX \<equiv> 32"
abbreviation (input) MCTP_MESSAGE_TYPE_SPDM :: byte where "MCTP_MESSAGE_TYPE_SPDM \<equiv> 0x05"
abbreviation (input) WOLFSPDM_TCG_TAG_CLEAR :: word16 where "WOLFSPDM_TCG_TAG_CLEAR \<equiv> 0x8101"
abbreviation (input) WOLFSPDM_TCG_TAG_SECURED :: word16 where "WOLFSPDM_TCG_TAG_SECURED \<equiv> 0x8201"
abbreviation (input) WOLFSPDM_TCG_HEADER_SIZE :: nat where "WOLFSPDM_TCG_HEADER_SIZE \<equiv> 16"
abbreviation (input) WOLFSPDM_VDCODE_LEN :: nat where "WOLFSPDM_VDCODE_LEN \<equiv> 8"

abbreviation (input) WOLFSPDM_STATE_INIT :: nat where "WOLFSPDM_STATE_INIT \<equiv> 0"
abbreviation (input) WOLFSPDM_STATE_VERSION :: nat where "WOLFSPDM_STATE_VERSION \<equiv> 1"
abbreviation (input) WOLFSPDM_STATE_CERT :: nat where "WOLFSPDM_STATE_CERT \<equiv> 2"
abbreviation (input) WOLFSPDM_STATE_KEY_EX :: nat where "WOLFSPDM_STATE_KEY_EX \<equiv> 3"
abbreviation (input) WOLFSPDM_STATE_FINISH :: nat where "WOLFSPDM_STATE_FINISH \<equiv> 4"
abbreviation (input) WOLFSPDM_STATE_CONNECTED :: nat where "WOLFSPDM_STATE_CONNECTED \<equiv> 5"
abbreviation (input) WOLFSPDM_STATE_ERROR :: nat where "WOLFSPDM_STATE_ERROR \<equiv> 6"

abbreviation (input) WOLFSPDM_RUN_NONE :: nat where "WOLFSPDM_RUN_NONE \<equiv> 0"
abbreviation (input) WOLFSPDM_RUN_LIVE :: nat where "WOLFSPDM_RUN_LIVE \<equiv> 1"
abbreviation (input) WOLFSPDM_RUN_OPEN :: nat where "WOLFSPDM_RUN_OPEN \<equiv> 2"

text \<open>A C string literal as bytes.\<close>

definition cstr :: "string \<Rightarrow> bytes" where
  "cstr s = map (\<lambda>ch. of_nat (of_char ch)) s"

section \<open>Modes\<close>

datatype WOLFSPDM_MODE = MODE_AUTO | MODE_NUVOTON | MODE_NATIONS | MODE_NATIONS_PSK | MODE_TCG

section \<open>wolfCrypt, as the library calls it\<close>

datatype key_oid = ECDSAk | ML_DSA_44k | ML_DSA_65k | ML_DSA_87k | OtherKeyOid nat
datatype sig_oid = CTC_SHA384wECDSA | CTC_ML_DSA_44 | CTC_ML_DSA_65 | CTC_ML_DSA_87 | OtherSigOid nat

datatype mldsa_level = WC_ML_DSA_44 | WC_ML_DSA_65 | WC_ML_DSA_87
datatype mlkem_type = WC_ML_KEM_512 | WC_ML_KEM_768 | WC_ML_KEM_1024

record DecodedCert =
  keyOID :: key_oid
  publicKey :: "bytes option"
  isCA :: bool
  certBegin :: nat
  sigIndex :: nat
  signatureOID :: sig_oid
  signature :: bytes

text \<open>
  \<open>None\<close> (or \<open>False\<close>) is a non-zero return code. A streaming hash object is the data it has
  absorbed; \<open>wc_Sha384Update absorbed data\<close> says whether the call succeeds. Calls whose
  failures the library treats alike are one field (\<^verbatim>\<open>wc_ecc_init\<close>, \<^verbatim>\<open>wc_ecc_make_key\<close> and
  \<^verbatim>\<open>wc_ecc_set_rng\<close>; the four HMAC calls; the ML-DSA calls).
\<close>

record wc_env =
  wc_InitRng :: "bytes option"
  wc_RNG_GenerateBlock :: "bytes \<Rightarrow> nat \<Rightarrow> bytes option \<times> bytes"
  wc_InitSha384 :: bool
  wc_Sha384Update :: "bytes \<Rightarrow> bytes \<Rightarrow> bool"
  wc_Sha384Final :: "bytes \<Rightarrow> bytes option"
  wc_Hmac :: "bytes \<Rightarrow> bytes \<Rightarrow> bytes option"
  wc_HKDF_Extract :: "bytes \<Rightarrow> bytes \<Rightarrow> bytes option"
  wc_HKDF_Expand :: "bytes \<Rightarrow> bytes \<Rightarrow> nat \<Rightarrow> bytes option"
  wc_AesGcmSetKey :: "bytes \<Rightarrow> bool"
  wc_AesGcmEncrypt :: "bytes \<Rightarrow> bytes \<Rightarrow> bytes \<Rightarrow> bytes \<Rightarrow> (bytes \<times> bytes) option"
  wc_AesGcmDecrypt :: "bytes \<Rightarrow> bytes \<Rightarrow> bytes \<Rightarrow> bytes \<Rightarrow> bytes \<Rightarrow> bytes option"
  wc_ecc_make_key :: "bytes \<Rightarrow> bytes option \<times> bytes"
  wc_ecc_export_public_raw :: "bytes \<Rightarrow> (bytes \<times> bytes) option"
  wc_ecc_import_unsigned :: "bytes \<Rightarrow> bytes \<Rightarrow> bytes option \<Rightarrow> bytes option"
  wc_ecc_check_key :: "bytes \<Rightarrow> bool"
  wc_ecc_shared_secret :: "bytes \<Rightarrow> bytes \<Rightarrow> bytes \<Rightarrow> bytes option \<times> bytes"
  wc_ecc_sign_hash :: "bytes \<Rightarrow> bytes \<Rightarrow> bytes \<Rightarrow> bytes option \<times> bytes"
  wc_ecc_sig_to_rs :: "bytes \<Rightarrow> (bytes \<times> bytes) option"
  wc_ecc_rs_raw_to_sig :: "bytes \<Rightarrow> bytes \<Rightarrow> bytes option"
  wc_ecc_verify_hash :: "bytes \<Rightarrow> bytes \<Rightarrow> bytes \<Rightarrow> bool option"
  wc_MlKemKey_Init :: "mlkem_type \<Rightarrow> bool"
  wc_MlKemKey_MakeKey :: "mlkem_type \<Rightarrow> bytes \<Rightarrow> bytes option \<times> bytes"
  wc_MlKemKey_PublicKeySize :: "bytes \<Rightarrow> nat option"
  wc_MlKemKey_EncodePublicKey :: "bytes \<Rightarrow> bytes option"
  wc_MlKemKey_CipherTextSize :: "bytes \<Rightarrow> nat option"
  wc_MlKemKey_SharedSecretSize :: "bytes \<Rightarrow> nat option"
  wc_MlKemKey_Decapsulate :: "bytes \<Rightarrow> bytes \<Rightarrow> bytes option"
  wc_MlDsaKey_VerifyCtx :: "mldsa_level \<Rightarrow> bytes \<Rightarrow> bytes \<Rightarrow> bytes \<Rightarrow> bytes \<Rightarrow> bool option"
  wc_ParseCert :: "bytes \<Rightarrow> DecodedCert option"
  wc_EccPublicKeyDecode :: "bytes \<Rightarrow> bytes option"
  wc_ecc_is_P384 :: "bytes \<Rightarrow> bool"
  WOLFSPDM_DATA_TRANSFER_SIZE :: nat

section \<open>The context\<close>

text \<open>
  The I/O callback: the session id it can read from the context it is handed, the bytes to send
  (\<open>None\<close> for a NULL \<^verbatim>\<open>txBuf\<close>), the room in \<^verbatim>\<open>rxBuf\<close> (\<open>None\<close> for NULL), and the caller's own
  context; it returns its code, what it received (as long as the \<^verbatim>\<open>*rxSz\<close> it reports) and its
  context afterwards.
\<close>

type_synonym 'w WOLFSPDM_IO_CB = "word32 \<Rightarrow> bytes option \<Rightarrow> nat option \<Rightarrow> 'w \<Rightarrow> (int \<times> bytes) \<times> 'w"

record ctx_flags =
  debug :: bool
  initialized :: bool
  isDynamic :: bool
  rngInitialized :: bool
  ephemeralKeyInit :: bool
  ephemeralIsKem :: bool
  hasRspPubKey :: bool
  hasReqKeyPair :: bool
  allowUntrustedCert :: bool
  rspKeyFromCert :: bool

record 'w WOLFSPDM_CTX =
  state :: nat
  mode :: WOLFSPDM_MODE
  ioCb :: "'w WOLFSPDM_IO_CB option"
  ioUserCtx :: 'w
  connectionHandle :: word32
  fipsIndicator :: word16
  reqPubKeyTPMT :: bytes
  psk :: bytes
  pskHint :: bytes
  rng :: bytes
  maxVersion :: byte
  spdmVersion :: byte
  lastPeerErrorCode :: byte
  ephemeral :: bytes
  sharedSecret :: bytes
  transcript :: bytes
  certChainHash :: bytes
  th1 :: bytes
  th2 :: bytes
  handshakeSecret :: bytes
  reqHsSecret :: bytes
  rspHsSecret :: bytes
  reqFinishedKey :: bytes
  rspFinishedKey :: bytes
  reqDataKey :: bytes
  rspDataKey :: bytes
  reqDataIv :: bytes
  rspDataIv :: bytes
  reqAppSecret :: bytes
  rspAppSecret :: bytes
  reqSeqNum :: word64
  rspSeqNum :: word64
  reqSessionId :: word16
  rspSessionId :: word16
  sessionId :: word32
  rspPubKey :: bytes
  mutAuthRequested :: byte
  reqSlotIdParam :: byte
  reqPrivKey :: bytes
  reqPubKey :: bytes
  rspCaps :: word32
  vcaLen :: nat
  dataTransferSize :: word32
  maxSpdmMsgSize :: word32
  slotMask :: byte
  currentSlotId :: byte
  chunkHandle :: byte
  pqcAsymSel :: word32
  kemAlgSel :: word16
  kexAdvKem :: word16
  kexAdvDhe :: byte
  certChain :: bytes
  trustedCA :: bytes
  l1l2Hash :: bytes
  measBlockCount :: byte
  l1l2State :: nat
  measRecord :: bytes
  m1Hash :: bytes
  m1State :: nat
  flags :: ctx_flags

type_synonym ('w, 'a) cop = "('w WOLFSPDM_CTX, 'a) op"

end
