(* ===== verification/Spdm_Bytes.thy ===== *)
theory Spdm_Bytes
  imports Spdm_Types
begin

text \<open>
  The inline helpers of \<^verbatim>\<open>src/spdm_internal.h\<close>: byte order, constant-time compare, the
  mode tests, signature sizes, the TCG header and the record IV, with the round trips and
  the injectivity facts the message components rest on. \<^verbatim>\<open>SPDM_Get16LE(&buf[off])\<close> is
  \<open>SPDM_Get16LE buf off\<close>; the setters return the bytes they store.
\<close>

section \<open>Byte order\<close>

definition SPDM_Set16LE :: "word16 \<Rightarrow> bytes" where
  "SPDM_Set16LE v = [ucast (v AND 0xFF), ucast (drop_bit 8 v)]"

definition SPDM_Get16LE :: "bytes \<Rightarrow> nat \<Rightarrow> word16" where
  "SPDM_Get16LE b i = ucast (b ! i) OR push_bit 8 (ucast (b ! (i + 1)))"

definition SPDM_Set16BE :: "word16 \<Rightarrow> bytes" where
  "SPDM_Set16BE v = [ucast (drop_bit 8 v), ucast (v AND 0xFF)]"

definition SPDM_Get16BE :: "bytes \<Rightarrow> nat \<Rightarrow> word16" where
  "SPDM_Get16BE b i = push_bit 8 (ucast (b ! i)) OR ucast (b ! (i + 1))"

definition SPDM_Set32LE :: "word32 \<Rightarrow> bytes" where
  "SPDM_Set32LE v = [ucast (v AND 0xFF), ucast (drop_bit 8 v AND 0xFF),
     ucast (drop_bit 16 v AND 0xFF), ucast (drop_bit 24 v AND 0xFF)]"

definition SPDM_Get32LE :: "bytes \<Rightarrow> nat \<Rightarrow> word32" where
  "SPDM_Get32LE b i = ucast (b ! i) OR push_bit 8 (ucast (b ! (i + 1)))
     OR push_bit 16 (ucast (b ! (i + 2))) OR push_bit 24 (ucast (b ! (i + 3)))"

definition SPDM_Set32BE :: "word32 \<Rightarrow> bytes" where
  "SPDM_Set32BE v = [ucast (drop_bit 24 v), ucast (drop_bit 16 v AND 0xFF),
     ucast (drop_bit 8 v AND 0xFF), ucast (v AND 0xFF)]"

definition SPDM_Get32BE :: "bytes \<Rightarrow> nat \<Rightarrow> word32" where
  "SPDM_Get32BE b i = push_bit 24 (ucast (b ! i)) OR push_bit 16 (ucast (b ! (i + 1)))
     OR push_bit 8 (ucast (b ! (i + 2))) OR ucast (b ! (i + 3))"

definition SPDM_Set64LE :: "word64 \<Rightarrow> bytes" where
  "SPDM_Set64LE v = [ucast (v AND 0xFF), ucast (drop_bit 8 v AND 0xFF),
     ucast (drop_bit 16 v AND 0xFF), ucast (drop_bit 24 v AND 0xFF),
     ucast (drop_bit 32 v AND 0xFF), ucast (drop_bit 40 v AND 0xFF),
     ucast (drop_bit 48 v AND 0xFF), ucast (drop_bit 56 v AND 0xFF)]"

definition SPDM_Get64LE :: "bytes \<Rightarrow> nat \<Rightarrow> word64" where
  "SPDM_Get64LE b i = ucast (b ! i) OR push_bit 8 (ucast (b ! (i + 1)))
     OR push_bit 16 (ucast (b ! (i + 2))) OR push_bit 24 (ucast (b ! (i + 3)))
     OR push_bit 32 (ucast (b ! (i + 4))) OR push_bit 40 (ucast (b ! (i + 5)))
     OR push_bit 48 (ucast (b ! (i + 6))) OR push_bit 56 (ucast (b ! (i + 7)))"

section \<open>Comparison, modes and sizes\<close>

definition wolfSPDM_ConstCompare :: "bytes \<Rightarrow> bytes \<Rightarrow> nat \<Rightarrow> byte" where
  "wolfSPDM_ConstCompare a b sz = fold (\<lambda>i diff. diff OR (a ! i XOR b ! i)) [0..<sz] 0"

definition wolfSPDM_IsTcgMode :: "'w WOLFSPDM_CTX \<Rightarrow> bool" where
  "wolfSPDM_IsTcgMode c \<longleftrightarrow> mode c = MODE_TCG \<or> mode c = MODE_NUVOTON \<or>
     mode c = MODE_NATIONS \<or> mode c = MODE_NATIONS_PSK"

definition wolfSPDM_ChunkOn :: "'w WOLFSPDM_CTX \<Rightarrow> bool" where
  "wolfSPDM_ChunkOn c \<longleftrightarrow> \<not> wolfSPDM_IsTcgMode c \<and> rspCaps c AND SPDM_CAP_CHUNK_CAP \<noteq> 0"

definition WOLFSPDM_MLDSA_SETS :: word32 where
  "WOLFSPDM_MLDSA_SETS = 0x1 OR 0x2 OR 0x4"

definition WOLFSPDM_MLKEM_SETS :: word16 where
  "WOLFSPDM_MLKEM_SETS = 0x1 OR 0x2 OR 0x4"

definition wolfSPDM_MlDsaLevel :: "word32 \<Rightarrow> mldsa_level option" where
  "wolfSPDM_MlDsaLevel sel =
     (if sel AND WOLFSPDM_MLDSA_SETS = 0 then None
      else if sel = 0x1 then Some WC_ML_DSA_44
      else if sel = 0x2 then Some WC_ML_DSA_65
      else if sel = 0x4 then Some WC_ML_DSA_87
      else None)"

definition wolfSPDM_RspMlDsaLevel :: "'w WOLFSPDM_CTX \<Rightarrow> mldsa_level option" where
  "wolfSPDM_RspMlDsaLevel c =
     (if \<not> wolfSPDM_IsTcgMode c then wolfSPDM_MlDsaLevel (pqcAsymSel c) else None)"

definition wolfSPDM_SigSize :: "'w WOLFSPDM_CTX \<Rightarrow> nat" where
  "wolfSPDM_SigSize c =
     (case wolfSPDM_RspMlDsaLevel c of
        Some WC_ML_DSA_44 \<Rightarrow> 2420
      | Some WC_ML_DSA_65 \<Rightarrow> 3309
      | Some WC_ML_DSA_87 \<Rightarrow> 4627
      | None \<Rightarrow> WOLFSPDM_ECC_SIG_SIZE)"

section \<open>TCG header and record IV\<close>

definition wolfSPDM_WriteTcgHeader :: "word16 \<Rightarrow> word32 \<Rightarrow> word32 \<Rightarrow> word16 \<Rightarrow> bytes" where
  "wolfSPDM_WriteTcgHeader tag totalSz connHandle fips =
     SPDM_Set16BE tag @ SPDM_Set32BE totalSz @ SPDM_Set32BE connHandle @
     SPDM_Set16BE fips @ [0, 0, 0, 0]"

definition wolfSPDM_BuildIV :: "bytes \<Rightarrow> word64 \<Rightarrow> bytes" where
  "wolfSPDM_BuildIV baseIv seqNum =
     map2 (XOR) (take 8 baseIv) (SPDM_Set64LE seqNum) @ drop 8 (take WOLFSPDM_AEAD_IV_SIZE baseIv)"

section \<open>Byte order round trips\<close>

lemma length_setters [simp]:
  "length (SPDM_Set16LE v16) = 2" "length (SPDM_Set16BE v16) = 2"
  "length (SPDM_Set32LE v32) = 4" "length (SPDM_Set32BE v32) = 4"
  "length (SPDM_Set64LE v64) = 8"
  by (simp_all add: SPDM_Set16LE_def SPDM_Set16BE_def SPDM_Set32LE_def SPDM_Set32BE_def
      SPDM_Set64LE_def)

lemma nth_shift:
  "(pre @ xs) ! length pre = xs ! 0" "(pre @ xs) ! (length pre + k) = xs ! k"
  by (simp_all add: nth_append)

lemma bit_255 [simp]: "bit (255 :: int) n \<longleftrightarrow> n < 8"
proof -
  have eq: "(255 :: int) = mask 8" by (simp add: mask_eq_exp_minus_1)
  show ?thesis by (subst eq) (simp only: bit_mask_iff possible_bit_int simp_thms)
qed

lemma ucast_and_byte: "(ucast ((v :: 'a::len word) AND 0xFF) :: byte) = ucast v"
  by (rule bit_word_eqI) (auto simp: bit_simps dest: bit_imp_le_length)

lemma bit_byte_slice:
  "bit (push_bit k (ucast (ucast (drop_bit k v) :: byte)) :: 'a::len word) n
     \<longleftrightarrow> k \<le> n \<and> n < k + 8 \<and> bit (v :: 'a word) n"
  by (auto simp: bit_simps dest: bit_imp_le_length)

lemma bit_byte_low:
  "bit (ucast (ucast v :: byte) :: 'a::len word) n \<longleftrightarrow> n < 8 \<and> bit (v :: 'a word) n"
  by (auto simp: bit_simps dest: bit_imp_le_length)

named_theorems codec_simps

lemma Get16LE_Set16LE: "SPDM_Get16LE (SPDM_Set16LE v @ post) 0 = v"
  by (rule bit_word_eqI)
     (auto simp: SPDM_Get16LE_def SPDM_Set16LE_def ucast_and_byte bit_or_iff bit_byte_slice bit_byte_low)

lemma Get16BE_Set16BE: "SPDM_Get16BE (SPDM_Set16BE v @ post) 0 = v"
  by (rule bit_word_eqI)
     (auto simp: SPDM_Get16BE_def SPDM_Set16BE_def ucast_and_byte bit_or_iff bit_byte_slice bit_byte_low)

lemma Get32LE_Set32LE: "SPDM_Get32LE (SPDM_Set32LE v @ post) 0 = v"
  by (rule bit_word_eqI)
     (auto simp: SPDM_Get32LE_def SPDM_Set32LE_def ucast_and_byte bit_or_iff bit_byte_slice bit_byte_low)

lemma Get32BE_Set32BE: "SPDM_Get32BE (SPDM_Set32BE v @ post) 0 = v"
  by (rule bit_word_eqI)
     (auto simp: SPDM_Get32BE_def SPDM_Set32BE_def ucast_and_byte bit_or_iff bit_byte_slice bit_byte_low)

lemma Get64LE_Set64LE: "SPDM_Get64LE (SPDM_Set64LE v @ post) 0 = v"
  by (rule bit_word_eqI)
     (auto simp: SPDM_Get64LE_def SPDM_Set64LE_def ucast_and_byte bit_or_iff bit_byte_slice bit_byte_low)


lemmas set_get_roundtrips = Get16LE_Set16LE Get16BE_Set16BE Get32LE_Set32LE Get32BE_Set32BE
  Get64LE_Set64LE

text \<open>Reading past a prefix, inside a prefix, and the stored bytes back.\<close>

lemma getters_skip [codec_simps]:
  "length pre \<le> i \<Longrightarrow> SPDM_Get16LE (pre @ xs) i = SPDM_Get16LE xs (i - length pre)"
  "length pre \<le> i \<Longrightarrow> SPDM_Get16BE (pre @ xs) i = SPDM_Get16BE xs (i - length pre)"
  "length pre \<le> i \<Longrightarrow> SPDM_Get32LE (pre @ xs) i = SPDM_Get32LE xs (i - length pre)"
  "length pre \<le> i \<Longrightarrow> SPDM_Get32BE (pre @ xs) i = SPDM_Get32BE xs (i - length pre)"
  "length pre \<le> i \<Longrightarrow> SPDM_Get64LE (pre @ xs) i = SPDM_Get64LE xs (i - length pre)"
  by (auto simp: SPDM_Get16LE_def SPDM_Get16BE_def SPDM_Get32LE_def SPDM_Get32BE_def
      SPDM_Get64LE_def nth_append Suc_diff_le)

lemma getters_Cons [codec_simps]:
  "0 < i \<Longrightarrow> SPDM_Get16LE (x # xs) i = SPDM_Get16LE xs (i - 1)"
  "0 < i \<Longrightarrow> SPDM_Get16BE (x # xs) i = SPDM_Get16BE xs (i - 1)"
  "0 < i \<Longrightarrow> SPDM_Get32LE (x # xs) i = SPDM_Get32LE xs (i - 1)"
  "0 < i \<Longrightarrow> SPDM_Get32BE (x # xs) i = SPDM_Get32BE xs (i - 1)"
  "0 < i \<Longrightarrow> SPDM_Get64LE (x # xs) i = SPDM_Get64LE xs (i - 1)"
  using getters_skip [where pre = "[x]"] by simp_all

lemma getters_prefix [codec_simps]:
  "i + 2 \<le> length xs \<Longrightarrow> SPDM_Get16LE (xs @ ys) i = SPDM_Get16LE xs i"
  "i + 2 \<le> length xs \<Longrightarrow> SPDM_Get16BE (xs @ ys) i = SPDM_Get16BE xs i"
  "i + 4 \<le> length xs \<Longrightarrow> SPDM_Get32LE (xs @ ys) i = SPDM_Get32LE xs i"
  "i + 4 \<le> length xs \<Longrightarrow> SPDM_Get32BE (xs @ ys) i = SPDM_Get32BE xs i"
  "i + 8 \<le> length xs \<Longrightarrow> SPDM_Get64LE (xs @ ys) i = SPDM_Get64LE xs i"
  by (auto simp: SPDM_Get16LE_def SPDM_Get16BE_def SPDM_Get32LE_def SPDM_Get32BE_def
      SPDM_Get64LE_def nth_append)

lemma getters_of_setters [codec_simps]:
  "SPDM_Get16LE (SPDM_Set16LE v16) 0 = v16" "SPDM_Get16BE (SPDM_Set16BE v16) 0 = v16"
  "SPDM_Get32LE (SPDM_Set32LE v32) 0 = v32" "SPDM_Get32BE (SPDM_Set32BE v32) 0 = v32"
  "SPDM_Get64LE (SPDM_Set64LE v64) 0 = v64"
  using set_get_roundtrips [where post = "[]"] by simp_all

text \<open>
  The contract of a byte-order helper pair, and what every message builder and parser uses
  of it: a field written at any offset is read back there, and distinct values have
  distinct encodings.
\<close>

locale fixed_codec =
  fixes enc :: "'v \<Rightarrow> bytes" and dec :: "bytes \<Rightarrow> nat \<Rightarrow> 'v" and width :: nat
  assumes enc_length: "length (enc v) = width"
    and dec_enc: "dec (enc v @ post) 0 = v"
    and dec_skip: "length pre \<le> i \<Longrightarrow> dec (pre @ xs) i = dec xs (i - length pre)"
begin

lemma read_back: "length pre = i \<Longrightarrow> dec (pre @ enc v @ post) i = v"
  by (simp add: dec_skip dec_enc)

lemma read_back_last: "length pre = i \<Longrightarrow> dec (pre @ enc v) i = v"
  using read_back [of pre i v "[]"] by simp

lemma enc_inj: "enc v = enc w \<Longrightarrow> v = w"
  by (metis dec_enc)

lemma enc_prefix_inj: "enc v @ xs = enc w @ ys \<Longrightarrow> v = w \<and> xs = ys"
  using enc_length enc_inj by (metis append_eq_append_conv)

end

interpretation le16: fixed_codec SPDM_Set16LE SPDM_Get16LE 2
  by unfold_locales (simp_all add: Get16LE_Set16LE getters_skip)

interpretation be16: fixed_codec SPDM_Set16BE SPDM_Get16BE 2
  by unfold_locales (simp_all add: Get16BE_Set16BE getters_skip)

interpretation le32: fixed_codec SPDM_Set32LE SPDM_Get32LE 4
  by unfold_locales (simp_all add: Get32LE_Set32LE getters_skip)

interpretation be32: fixed_codec SPDM_Set32BE SPDM_Get32BE 4
  by unfold_locales (simp_all add: Get32BE_Set32BE getters_skip)

interpretation le64: fixed_codec SPDM_Set64LE SPDM_Get64LE 8
  by unfold_locales (simp_all add: Get64LE_Set64LE getters_skip)

lemmas SPDM_Set64LE_inj = le64.enc_inj

lemma SPDM_Get16LE_bound: "unat (SPDM_Get16LE b i) < 65536"
  using unsigned_less [of "SPDM_Get16LE b i"] by simp

section \<open>Comparison\<close>

lemma xor_word_eq_0 [simp]: "(x :: 'a::len word) XOR y = 0 \<longleftrightarrow> x = y"
  by (metis xor.assoc xor.right_neutral xor_self_eq)

lemma or_word_eq_0 [simp]: "(x :: 'a::len word) OR y = 0 \<longleftrightarrow> x = 0 \<and> y = 0"
  by (simp add: or_eq_0_iff)

lemma wolfSPDM_ConstCompare_eq_0:
  assumes "sz \<le> length a" "sz \<le> length b"
  shows "wolfSPDM_ConstCompare a b sz = 0 \<longleftrightarrow> take sz a = take sz b"
proof -
  have "wolfSPDM_ConstCompare a b sz = 0 \<longleftrightarrow> (\<forall>i < sz. a ! i = b ! i)"
    by (induction sz) (auto simp: wolfSPDM_ConstCompare_def less_Suc_eq)
  then show ?thesis using assms by (auto simp: list_eq_iff_nth_eq)
qed

lemma wolfSPDM_ConstCompare_full:
  assumes "length a = sz" "length b = sz"
  shows "wolfSPDM_ConstCompare a b sz = 0 \<longleftrightarrow> a = b"
  using assms by (simp add: wolfSPDM_ConstCompare_eq_0)

section \<open>Record IVs\<close>

lemma length_BuildIV: "length baseIv = 12 \<Longrightarrow> length (wolfSPDM_BuildIV baseIv n) = 12"
  by (simp add: wolfSPDM_BuildIV_def)

lemma map2_xor_cancel:
  "length xs = length ys \<Longrightarrow> length ys = length zs \<Longrightarrow>
   map2 (XOR) xs (ys :: byte list) = map2 (XOR) xs zs \<Longrightarrow> ys = zs"
  by (induction xs ys zs rule: list_induct3) (auto, metis xor.left_commute xor_self_eq xor.right_neutral)

text \<open>Distinct sequence numbers give distinct IVs under one base IV.\<close>

lemma wolfSPDM_BuildIV_inj:
  assumes len: "length baseIv = 12"
    and eq: "wolfSPDM_BuildIV baseIv m = wolfSPDM_BuildIV baseIv n"
  shows "m = n"
proof -
  have t: "take 8 (wolfSPDM_BuildIV baseIv k) = map2 (XOR) (take 8 baseIv) (SPDM_Set64LE k)" for k
    using len by (simp add: wolfSPDM_BuildIV_def)
  have e: "map2 (XOR) (take 8 baseIv) (SPDM_Set64LE m) = map2 (XOR) (take 8 baseIv) (SPDM_Set64LE n)"
    by (simp only: t [symmetric] eq)
  have l: "length (take 8 baseIv) = length (SPDM_Set64LE m)" "length (SPDM_Set64LE m) = length (SPDM_Set64LE n)"
    using len by simp_all
  have "SPDM_Set64LE m = SPDM_Set64LE n"
    by (rule map2_xor_cancel [OF l e])
  then show ?thesis by (rule SPDM_Set64LE_inj)
qed

section \<open>TCG header fields\<close>

lemma length_WriteTcgHeader [simp]: "length (wolfSPDM_WriteTcgHeader tag sz ch fips) = 16"
  by (simp add: wolfSPDM_WriteTcgHeader_def)

lemma WriteTcgHeader_fields [codec_simps]:
  "SPDM_Get16BE (wolfSPDM_WriteTcgHeader tag sz ch fips @ xs) 0 = tag"
  "SPDM_Get32BE (wolfSPDM_WriteTcgHeader tag sz ch fips @ xs) 2 = sz"
  "SPDM_Get32BE (wolfSPDM_WriteTcgHeader tag sz ch fips @ xs) 6 = ch"
  "SPDM_Get16BE (wolfSPDM_WriteTcgHeader tag sz ch fips @ xs) 10 = fips"
  "SPDM_Get32BE (wolfSPDM_WriteTcgHeader tag sz ch fips @ xs) 12 = 0"
  by (simp_all add: wolfSPDM_WriteTcgHeader_def codec_simps)
     (simp add: SPDM_Get32BE_def)

section \<open>Signature sizes\<close>

lemma wolfSPDM_SigSize_le: "wolfSPDM_SigSize c \<le> WOLFSPDM_MAX_SIG_SIZE"
  by (simp add: wolfSPDM_SigSize_def split: option.splits mldsa_level.splits)

end
