(* ===== verification/Spdm_Crypto.thy ===== *)
theory Spdm_Crypto
  imports Spdm_Bytes
begin

text \<open>
  \<^verbatim>\<open>src/spdm_transcript.c\<close>, \<^verbatim>\<open>src/spdm_crypto.c\<close> and \<^verbatim>\<open>src/spdm_kdf.c\<close>: the running
  transcript, the wolfCrypt wrappers and the key schedule. Every definition takes the
  wolfCrypt environment \<open>K\<close> it calls into.
\<close>

section \<open>Transcript\<close>

definition zeros :: "nat \<Rightarrow> bytes" where
  "zeros n = replicate n 0"

definition wolfSPDM_TranscriptReset :: "'w WOLFSPDM_CTX \<Rightarrow> 'w WOLFSPDM_CTX" where
  "wolfSPDM_TranscriptReset c = c\<lparr>transcript := [],
     certChainHash := zeros WOLFSPDM_HASH_SIZE,
     th1 := zeros WOLFSPDM_HASH_SIZE, th2 := zeros WOLFSPDM_HASH_SIZE\<rparr>"

definition wolfSPDM_TranscriptAdd :: "bytes \<Rightarrow> ('w, unit) cop" where
  "wolfSPDM_TranscriptAdd data = bindE (getE transcript) (\<lambda>tr.
     if length tr > WOLFSPDM_MAX_TRANSCRIPT \<or>
        length data > WOLFSPDM_MAX_TRANSCRIPT - length tr
     then failE E_BUFFER_SMALL
     else modE (\<lambda>c. c\<lparr>transcript := tr @ data\<rparr>))"

definition sha384Feed :: "wc_env \<Rightarrow> bytes \<Rightarrow> bytes \<Rightarrow> ('s, bytes) op" where
  "sha384Feed K absorbed d =
     (if d = [] then retE absorbed
      else if wc_Sha384Update K absorbed d then retE (absorbed @ d)
      else failE E_CRYPTO_FAIL)"

definition wolfSPDM_Sha384Hash :: "wc_env \<Rightarrow> bytes \<Rightarrow> bytes \<Rightarrow> bytes \<Rightarrow> ('s, bytes) op" where
  "wolfSPDM_Sha384Hash K d1 d2 d3 =
     thenE (guardE (wc_InitSha384 K) E_CRYPTO_FAIL)
     (bindE (sha384Feed K [] d1) (\<lambda>s1.
      bindE (sha384Feed K s1 d2) (\<lambda>s2.
      bindE (sha384Feed K s2 d3) (\<lambda>s3.
      liftE E_CRYPTO_FAIL (wc_Sha384Final K s3)))))"

definition wolfSPDM_TranscriptHash :: "wc_env \<Rightarrow> ('w, bytes) cop" where
  "wolfSPDM_TranscriptHash K = bindE (getE transcript) (\<lambda>tr. wolfSPDM_Sha384Hash K tr [] [])"

section \<open>Random numbers and the ephemeral key\<close>

definition wolfSPDM_GetRandom :: "wc_env \<Rightarrow> nat \<Rightarrow> ('w, bytes) cop" where
  "wolfSPDM_GetRandom K outSz =
     thenE (guardE (outSz \<noteq> 0) E_INVALID_ARG)
     (bindE (getE (\<lambda>c. rngInitialized (flags c))) (\<lambda>ok.
      thenE (guardE ok E_BAD_STATE)
      (bindE (getE (\<lambda>c. wc_RNG_GenerateBlock K (rng c) outSz)) (\<lambda>(out, rng').
       thenE (modE (\<lambda>c. c\<lparr>rng := rng'\<rparr>))
       (liftE E_CRYPTO_FAIL out)))))"

definition wolfSPDM_LeftPadToSize :: "bytes \<Rightarrow> nat \<Rightarrow> bytes" where
  "wolfSPDM_LeftPadToSize buf targetSz =
     (if length buf < targetSz then zeros (targetSz - length buf) @ buf else buf)"

definition wolfSPDM_FreeEphemeralKey :: "'w WOLFSPDM_CTX \<Rightarrow> 'w WOLFSPDM_CTX" where
  "wolfSPDM_FreeEphemeralKey c =
     (if \<not> ephemeralKeyInit (flags c) then c
      else c\<lparr>ephemeral := [],
             flags := (flags c)\<lparr>ephemeralIsKem := False, ephemeralKeyInit := False\<rparr>\<rparr>)"

definition wolfSPDM_GenerateEphemeralKey :: "wc_env \<Rightarrow> ('w, unit) cop" where
  "wolfSPDM_GenerateEphemeralKey K =
     bindE (getE (\<lambda>c. rngInitialized (flags c))) (\<lambda>ok.
     thenE (guardE ok E_BAD_STATE)
     (thenE (modE wolfSPDM_FreeEphemeralKey)
     (bindE (getE (\<lambda>c. wc_ecc_make_key K (rng c))) (\<lambda>(key, rng').
      thenE (modE (\<lambda>c. c\<lparr>rng := rng'\<rparr>))
      (bindE (liftE E_CRYPTO_FAIL key) (\<lambda>k.
       modE (\<lambda>c. c\<lparr>ephemeral := k, flags := (flags c)\<lparr>ephemeralKeyInit := True\<rparr>\<rparr>)))))))"

definition wolfSPDM_ExportEphemeralPubKey :: "wc_env \<Rightarrow> ('w, bytes \<times> bytes) cop" where
  "wolfSPDM_ExportEphemeralPubKey K = bindE (getE id) (\<lambda>c.
     thenE (guardE (ephemeralKeyInit (flags c)) E_BAD_STATE)
     (thenE (guardE (\<not> ephemeralIsKem (flags c)) E_BAD_STATE)
     (bindE (liftE E_CRYPTO_FAIL (wc_ecc_export_public_raw K (ephemeral c))) (\<lambda>(x, y).
      retE (wolfSPDM_LeftPadToSize x WOLFSPDM_ECC_KEY_SIZE,
            wolfSPDM_LeftPadToSize y WOLFSPDM_ECC_KEY_SIZE)))))"

definition wolfSPDM_ComputeSharedSecret :: "wc_env \<Rightarrow> bytes \<Rightarrow> bytes \<Rightarrow> ('w, unit) cop" where
  "wolfSPDM_ComputeSharedSecret K peerX peerY = bindE (getE id) (\<lambda>c.
     thenE (guardE (ephemeralKeyInit (flags c)) E_BAD_STATE)
     (thenE (guardE (\<not> ephemeralIsKem (flags c)) E_BAD_STATE)
     (onFailE
       (bindE (liftE E_CRYPTO_FAIL (wc_ecc_import_unsigned K peerX peerY None)) (\<lambda>peer.
        thenE (guardE (wc_ecc_check_key K peer) E_CRYPTO_FAIL)
        (bindE (getE (\<lambda>c. wc_ecc_shared_secret K (ephemeral c) peer (rng c))) (\<lambda>(ss, rng').
         thenE (modE (\<lambda>c. c\<lparr>rng := rng'\<rparr>))
         (bindE (liftE E_CRYPTO_FAIL ss) (\<lambda>z.
          modE (\<lambda>c. c\<lparr>sharedSecret := wolfSPDM_LeftPadToSize z WOLFSPDM_ECC_KEY_SIZE\<rparr>)))))))
       (\<lambda>c. c\<lparr>sharedSecret := []\<rparr>))))"

section \<open>ML-KEM and ML-DSA\<close>

definition wolfSPDM_MlKemType :: "word16 \<Rightarrow> ('s, mlkem_type) op" where
  "wolfSPDM_MlKemType sel =
     (let m = sel AND WOLFSPDM_MLKEM_SETS in
      if m = 0x1 then retE WC_ML_KEM_512
      else if m = 0x2 then retE WC_ML_KEM_768
      else if m = 0x4 then retE WC_ML_KEM_1024
      else failE E_ALGO_MISMATCH)"

definition wolfSPDM_GenerateMlKemKey :: "wc_env \<Rightarrow> nat \<Rightarrow> ('w, bytes) cop" where
  "wolfSPDM_GenerateMlKemKey K ekSz = bindE (getE id) (\<lambda>c.
     thenE (guardE (rngInitialized (flags c)) E_BAD_STATE)
     (bindE (wolfSPDM_MlKemType (kemAlgSel c)) (\<lambda>type.
      thenE (modE wolfSPDM_FreeEphemeralKey)
      (thenE (guardE (wc_MlKemKey_Init K type) E_CRYPTO_FAIL)
      (thenE (modE (\<lambda>c. c\<lparr>flags := (flags c)\<lparr>ephemeralKeyInit := True, ephemeralIsKem := True\<rparr>\<rparr>))
      (onFailE
        (bindE (getE (\<lambda>c. wc_MlKemKey_MakeKey K type (rng c))) (\<lambda>(key, rng').
         thenE (modE (\<lambda>c. c\<lparr>rng := rng'\<rparr>))
         (bindE (liftE E_CRYPTO_FAIL key) (\<lambda>k.
          thenE (modE (\<lambda>c. c\<lparr>ephemeral := k\<rparr>))
          (bindE (liftE E_CRYPTO_FAIL (wc_MlKemKey_PublicKeySize K k)) (\<lambda>pubSz.
           thenE (guardE (pubSz \<le> ekSz) E_BUFFER_SMALL)
           (liftE E_CRYPTO_FAIL (wc_MlKemKey_EncodePublicKey K k))))))))
        wolfSPDM_FreeEphemeralKey))))))"

definition wolfSPDM_MlKemDecapsulate :: "wc_env \<Rightarrow> bytes \<Rightarrow> ('w, unit) cop" where
  "wolfSPDM_MlKemDecapsulate K ct = bindE (getE id) (\<lambda>c.
     thenE (guardE (ephemeralKeyInit (flags c) \<and> ephemeralIsKem (flags c)) E_BAD_STATE)
     (onFailE
       (bindE (liftE E_CRYPTO_FAIL (wc_MlKemKey_CipherTextSize K (ephemeral c))) (\<lambda>expCtSz.
        bindE (liftE E_CRYPTO_FAIL (wc_MlKemKey_SharedSecretSize K (ephemeral c))) (\<lambda>ssSz.
        thenE (guardE (ssSz \<le> WOLFSPDM_ECC_KEY_SIZE) E_CRYPTO_FAIL)
        (thenE (guardE (length ct = expCtSz) E_KEY_EXCHANGE)
        (bindE (liftE E_CRYPTO_FAIL (wc_MlKemKey_Decapsulate K (ephemeral c) ct)) (\<lambda>ss.
         modE (\<lambda>c. c\<lparr>sharedSecret := take ssSz ss\<rparr>)))))))
       (\<lambda>c. c\<lparr>sharedSecret := []\<rparr>)))"

definition wolfSPDM_MlDsaVerify ::
  "wc_env \<Rightarrow> mldsa_level \<Rightarrow> bytes \<Rightarrow> bytes \<Rightarrow> bytes \<Rightarrow> bytes \<Rightarrow> ('s, unit) op" where
  "wolfSPDM_MlDsaVerify K level pub context msg sig =
     thenE (guardE (length context \<le> 255) E_INVALID_ARG)
     (guardE (wc_MlDsaKey_VerifyCtx K level pub context msg sig = Some True) E_BAD_SIGNATURE)"

section \<open>ECDSA\<close>

definition wolfSPDM_ExtractEccPoint :: "bytes \<Rightarrow> ('s, bytes \<times> bytes) op" where
  "wolfSPDM_ExtractEccPoint pubKey =
     (if length pubKey = WOLFSPDM_ECC_POINT_SIZE
      then retE (take WOLFSPDM_ECC_KEY_SIZE pubKey, drop WOLFSPDM_ECC_KEY_SIZE pubKey)
      else if length pubKey \<ge> WOLFSPDM_ECC_POINT_SIZE + 4
      then (let pointOffset = length pubKey - (WOLFSPDM_ECC_POINT_SIZE + 4) in
            if SPDM_Get16BE pubKey pointOffset \<noteq> of_nat WOLFSPDM_ECC_KEY_SIZE \<or>
               SPDM_Get16BE pubKey (pointOffset + 2 + WOLFSPDM_ECC_KEY_SIZE) \<noteq>
                 of_nat WOLFSPDM_ECC_KEY_SIZE
            then failE E_INVALID_ARG
            else retE (take WOLFSPDM_ECC_KEY_SIZE (drop (pointOffset + 2) pubKey),
                       take WOLFSPDM_ECC_KEY_SIZE
                         (drop (pointOffset + 4 + WOLFSPDM_ECC_KEY_SIZE) pubKey)))
      else failE E_INVALID_ARG)"

definition wolfSPDM_VerifySignature :: "wc_env \<Rightarrow> bytes \<Rightarrow> bytes \<Rightarrow> ('w, unit) cop" where
  "wolfSPDM_VerifySignature K hash sig = bindE (getE id) (\<lambda>c.
     thenE (guardE (hasRspPubKey (flags c) \<and> length (rspPubKey c) \<ge> WOLFSPDM_ECC_POINT_SIZE)
              E_BAD_STATE)
     (thenE (guardE (length sig = WOLFSPDM_ECC_SIG_SIZE) E_INVALID_ARG)
     (bindE (wolfSPDM_ExtractEccPoint (rspPubKey c)) (\<lambda>(x, y).
      bindE (liftE E_BAD_SIGNATURE (wc_ecc_import_unsigned K x y None)) (\<lambda>key.
      thenE (guardE (wc_ecc_check_key K key) E_BAD_SIGNATURE)
      (bindE (liftE E_BAD_SIGNATURE
               (wc_ecc_rs_raw_to_sig K (take WOLFSPDM_ECC_KEY_SIZE sig)
                 (drop WOLFSPDM_ECC_KEY_SIZE sig))) (\<lambda>der.
       guardE (wc_ecc_verify_hash K der hash key = Some True) E_BAD_SIGNATURE)))))))"

definition wolfSPDM_SignHash :: "wc_env \<Rightarrow> bytes \<Rightarrow> ('w, bytes) cop" where
  "wolfSPDM_SignHash K hash = bindE (getE id) (\<lambda>c.
     thenE (guardE (hasReqKeyPair (flags c) \<and> reqPrivKey c \<noteq> []) E_BAD_STATE)
     (bindE (liftE E_CRYPTO_FAIL (wc_ecc_import_unsigned K
               (take WOLFSPDM_ECC_KEY_SIZE (reqPubKey c))
               (drop WOLFSPDM_ECC_KEY_SIZE (reqPubKey c)) (Some (reqPrivKey c)))) (\<lambda>key.
      bindE (getE (\<lambda>c. wc_ecc_sign_hash K hash (rng c) key)) (\<lambda>(der, rng').
      thenE (modE (\<lambda>c. c\<lparr>rng := rng'\<rparr>))
      (bindE (liftE E_CRYPTO_FAIL der) (\<lambda>d.
       bindE (liftE E_CRYPTO_FAIL (wc_ecc_sig_to_rs K d)) (\<lambda>(r, s).
       retE (wolfSPDM_LeftPadToSize r WOLFSPDM_ECC_KEY_SIZE @
             wolfSPDM_LeftPadToSize s WOLFSPDM_ECC_KEY_SIZE))))))))"

section \<open>Key schedule\<close>

definition SPDM_BIN_CONCAT_PREFIX :: "byte \<Rightarrow> bytes" where
  "SPDM_BIN_CONCAT_PREFIX ver =
     (if ver \<ge> 0x14 then cstr ''spdm1.4 ''
      else if ver \<ge> 0x13 then cstr ''spdm1.3 ''
      else cstr ''spdm1.2 '')"

definition wolfSPDM_HkdfExpandLabel ::
  "wc_env \<Rightarrow> byte \<Rightarrow> bytes \<Rightarrow> bytes \<Rightarrow> bytes \<Rightarrow> nat \<Rightarrow> ('s, bytes) op" where
  "wolfSPDM_HkdfExpandLabel K ver secret label context outSz =
     (if length label > 128 \<or> length context > 128 \<or> 2 + 8 + length label + length context > 128
      then failE E_BUFFER_SMALL
      else liftE E_CRYPTO_FAIL
             (wc_HKDF_Expand K secret
                (SPDM_Set16LE (of_nat outSz) @ SPDM_BIN_CONCAT_PREFIX ver @ label @ context) outSz))"

definition wolfSPDM_ComputeVerifyData :: "wc_env \<Rightarrow> bytes \<Rightarrow> bytes \<Rightarrow> ('s, bytes) op" where
  "wolfSPDM_ComputeVerifyData K finishedKey thHash =
     liftE E_CRYPTO_FAIL (wc_Hmac K finishedKey thHash)"

definition wolfSPDM_DeriveKeyIvPair ::
  "wc_env \<Rightarrow> byte \<Rightarrow> bytes \<Rightarrow> (bytes \<Rightarrow> 's \<Rightarrow> 's) \<Rightarrow> (bytes \<Rightarrow> 's \<Rightarrow> 's) \<Rightarrow> ('s, unit) op" where
  "wolfSPDM_DeriveKeyIvPair K ver secret setKey setIv =
     bindE (wolfSPDM_HkdfExpandLabel K ver secret (cstr ''key'') [] WOLFSPDM_AEAD_KEY_SIZE) (\<lambda>k.
     thenE (modE (setKey k))
     (bindE (wolfSPDM_HkdfExpandLabel K ver secret (cstr ''iv'') [] WOLFSPDM_AEAD_IV_SIZE) (\<lambda>v.
      modE (setIv v))))"

abbreviation setReqDataKey :: "bytes \<Rightarrow> 'w WOLFSPDM_CTX \<Rightarrow> 'w WOLFSPDM_CTX" where
  "setReqDataKey k c \<equiv> c\<lparr>reqDataKey := k\<rparr>"
abbreviation setRspDataKey :: "bytes \<Rightarrow> 'w WOLFSPDM_CTX \<Rightarrow> 'w WOLFSPDM_CTX" where
  "setRspDataKey k c \<equiv> c\<lparr>rspDataKey := k\<rparr>"
abbreviation setReqDataIv :: "bytes \<Rightarrow> 'w WOLFSPDM_CTX \<Rightarrow> 'w WOLFSPDM_CTX" where
  "setReqDataIv k c \<equiv> c\<lparr>reqDataIv := k\<rparr>"
abbreviation setRspDataIv :: "bytes \<Rightarrow> 'w WOLFSPDM_CTX \<Rightarrow> 'w WOLFSPDM_CTX" where
  "setRspDataIv k c \<equiv> c\<lparr>rspDataIv := k\<rparr>"

definition wipeHandshakeKeys :: "'w WOLFSPDM_CTX \<Rightarrow> 'w WOLFSPDM_CTX" where
  "wipeHandshakeKeys c = c\<lparr>
     reqHsSecret := zeros WOLFSPDM_HASH_SIZE, rspHsSecret := zeros WOLFSPDM_HASH_SIZE,
     reqFinishedKey := zeros WOLFSPDM_HASH_SIZE, rspFinishedKey := zeros WOLFSPDM_HASH_SIZE,
     reqDataKey := zeros WOLFSPDM_AEAD_KEY_SIZE, rspDataKey := zeros WOLFSPDM_AEAD_KEY_SIZE,
     reqDataIv := zeros WOLFSPDM_AEAD_IV_SIZE, rspDataIv := zeros WOLFSPDM_AEAD_IV_SIZE\<rparr>"

definition wolfSPDM_DeriveFromHandshakeSecret :: "wc_env \<Rightarrow> bytes \<Rightarrow> ('w, unit) cop" where
  "wolfSPDM_DeriveFromHandshakeSecret K th1Hash =
     bindE (getE (\<lambda>c. (spdmVersion c, handshakeSecret c))) (\<lambda>(ver, hs).
     onFailE
       (bindE (wolfSPDM_HkdfExpandLabel K ver hs (cstr ''req hs data'') th1Hash WOLFSPDM_HASH_SIZE) (\<lambda>rq.
        thenE (modE (\<lambda>c. c\<lparr>reqHsSecret := rq\<rparr>))
        (bindE (wolfSPDM_HkdfExpandLabel K ver hs (cstr ''rsp hs data'') th1Hash WOLFSPDM_HASH_SIZE) (\<lambda>rs.
         thenE (modE (\<lambda>c. c\<lparr>rspHsSecret := rs\<rparr>))
         (bindE (wolfSPDM_HkdfExpandLabel K ver rq (cstr ''finished'') [] WOLFSPDM_HASH_SIZE) (\<lambda>fq.
          thenE (modE (\<lambda>c. c\<lparr>reqFinishedKey := fq\<rparr>))
          (bindE (wolfSPDM_HkdfExpandLabel K ver rs (cstr ''finished'') [] WOLFSPDM_HASH_SIZE) (\<lambda>fs.
           thenE (modE (\<lambda>c. c\<lparr>rspFinishedKey := fs\<rparr>))
           (thenE (wolfSPDM_DeriveKeyIvPair K ver rq setReqDataKey setReqDataIv)
           (wolfSPDM_DeriveKeyIvPair K ver rs setRspDataKey setRspDataIv))))))))))
       wipeHandshakeKeys)"

definition wolfSPDM_DeriveHandshakeKeys :: "wc_env \<Rightarrow> bytes \<Rightarrow> ('w, unit) cop" where
  "wolfSPDM_DeriveHandshakeKeys K th1Hash =
     bindE (getE (\<lambda>c. wc_HKDF_Extract K (zeros WOLFSPDM_HASH_SIZE) (sharedSecret c))) (\<lambda>x.
     bindE (liftE E_CRYPTO_FAIL x) (\<lambda>hs.
     thenE (modE (\<lambda>c. c\<lparr>handshakeSecret := hs\<rparr>))
     (wolfSPDM_DeriveFromHandshakeSecret K th1Hash)))"

definition wolfSPDM_DeriveHandshakeKeysPsk :: "wc_env \<Rightarrow> bytes \<Rightarrow> ('w, unit) cop" where
  "wolfSPDM_DeriveHandshakeKeysPsk K th1Hash = bindE (getE psk) (\<lambda>key.
     thenE (guardE (key \<noteq> []) E_BAD_STATE)
     (finallyE
       (bindE (liftE E_CRYPTO_FAIL (wc_HKDF_Extract K (replicate WOLFSPDM_HASH_SIZE 0xFF) key)) (\<lambda>hs.
        thenE (modE (\<lambda>c. c\<lparr>handshakeSecret := hs\<rparr>))
        (wolfSPDM_DeriveFromHandshakeSecret K th1Hash)))
       (\<lambda>c. c\<lparr>psk := []\<rparr>)))"

definition wolfSPDM_DeriveAppDataKeys :: "wc_env \<Rightarrow> ('w, unit) cop" where
  "wolfSPDM_DeriveAppDataKeys K =
     bindE (wolfSPDM_TranscriptHash K) (\<lambda>th2Hash.
     bindE (getE (\<lambda>c. (spdmVersion c, handshakeSecret c))) (\<lambda>(ver, hs).
     bindE (wolfSPDM_HkdfExpandLabel K ver hs (cstr ''derived'') [] WOLFSPDM_HASH_SIZE) (\<lambda>salt.
     bindE (liftE E_CRYPTO_FAIL (wc_HKDF_Extract K salt (zeros WOLFSPDM_HASH_SIZE))) (\<lambda>master.
     bindE (wolfSPDM_HkdfExpandLabel K ver master (cstr ''req app data'') th2Hash WOLFSPDM_HASH_SIZE) (\<lambda>rq.
     bindE (wolfSPDM_HkdfExpandLabel K ver master (cstr ''rsp app data'') th2Hash WOLFSPDM_HASH_SIZE) (\<lambda>rs.
     thenE (wolfSPDM_DeriveKeyIvPair K ver rq setReqDataKey setReqDataIv)
     (thenE (wolfSPDM_DeriveKeyIvPair K ver rs setRspDataKey setRspDataIv)
     (modE (\<lambda>c. c\<lparr>reqAppSecret := rq, rspAppSecret := rs, reqSeqNum := 0, rspSeqNum := 0\<rparr>)))))))))"

definition wolfSPDM_UpdateDirection ::
  "wc_env \<Rightarrow> byte \<Rightarrow> bytes \<Rightarrow> (bytes \<Rightarrow> 's \<Rightarrow> 's) \<Rightarrow> (bytes \<Rightarrow> 's \<Rightarrow> 's) \<Rightarrow> (bytes \<Rightarrow> 's \<Rightarrow> 's) \<Rightarrow>
   ('s, unit) op" where
  "wolfSPDM_UpdateDirection K ver appSecret setSecret setKey setIv =
     bindE (wolfSPDM_HkdfExpandLabel K ver appSecret (cstr ''traffic upd'') [] WOLFSPDM_HASH_SIZE) (\<lambda>nxt.
     thenE (wolfSPDM_DeriveKeyIvPair K ver nxt setKey setIv)
     (modE (setSecret nxt)))"

definition wolfSPDM_DeriveUpdatedKeys :: "wc_env \<Rightarrow> bool \<Rightarrow> ('w, unit) cop" where
  "wolfSPDM_DeriveUpdatedKeys K updateAll = bindE (getE id) (\<lambda>c.
     thenE (wolfSPDM_UpdateDirection K (spdmVersion c) (reqAppSecret c)
              (\<lambda>x d. d\<lparr>reqAppSecret := x\<rparr>) setReqDataKey setReqDataIv)
     (if updateAll
      then wolfSPDM_UpdateDirection K (spdmVersion c) (rspAppSecret c)
              (\<lambda>x d. d\<lparr>rspAppSecret := x\<rparr>) setRspDataKey setRspDataIv
      else retE ()))"


section \<open>Frames\<close>

text \<open>
  Each operation changes only the fields its premises name. A flag update that touches
  only the two ephemeral-key flags is \<open>same_but_eph\<close>.
\<close>

definition same_but_eph :: "ctx_flags \<Rightarrow> ctx_flags \<Rightarrow> bool" where
  "same_but_eph g h \<longleftrightarrow>
     g\<lparr>ephemeralKeyInit := False, ephemeralIsKem := False\<rparr> =
     h\<lparr>ephemeralKeyInit := False, ephemeralIsKem := False\<rparr>"

lemma same_but_ephI [simp]:
  "same_but_eph (g\<lparr>ephemeralKeyInit := a\<rparr>) g"
  "same_but_eph (g\<lparr>ephemeralKeyInit := a, ephemeralIsKem := b\<rparr>) g"
  "same_but_eph (g\<lparr>ephemeralIsKem := b, ephemeralKeyInit := a\<rparr>) g"
  by (simp_all add: same_but_eph_def)

lemma same_but_ephD:
  assumes "same_but_eph g h"
  shows "hasRspPubKey g = hasRspPubKey h" "rspKeyFromCert g = rspKeyFromCert h"
    "hasReqKeyPair g = hasReqKeyPair h" "rngInitialized g = rngInitialized h"
    "initialized g = initialized h" "allowUntrustedCert g = allowUntrustedCert h"
    "debug g = debug h" "isDynamic g = isDynamic h"
  using assms by (cases g; cases h; simp add: same_but_eph_def)+

lemma keeps_TranscriptAdd [keeps_intros]:
  assumes "\<And>c x. f (c\<lparr>transcript := x\<rparr>) = f c"
  shows "keeps f (wolfSPDM_TranscriptAdd data)"
  unfolding wolfSPDM_TranscriptAdd_def by (intro keeps_intros) (simp_all add: assms)

lemma keeps_sha384Feed [keeps_intros]: "keeps f (sha384Feed K a d)"
  unfolding sha384Feed_def by (intro keeps_intros)

lemma keeps_Sha384Hash [keeps_intros]: "keeps f (wolfSPDM_Sha384Hash K a b d)"
  unfolding wolfSPDM_Sha384Hash_def by (intro keeps_intros)

lemma keeps_TranscriptHash [keeps_intros]: "keeps f (wolfSPDM_TranscriptHash K)"
  unfolding wolfSPDM_TranscriptHash_def by (intro keeps_intros)

lemma keeps_GetRandom [keeps_intros]:
  assumes "\<And>c x. f (c\<lparr>rng := x\<rparr>) = f c"
  shows "keeps f (wolfSPDM_GetRandom K n)"
  unfolding wolfSPDM_GetRandom_def by (intro keeps_intros) (simp_all add: assms)

lemma keeps_GenerateEphemeralKey [keeps_intros]:
  assumes "\<And>c x. f (c\<lparr>rng := x\<rparr>) = f c" "\<And>c x. f (c\<lparr>ephemeral := x\<rparr>) = f c"
    "\<And>c g. same_but_eph g (flags c) \<Longrightarrow> f (c\<lparr>flags := g\<rparr>) = f c"
  shows "keeps f (wolfSPDM_GenerateEphemeralKey K)"
  unfolding wolfSPDM_GenerateEphemeralKey_def
  by (intro keeps_intros) (simp_all add: assms wolfSPDM_FreeEphemeralKey_def)

lemma keeps_ExportEphemeralPubKey [keeps_intros]: "keeps f (wolfSPDM_ExportEphemeralPubKey K)"
  unfolding wolfSPDM_ExportEphemeralPubKey_def by (intro keeps_intros)

lemma keeps_ComputeSharedSecret [keeps_intros]:
  assumes "\<And>c x. f (c\<lparr>rng := x\<rparr>) = f c" "\<And>c x. f (c\<lparr>sharedSecret := x\<rparr>) = f c"
  shows "keeps f (wolfSPDM_ComputeSharedSecret K x y)"
  unfolding wolfSPDM_ComputeSharedSecret_def by (intro keeps_intros) (simp_all add: assms)

lemma keeps_MlKemType [keeps_intros]: "keeps f (wolfSPDM_MlKemType sel)"
  unfolding wolfSPDM_MlKemType_def by (intro keeps_intros)

lemma keeps_GenerateMlKemKey [keeps_intros]:
  assumes "\<And>c x. f (c\<lparr>rng := x\<rparr>) = f c" "\<And>c x. f (c\<lparr>ephemeral := x\<rparr>) = f c"
    "\<And>c g. same_but_eph g (flags c) \<Longrightarrow> f (c\<lparr>flags := g\<rparr>) = f c"
  shows "keeps f (wolfSPDM_GenerateMlKemKey K n)"
  unfolding wolfSPDM_GenerateMlKemKey_def
  by (intro keeps_intros) (simp_all add: assms wolfSPDM_FreeEphemeralKey_def)

lemma keeps_MlKemDecapsulate [keeps_intros]:
  assumes "\<And>c x. f (c\<lparr>sharedSecret := x\<rparr>) = f c"
  shows "keeps f (wolfSPDM_MlKemDecapsulate K ct)"
  unfolding wolfSPDM_MlKemDecapsulate_def by (intro keeps_intros) (simp_all add: assms)

lemma keeps_MlDsaVerify [keeps_intros]: "keeps f (wolfSPDM_MlDsaVerify K l p cx m s)"
  unfolding wolfSPDM_MlDsaVerify_def by (intro keeps_intros)

lemma keeps_ExtractEccPoint [keeps_intros]: "keeps f (wolfSPDM_ExtractEccPoint p)"
  unfolding wolfSPDM_ExtractEccPoint_def by (intro keeps_intros)

lemma keeps_VerifySignature [keeps_intros]: "keeps f (wolfSPDM_VerifySignature K h s)"
  unfolding wolfSPDM_VerifySignature_def by (intro keeps_intros)

lemma keeps_SignHash [keeps_intros]:
  assumes "\<And>c x. f (c\<lparr>rng := x\<rparr>) = f c"
  shows "keeps f (wolfSPDM_SignHash K h)"
  unfolding wolfSPDM_SignHash_def by (intro keeps_intros) (simp_all add: assms)

lemma keeps_HkdfExpandLabel [keeps_intros]: "keeps f (wolfSPDM_HkdfExpandLabel K v s l cx n)"
  unfolding wolfSPDM_HkdfExpandLabel_def by (intro keeps_intros)

lemma keeps_ComputeVerifyData [keeps_intros]: "keeps f (wolfSPDM_ComputeVerifyData K k h)"
  unfolding wolfSPDM_ComputeVerifyData_def by (intro keeps_intros)

lemma keeps_DeriveKeyIvPair [keeps_intros]:
  assumes "\<And>c x. f (setKey x c) = f c" "\<And>c x. f (setIv x c) = f c"
  shows "keeps f (wolfSPDM_DeriveKeyIvPair K v s setKey setIv)"
  unfolding wolfSPDM_DeriveKeyIvPair_def by (intro keeps_intros) (simp_all add: assms)

definition session_keys :: "'w WOLFSPDM_CTX \<Rightarrow> bytes list" where
  "session_keys c = [handshakeSecret c, reqHsSecret c, rspHsSecret c, reqFinishedKey c,
     rspFinishedKey c, reqDataKey c, rspDataKey c, reqDataIv c, rspDataIv c,
     reqAppSecret c, rspAppSecret c]"

text \<open>\<open>same_but_keys\<close>: two contexts that differ in key schedule fields at most.\<close>

definition same_but_keys :: "'w WOLFSPDM_CTX \<Rightarrow> 'w WOLFSPDM_CTX \<Rightarrow> bool" where
  "same_but_keys c d \<longleftrightarrow>
     d = c\<lparr>handshakeSecret := handshakeSecret d, reqHsSecret := reqHsSecret d,
       rspHsSecret := rspHsSecret d, reqFinishedKey := reqFinishedKey d,
       rspFinishedKey := rspFinishedKey d, reqDataKey := reqDataKey d, rspDataKey := rspDataKey d,
       reqDataIv := reqDataIv d, rspDataIv := rspDataIv d, reqAppSecret := reqAppSecret d,
       rspAppSecret := rspAppSecret d\<rparr>"

lemma same_but_keysD:
  assumes "same_but_keys c d"
  shows
    "state d = state c" "mode d = mode c" "ioCb d = ioCb c" "ioUserCtx d = ioUserCtx c"
    "connectionHandle d = connectionHandle c" "fipsIndicator d = fipsIndicator c"
    "reqPubKeyTPMT d = reqPubKeyTPMT c" "psk d = psk c" "pskHint d = pskHint c" "rng d = rng c"
    "maxVersion d = maxVersion c" "spdmVersion d = spdmVersion c"
    "lastPeerErrorCode d = lastPeerErrorCode c" "ephemeral d = ephemeral c"
    "sharedSecret d = sharedSecret c" "transcript d = transcript c"
    "certChainHash d = certChainHash c" "th1 d = th1 c" "th2 d = th2 c"
    "reqSeqNum d = reqSeqNum c" "rspSeqNum d = rspSeqNum c" "reqSessionId d = reqSessionId c"
    "rspSessionId d = rspSessionId c" "sessionId d = sessionId c" "rspPubKey d = rspPubKey c"
    "mutAuthRequested d = mutAuthRequested c" "reqSlotIdParam d = reqSlotIdParam c"
    "reqPrivKey d = reqPrivKey c" "reqPubKey d = reqPubKey c" "rspCaps d = rspCaps c"
    "vcaLen d = vcaLen c" "dataTransferSize d = dataTransferSize c"
    "maxSpdmMsgSize d = maxSpdmMsgSize c" "slotMask d = slotMask c"
    "currentSlotId d = currentSlotId c" "chunkHandle d = chunkHandle c"
    "pqcAsymSel d = pqcAsymSel c" "kemAlgSel d = kemAlgSel c" "kexAdvKem d = kexAdvKem c"
    "kexAdvDhe d = kexAdvDhe c" "certChain d = certChain c" "trustedCA d = trustedCA c"
    "l1l2Hash d = l1l2Hash c" "measBlockCount d = measBlockCount c" "l1l2State d = l1l2State c"
    "measRecord d = measRecord c" "m1Hash d = m1Hash c" "m1State d = m1State c"
    "flags d = flags c"
  by (subst assms [unfolded same_but_keys_def], simp)+

text \<open>\<open>same_but_traffic\<close>: the sequence numbers may differ too.\<close>

definition same_but_traffic :: "'w WOLFSPDM_CTX \<Rightarrow> 'w WOLFSPDM_CTX \<Rightarrow> bool" where
  "same_but_traffic c d \<longleftrightarrow> same_but_keys (c\<lparr>reqSeqNum := reqSeqNum d, rspSeqNum := rspSeqNum d\<rparr>) d"

lemma same_but_trafficD:
  assumes "same_but_traffic c d"
  shows
    "state d = state c" "mode d = mode c" "ioCb d = ioCb c" "ioUserCtx d = ioUserCtx c"
    "connectionHandle d = connectionHandle c" "fipsIndicator d = fipsIndicator c"
    "reqPubKeyTPMT d = reqPubKeyTPMT c" "psk d = psk c" "pskHint d = pskHint c" "rng d = rng c"
    "maxVersion d = maxVersion c" "spdmVersion d = spdmVersion c"
    "lastPeerErrorCode d = lastPeerErrorCode c" "ephemeral d = ephemeral c"
    "sharedSecret d = sharedSecret c" "transcript d = transcript c"
    "certChainHash d = certChainHash c" "th1 d = th1 c" "th2 d = th2 c"
    "reqSessionId d = reqSessionId c" "rspSessionId d = rspSessionId c"
    "sessionId d = sessionId c" "rspPubKey d = rspPubKey c"
    "mutAuthRequested d = mutAuthRequested c" "reqSlotIdParam d = reqSlotIdParam c"
    "reqPrivKey d = reqPrivKey c" "reqPubKey d = reqPubKey c" "rspCaps d = rspCaps c"
    "vcaLen d = vcaLen c" "dataTransferSize d = dataTransferSize c"
    "maxSpdmMsgSize d = maxSpdmMsgSize c" "slotMask d = slotMask c"
    "currentSlotId d = currentSlotId c" "chunkHandle d = chunkHandle c"
    "pqcAsymSel d = pqcAsymSel c" "kemAlgSel d = kemAlgSel c" "kexAdvKem d = kexAdvKem c"
    "kexAdvDhe d = kexAdvDhe c" "certChain d = certChain c" "trustedCA d = trustedCA c"
    "l1l2Hash d = l1l2Hash c" "measBlockCount d = measBlockCount c" "l1l2State d = l1l2State c"
    "measRecord d = measRecord c" "m1Hash d = m1Hash c" "m1State d = m1State c"
    "flags d = flags c"
  using same_but_keysD [OF assms [unfolded same_but_traffic_def]] by simp_all

lemma keeps_DeriveFromHandshakeSecret [keeps_intros]:
  assumes "\<And>c d. same_but_keys c d \<Longrightarrow> f d = f c"
  shows "keeps f (wolfSPDM_DeriveFromHandshakeSecret K h)"
  unfolding wolfSPDM_DeriveFromHandshakeSecret_def
  by (intro keeps_intros assms) (simp_all add: same_but_keys_def wipeHandshakeKeys_def)

lemma keeps_DeriveHandshakeKeys [keeps_intros]:
  assumes "\<And>c d. same_but_keys c d \<Longrightarrow> f d = f c"
  shows "keeps f (wolfSPDM_DeriveHandshakeKeys K h)"
  unfolding wolfSPDM_DeriveHandshakeKeys_def
  by (intro keeps_intros assms) (simp_all add: same_but_keys_def)

lemma keeps_DeriveHandshakeKeysPsk [keeps_intros]:
  assumes "\<And>c d. same_but_keys c d \<Longrightarrow> f d = f c" "\<And>c x. f (c\<lparr>psk := x\<rparr>) = f c"
  shows "keeps f (wolfSPDM_DeriveHandshakeKeysPsk K h)"
  unfolding wolfSPDM_DeriveHandshakeKeysPsk_def
  by (intro keeps_intros assms) (simp_all add: same_but_keys_def)


lemma keeps_DeriveAppDataKeys [keeps_intros]:
  assumes "\<And>c d. same_but_traffic c d \<Longrightarrow> f d = f c"
  shows "keeps f (wolfSPDM_DeriveAppDataKeys K)"
  unfolding wolfSPDM_DeriveAppDataKeys_def
  by (intro keeps_intros assms) (simp_all add: same_but_traffic_def same_but_keys_def)

lemma keeps_UpdateDirection [keeps_intros]:
  assumes "\<And>c x. f (setS x c) = f c" "\<And>c x. f (setKey x c) = f c" "\<And>c x. f (setIv x c) = f c"
  shows "keeps f (wolfSPDM_UpdateDirection K v s setS setKey setIv)"
  unfolding wolfSPDM_UpdateDirection_def by (intro keeps_intros) (simp_all add: assms)

lemma keeps_DeriveUpdatedKeys [keeps_intros]:
  assumes "\<And>c d. same_but_keys c d \<Longrightarrow> f d = f c"
  shows "keeps f (wolfSPDM_DeriveUpdatedKeys K b)"
  unfolding wolfSPDM_DeriveUpdatedKeys_def
  by (intro keeps_intros assms) (simp_all add: same_but_keys_def)

text \<open>Closing the side conditions of the frame rules for a concrete field.\<close>

lemmas frame_simps = same_but_keysD same_but_trafficD same_but_ephD

lemma FreeEphemeralKey_frame:
  assumes "\<And>c x. f (c\<lparr>ephemeral := x\<rparr>) = f c"
    "\<And>c g. same_but_eph g (flags c) \<Longrightarrow> f (c\<lparr>flags := g\<rparr>) = f c"
  shows "f (wolfSPDM_FreeEphemeralKey c) = f c"
  by (simp add: wolfSPDM_FreeEphemeralKey_def assms)

end
