(* ===== verification/Spdm_Context.thy ===== *)
theory Spdm_Context
  imports Spdm_Crypto
begin

text \<open>
  Context management and configuration of \<^verbatim>\<open>src/spdm_context.c\<close> (and \<^verbatim>\<open>wolfSPDM_SetPSK\<close> of
  \<^verbatim>\<open>src/spdm_psk.c\<close>, the trust configuration of \<^verbatim>\<open>src/spdm_standard.c\<close>,
  \<^verbatim>\<open>wolfSPDM_AttestFree\<close> of \<^verbatim>\<open>src/spdm_attest.c\<close>): initialisation, the setters with their
  argument checks, the session status queries and the session wipe.
\<close>

section \<open>Initialisation\<close>

definition zero_flags :: ctx_flags where
  "zero_flags = \<lparr>debug = False, initialized = False, isDynamic = False, rngInitialized = False,
     ephemeralKeyInit = False, ephemeralIsKem = False, hasRspPubKey = False,
     hasReqKeyPair = False, allowUntrustedCert = False, rspKeyFromCert = False\<rparr>"

text \<open>The context after \<^verbatim>\<open>XMEMSET(ctx, 0, sizeof(WOLFSPDM_CTX))\<close>; \<open>nul\<close> is the NULL user context.\<close>

definition zero_ctx :: "'w \<Rightarrow> 'w WOLFSPDM_CTX" where
  "zero_ctx nul = \<lparr>state = WOLFSPDM_STATE_INIT, mode = MODE_AUTO, ioCb = None, ioUserCtx = nul,
     connectionHandle = 0, fipsIndicator = 0, reqPubKeyTPMT = [], psk = [], pskHint = [], rng = [],
     maxVersion = 0, spdmVersion = 0, lastPeerErrorCode = 0, ephemeral = [], sharedSecret = [],
     transcript = [], certChainHash = zeros 48, th1 = zeros 48, th2 = zeros 48,
     handshakeSecret = zeros 48, reqHsSecret = zeros 48, rspHsSecret = zeros 48,
     reqFinishedKey = zeros 48, rspFinishedKey = zeros 48, reqDataKey = zeros 32,
     rspDataKey = zeros 32, reqDataIv = zeros 12, rspDataIv = zeros 12, reqAppSecret = zeros 48,
     rspAppSecret = zeros 48, reqSeqNum = 0, rspSeqNum = 0, reqSessionId = 0, rspSessionId = 0,
     sessionId = 0, rspPubKey = [], mutAuthRequested = 0, reqSlotIdParam = 0, reqPrivKey = [],
     reqPubKey = zeros 96, rspCaps = 0, vcaLen = 0, dataTransferSize = 0, maxSpdmMsgSize = 0,
     slotMask = 0, currentSlotId = 0, chunkHandle = 0, pqcAsymSel = 0, kemAlgSel = 0,
     kexAdvKem = 0, kexAdvDhe = 0, certChain = [], trustedCA = [], l1l2Hash = [],
     measBlockCount = 0, l1l2State = WOLFSPDM_RUN_NONE, measRecord = [], m1Hash = [],
     m1State = WOLFSPDM_RUN_NONE, flags = zero_flags\<rparr>"

definition wolfSPDM_Init :: "wc_env \<Rightarrow> 'w \<Rightarrow> ('w, unit) cop" where
  "wolfSPDM_Init K nul =
     thenE (modE (\<lambda>_. zero_ctx nul))
     (bindE (liftE E_CRYPTO_FAIL (wc_InitRng K)) (\<lambda>r.
      modE (\<lambda>c. c\<lparr>rng := r, reqSessionId := 0x0001, kexAdvDhe := 1,
        kexAdvKem := WOLFSPDM_MLKEM_SETS,
        flags := (flags c)\<lparr>rngInitialized := True, initialized := True\<rparr>\<rparr>)))"

definition wolfSPDM_InitStatic :: "wc_env \<Rightarrow> 'w \<Rightarrow> int \<Rightarrow> int \<Rightarrow> ('w, unit) cop" where
  "wolfSPDM_InitStatic K nul sizeofCtx sz =
     (if sz < sizeofCtx then failE E_BUFFER_SMALL else wolfSPDM_Init K nul)"

section \<open>Configuration\<close>

definition wolfSPDM_SetIO :: "'w WOLFSPDM_IO_CB option \<Rightarrow> 'w \<Rightarrow> ('w, unit) cop" where
  "wolfSPDM_SetIO cb userCtx =
     (if Option.is_none cb then failE E_INVALID_ARG
      else modE (\<lambda>c. c\<lparr>ioCb := cb, ioUserCtx := userCtx\<rparr>))"

definition wolfSPDM_HasIO :: "'w WOLFSPDM_CTX \<Rightarrow> bool" where
  "wolfSPDM_HasIO c \<longleftrightarrow> \<not> Option.is_none (ioCb c)"

definition wolfSPDM_SetResponderPubKey :: "bytes \<Rightarrow> ('w, unit) cop" where
  "wolfSPDM_SetResponderPubKey pubKey =
     thenE (guardE (length pubKey = WOLFSPDM_ECC_POINT_SIZE) E_INVALID_ARG)
     (modE (\<lambda>c. c\<lparr>rspPubKey := pubKey,
        flags := (flags c)\<lparr>hasRspPubKey := True, rspKeyFromCert := False\<rparr>\<rparr>))"

definition wolfSPDM_SetRequesterKeyPair :: "bytes \<Rightarrow> bytes \<Rightarrow> ('w, unit) cop" where
  "wolfSPDM_SetRequesterKeyPair privKey pubKey =
     thenE (guardE (length privKey = WOLFSPDM_ECC_KEY_SIZE \<and>
                    length pubKey = WOLFSPDM_ECC_POINT_SIZE) E_INVALID_ARG)
     (modE (\<lambda>c. c\<lparr>reqPrivKey := privKey, reqPubKey := pubKey,
        flags := (flags c)\<lparr>hasReqKeyPair := True\<rparr>\<rparr>))"

definition wolfSPDM_SetRequesterKeyTPMT :: "bytes \<Rightarrow> ('w, unit) cop" where
  "wolfSPDM_SetRequesterKeyTPMT tpmtPub =
     thenE (guardE (length tpmtPub \<le> WOLFSPDM_PUBKEY_BUF_SZ div 2) E_INVALID_ARG)
     (modE (\<lambda>c. c\<lparr>reqPubKeyTPMT := tpmtPub\<rparr>))"

definition wolfSPDM_SetMaxVersion :: "byte \<Rightarrow> ('w, unit) cop" where
  "wolfSPDM_SetMaxVersion maxVer =
     (if maxVer \<noteq> 0 \<and> (maxVer < WOLFSPDM_MIN_SPDM_VERSION \<or> maxVer > WOLFSPDM_MAX_SPDM_VERSION)
      then failE E_INVALID_ARG
      else modE (\<lambda>c. c\<lparr>maxVersion := maxVer\<rparr>))"

definition wolfSPDM_SetRequesterSessionId :: "word16 \<Rightarrow> ('w, unit) cop" where
  "wolfSPDM_SetRequesterSessionId sid =
     (if sid = 0x0000 \<or> sid = 0xFFFF \<or> (sid AND 0xFF \<ge> 0x10 \<and> sid AND 0xFF \<le> 0x1F)
      then failE E_INVALID_ARG
      else modE (\<lambda>c. c\<lparr>reqSessionId := sid\<rparr>))"

definition wolfSPDM_SetDebug :: "bool \<Rightarrow> 'w WOLFSPDM_CTX \<Rightarrow> 'w WOLFSPDM_CTX" where
  "wolfSPDM_SetDebug enable c = c\<lparr>flags := (flags c)\<lparr>debug := enable\<rparr>\<rparr>"

definition wolfSPDM_SetMode :: "WOLFSPDM_MODE \<Rightarrow> ('w, unit) cop" where
  "wolfSPDM_SetMode m =
     (case m of
        MODE_TCG \<Rightarrow> modE (\<lambda>c. c\<lparr>mode := MODE_TCG, connectionHandle := 0, fipsIndicator := 0\<rparr>)
      | MODE_NUVOTON \<Rightarrow> modE (\<lambda>c. c\<lparr>mode := MODE_NUVOTON, connectionHandle := 0, fipsIndicator := 0\<rparr>)
      | MODE_NATIONS \<Rightarrow> modE (\<lambda>c. c\<lparr>mode := MODE_NATIONS, connectionHandle := 0, fipsIndicator := 0\<rparr>)
      | MODE_NATIONS_PSK \<Rightarrow>
          modE (\<lambda>c. c\<lparr>mode := MODE_NATIONS_PSK, connectionHandle := 0, fipsIndicator := 0\<rparr>)
      | MODE_AUTO \<Rightarrow> modE (\<lambda>c. c\<lparr>mode := MODE_AUTO\<rparr>))"

definition wolfSPDM_SetPSK :: "bytes \<Rightarrow> bytes option \<Rightarrow> ('w, unit) cop" where
  "wolfSPDM_SetPSK key hint =
     (if key = [] \<or> length key > WOLFSPDM_PSK_MAX_SIZE then failE E_INVALID_ARG
      else case hint of
        None \<Rightarrow> modE (\<lambda>c. c\<lparr>psk := key, pskHint := []\<rparr>)
      | Some h \<Rightarrow> if length h > WOLFSPDM_PSK_HINT_MAX then failE E_INVALID_ARG
                  else modE (\<lambda>c. c\<lparr>psk := key, pskHint := h\<rparr>))"

definition wolfSPDM_SetTrustedCAs :: "bytes \<Rightarrow> ('w, unit) cop" where
  "wolfSPDM_SetTrustedCAs derCerts =
     thenE (guardE (derCerts \<noteq> []) E_INVALID_ARG)
     (thenE (guardE (length derCerts \<le> WOLFSPDM_MAX_TRUSTED_CA) E_BUFFER_SMALL)
     (modE (\<lambda>c. c\<lparr>trustedCA := derCerts\<rparr>)))"

definition wolfSPDM_AllowUntrustedCerts :: "bool \<Rightarrow> ('w, unit) cop" where
  "wolfSPDM_AllowUntrustedCerts allow =
     modE (\<lambda>c. c\<lparr>flags := (flags c)\<lparr>allowUntrustedCert := allow\<rparr>\<rparr>)"

definition wolfSPDM_SetKeyExchangePref :: "bool \<Rightarrow> word16 \<Rightarrow> ('w, unit) cop" where
  "wolfSPDM_SetKeyExchangePref advDhe kemMask =
     (if \<not> advDhe \<and> kemMask = 0 then failE E_INVALID_ARG
      else if kemMask AND NOT WOLFSPDM_MLKEM_SETS \<noteq> 0 then failE E_INVALID_ARG
      else modE (\<lambda>c. c\<lparr>kexAdvDhe := (if advDhe then 1 else 0), kexAdvKem := kemMask\<rparr>))"

section \<open>Status\<close>

definition wolfSPDM_IsConnected :: "'w WOLFSPDM_CTX \<Rightarrow> bool" where
  "wolfSPDM_IsConnected c \<longleftrightarrow> state c = WOLFSPDM_STATE_CONNECTED"

definition wolfSPDM_GetSessionId :: "'w WOLFSPDM_CTX \<Rightarrow> word32" where
  "wolfSPDM_GetSessionId c =
     (if state c < WOLFSPDM_STATE_KEY_EX \<or> state c = WOLFSPDM_STATE_ERROR then 0 else sessionId c)"

definition wolfSPDM_GetNegotiatedVersion :: "'w WOLFSPDM_CTX \<Rightarrow> byte" where
  "wolfSPDM_GetNegotiatedVersion c =
     (if state c < WOLFSPDM_STATE_VERSION then 0 else spdmVersion c)"

section \<open>Wiping a session\<close>

definition wolfSPDM_AttestFree :: "'w WOLFSPDM_CTX \<Rightarrow> 'w WOLFSPDM_CTX" where
  "wolfSPDM_AttestFree c =
     (let c1 = (if l1l2State c \<noteq> WOLFSPDM_RUN_NONE
                then c\<lparr>l1l2Hash := [], l1l2State := WOLFSPDM_RUN_NONE\<rparr> else c) in
      if m1State c1 \<noteq> WOLFSPDM_RUN_NONE
      then c1\<lparr>m1Hash := [], m1State := WOLFSPDM_RUN_NONE\<rparr> else c1)"

definition wolfSPDM_ResetSession :: "'w WOLFSPDM_CTX \<Rightarrow> 'w WOLFSPDM_CTX" where
  "wolfSPDM_ResetSession c = wolfSPDM_AttestFree
     ((wolfSPDM_FreeEphemeralKey (c\<lparr>state := WOLFSPDM_STATE_INIT, sessionId := 0,
        rspSessionId := 0, reqSeqNum := 0, rspSeqNum := 0, mutAuthRequested := 0,
        reqSlotIdParam := 0,
        reqDataKey := zeros WOLFSPDM_AEAD_KEY_SIZE, rspDataKey := zeros WOLFSPDM_AEAD_KEY_SIZE,
        reqDataIv := zeros WOLFSPDM_AEAD_IV_SIZE, rspDataIv := zeros WOLFSPDM_AEAD_IV_SIZE,
        reqAppSecret := zeros WOLFSPDM_HASH_SIZE, rspAppSecret := zeros WOLFSPDM_HASH_SIZE,
        reqHsSecret := zeros WOLFSPDM_HASH_SIZE, rspHsSecret := zeros WOLFSPDM_HASH_SIZE,
        reqFinishedKey := zeros WOLFSPDM_HASH_SIZE, rspFinishedKey := zeros WOLFSPDM_HASH_SIZE,
        handshakeSecret := zeros WOLFSPDM_HASH_SIZE, sharedSecret := [],
        th1 := zeros WOLFSPDM_HASH_SIZE, th2 := zeros WOLFSPDM_HASH_SIZE\<rparr>))
      \<lparr>rspCaps := 0, dataTransferSize := 0, maxSpdmMsgSize := 0,
       measBlockCount := 0, measRecord := []\<rparr>)"

section \<open>What the wipe leaves\<close>

lemma ResetSession_wipes:
  "let d = wolfSPDM_ResetSession c in
     state d = WOLFSPDM_STATE_INIT \<and> sessionId d = 0 \<and> reqSeqNum d = 0 \<and> rspSeqNum d = 0 \<and>
     (\<forall>k \<in> set (session_keys d). set k \<subseteq> {0}) \<and> sharedSecret d = [] \<and>
     \<not> ephemeralKeyInit (flags d) \<and> rspCaps d = 0 \<and> measRecord d = [] \<and>
     l1l2State d = WOLFSPDM_RUN_NONE \<and> m1State d = WOLFSPDM_RUN_NONE"
  by (auto simp: wolfSPDM_ResetSession_def wolfSPDM_AttestFree_def wolfSPDM_FreeEphemeralKey_def
      session_keys_def zeros_def Let_def)

lemma ResetSession_keeps_identity:
  "let d = wolfSPDM_ResetSession c in
     psk d = psk c \<and> pskHint d = pskHint c \<and> rspPubKey d = rspPubKey c \<and>
     reqPrivKey d = reqPrivKey c \<and> reqPubKey d = reqPubKey c \<and> reqPubKeyTPMT d = reqPubKeyTPMT c \<and>
     trustedCA d = trustedCA c \<and> mode d = mode c \<and> ioCb d = ioCb c \<and> ioUserCtx d = ioUserCtx c \<and>
     maxVersion d = maxVersion c \<and> reqSessionId d = reqSessionId c \<and> rng d = rng c \<and>
     same_but_eph (flags d) (flags c)"
  by (auto simp: wolfSPDM_ResetSession_def wolfSPDM_AttestFree_def wolfSPDM_FreeEphemeralKey_def
      same_but_eph_def Let_def)

end
