(* ===== verification/Spdm_Transport.thy ===== *)
theory Spdm_Transport
  imports Spdm_Context
begin

text \<open>
  The I/O layer: the callback, TCG binding framing and \<^verbatim>\<open>wolfSPDM_SendReceive\<close> of
  \<^verbatim>\<open>src/spdm_context.c\<close>, the clear-message and VENDOR_DEFINED codecs of
  \<^verbatim>\<open>src/spdm_tcg.c\<close>. An exchange takes the bytes to send and the room in the caller's
  receive buffer (\<^verbatim>\<open>*rxSz\<close> on entry) and returns the bytes received.

  Message sizes are \<^verbatim>\<open>word32\<close> in the code; a byte list stands for a buffer shorter than
  $2^{32}$.
\<close>

section \<open>The I/O callback\<close>

definition callIo :: "bytes option \<Rightarrow> nat option \<Rightarrow> ('w, int \<times> bytes) cop" where
  "callIo tx cap = bindE (getE id) (\<lambda>c.
     case ioCb c of
       None \<Rightarrow> failE E_IO_FAIL
     | Some cb \<Rightarrow> (case cb (wolfSPDM_GetSessionId c) tx cap (ioUserCtx c) of (r, w) \<Rightarrow>
         thenE (modE (\<lambda>d. d\<lparr>ioUserCtx := w\<rparr>)) (retE r)))"

section \<open>TCG binding framing\<close>

record WOLFSPDM_TCG_CLEAR_HDR =
  hdrTag :: word16
  hdrSize :: word32
  hdrConnectionHandle :: word32
  hdrFipsIndicator :: word16
  hdrReserved :: word32

definition wolfSPDM_BuildTcgClearMessage :: "bytes \<Rightarrow> nat \<Rightarrow> ('w, bytes) cop" where
  "wolfSPDM_BuildTcgClearMessage spdmPayload outBufSz = bindE (getE id) (\<lambda>c.
     let totalSz = (of_nat WOLFSPDM_TCG_HEADER_SIZE + of_nat (length spdmPayload) :: word32) in
     thenE (guardE (unat totalSz \<le> outBufSz) E_BUFFER_SMALL)
     (retE (wolfSPDM_WriteTcgHeader WOLFSPDM_TCG_TAG_CLEAR totalSz (connectionHandle c)
              (fipsIndicator c) @ spdmPayload)))"

definition wolfSPDM_ParseTcgClearMessage ::
  "bytes \<Rightarrow> nat \<Rightarrow> ('s, bytes \<times> WOLFSPDM_TCG_CLEAR_HDR) op" where
  "wolfSPDM_ParseTcgClearMessage inBuf cap =
     thenE (guardE (length inBuf \<ge> WOLFSPDM_TCG_HEADER_SIZE) E_BUFFER_SMALL)
     (let tag = SPDM_Get16BE inBuf 0; msgSize = SPDM_Get32BE inBuf 2 in
      thenE (guardE (tag = WOLFSPDM_TCG_TAG_CLEAR) E_PEER_ERROR)
      (thenE (guardE (unat msgSize \<ge> WOLFSPDM_TCG_HEADER_SIZE \<and> unat msgSize \<le> length inBuf)
                E_BUFFER_SMALL)
      (let payloadSz = unat msgSize - WOLFSPDM_TCG_HEADER_SIZE in
       thenE (guardE (payloadSz \<le> cap) E_BUFFER_SMALL)
       (retE (take payloadSz (drop WOLFSPDM_TCG_HEADER_SIZE inBuf),
              \<lparr>hdrTag = tag, hdrSize = msgSize, hdrConnectionHandle = SPDM_Get32BE inBuf 6,
               hdrFipsIndicator = SPDM_Get16BE inBuf 10, hdrReserved = SPDM_Get32BE inBuf 12\<rparr>)))))"

abbreviation (input) tcgBufSz :: nat where
  "tcgBufSz \<equiv> WOLFSPDM_MAX_MSG_SIZE + WOLFSPDM_AEAD_OVERHEAD + WOLFSPDM_TCG_HEADER_SIZE"

definition tcgFrame :: "bytes \<Rightarrow> ('w, bytes) cop" where
  "tcgFrame txBuf =
     (if txBuf \<noteq> [] \<and> txBuf ! 0 \<ge> 0x10 \<and> txBuf ! 0 \<le> 0x1F
      then wolfSPDM_BuildTcgClearMessage txBuf tcgBufSz
      else if length txBuf > tcgBufSz - WOLFSPDM_TCG_HEADER_SIZE
      then failE E_BUFFER_SMALL
      else bindE (getE id) (\<lambda>c.
        retE (wolfSPDM_WriteTcgHeader WOLFSPDM_TCG_TAG_SECURED
                (of_nat (WOLFSPDM_TCG_HEADER_SIZE + length txBuf))
                (connectionHandle c) (fipsIndicator c) @ txBuf)))"

definition wolfSPDM_TcgSendReceive :: "bytes \<Rightarrow> nat \<Rightarrow> ('w, bytes) cop" where
  "wolfSPDM_TcgSendReceive txBuf cap =
     bindE (tcgFrame txBuf) (\<lambda>tcgTx.
     bindE (callIo (Some tcgTx) (Some tcgBufSz)) (\<lambda>(rc, tcgRx).
     thenE (guardE (rc = 0 \<and> length tcgRx \<le> tcgBufSz) E_IO_FAIL)
     (thenE (guardE (length tcgRx \<ge> WOLFSPDM_TCG_HEADER_SIZE) E_BUFFER_SMALL)
     (thenE (guardE (SPDM_Get16BE tcgRx 0 = WOLFSPDM_TCG_TAG_CLEAR \<or>
                     SPDM_Get16BE tcgRx 0 = WOLFSPDM_TCG_TAG_SECURED) E_PEER_ERROR)
     (thenE (if SPDM_Get16BE tcgRx 10 \<noteq> 0
             then modE (\<lambda>c. c\<lparr>fipsIndicator := SPDM_Get16BE tcgRx 10\<rparr>) else retE ())
     (let msgSize = unat (SPDM_Get32BE tcgRx 2) in
      thenE (guardE (msgSize \<ge> WOLFSPDM_TCG_HEADER_SIZE \<and> msgSize \<le> length tcgRx) E_BUFFER_SMALL)
      (thenE (guardE (msgSize - WOLFSPDM_TCG_HEADER_SIZE \<le> cap) E_BUFFER_SMALL)
      (retE (take (msgSize - WOLFSPDM_TCG_HEADER_SIZE)
               (drop WOLFSPDM_TCG_HEADER_SIZE tcgRx))))))))))"

definition wolfSPDM_SendReceive :: "bytes \<Rightarrow> nat \<Rightarrow> ('w, bytes) cop" where
  "wolfSPDM_SendReceive txBuf cap = bindE (getE id) (\<lambda>c.
     thenE (guardE (\<not> Option.is_none (ioCb c)) E_IO_FAIL)
     (if wolfSPDM_IsTcgMode c then wolfSPDM_TcgSendReceive txBuf cap
      else bindE (callIo (Some txBuf) (Some cap)) (\<lambda>(rc, rx).
           thenE (guardE (rc = 0 \<and> length rx \<le> cap) E_IO_FAIL)
           (retE rx))))"

section \<open>VENDOR_DEFINED messages\<close>

definition wolfSPDM_BuildVendorDefined ::
  "byte \<Rightarrow> bytes \<Rightarrow> bytes \<Rightarrow> nat \<Rightarrow> ('s, bytes) op" where
  "wolfSPDM_BuildVendorDefined ver vdCode payload outBufSz =
     thenE (guardE (\<forall>i \<in> set [0..<WOLFSPDM_VDCODE_LEN]. i < length vdCode \<and> vdCode ! i \<noteq> 0)
              E_INVALID_ARG)
     (thenE (guardE (length payload \<le> 0xFFFF - WOLFSPDM_VDCODE_LEN) E_INVALID_ARG)
     (thenE (guardE (1 + 1 + 1 + 1 + 2 + 1 + 2 + WOLFSPDM_VDCODE_LEN + length payload \<le> outBufSz)
               E_BUFFER_SMALL)
     (retE ([ver, SPDM_VENDOR_DEFINED_REQUEST, 0, 0] @ SPDM_Set16LE 0x0001 @ [0] @
            SPDM_Set16LE (of_nat (WOLFSPDM_VDCODE_LEN + length payload)) @
            take WOLFSPDM_VDCODE_LEN vdCode @ payload))))"

definition wolfSPDM_ParseVendorDefined :: "bytes \<Rightarrow> nat \<Rightarrow> ('s, bytes \<times> bytes) op" where
  "wolfSPDM_ParseVendorDefined inBuf cap =
     thenE (guardE (length inBuf \<ge> 17) E_BUFFER_SMALL)
     (let off = 6 + 1 + unat (inBuf ! 6) in
      thenE (guardE (off + 2 \<le> length inBuf) E_BUFFER_SMALL)
      (let reqLength = unat (SPDM_Get16LE inBuf off); off2 = off + 2 in
       thenE (guardE (reqLength \<ge> WOLFSPDM_VDCODE_LEN) E_BUFFER_SMALL)
       (thenE (guardE (off2 + reqLength \<le> length inBuf) E_BUFFER_SMALL)
       (let dataLen = reqLength - WOLFSPDM_VDCODE_LEN in
        thenE (guardE (dataLen \<le> cap) E_BUFFER_SMALL)
        (retE (take WOLFSPDM_VDCODE_LEN (drop off2 inBuf),
               take dataLen (drop (off2 + WOLFSPDM_VDCODE_LEN) inBuf)))))))"

section \<open>Frames\<close>

lemma keeps_callIo [keeps_intros]:
  assumes "\<And>c x. f (c\<lparr>ioUserCtx := x\<rparr>) = f c"
  shows "keeps f (callIo tx cap)"
  unfolding callIo_def by (intro keeps_intros) (simp_all add: assms)

lemma keeps_BuildTcgClearMessage [keeps_intros]: "keeps f (wolfSPDM_BuildTcgClearMessage p n)"
  unfolding wolfSPDM_BuildTcgClearMessage_def by (intro keeps_intros)

lemma keeps_ParseTcgClearMessage [keeps_intros]: "keeps f (wolfSPDM_ParseTcgClearMessage p n)"
  unfolding wolfSPDM_ParseTcgClearMessage_def by (intro keeps_intros)

lemma keeps_tcgFrame [keeps_intros]: "keeps f (tcgFrame tx)"
  unfolding tcgFrame_def by (intro keeps_intros)

lemma keeps_TcgSendReceive [keeps_intros]:
  assumes "\<And>c x. f (c\<lparr>ioUserCtx := x\<rparr>) = f c" "\<And>c x. f (c\<lparr>fipsIndicator := x\<rparr>) = f c"
  shows "keeps f (wolfSPDM_TcgSendReceive tx cap)"
  unfolding wolfSPDM_TcgSendReceive_def by (intro keeps_intros) (simp_all add: assms)

lemma keeps_SendReceive [keeps_intros]:
  assumes "\<And>c x. f (c\<lparr>ioUserCtx := x\<rparr>) = f c" "\<And>c x. f (c\<lparr>fipsIndicator := x\<rparr>) = f c"
  shows "keeps f (wolfSPDM_SendReceive tx cap)"
  unfolding wolfSPDM_SendReceive_def by (intro keeps_intros) (simp_all add: assms)

lemma keeps_BuildVendorDefined [keeps_intros]: "keeps f (wolfSPDM_BuildVendorDefined v d p n)"
  unfolding wolfSPDM_BuildVendorDefined_def by (intro keeps_intros)

lemma keeps_ParseVendorDefined [keeps_intros]: "keeps f (wolfSPDM_ParseVendorDefined b n)"
  unfolding wolfSPDM_ParseVendorDefined_def by (intro keeps_intros)

section \<open>Round trips\<close>

lemma unat_of_nat_small:
  "n < 2 ^ LENGTH('a) \<Longrightarrow> unat (of_nat n :: 'a::len word) = n"
  by (simp add: unat_of_nat take_bit_nat_eq_self)

lemma tcg_clear_roundtrip:
  assumes "length payload + 16 < 2 ^ 32" "length payload + 16 \<le> outSz" "length payload \<le> cap"
  shows "\<exists>msg. wolfSPDM_BuildTcgClearMessage payload outSz c = (Inr msg, c) \<and>
     length msg = 16 + length payload \<and>
     wolfSPDM_ParseTcgClearMessage msg cap s =
       (Inr (payload, \<lparr>hdrTag = WOLFSPDM_TCG_TAG_CLEAR, hdrSize = of_nat (16 + length payload),
             hdrConnectionHandle = connectionHandle c, hdrFipsIndicator = fipsIndicator c,
             hdrReserved = 0\<rparr>), s)"
proof -
  have u: "unat (16 + of_nat (length payload) :: word32) = 16 + length payload"
    using unat_of_nat_small [of "16 + length payload", where 'a = 32] assms(1) by simp
  show ?thesis
    using assms u
    by (simp add: wolfSPDM_BuildTcgClearMessage_def wolfSPDM_ParseTcgClearMessage_def opE_defs
        Let_def codec_simps)
qed

lemma vendor_defined_roundtrip:
  assumes "length vdCode = 8" "0 \<notin> set vdCode" "length payload \<le> cap" "17 + length payload \<le> outSz"
    "length payload \<le> 65527"
  shows "\<exists>msg. wolfSPDM_BuildVendorDefined ver vdCode payload outSz s = (Inr msg, s) \<and>
     length msg = 17 + length payload \<and>
     wolfSPDM_ParseVendorDefined msg cap t = (Inr (vdCode, payload), t)"
proof -
  have u: "unat (8 + of_nat (length payload) :: word16) = 8 + length payload"
    using unat_of_nat_small [of "8 + length payload", where 'a = 16] assms(5) by simp
  have nz: "\<forall>i \<in> {0..<8}. i < length vdCode \<and> vdCode ! i \<noteq> 0"
    using assms(1,2) by (metis atLeastLessThan_iff nth_mem)
  show ?thesis
    using assms u nz
    by (simp add: wolfSPDM_BuildVendorDefined_def wolfSPDM_ParseVendorDefined_def opE_defs
        Let_def codec_simps nth_append)
qed

section \<open>What an exchange promises\<close>

text \<open>
  The contract the chunking layer and the session flows use of an exchange: what comes back
  fits the room given, and the negotiated parameters are not touched.
\<close>

locale exchange =
  fixes xfer :: "bytes \<Rightarrow> nat \<Rightarrow> ('w, bytes) cop"
  assumes xfer_fits: "xfer req cap c = (Inr rsp, d) \<Longrightarrow> length rsp \<le> cap"
    and xfer_version: "keeps spdmVersion (xfer req cap)"
    and xfer_limit: "keeps dataTransferSize (xfer req cap)"
begin

lemma xfer_wp:
  "wpE (xfer req cap)
     (\<lambda>rsp d. length rsp \<le> cap \<and> spdmVersion d = spdmVersion c \<and> dataTransferSize d = dataTransferSize c)
     (\<lambda>_ d. spdmVersion d = spdmVersion c \<and> dataTransferSize d = dataTransferSize c) c"
  using xfer_fits keepsD [OF xfer_version] keepsD [OF xfer_limit] by (fastforce simp: wpE_iff)

end

lemma wpE_callIo:
  "wpE (callIo tx cap) (\<lambda>_ _. True) (\<lambda>e d. e = E_IO_FAIL \<and> ioCb d = None) c"
  by (auto simp: callIo_def wp_simps split: option.splits prod.splits)

lemma TcgSendReceive_fits:
  "wolfSPDM_TcgSendReceive tx cap c = (Inr rsp, d) \<Longrightarrow> length rsp \<le> cap"
  by (auto simp: wolfSPDM_TcgSendReceive_def opE_defs Let_def split: prod.splits sum.splits if_splits)

lemma SendReceive_fits:
  "wolfSPDM_SendReceive tx cap c = (Inr rsp, d) \<Longrightarrow> length rsp \<le> cap"
  by (auto simp: wolfSPDM_SendReceive_def opE_defs TcgSendReceive_fits
      split: prod.splits sum.splits if_splits)

interpretation clear: exchange wolfSPDM_SendReceive
  by unfold_locales (auto intro!: keeps_intros dest: SendReceive_fits)

text \<open>Secured records never pass as clear messages: the frame tag follows the first byte.\<close>

lemma tcgFrame_tag:
  assumes "txBuf \<noteq> []" "\<not> (txBuf ! 0 \<ge> 0x10 \<and> txBuf ! 0 \<le> 0x1F)" "length txBuf \<le> 8272"
  shows "tcgFrame txBuf c = (Inr (wolfSPDM_WriteTcgHeader WOLFSPDM_TCG_TAG_SECURED
     (of_nat (16 + length txBuf)) (connectionHandle c) (fipsIndicator c) @ txBuf), c)"
  using assms by (auto simp: tcgFrame_def opE_defs)

end
