(* ===== verification/Spdm_Secured.thy ===== *)
theory Spdm_Secured
  imports Spdm_Transport
begin

text \<open>
  Secured records of \<^verbatim>\<open>src/spdm_secured.c\<close>: the two record formats (TCG binding, 14-byte
  header; MCTP, 8-byte header), sealing and opening with AES-GCM under the session keys and
  the sequence numbers, one secured transfer, and application data. The file's
  \<^verbatim>\<open>wolfSPDM_SecuredExchange\<close>, which chunks, is in \<open>Spdm_Chunk\<close>.

  \<^verbatim>\<open>plainSz\<close> is checked against \<^verbatim>\<open>WOLFSPDM_XFER_MSG_SIZE\<close> first, so none of the
  \<^verbatim>\<open>word16\<close> lengths of the code wraps; they are \<open>nat\<close> until they are written.
\<close>

section \<open>Sealing\<close>

definition tcgPadLen :: "nat \<Rightarrow> nat" where
  "tcgPadLen unpadded = (16 - unpadded mod 16) mod 16"

definition tcgPlainBuf :: "wc_env \<Rightarrow> bytes \<Rightarrow> ('w, bytes) cop" where
  "tcgPlainBuf K plain =
     (let padLen = tcgPadLen (2 + length plain) in
      bindE (if padLen > 0 then wolfSPDM_GetRandom K padLen else retE []) (\<lambda>pad.
      retE (SPDM_Set16LE (of_nat (length plain)) @ plain @ pad)))"

definition tcgRecordHdr :: "word32 \<Rightarrow> word64 \<Rightarrow> nat \<Rightarrow> bytes" where
  "tcgRecordHdr sid seqNum recordLen =
     SPDM_Set32LE sid @ SPDM_Set64LE seqNum @ SPDM_Set16LE (of_nat recordLen)"

definition mctpRecordHdr :: "word32 \<Rightarrow> word64 \<Rightarrow> nat \<Rightarrow> bytes" where
  "mctpRecordHdr sid seqNum recordLen =
     SPDM_Set32LE sid @ SPDM_Set16LE (ucast seqNum) @ SPDM_Set16LE (of_nat recordLen)"

definition mctpPlainBuf :: "bool \<Rightarrow> bytes \<Rightarrow> bytes" where
  "mctpPlainBuf appMsg plain =
     (if appMsg then SPDM_Set16LE (of_nat (length plain)) @ plain
      else SPDM_Set16LE (of_nat (1 + length plain)) @ [MCTP_MESSAGE_TYPE_SPDM] @ plain)"

definition sealRecord :: "wc_env \<Rightarrow> bytes \<Rightarrow> bytes \<Rightarrow> ('w, bytes) cop" where
  "sealRecord K hdr plainBuf = bindE (getE id) (\<lambda>c.
     thenE (guardE (wc_AesGcmSetKey K (reqDataKey c)) E_CRYPTO_FAIL)
     (bindE (liftE E_CRYPTO_FAIL (wc_AesGcmEncrypt K (reqDataKey c)
               (wolfSPDM_BuildIV (reqDataIv c) (reqSeqNum c)) plainBuf hdr)) (\<lambda>(ct, tag).
      thenE (modE (\<lambda>c. c\<lparr>reqSeqNum := reqSeqNum c + 1\<rparr>))
      (retE (hdr @ ct @ tag)))))"

definition wolfSPDM_EncryptRecord :: "wc_env \<Rightarrow> bool \<Rightarrow> bytes \<Rightarrow> nat \<Rightarrow> ('w, bytes) cop" where
  "wolfSPDM_EncryptRecord K appMsg plain cap =
     thenE (guardE (length plain \<le> WOLFSPDM_XFER_MSG_SIZE) E_BUFFER_SMALL)
     (bindE (getE id) (\<lambda>c.
      if wolfSPDM_IsTcgMode c
      then (let unpadded = 2 + length plain;
                plainBufSz = unpadded + tcgPadLen unpadded;
                recordLen = plainBufSz + WOLFSPDM_AEAD_TAG_SIZE in
            thenE (guardE (14 + plainBufSz + WOLFSPDM_AEAD_TAG_SIZE \<le> cap) E_BUFFER_SMALL)
            (bindE (tcgPlainBuf K plain) (\<lambda>plainBuf.
             sealRecord K (tcgRecordHdr (sessionId c) (reqSeqNum c) recordLen) plainBuf)))
      else (let appDataLen = (if appMsg then length plain else 1 + length plain);
                recordLen = 2 + appDataLen + WOLFSPDM_AEAD_TAG_SIZE in
            thenE (guardE (reqSeqNum c \<le> 0xFFFF) E_SEQUENCE)
            (thenE (guardE (8 + recordLen \<le> cap) E_BUFFER_SMALL)
            (sealRecord K (mctpRecordHdr (sessionId c) (reqSeqNum c) recordLen)
               (mctpPlainBuf appMsg plain))))))"

definition wolfSPDM_EncryptInternal :: "wc_env \<Rightarrow> bytes \<Rightarrow> nat \<Rightarrow> ('w, bytes) cop" where
  "wolfSPDM_EncryptInternal K plain cap = wolfSPDM_EncryptRecord K False plain cap"

section \<open>Opening\<close>

definition openRecord ::
  "wc_env \<Rightarrow> bytes \<Rightarrow> bytes \<Rightarrow> word64 \<Rightarrow> bytes \<Rightarrow> bytes \<Rightarrow> bytes \<Rightarrow> ('w, bytes) cop" where
  "openRecord K key baseIv seqNum aad ct tag =
     thenE (guardE (wc_AesGcmSetKey K key) E_CRYPTO_FAIL)
     (bindE (liftE E_DECRYPT_FAIL
               (wc_AesGcmDecrypt K key (wolfSPDM_BuildIV baseIv seqNum) ct tag aad)) (\<lambda>dec.
      thenE (modE (\<lambda>c. c\<lparr>rspSeqNum := rspSeqNum c + 1\<rparr>))
      (retE dec)))"

definition tcgOpen :: "wc_env \<Rightarrow> bytes \<Rightarrow> ('w, bytes) cop" where
  "tcgOpen K enc = bindE (getE id) (\<lambda>c.
     thenE (guardE (length enc \<ge> 14 + WOLFSPDM_AEAD_TAG_SIZE) E_BUFFER_SMALL)
     (let seqNum = SPDM_Get64LE enc 4; rspLen = unat (SPDM_Get16LE enc 12) in
      thenE (guardE (SPDM_Get32LE enc 0 = sessionId c) E_SESSION_INVALID)
      (thenE (guardE (seqNum = rspSeqNum c) E_SEQUENCE)
      (thenE (guardE (rspLen \<ge> WOLFSPDM_AEAD_TAG_SIZE \<and> length enc \<ge> 14 + rspLen) E_BUFFER_SMALL)
      (let cipherLen = rspLen - WOLFSPDM_AEAD_TAG_SIZE in
       thenE (guardE (cipherLen \<le> WOLFSPDM_XFER_MSG_SIZE + WOLFSPDM_SECURED_PAD) E_BUFFER_SMALL)
       (openRecord K (rspDataKey c) (rspDataIv c) seqNum (take 14 enc)
          (take cipherLen (drop 14 enc))
          (take WOLFSPDM_AEAD_TAG_SIZE (drop (14 + cipherLen) enc))))))))"

definition mctpOpen :: "wc_env \<Rightarrow> bytes \<Rightarrow> ('w, bytes) cop" where
  "mctpOpen K enc = bindE (getE id) (\<lambda>c.
     thenE (guardE (length enc \<ge> 8 + WOLFSPDM_AEAD_TAG_SIZE) E_BUFFER_SMALL)
     (let seqNum = SPDM_Get16LE enc 4; rspLen = unat (SPDM_Get16LE enc 6) in
      thenE (guardE (SPDM_Get32LE enc 0 = sessionId c) E_SESSION_INVALID)
      (thenE (guardE (ucast seqNum = rspSeqNum c) E_SEQUENCE)
      (thenE (guardE (rspLen \<ge> WOLFSPDM_AEAD_TAG_SIZE \<and> length enc = 8 + rspLen) E_BUFFER_SMALL)
      (let cipherLen = rspLen - WOLFSPDM_AEAD_TAG_SIZE in
       thenE (guardE (cipherLen \<le> WOLFSPDM_XFER_MSG_SIZE + WOLFSPDM_SECURED_PAD) E_BUFFER_SMALL)
       (openRecord K (rspDataKey c) (rspDataIv c) (ucast seqNum) (take 8 enc)
          (take cipherLen (drop 8 enc))
          (take WOLFSPDM_AEAD_TAG_SIZE (drop (8 + cipherLen) enc))))))))"

definition tcgPayload :: "bytes \<Rightarrow> nat \<Rightarrow> ('s, bytes) op" where
  "tcgPayload dec cap =
     thenE (guardE (length dec \<ge> 2) E_BUFFER_SMALL)
     (let appDataLen = unat (SPDM_Get16LE dec 0) in
      thenE (guardE (2 + appDataLen \<le> length dec \<and> appDataLen \<le> cap) E_BUFFER_SMALL)
      (retE (take appDataLen (drop 2 dec))))"

definition mctpPayload :: "bool \<Rightarrow> bytes \<Rightarrow> nat \<Rightarrow> ('s, bytes) op" where
  "mctpPayload appMsg dec cap =
     thenE (guardE (length dec \<ge> 2) E_BUFFER_SMALL)
     (let appDataLen = unat (SPDM_Get16LE dec 0); typeSz = (if appMsg then 0 else 1) in
      thenE (guardE (appDataLen \<ge> 1 \<and> 2 + appDataLen \<le> length dec \<and> appDataLen - typeSz \<le> cap)
               E_BUFFER_SMALL)
      (thenE (guardE (appMsg \<or> dec ! 2 = MCTP_MESSAGE_TYPE_SPDM) E_DECRYPT_FAIL)
      (retE (take (appDataLen - typeSz) (drop (2 + typeSz) dec)))))"

definition wolfSPDM_DecryptRecord :: "wc_env \<Rightarrow> bool \<Rightarrow> bytes \<Rightarrow> nat \<Rightarrow> ('w, bytes) cop" where
  "wolfSPDM_DecryptRecord K appMsg enc cap = bindE (getE wolfSPDM_IsTcgMode) (\<lambda>tcg.
     if tcg then bindE (tcgOpen K enc) (\<lambda>dec. tcgPayload dec cap)
     else bindE (mctpOpen K enc) (\<lambda>dec. mctpPayload appMsg dec cap))"

definition wolfSPDM_DecryptInternal :: "wc_env \<Rightarrow> bytes \<Rightarrow> nat \<Rightarrow> ('w, bytes) cop" where
  "wolfSPDM_DecryptInternal K enc cap = wolfSPDM_DecryptRecord K False enc cap"

section \<open>Transfers\<close>

abbreviation (input) xferBufSz :: nat where
  "xferBufSz \<equiv> WOLFSPDM_XFER_MSG_SIZE + WOLFSPDM_AEAD_OVERHEAD"

definition wolfSPDM_SecuredXfer :: "wc_env \<Rightarrow> bytes \<Rightarrow> nat \<Rightarrow> ('w, bytes) cop" where
  "wolfSPDM_SecuredXfer K cmdPlain cap =
     bindE (wolfSPDM_EncryptInternal K cmdPlain xferBufSz) (\<lambda>encBuf.
     bindE (wolfSPDM_SendReceive encBuf xferBufSz) (\<lambda>rxBuf.
     wolfSPDM_DecryptInternal K rxBuf cap))"

definition wolfSPDM_EncryptMessage :: "wc_env \<Rightarrow> bytes \<Rightarrow> nat \<Rightarrow> ('w, bytes) cop" where
  "wolfSPDM_EncryptMessage K plain cap = bindE (getE state) (\<lambda>st.
     thenE (guardE (st = WOLFSPDM_STATE_CONNECTED) E_NOT_CONNECTED)
     (wolfSPDM_EncryptRecord K False plain cap))"

definition wolfSPDM_DecryptMessage :: "wc_env \<Rightarrow> bytes \<Rightarrow> nat \<Rightarrow> ('w, bytes) cop" where
  "wolfSPDM_DecryptMessage K enc cap = bindE (getE state) (\<lambda>st.
     thenE (guardE (st = WOLFSPDM_STATE_CONNECTED) E_NOT_CONNECTED)
     (wolfSPDM_DecryptRecord K False enc cap))"

definition wolfSPDM_AppDataReady :: "('w, unit) cop" where
  "wolfSPDM_AppDataReady = bindE (getE id) (\<lambda>c.
     thenE (guardE (state c = WOLFSPDM_STATE_CONNECTED) E_NOT_CONNECTED)
     (thenE (guardE (\<not> wolfSPDM_IsTcgMode c) E_NOT_AVAILABLE)
     (guardE (\<not> Option.is_none (ioCb c)) E_IO_FAIL)))"

definition wolfSPDM_SendData :: "wc_env \<Rightarrow> bytes \<Rightarrow> ('w, unit) cop" where
  "wolfSPDM_SendData K data =
     thenE (guardE (data \<noteq> []) E_INVALID_ARG)
     (thenE (guardE (data ! 0 \<noteq> MCTP_MESSAGE_TYPE_SPDM) E_INVALID_ARG)
     (thenE wolfSPDM_AppDataReady
     (bindE (wolfSPDM_EncryptRecord K True data xferBufSz) (\<lambda>encBuf.
      bindE (callIo (Some encBuf) None) (\<lambda>(rc, _).
      guardE (rc = 0) E_IO_FAIL)))))"

definition wolfSPDM_ReceiveData :: "wc_env \<Rightarrow> nat \<Rightarrow> ('w, bytes) cop" where
  "wolfSPDM_ReceiveData K cap =
     thenE wolfSPDM_AppDataReady
     (bindE (callIo None (Some xferBufSz)) (\<lambda>(rc, rxBuf).
      thenE (guardE (rc = 0 \<and> length rxBuf \<le> xferBufSz) E_IO_FAIL)
      (bindE (wolfSPDM_DecryptRecord K True rxBuf cap) (\<lambda>data.
       if data ! 0 = MCTP_MESSAGE_TYPE_SPDM
       then thenE (if length data \<ge> 4 \<and> data ! 2 = SPDM_ERROR
                   then modE (\<lambda>c. c\<lparr>lastPeerErrorCode := data ! 3\<rparr>) else retE ())
            (failE E_PEER_ERROR)
       else retE data))))"

section \<open>Frames\<close>

lemma keeps_tcgPlainBuf [keeps_intros]:
  assumes "\<And>c x. f (c\<lparr>rng := x\<rparr>) = f c"
  shows "keeps f (tcgPlainBuf K p)"
  unfolding tcgPlainBuf_def by (intro keeps_intros) (simp_all add: assms)

lemma keeps_sealRecord [keeps_intros]:
  assumes "\<And>c x. f (c\<lparr>reqSeqNum := x\<rparr>) = f c"
  shows "keeps f (sealRecord K h p)"
  unfolding sealRecord_def by (intro keeps_intros) (simp_all add: assms)

lemma keeps_EncryptRecord [keeps_intros]:
  assumes "\<And>c x. f (c\<lparr>rng := x\<rparr>) = f c" "\<And>c x. f (c\<lparr>reqSeqNum := x\<rparr>) = f c"
  shows "keeps f (wolfSPDM_EncryptRecord K a p n)"
  unfolding wolfSPDM_EncryptRecord_def by (intro keeps_intros) (simp_all add: assms)

lemma keeps_openRecord [keeps_intros]:
  assumes "\<And>c x. f (c\<lparr>rspSeqNum := x\<rparr>) = f c"
  shows "keeps f (openRecord K k v n a ct tag)"
  unfolding openRecord_def by (intro keeps_intros) (simp_all add: assms)

lemma keeps_tcgOpen [keeps_intros]:
  assumes "\<And>c x. f (c\<lparr>rspSeqNum := x\<rparr>) = f c"
  shows "keeps f (tcgOpen K e)"
  unfolding tcgOpen_def by (intro keeps_intros) (simp_all add: assms)

lemma keeps_mctpOpen [keeps_intros]:
  assumes "\<And>c x. f (c\<lparr>rspSeqNum := x\<rparr>) = f c"
  shows "keeps f (mctpOpen K e)"
  unfolding mctpOpen_def by (intro keeps_intros) (simp_all add: assms)

lemma keeps_tcgPayload [keeps_intros]: "keeps f (tcgPayload d n)"
  unfolding tcgPayload_def by (intro keeps_intros)

lemma keeps_mctpPayload [keeps_intros]: "keeps f (mctpPayload a d n)"
  unfolding mctpPayload_def by (intro keeps_intros)

lemma keeps_DecryptRecord [keeps_intros]:
  assumes "\<And>c x. f (c\<lparr>rspSeqNum := x\<rparr>) = f c"
  shows "keeps f (wolfSPDM_DecryptRecord K a e n)"
  unfolding wolfSPDM_DecryptRecord_def by (intro keeps_intros) (simp_all add: assms)

lemma keeps_SecuredXfer [keeps_intros]:
  assumes "\<And>c x. f (c\<lparr>rng := x\<rparr>) = f c" "\<And>c x. f (c\<lparr>reqSeqNum := x\<rparr>) = f c"
    "\<And>c x. f (c\<lparr>rspSeqNum := x\<rparr>) = f c" "\<And>c x. f (c\<lparr>ioUserCtx := x\<rparr>) = f c"
    "\<And>c x. f (c\<lparr>fipsIndicator := x\<rparr>) = f c"
  shows "keeps f (wolfSPDM_SecuredXfer K p n)"
  unfolding wolfSPDM_SecuredXfer_def wolfSPDM_EncryptInternal_def wolfSPDM_DecryptInternal_def
  by (intro keeps_intros) (simp_all add: assms)

lemma keeps_AppDataReady [keeps_intros]: "keeps f wolfSPDM_AppDataReady"
  unfolding wolfSPDM_AppDataReady_def by (intro keeps_intros)

lemma DecryptRecord_fits:
  "wolfSPDM_DecryptRecord K a enc cap c = (Inr p, d) \<Longrightarrow> length p \<le> cap"
  by (auto simp: wolfSPDM_DecryptRecord_def tcgPayload_def mctpPayload_def opE_defs Let_def
      split: prod.splits sum.splits if_splits)

lemma SecuredXfer_fits:
  "wolfSPDM_SecuredXfer K tx cap c = (Inr rsp, d) \<Longrightarrow> length rsp \<le> cap"
  by (auto simp: wolfSPDM_SecuredXfer_def wolfSPDM_DecryptInternal_def bindE_def DecryptRecord_fits
      split: prod.splits sum.splits)

interpretation secured: exchange "wolfSPDM_SecuredXfer K" for K
  by unfold_locales (auto intro!: keeps_intros dest: SecuredXfer_fits)

section \<open>Sealed records open at the peer\<close>

text \<open>Documented wolfCrypt behaviour: AES-GCM inverts, tags are 16 bytes, the RNG fills its buffer.\<close>

definition wc_gcm_ok :: "wc_env \<Rightarrow> bool" where
  "wc_gcm_ok K \<longleftrightarrow> (\<forall>key iv pt aad ct tag. wc_AesGcmEncrypt K key iv pt aad = Some (ct, tag) \<longrightarrow>
     length ct = length pt \<and> length tag = WOLFSPDM_AEAD_TAG_SIZE \<and>
     wc_AesGcmDecrypt K key iv ct tag aad = Some pt)"

definition wc_rng_ok :: "wc_env \<Rightarrow> bool" where
  "wc_rng_ok K \<longleftrightarrow> (\<forall>r n out r'. wc_RNG_GenerateBlock K r n = (Some out, r') \<longrightarrow> length out = n)"

text \<open>The receiving half of \<open>d\<close> is set up for what \<open>c\<close> sends next.\<close>

definition mirrored :: "'w WOLFSPDM_CTX \<Rightarrow> 'v WOLFSPDM_CTX \<Rightarrow> bool" where
  "mirrored c d \<longleftrightarrow> wolfSPDM_IsTcgMode d = wolfSPDM_IsTcgMode c \<and> sessionId d = sessionId c \<and>
     rspDataKey d = reqDataKey c \<and> rspDataIv d = reqDataIv c \<and> rspSeqNum d = reqSeqNum c"

lemma wc_gcm_okD:
  assumes "wc_gcm_ok K" "wc_AesGcmEncrypt K key iv pt aad = Some (ct, tag)"
  shows "length ct = length pt" "length tag = 16" "wc_AesGcmDecrypt K key iv ct tag aad = Some pt"
  using assms by (auto simp: wc_gcm_ok_def)

lemma sealRecord_spec:
  assumes "sealRecord K hdr pt c = (Inr enc, c')"
  obtains ct tag where "wc_AesGcmSetKey K (reqDataKey c)"
    "wc_AesGcmEncrypt K (reqDataKey c) (wolfSPDM_BuildIV (reqDataIv c) (reqSeqNum c)) pt hdr = Some (ct, tag)"
    "enc = hdr @ ct @ tag" "c' = c\<lparr>reqSeqNum := reqSeqNum c + 1\<rparr>"
  using assms by (auto simp: sealRecord_def opE_defs split: option.splits if_splits)

lemma length_record_hdrs [simp]:
  "length (tcgRecordHdr sid n l) = 14" "length (mctpRecordHdr sid n l) = 8"
  by (simp_all add: tcgRecordHdr_def mctpRecordHdr_def)

lemma tcgRecordHdr_fields [codec_simps]:
  "SPDM_Get32LE (tcgRecordHdr sid n l @ xs) 0 = sid"
  "SPDM_Get64LE (tcgRecordHdr sid n l @ xs) 4 = n"
  "SPDM_Get16LE (tcgRecordHdr sid n l @ xs) 12 = of_nat l"
  by (simp_all add: tcgRecordHdr_def codec_simps)

lemma mctpRecordHdr_fields [codec_simps]:
  "SPDM_Get32LE (mctpRecordHdr sid n l @ xs) 0 = sid"
  "SPDM_Get16LE (mctpRecordHdr sid n l @ xs) 4 = ucast n"
  "SPDM_Get16LE (mctpRecordHdr sid n l @ xs) 6 = of_nat l"
  by (simp_all add: mctpRecordHdr_def codec_simps)

lemma tcgOpen_sealed:
  assumes K: "wc_gcm_ok K" and m: "mirrored c d"
    and s: "sealRecord K (tcgRecordHdr (sessionId c) (reqSeqNum c) (length pt + 16)) pt c = (Inr enc, c')"
    and len: "length pt \<le> 8240"
  shows "tcgOpen K enc d = (Inr pt, d\<lparr>rspSeqNum := rspSeqNum d + 1\<rparr>)"
    and "mirrored c' (d\<lparr>rspSeqNum := rspSeqNum d + 1\<rparr>)"
    and "tcgOpen K enc (d\<lparr>rspSeqNum := rspSeqNum d + 1\<rparr>) = (Inl E_SEQUENCE, d\<lparr>rspSeqNum := rspSeqNum d + 1\<rparr>)"
proof -
  obtain ct tag where k: "wc_AesGcmSetKey K (reqDataKey c)"
    and e: "wc_AesGcmEncrypt K (reqDataKey c) (wolfSPDM_BuildIV (reqDataIv c) (reqSeqNum c)) pt
              (tcgRecordHdr (sessionId c) (reqSeqNum c) (length pt + 16)) = Some (ct, tag)"
    and enc: "enc = tcgRecordHdr (sessionId c) (reqSeqNum c) (length pt + 16) @ ct @ tag"
    and c': "c' = c\<lparr>reqSeqNum := reqSeqNum c + 1\<rparr>"
    using s by (rule sealRecord_spec)
  note g = wc_gcm_okD [OF K e]
  have u: "unat (of_nat (length pt + 16) :: word16) = length pt + 16"
    using len by (intro unat_of_nat_small) simp
  show "tcgOpen K enc d = (Inr pt, d\<lparr>rspSeqNum := rspSeqNum d + 1\<rparr>)"
    using m k g len u
    by (simp add: tcgOpen_def openRecord_def opE_defs Let_def enc codec_simps mirrored_def)
  show "mirrored c' (d\<lparr>rspSeqNum := rspSeqNum d + 1\<rparr>)"
    using m by (simp add: c' mirrored_def wolfSPDM_IsTcgMode_def)
  show "tcgOpen K enc (d\<lparr>rspSeqNum := rspSeqNum d + 1\<rparr>) = (Inl E_SEQUENCE, d\<lparr>rspSeqNum := rspSeqNum d + 1\<rparr>)"
    using m g by (simp add: tcgOpen_def opE_defs Let_def enc codec_simps mirrored_def)
qed

lemma ucast_ucast_seq: "(n :: word64) \<le> 0xFFFF \<Longrightarrow> ucast (ucast n :: word16) = n"
proof -
  assume "n \<le> 0xFFFF"
  then have "unat n \<le> 65535" by (simp add: word_le_nat_alt)
  then show ?thesis
    by (simp add: word_eq_iff_unsigned unsigned_ucast_eq unsigned_take_bit_eq take_bit_nat_eq_self word_unat_eq_iff)
qed

lemma mctpOpen_sealed:
  assumes K: "wc_gcm_ok K" and m: "mirrored c d"
    and s: "sealRecord K (mctpRecordHdr (sessionId c) (reqSeqNum c) (length pt + 16)) pt c = (Inr enc, c')"
    and len: "length pt \<le> 8240" and sq: "reqSeqNum c \<le> 0xFFFF"
  shows "mctpOpen K enc d = (Inr pt, d\<lparr>rspSeqNum := rspSeqNum d + 1\<rparr>)"
    and "mirrored c' (d\<lparr>rspSeqNum := rspSeqNum d + 1\<rparr>)"
    and "mctpOpen K enc (d\<lparr>rspSeqNum := rspSeqNum d + 1\<rparr>) = (Inl E_SEQUENCE, d\<lparr>rspSeqNum := rspSeqNum d + 1\<rparr>)"
proof -
  obtain ct tag where k: "wc_AesGcmSetKey K (reqDataKey c)"
    and e: "wc_AesGcmEncrypt K (reqDataKey c) (wolfSPDM_BuildIV (reqDataIv c) (reqSeqNum c)) pt
              (mctpRecordHdr (sessionId c) (reqSeqNum c) (length pt + 16)) = Some (ct, tag)"
    and enc: "enc = mctpRecordHdr (sessionId c) (reqSeqNum c) (length pt + 16) @ ct @ tag"
    and c': "c' = c\<lparr>reqSeqNum := reqSeqNum c + 1\<rparr>"
    using s by (rule sealRecord_spec)
  note g = wc_gcm_okD [OF K e]
  have u: "unat (of_nat (length pt + 16) :: word16) = length pt + 16"
    using len by (intro unat_of_nat_small) simp
  note q = ucast_ucast_seq [OF sq]
  show "mctpOpen K enc d = (Inr pt, d\<lparr>rspSeqNum := rspSeqNum d + 1\<rparr>)"
    using m k g len u q
    by (simp add: mctpOpen_def openRecord_def opE_defs Let_def enc codec_simps mirrored_def)
  show "mirrored c' (d\<lparr>rspSeqNum := rspSeqNum d + 1\<rparr>)"
    using m by (simp add: c' mirrored_def wolfSPDM_IsTcgMode_def)
  show "mctpOpen K enc (d\<lparr>rspSeqNum := rspSeqNum d + 1\<rparr>) = (Inl E_SEQUENCE, d\<lparr>rspSeqNum := rspSeqNum d + 1\<rparr>)"
    using m g q by (simp add: mctpOpen_def opE_defs Let_def enc codec_simps mirrored_def)
qed

lemma GetRandom_spec:
  assumes "wc_rng_ok K" "wolfSPDM_GetRandom K n c = (Inr out, d)"
  shows "length out = n" "d = c\<lparr>rng := rng d\<rparr>"
  using assms
  by (auto simp: wolfSPDM_GetRandom_def opE_defs wc_rng_ok_def split: if_splits prod.splits option.splits)

lemma tcgPlainBuf_payload:
  assumes K: "wc_rng_ok K" and b: "tcgPlainBuf K plain c = (Inr pt, c1)"
    and len: "length plain \<le> 8192"
  shows "length pt = 2 + length plain + tcgPadLen (2 + length plain)"
    and "length plain \<le> cap \<Longrightarrow> tcgPayload pt cap s = (Inr plain, s)"
    and "c1 = c\<lparr>rng := rng c1\<rparr>"
proof -
  obtain pad where pt: "pt = SPDM_Set16LE (of_nat (length plain)) @ plain @ pad"
    and pad: "length pad = tcgPadLen (2 + length plain)" and c1: "c1 = c\<lparr>rng := rng c1\<rparr>"
    using b GetRandom_spec [OF K, of "tcgPadLen (2 + length plain)" c]
    by (fastforce simp: tcgPlainBuf_def retE_def bindE_def Let_def
        split: if_splits prod.splits sum.splits)
  have u: "unat (of_nat (length plain) :: word16) = length plain"
    using len by (intro unat_of_nat_small) simp
  show "length pt = 2 + length plain + tcgPadLen (2 + length plain)"
    by (simp add: pt pad)
  show "length plain \<le> cap \<Longrightarrow> tcgPayload pt cap s = (Inr plain, s)"
    using u by (simp add: tcgPayload_def opE_defs Let_def pt codec_simps)
  show "c1 = c\<lparr>rng := rng c1\<rparr>" by (fact c1)
qed

lemma tcgPadLen_le: "tcgPadLen n \<le> 15"
  by (simp add: tcgPadLen_def)

lemma mctpPlainBuf_payload:
  assumes len: "length plain \<le> 8192" "length plain \<le> cap" "a \<Longrightarrow> plain \<noteq> []"
  shows "mctpPayload a (mctpPlainBuf a plain) cap s = (Inr plain, s)"
proof -
  have u: "unat (of_nat (length plain) :: word16) = length plain"
    "unat (of_nat (1 + length plain) :: word16) = 1 + length plain"
    using len(1) by (intro unat_of_nat_small; simp)+
  show ?thesis
    using u len
    by (cases a) (simp_all add: mctpPayload_def mctpPlainBuf_def opE_defs Let_def codec_simps nth_append Suc_le_eq)
qed

lemma length_mctpPlainBuf:
  "length (mctpPlainBuf a plain) = 2 + (if a then length plain else 1 + length plain)"
  by (simp add: mctpPlainBuf_def)

lemma EncryptRecord_opens:
  assumes K: "wc_gcm_ok K" "wc_rng_ok K" and m: "mirrored c d"
    and e: "wolfSPDM_EncryptRecord K a plain cap c = (Inr enc, c')"
    and fits: "length plain \<le> cap'" and ne: "plain \<noteq> []"
  shows "\<exists>d'. wolfSPDM_DecryptRecord K a enc cap' d = (Inr plain, d') \<and> mirrored c' d' \<and>
     wolfSPDM_DecryptRecord K a enc cap' d' = (Inl E_SEQUENCE, d')"
proof -
  have len: "length plain \<le> 8192"
    using e by (auto simp: wolfSPDM_EncryptRecord_def opE_defs split: if_splits)
  let ?d = "d\<lparr>rspSeqNum := rspSeqNum d + 1\<rparr>"
  have md: "wolfSPDM_IsTcgMode d = wolfSPDM_IsTcgMode c" "wolfSPDM_IsTcgMode ?d = wolfSPDM_IsTcgMode d"
    using m by (simp_all add: mirrored_def wolfSPDM_IsTcgMode_def)
  show ?thesis
  proof (cases "wolfSPDM_IsTcgMode c")
    case True
    obtain pt c1 where b: "tcgPlainBuf K plain c = (Inr pt, c1)"
      and s: "sealRecord K (tcgRecordHdr (sessionId c) (reqSeqNum c)
           (2 + length plain + tcgPadLen (2 + length plain) + 16)) pt c1 = (Inr enc, c')"
      using e True len
      by (auto simp: wolfSPDM_EncryptRecord_def opE_defs Let_def split: if_splits prod.splits sum.splits)
    note pb = tcgPlainBuf_payload [OF K(2) b len]
    have c1: "sessionId c1 = sessionId c" "reqSeqNum c1 = reqSeqNum c" "mirrored c1 d"
      using m by (subst pb(3), simp add: mirrored_def wolfSPDM_IsTcgMode_def)+
    note o = tcgOpen_sealed [OF K(1) c1(3), of pt enc c', unfolded c1(1,2) pb(1)]
    have l: "length pt \<le> 8240" using pb(1) len tcgPadLen_le [of "2 + length plain"] by simp
    then show ?thesis
      using o [OF s] pb(1) pb(2) [OF fits] True md
      by (intro exI [of _ ?d]) (simp add: wolfSPDM_DecryptRecord_def bindE_def getE_def)
  next
    case False
    have sq: "reqSeqNum c \<le> 0xFFFF"
      and s: "sealRecord K (mctpRecordHdr (sessionId c) (reqSeqNum c)
           (length (mctpPlainBuf a plain) + 16)) (mctpPlainBuf a plain) c = (Inr enc, c')"
      using e False len
      by (auto simp: wolfSPDM_EncryptRecord_def opE_defs Let_def length_mctpPlainBuf split: if_splits)
    have l: "length (mctpPlainBuf a plain) \<le> 8240" using len by (simp add: length_mctpPlainBuf)
    show ?thesis
      using mctpOpen_sealed [OF K(1) m s l sq] mctpPlainBuf_payload [OF len fits ne] False md
      by (intro exI [of _ ?d]) (simp add: wolfSPDM_DecryptRecord_def bindE_def getE_def)
  qed
qed

section \<open>Only authentic records are accepted\<close>

text \<open>
  The record names this session and the expected sequence number, and its tag verifies under
  the incoming key with the header as associated data.
\<close>

definition recordAuthentic :: "wc_env \<Rightarrow> 'w WOLFSPDM_CTX \<Rightarrow> bytes \<Rightarrow> bool" where
  "recordAuthentic K c enc \<longleftrightarrow>
     (let h = (if wolfSPDM_IsTcgMode c then 14 else 8);
          n = unat (SPDM_Get16LE enc (h - 2)) - WOLFSPDM_AEAD_TAG_SIZE in
     SPDM_Get32LE enc 0 = sessionId c \<and>
     (if wolfSPDM_IsTcgMode c then SPDM_Get64LE enc 4 else ucast (SPDM_Get16LE enc 4)) = rspSeqNum c \<and>
     wc_AesGcmDecrypt K (rspDataKey c) (wolfSPDM_BuildIV (rspDataIv c) (rspSeqNum c))
       (take n (drop h enc)) (take 16 (drop (h + n) enc)) (take h enc) \<noteq> None)"

abbreviation (input) nextRsp :: "'w WOLFSPDM_CTX \<Rightarrow> 'w WOLFSPDM_CTX" where
  "nextRsp c \<equiv> c\<lparr>rspSeqNum := rspSeqNum c + 1\<rparr>"

lemma tcgOpen_authentic:
  "wolfSPDM_IsTcgMode c \<Longrightarrow>
   wpE (tcgOpen K enc) (\<lambda>_ d. recordAuthentic K c enc \<and> d = nextRsp c) (\<lambda>_ d. d = c) c"
  by (auto simp: tcgOpen_def openRecord_def recordAuthentic_def wp_simps Let_def split: option.splits)

lemma mctpOpen_authentic:
  "\<not> wolfSPDM_IsTcgMode c \<Longrightarrow>
   wpE (mctpOpen K enc) (\<lambda>_ d. recordAuthentic K c enc \<and> d = nextRsp c) (\<lambda>_ d. d = c) c"
  by (auto simp: mctpOpen_def openRecord_def recordAuthentic_def wp_simps Let_def split: option.splits)

lemma wpE_payloads:
  "wpE (tcgPayload dec cap) (\<lambda>p d. length p \<le> cap \<and> d = s) (\<lambda>_ d. d = s) s"
  "wpE (mctpPayload a dec cap) (\<lambda>p d. length p \<le> cap \<and> d = s) (\<lambda>_ d. d = s) s"
  by (auto simp: tcgPayload_def mctpPayload_def wp_simps Let_def)

lemma DecryptRecord_authentic:
  "wpE (wolfSPDM_DecryptRecord K a enc cap)
     (\<lambda>p d. recordAuthentic K c enc \<and> d = nextRsp c \<and> length p \<le> cap)
     (\<lambda>_ d. d = c \<or> recordAuthentic K c enc \<and> d = nextRsp c) c"
proof (cases "wolfSPDM_IsTcgMode c")
  case True
  have "wpE (bindE (tcgOpen K enc) (\<lambda>dec. tcgPayload dec cap))
     (\<lambda>p d. recordAuthentic K c enc \<and> d = nextRsp c \<and> length p \<le> cap)
     (\<lambda>_ d. d = c \<or> recordAuthentic K c enc \<and> d = nextRsp c) c"
    by (subst wpE_bind, rule wpE_mono [OF tcgOpen_authentic [OF True]])
       (rule wpE_mono [OF wpE_payloads(1)], simp_all)
  with True show ?thesis by (simp add: wolfSPDM_DecryptRecord_def wpE_bind [of "getE _"] wpE_get)
next
  case False
  have "wpE (bindE (mctpOpen K enc) (\<lambda>dec. mctpPayload a dec cap))
     (\<lambda>p d. recordAuthentic K c enc \<and> d = nextRsp c \<and> length p \<le> cap)
     (\<lambda>_ d. d = c \<or> recordAuthentic K c enc \<and> d = nextRsp c) c"
    by (subst wpE_bind, rule wpE_mono [OF mctpOpen_authentic [OF False]])
       (rule wpE_mono [OF wpE_payloads(2)], simp_all)
  with False show ?thesis by (simp add: wolfSPDM_DecryptRecord_def wpE_bind [of "getE _"] wpE_get)
qed

lemma EncryptRecord_seq:
  "wpE (wolfSPDM_EncryptRecord K a plain cap)
     (\<lambda>_ d. reqSeqNum d = reqSeqNum c + 1) (\<lambda>_ d. reqSeqNum d = reqSeqNum c) c"
proof -
  have seal: "wpE (sealRecord K h p) (\<lambda>_ d. reqSeqNum d = reqSeqNum c + 1)
      (\<lambda>_ d. reqSeqNum d = reqSeqNum c) s" if "reqSeqNum s = reqSeqNum c" for h p and s :: "'a WOLFSPDM_CTX"
    using that by (auto simp: sealRecord_def wp_simps split: option.splits)
  have pad: "wpE (tcgPlainBuf K plain) (\<lambda>_ d. reqSeqNum d = reqSeqNum c) (\<lambda>_ d. reqSeqNum d = reqSeqNum c) c"
    by (rule keeps_wpE) (simp add: keeps_tcgPlainBuf)
  show ?thesis
    unfolding wolfSPDM_EncryptRecord_def
    by (auto simp: wp_simps Let_def intro!: seal wpE_mono [OF pad])
qed

section \<open>No nonce is used twice\<close>

text \<open>
  The IVs that AES-GCM is called with are observed by running the code on a wolfCrypt whose AES-GCM
  gives the IV it was called with back as the ciphertext: they are what then follows the record
  headers. \<open>sealAll\<close> has the records that a sequence of sends gives away, in order; a failed send
  gives none away.
\<close>

definition gcmProbe :: "wc_env \<Rightarrow> wc_env" where
  "gcmProbe K = K\<lparr>wc_AesGcmEncrypt := \<lambda>key iv pt aad. map_option (\<lambda>_. (iv, [])) (wc_AesGcmEncrypt K key iv pt aad)\<rparr>"

abbreviation (input) recordHdrSz :: "'w WOLFSPDM_CTX \<Rightarrow> nat" where
  "recordHdrSz c \<equiv> (if wolfSPDM_IsTcgMode c then 14 else 8)"

primrec sealAll :: "wc_env \<Rightarrow> (bool \<times> bytes \<times> nat) list \<Rightarrow> 'w WOLFSPDM_CTX \<Rightarrow> bytes list" where
  "sealAll K [] c = []"
| "sealAll K (s # ss) c = (case s of (a, p, cap) \<Rightarrow> (case wolfSPDM_EncryptRecord K a p cap c of
     (Inl _, d) \<Rightarrow> sealAll K ss d
   | (Inr enc, d) \<Rightarrow> enc # sealAll K ss d))"

definition sealIvs :: "wc_env \<Rightarrow> (bool \<times> bytes \<times> nat) list \<Rightarrow> 'w WOLFSPDM_CTX \<Rightarrow> bytes list" where
  "sealIvs K ss c = map (drop (recordHdrSz c)) (sealAll (gcmProbe K) ss c)"

text \<open>The record is what AES-GCM made with this IV, under the outgoing key.\<close>

definition sealedWith :: "wc_env \<Rightarrow> 'w WOLFSPDM_CTX \<Rightarrow> bytes \<Rightarrow> bytes \<Rightarrow> bool" where
  "sealedWith K c iv enc \<longleftrightarrow> (\<exists>hdr pt ct tag. length hdr = recordHdrSz c \<and> enc = hdr @ ct @ tag \<and>
     wc_AesGcmEncrypt K (reqDataKey c) iv pt hdr = Some (ct, tag))"

lemma sealRecord_probe:
  "sealRecord (gcmProbe K) hdr pt c = (case sealRecord K hdr pt c of
     (Inl e, d) \<Rightarrow> (Inl e, d)
   | (Inr _, d) \<Rightarrow> (Inr (hdr @ wolfSPDM_BuildIV (reqDataIv c) (reqSeqNum c)), d))"
  by (simp add: sealRecord_def gcmProbe_def opE_defs split: option.split)

lemma tcgPlainBuf_probe: "tcgPlainBuf (gcmProbe K) plain = tcgPlainBuf K plain"
  unfolding tcgPlainBuf_def wolfSPDM_GetRandom_def gcmProbe_def by (simp add: Let_def)

lemma sealRecord_sealed:
  assumes "sealRecord K hdr pt c = (Inr enc, d)" "length hdr = recordHdrSz c"
  shows "sealedWith K c (wolfSPDM_BuildIV (reqDataIv c) (reqSeqNum c)) enc"
  using assms(1)
proof (rule sealRecord_spec)
  fix ct tag
  assume "wc_AesGcmEncrypt K (reqDataKey c) (wolfSPDM_BuildIV (reqDataIv c) (reqSeqNum c)) pt hdr = Some (ct, tag)" "enc = hdr @ ct @ tag"
  with assms(2) show ?thesis unfolding sealedWith_def by blast
qed

lemma EncryptRecord_probe:
  fixes c :: "'w WOLFSPDM_CTX"
  assumes "wolfSPDM_EncryptRecord K a plain cap c = (r, d)"
  shows "case r of
     Inl e \<Rightarrow> wolfSPDM_EncryptRecord (gcmProbe K) a plain cap c = (Inl e, d)
   | Inr enc \<Rightarrow> sealedWith K c (wolfSPDM_BuildIV (reqDataIv c) (reqSeqNum c)) enc \<and>
       (\<exists>hdr. length hdr = recordHdrSz c \<and>
       wolfSPDM_EncryptRecord (gcmProbe K) a plain cap c = (Inr (hdr @ wolfSPDM_BuildIV (reqDataIv c) (reqSeqNum c)), d))"
proof -
  let ?v = "\<lambda>c :: 'w WOLFSPDM_CTX. (reqDataIv c, reqSeqNum c, reqDataKey c, mode c)"
  have v: "?v t = ?v c" if "tcgPlainBuf K plain c = (x, t)" for x t
    by (rule keepsD [OF keeps_tcgPlainBuf that]) simp
  then have s: "sealedWith K t (wolfSPDM_BuildIV (reqDataIv c) (reqSeqNum c)) = sealedWith K c (wolfSPDM_BuildIV (reqDataIv c) (reqSeqNum c))"
     if "tcgPlainBuf K plain c = (x, t)" for x t
    using that by (fastforce simp: sealedWith_def wolfSPDM_IsTcgMode_def)
  show ?thesis
  proof (cases "wolfSPDM_IsTcgMode c")
    case True
    then have "recordHdrSz t = 14" if "tcgPlainBuf K plain c = (x, t)" for x t using v [OF that] by (simp add: wolfSPDM_IsTcgMode_def)
    with True assms v s show ?thesis
      by (auto simp: wolfSPDM_EncryptRecord_def sealRecord_probe tcgPlainBuf_probe opE_defs Let_def
          dest: sealRecord_sealed split: sum.splits prod.splits if_splits)
  next
    case False
    with assms show ?thesis
      by (auto simp: wolfSPDM_EncryptRecord_def sealRecord_probe opE_defs Let_def
          dest: sealRecord_sealed split: sum.splits prod.splits if_splits)
  qed
qed

lemma sealIvs_spec:
  "(\<exists>n \<le> length ss. sealIvs K ss c = map (\<lambda>i. wolfSPDM_BuildIV (reqDataIv c) (reqSeqNum c + of_nat i)) [0..<n]) \<and>
   list_all2 (sealedWith K c) (sealIvs K ss c) (sealAll K ss c)"
proof (induction ss arbitrary: c)
  case (Cons s ss)
  obtain a p cap where s: "s = (a, p, cap)" by (cases s)
  obtain r d where e: "wolfSPDM_EncryptRecord K a p cap c = (r, d)" by fastforce
  have k: "reqDataIv d = reqDataIv c" "mode d = mode c" "reqDataKey d = reqDataKey c"
    using keepsD [OF keeps_EncryptRecord [of "\<lambda>c. (reqDataIv c, mode c, reqDataKey c)"] e] by simp_all
  then have w: "sealedWith K d = sealedWith K c" "recordHdrSz d = recordHdrSz c"
    by (simp_all add: fun_eq_iff sealedWith_def wolfSPDM_IsTcgMode_def)
  note p = EncryptRecord_probe [OF e]
  obtain n where n: "n \<le> length ss"
    "sealIvs K ss d = map (\<lambda>i. wolfSPDM_BuildIV (reqDataIv d) (reqSeqNum d + of_nat i)) [0..<n]"
    and all: "list_all2 (sealedWith K c) (sealIvs K ss d) (sealAll K ss d)"
    using Cons.IH [of d] w(1) by auto
  have "\<exists>n \<le> length (s # ss). sealIvs K (s # ss) c = map (\<lambda>i. wolfSPDM_BuildIV (reqDataIv c) (reqSeqNum c + of_nat i)) [0..<n]"
  proof (cases r)
    case (Inl err)
    then have "reqSeqNum d = reqSeqNum c" using wpE_Inl [OF EncryptRecord_seq e [unfolded Inl]] by simp
    with n s p k w Inl show ?thesis by (intro exI [of _ n]) (simp add: sealIvs_def)
  next
    case (Inr enc)
    then have "reqSeqNum d = reqSeqNum c + 1" using wpE_Inr [OF EncryptRecord_seq e [unfolded Inr]] by simp
    with n s p k w Inr show ?thesis
      by (intro exI [of _ "Suc n"])
         (auto simp: sealIvs_def upt_rec [of 0] map_Suc_upt [symmetric] o_def algebra_simps simp del: upt_Suc)
  qed
  moreover have "list_all2 (sealedWith K c) (sealIvs K (s # ss) c) (sealAll K (s # ss) c)"
    using all e s p w(2) by (cases r) (auto simp: sealIvs_def)
  ultimately show ?case by blast
qed (simp add: sealIvs_def)

lemma sealIvs_distinct:
  assumes "length (reqDataIv c) = 12" "length ss < 2 ^ 64"
  shows "distinct (sealIvs K ss c)"
proof -
  obtain n where n: "n \<le> length ss"
    "sealIvs K ss c = map (\<lambda>i. wolfSPDM_BuildIV (reqDataIv c) (reqSeqNum c + of_nat i)) [0..<n]"
    using sealIvs_spec by blast
  have "inj_on (\<lambda>i. wolfSPDM_BuildIV (reqDataIv c) (reqSeqNum c + of_nat i)) {0..<n}"
  proof (rule inj_onI)
    fix i j assume i: "i \<in> {0..<n}" "j \<in> {0..<n}"
      and "wolfSPDM_BuildIV (reqDataIv c) (reqSeqNum c + of_nat i) = wolfSPDM_BuildIV (reqDataIv c) (reqSeqNum c + of_nat j)"
    then have "(of_nat i :: word64) = of_nat j" using wolfSPDM_BuildIV_inj [OF assms(1)] by fastforce
    then have "unat (of_nat i :: word64) = unat (of_nat j :: word64)" by simp
    with i n(1) assms(2) show "i = j" by (simp add: unat_of_nat_small)
  qed
  then show ?thesis by (simp add: n(2) distinct_map)
qed

end
