(* ===== verification/Spdm_Chunk.thy ===== *)
theory Spdm_Chunk
  imports Spdm_Secured
begin

text \<open>
  Large messages, \<^verbatim>\<open>src/spdm_chunk.c\<close>: CHUNK_SEND splits a request, CHUNK_GET reassembles a
  response, and the exchanges that use them (\<^verbatim>\<open>wolfSPDM_ClearExchange\<close> and
  \<^verbatim>\<open>wolfSPDM_SecuredExchange\<close>). The loops take the underlying transfer as an argument, the
  way the code selects it with \<^verbatim>\<open>secured\<close>.
\<close>

section \<open>Sequence numbers and helpers\<close>

abbreviation (input) SPDM_CHUNK_HDR_SZ :: nat where "SPDM_CHUNK_HDR_SZ \<equiv> 12"
abbreviation (input) SPDM_CHUNK_FIRST_HDR_SZ :: nat where "SPDM_CHUNK_FIRST_HDR_SZ \<equiv> 16"
abbreviation (input) SPDM_CHUNK_LAST_CHUNK :: byte where "SPDM_CHUNK_LAST_CHUNK \<equiv> 0x01"
abbreviation (input) SPDM_CHUNK_EARLY_ERROR :: byte where "SPDM_CHUNK_EARLY_ERROR \<equiv> 0x01"

definition wolfSPDM_ChunkSeqSz :: "'w WOLFSPDM_CTX \<Rightarrow> nat" where
  "wolfSPDM_ChunkSeqSz c = (if spdmVersion c \<ge> SPDM_VERSION_14 then 4 else 2)"

definition wolfSPDM_ChunkSetSeq :: "'w WOLFSPDM_CTX \<Rightarrow> nat \<Rightarrow> bytes" where
  "wolfSPDM_ChunkSetSeq c n =
     (if spdmVersion c \<ge> SPDM_VERSION_14 then SPDM_Set32LE (of_nat n) else SPDM_Set16LE (of_nat n))"

definition wolfSPDM_ChunkGetSeq :: "'w WOLFSPDM_CTX \<Rightarrow> bytes \<Rightarrow> nat \<Rightarrow> word32" where
  "wolfSPDM_ChunkGetSeq c buf off =
     (if spdmVersion c \<ge> SPDM_VERSION_14 then SPDM_Get32LE buf off else ucast (SPDM_Get16LE buf off))"

definition wolfSPDM_ChunkSeqOk :: "'w WOLFSPDM_CTX \<Rightarrow> nat \<Rightarrow> bool" where
  "wolfSPDM_ChunkSeqOk c n \<longleftrightarrow> spdmVersion c \<ge> SPDM_VERSION_14 \<or> n \<le> 0xFFFF"

definition wolfSPDM_ChunkPeerError :: "bytes \<Rightarrow> ('w, bool) cop" where
  "wolfSPDM_ChunkPeerError msg =
     (if length msg \<ge> 4 \<and> msg ! 1 = SPDM_ERROR
      then thenE (modE (\<lambda>c. c\<lparr>lastPeerErrorCode := msg ! 2\<rparr>)) (retE True)
      else retE False)"

definition wolfSPDM_ChunkXfer :: "wc_env \<Rightarrow> bool \<Rightarrow> bytes \<Rightarrow> nat \<Rightarrow> ('w, bytes) cop" where
  "wolfSPDM_ChunkXfer K secured req cap =
     (if secured then wolfSPDM_SecuredXfer K req cap else wolfSPDM_SendReceive req cap)"

definition wolfSPDM_ChunkCopyOut :: "bytes \<Rightarrow> nat \<Rightarrow> ('s, bytes) op" where
  "wolfSPDM_ChunkCopyOut src cap = (if length src > cap then failE E_BUFFER_SMALL else retE src)"

definition isLargeResponse :: "'w WOLFSPDM_CTX \<Rightarrow> bytes \<Rightarrow> bool" where
  "isLargeResponse c msg \<longleftrightarrow> length msg \<ge> 5 \<and> msg ! 0 = spdmVersion c \<and> msg ! 1 = SPDM_ERROR \<and>
     msg ! 2 = SPDM_ERROR_LARGE_RESPONSE"

section \<open>CHUNK_SEND\<close>

text \<open>\<^verbatim>\<open>take = limit - hdr\<close> in \<^verbatim>\<open>word32\<close>, capped at what is left of the request.\<close>

definition chunkTake :: "nat \<Rightarrow> nat \<Rightarrow> nat \<Rightarrow> nat" where
  "chunkTake limit hdr left =
     min (if hdr \<le> limit then limit - hdr else 2 ^ 32 + limit - hdr) left"

definition chunkSendMsg :: "'w WOLFSPDM_CTX \<Rightarrow> byte \<Rightarrow> bytes \<Rightarrow> nat \<Rightarrow> nat \<Rightarrow> nat \<Rightarrow> bytes" where
  "chunkSendMsg c handle req sent sq takeSz =
     [spdmVersion c, SPDM_CHUNK_SEND,
      if sent + takeSz = length req then SPDM_CHUNK_LAST_CHUNK else 0, handle] @
     wolfSPDM_ChunkSetSeq c sq @ zeros (4 - wolfSPDM_ChunkSeqSz c) @
     SPDM_Set32LE (of_nat takeSz) @
     (if sq = 0 then SPDM_Set32LE (of_nat (length req)) else []) @
     take takeSz (drop sent req)"

text \<open>
  What the code does with an acknowledgement: \<open>Some rsp\<close> ends the transfer, \<open>None\<close> sends the
  next chunk; \<open>allSent\<close> is \<^verbatim>\<open>sent == reqSz\<close>.
\<close>

definition chunkSendAck :: "byte \<Rightarrow> nat \<Rightarrow> nat \<Rightarrow> bool \<Rightarrow> nat \<Rightarrow> bytes \<Rightarrow> ('w, bytes option) cop" where
  "chunkSendAck handle ackHdr cap allSent sq ack =
     bindE (getE id) (\<lambda>c.
     if isLargeResponse c ack \<and> allSent
     then bindE (wolfSPDM_ChunkCopyOut ack cap) (\<lambda>rsp. retE (Some rsp))
     else bindE (wolfSPDM_ChunkPeerError ack) (\<lambda>peerErr.
       if peerErr then failE E_PEER_ERROR
       else if length ack < ackHdr \<or> ack ! 0 \<noteq> spdmVersion c \<or> ack ! 1 \<noteq> SPDM_CHUNK_SEND_ACK \<or>
               ack ! 3 \<noteq> handle \<or> wolfSPDM_ChunkGetSeq c ack 4 \<noteq> of_nat sq
       then failE E_CHUNK
       else if ack ! 2 AND SPDM_CHUNK_EARLY_ERROR \<noteq> 0
       then bindE (wolfSPDM_ChunkPeerError (drop ackHdr ack)) (\<lambda>early.
              if early then failE E_PEER_ERROR else failE E_CHUNK)
       else if \<not> allSent
       then (if length ack \<noteq> ackHdr then failE E_CHUNK else retE None)
       else bindE (wolfSPDM_ChunkCopyOut (drop ackHdr ack) cap) (\<lambda>rsp. retE (Some rsp))))"

text \<open>
  The send loop. A chunk that carries nothing after the first one would not make progress;
  the code cannot build one, because a limit that leaves no room for a later chunk (at most
  12) wraps for the first chunk, which then takes the whole request.
\<close>

function wolfSPDM_ChunkSendLoop ::
  "wc_env \<Rightarrow> (bytes \<Rightarrow> nat \<Rightarrow> ('w, bytes) cop) \<Rightarrow> nat \<Rightarrow> byte \<Rightarrow> nat \<Rightarrow> bytes \<Rightarrow> nat \<Rightarrow> nat \<Rightarrow> nat \<Rightarrow>
   ('w, bytes) cop" where
  "wolfSPDM_ChunkSendLoop K xfer limit handle ackHdr req cap sent sq =
     (let hdr = (if sq = 0 then SPDM_CHUNK_FIRST_HDR_SZ else SPDM_CHUNK_HDR_SZ);
          takeSz = chunkTake limit hdr (length req - sent) in
      bindE (getE id) (\<lambda>c.
      thenE (guardE (wolfSPDM_ChunkSeqOk c sq) E_CHUNK)
      (if takeSz = 0 \<and> sq \<noteq> 0 then failE E_CHUNK
       else bindE (xfer (chunkSendMsg c handle req sent sq takeSz) (WOLFSPDM_DATA_TRANSFER_SIZE K)) (\<lambda>ack.
       bindE (chunkSendAck handle ackHdr cap (sent + takeSz = length req) sq ack) (\<lambda>r.
       case r of
         Some rsp \<Rightarrow> retE rsp
       | None \<Rightarrow> wolfSPDM_ChunkSendLoop K xfer limit handle ackHdr req cap (sent + takeSz) (sq + 1))))))"
  by pat_completeness auto
termination
  by (relation "measure (\<lambda>(K, xfer, limit, handle, ackHdr, req, cap, sent, sq).
        (length req - sent) + (if sq = 0 then 1 else 0))") (auto simp: chunkTake_def)

declare wolfSPDM_ChunkSendLoop.simps [simp del]

definition wolfSPDM_ChunkSend ::
  "wc_env \<Rightarrow> (bytes \<Rightarrow> nat \<Rightarrow> ('w, bytes) cop) \<Rightarrow> nat \<Rightarrow> bytes \<Rightarrow> nat \<Rightarrow> ('w, bytes) cop" where
  "wolfSPDM_ChunkSend K xfer limit req cap = bindE (getE id) (\<lambda>c.
     thenE (modE (\<lambda>d. d\<lparr>chunkHandle := chunkHandle d + 1\<rparr>))
     (wolfSPDM_ChunkSendLoop K xfer limit (chunkHandle c) (4 + wolfSPDM_ChunkSeqSz c) req cap 0 0))"

section \<open>CHUNK_GET\<close>

definition chunkGetMsg :: "'w WOLFSPDM_CTX \<Rightarrow> byte \<Rightarrow> nat \<Rightarrow> bytes" where
  "chunkGetMsg c handle sq =
     [spdmVersion c, SPDM_CHUNK_GET, 0x00, handle] @ wolfSPDM_ChunkSetSeq c sq"

text \<open>
  One CHUNK_RESPONSE: \<open>acc\<close> is what the response buffer holds so far (its length is
  \<^verbatim>\<open>off\<close>), \<open>totalSz\<close> the LargeMessageSize of the first chunk.
\<close>

datatype chunk_next = ChunkDone bytes | ChunkMore nat bytes

definition chunkGetStep ::
  "'w WOLFSPDM_CTX \<Rightarrow> byte \<Rightarrow> nat \<Rightarrow> nat \<Rightarrow> bytes \<Rightarrow> nat \<Rightarrow> bytes \<Rightarrow> WOLFSPDM_ERROR + chunk_next" where
  "chunkGetStep c handle cap totalSz acc sq msg =
     (let hdr = (if sq = 0 then SPDM_CHUNK_FIRST_HDR_SZ else SPDM_CHUNK_HDR_SZ) in
      if length msg < hdr \<or> msg ! 0 \<noteq> spdmVersion c \<or> msg ! 1 \<noteq> SPDM_CHUNK_RESPONSE \<or>
         msg ! 3 \<noteq> handle \<or> wolfSPDM_ChunkGetSeq c msg 4 \<noteq> of_nat sq
      then Inl E_CHUNK
      else (let totalSz' = (if sq = 0 then unat (SPDM_Get32LE msg SPDM_CHUNK_HDR_SZ) else totalSz);
                sz = unat (SPDM_Get32LE msg 8);
                lastChunk = (msg ! 2 AND SPDM_CHUNK_LAST_CHUNK \<noteq> 0);
                acc' = acc @ take sz (drop hdr msg) in
            if sq = 0 \<and> totalSz' = 0 then Inl E_CHUNK
            else if sq = 0 \<and> totalSz' > cap then Inl E_BUFFER_SMALL
            else if sz = 0 \<or> sz \<noteq> length msg - hdr \<or> sz > totalSz' - length acc then Inl E_CHUNK
            else if lastChunk \<noteq> (length acc + sz = totalSz') then Inl E_CHUNK
            else Inr (if lastChunk then ChunkDone acc' else ChunkMore totalSz' acc')))"

lemma chunkGetStep_Done:
  assumes "chunkGetStep c handle cap totalSz acc sq msg = Inr (ChunkDone r)"
  shows "r \<noteq> []" "sq = 0 \<Longrightarrow> length r \<le> cap" "sq \<noteq> 0 \<Longrightarrow> length r = totalSz"
  using assms by (auto simp: chunkGetStep_def Let_def split: if_splits)

lemma chunkGetStep_More:
  assumes "chunkGetStep c handle cap totalSz acc sq msg = Inr (ChunkMore t acc')"
  shows "sq = 0 \<Longrightarrow> t \<le> cap" "sq \<noteq> 0 \<Longrightarrow> t = totalSz"
    "length acc < length acc'" "length acc' < t"
  using assms by (auto simp: chunkGetStep_def Let_def split: if_splits)

lemma chunkGetStep_progress:
  assumes "chunkGetStep c handle cap totalSz acc sq msg = Inr (ChunkMore t acc')" "sq \<noteq> 0"
  shows "t - length acc' < totalSz - length acc"
  using chunkGetStep_More [OF assms(1)] assms(2) by simp

function wolfSPDM_ChunkGetLoop ::
  "wc_env \<Rightarrow> (bytes \<Rightarrow> nat \<Rightarrow> ('w, bytes) cop) \<Rightarrow> byte \<Rightarrow> nat \<Rightarrow> nat \<Rightarrow> bytes \<Rightarrow> nat \<Rightarrow> ('w, bytes) cop" where
  "wolfSPDM_ChunkGetLoop K xfer handle cap totalSz acc sq =
     bindE (getE id) (\<lambda>c.
     thenE (guardE (wolfSPDM_ChunkSeqOk c sq) E_CHUNK)
     (bindE (xfer (chunkGetMsg c handle sq) (WOLFSPDM_DATA_TRANSFER_SIZE K)) (\<lambda>msg.
      bindE (wolfSPDM_ChunkPeerError msg) (\<lambda>peerErr.
      thenE (guardE (\<not> peerErr) E_PEER_ERROR)
      (bindE (getE id) (\<lambda>c.
       case chunkGetStep c handle cap totalSz acc sq msg of
         Inl e \<Rightarrow> failE e
       | Inr (ChunkDone rsp) \<Rightarrow> retE rsp
       | Inr (ChunkMore totalSz' acc') \<Rightarrow>
           wolfSPDM_ChunkGetLoop K xfer handle cap totalSz' acc' (sq + 1)))))))"
  by pat_completeness auto
termination
  by (relation "measures [\<lambda>(K, xfer, handle, cap, totalSz, acc, sq). if sq = 0 then 1 else 0,
        \<lambda>(K, xfer, handle, cap, totalSz, acc, sq). totalSz - length acc]")
     (auto dest: chunkGetStep_progress)

declare wolfSPDM_ChunkGetLoop.simps [simp del]

definition wolfSPDM_ChunkGet ::
  "wc_env \<Rightarrow> (bytes \<Rightarrow> nat \<Rightarrow> ('w, bytes) cop) \<Rightarrow> byte \<Rightarrow> nat \<Rightarrow> ('w, bytes) cop" where
  "wolfSPDM_ChunkGet K xfer handle cap =
     wolfSPDM_ChunkGetLoop K xfer handle (min cap WOLFSPDM_MAX_MSG_SIZE) 0 [] 0"

section \<open>Exchanges\<close>

definition chunkLimit :: "wc_env \<Rightarrow> 'w WOLFSPDM_CTX \<Rightarrow> nat" where
  "chunkLimit K c =
     (let limit = unat (dataTransferSize c) in
      if limit = 0 \<or> limit > WOLFSPDM_DATA_TRANSFER_SIZE K then WOLFSPDM_DATA_TRANSFER_SIZE K else limit)"

definition wolfSPDM_ChunkExchange :: "wc_env \<Rightarrow> bool \<Rightarrow> bytes \<Rightarrow> nat \<Rightarrow> ('w, bytes) cop" where
  "wolfSPDM_ChunkExchange K secured req cap = bindE (getE id) (\<lambda>c.
     bindE (if length req \<le> chunkLimit K c then wolfSPDM_ChunkXfer K secured req cap
            else if maxSpdmMsgSize c \<noteq> 0 \<and> length req > unat (maxSpdmMsgSize c) then failE E_BUFFER_SMALL
            else wolfSPDM_ChunkSend K (wolfSPDM_ChunkXfer K secured) (chunkLimit K c) req cap) (\<lambda>rsp.
     bindE (getE id) (\<lambda>c.
     if isLargeResponse c rsp then wolfSPDM_ChunkGet K (wolfSPDM_ChunkXfer K secured) (rsp ! 4) cap
     else retE rsp)))"

definition wolfSPDM_ClearExchange :: "wc_env \<Rightarrow> bytes \<Rightarrow> nat \<Rightarrow> ('w, bytes) cop" where
  "wolfSPDM_ClearExchange K req cap = bindE (getE id) (\<lambda>c.
     if wolfSPDM_ChunkOn c then wolfSPDM_ChunkExchange K False req cap
     else if \<not> wolfSPDM_IsTcgMode c \<and> dataTransferSize c \<noteq> 0 \<and> length req > unat (dataTransferSize c)
     then failE E_BUFFER_SMALL
     else wolfSPDM_SendReceive req cap)"

definition wolfSPDM_SecuredExchange :: "wc_env \<Rightarrow> bytes \<Rightarrow> nat \<Rightarrow> ('w, bytes) cop" where
  "wolfSPDM_SecuredExchange K cmdPlain cap = bindE (getE id) (\<lambda>c.
     if state c < WOLFSPDM_STATE_KEY_EX \<or> state c = WOLFSPDM_STATE_ERROR \<or> sessionId c = 0 \<or>
        (state c = WOLFSPDM_STATE_KEY_EX \<and> \<not> wolfSPDM_IsTcgMode c)
     then failE E_NOT_CONNECTED
     else thenE (if l1l2State c = WOLFSPDM_RUN_OPEN
                 then modE (\<lambda>d. d\<lparr>l1l2State := WOLFSPDM_RUN_LIVE\<rparr>) else retE ())
          (if wolfSPDM_ChunkOn c then wolfSPDM_ChunkExchange K True cmdPlain cap
           else wolfSPDM_SecuredXfer K cmdPlain cap))"

section \<open>Frames and sizes\<close>

lemma keeps_ChunkPeerError [keeps_intros]:
  assumes "\<And>c x. f (c\<lparr>lastPeerErrorCode := x\<rparr>) = f c"
  shows "keeps f (wolfSPDM_ChunkPeerError m)"
  unfolding wolfSPDM_ChunkPeerError_def by (intro keeps_intros) (simp_all add: assms)

lemma keeps_ChunkCopyOut [keeps_intros]: "keeps f (wolfSPDM_ChunkCopyOut m n)"
  unfolding wolfSPDM_ChunkCopyOut_def by (intro keeps_intros)

lemma keeps_ChunkXfer [keeps_intros]:
  assumes "\<And>c x. f (c\<lparr>rng := x\<rparr>) = f c" "\<And>c x. f (c\<lparr>reqSeqNum := x\<rparr>) = f c"
    "\<And>c x. f (c\<lparr>rspSeqNum := x\<rparr>) = f c" "\<And>c x. f (c\<lparr>ioUserCtx := x\<rparr>) = f c"
    "\<And>c x. f (c\<lparr>fipsIndicator := x\<rparr>) = f c"
  shows "keeps f (wolfSPDM_ChunkXfer K b p n)"
  unfolding wolfSPDM_ChunkXfer_def by (intro keeps_intros) (simp_all add: assms)

lemma keeps_chunkSendAck [keeps_intros]:
  assumes "\<And>c x. f (c\<lparr>lastPeerErrorCode := x\<rparr>) = f c"
  shows "keeps f (chunkSendAck h ah cap allSent sq ack)"
  unfolding chunkSendAck_def by (intro keeps_intros) (simp_all add: assms)

lemma keeps_ChunkSendLoop [keeps_intros]:
  assumes "\<And>c x. f (c\<lparr>lastPeerErrorCode := x\<rparr>) = f c" "\<And>r n. keeps f (xfer r n)"
  shows "keeps f (wolfSPDM_ChunkSendLoop K xfer limit h ah req cap sent sq)"
  using assms
proof (induction K xfer limit h ah req cap sent sq rule: wolfSPDM_ChunkSendLoop.induct)
  case (1 K xfer limit h ah req cap sent sq)
  note rec = 1(1) [OF refl refl]
  show ?case
    by (subst wolfSPDM_ChunkSendLoop.simps, unfold Let_def, intro keeps_intros rec)
       (simp_all add: 1(2,3))
qed

lemma keeps_ChunkSend [keeps_intros]:
  assumes "\<And>c x. f (c\<lparr>lastPeerErrorCode := x\<rparr>) = f c" "\<And>c x. f (c\<lparr>chunkHandle := x\<rparr>) = f c"
    "\<And>r n. keeps f (xfer r n)"
  shows "keeps f (wolfSPDM_ChunkSend K xfer limit req cap)"
  unfolding wolfSPDM_ChunkSend_def by (intro keeps_intros) (simp_all add: assms)

lemma keeps_ChunkGetLoop [keeps_intros]:
  assumes "\<And>c x. f (c\<lparr>lastPeerErrorCode := x\<rparr>) = f c" "\<And>r n. keeps f (xfer r n)"
  shows "keeps f (wolfSPDM_ChunkGetLoop K xfer h cap tot acc sq)"
  using assms
proof (induction K xfer h cap tot acc sq rule: wolfSPDM_ChunkGetLoop.induct)
  case (1 K xfer h cap tot acc sq)
  show ?case
    by (subst wolfSPDM_ChunkGetLoop.simps, intro keeps_intros)
       (auto simp: 1 [simplified] intro: keeps_intros split: chunk_next.splits)
qed

lemma keeps_ChunkGet [keeps_intros]:
  assumes "\<And>c x. f (c\<lparr>lastPeerErrorCode := x\<rparr>) = f c" "\<And>r n. keeps f (xfer r n)"
  shows "keeps f (wolfSPDM_ChunkGet K xfer h cap)"
  unfolding wolfSPDM_ChunkGet_def by (intro keeps_intros) (simp_all add: assms)

lemma keeps_ChunkExchange [keeps_intros]:
  assumes "\<And>c x. f (c\<lparr>rng := x\<rparr>) = f c" "\<And>c x. f (c\<lparr>reqSeqNum := x\<rparr>) = f c"
    "\<And>c x. f (c\<lparr>rspSeqNum := x\<rparr>) = f c" "\<And>c x. f (c\<lparr>ioUserCtx := x\<rparr>) = f c"
    "\<And>c x. f (c\<lparr>fipsIndicator := x\<rparr>) = f c" "\<And>c x. f (c\<lparr>lastPeerErrorCode := x\<rparr>) = f c"
    "\<And>c x. f (c\<lparr>chunkHandle := x\<rparr>) = f c"
  shows "keeps f (wolfSPDM_ChunkExchange K b p n)"
  unfolding wolfSPDM_ChunkExchange_def by (intro keeps_intros) (simp_all add: assms)

text \<open>
  A clear exchange runs under no session key: it keeps both sequence numbers.
\<close>

lemma keeps_ClearChunkExchange:
  assumes "\<And>c x. f (c\<lparr>ioUserCtx := x\<rparr>) = f c" "\<And>c x. f (c\<lparr>fipsIndicator := x\<rparr>) = f c"
    "\<And>c x. f (c\<lparr>lastPeerErrorCode := x\<rparr>) = f c" "\<And>c x. f (c\<lparr>chunkHandle := x\<rparr>) = f c"
  shows "keeps f (wolfSPDM_ChunkExchange K False p n)"
  unfolding wolfSPDM_ChunkExchange_def wolfSPDM_ChunkXfer_def
  by (simp, intro keeps_intros) (simp_all add: assms)

lemma keeps_ClearExchange [keeps_intros]:
  assumes "\<And>c x. f (c\<lparr>ioUserCtx := x\<rparr>) = f c" "\<And>c x. f (c\<lparr>fipsIndicator := x\<rparr>) = f c"
    "\<And>c x. f (c\<lparr>lastPeerErrorCode := x\<rparr>) = f c" "\<And>c x. f (c\<lparr>chunkHandle := x\<rparr>) = f c"
  shows "keeps f (wolfSPDM_ClearExchange K p n)"
  unfolding wolfSPDM_ClearExchange_def
  by (intro keeps_bind keeps_get keeps_if keeps_ClearChunkExchange keeps_fail keeps_SendReceive)
     (simp_all add: assms)

lemma keeps_SecuredExchange [keeps_intros]:
  assumes "\<And>c x. f (c\<lparr>rng := x\<rparr>) = f c" "\<And>c x. f (c\<lparr>reqSeqNum := x\<rparr>) = f c"
    "\<And>c x. f (c\<lparr>rspSeqNum := x\<rparr>) = f c" "\<And>c x. f (c\<lparr>ioUserCtx := x\<rparr>) = f c"
    "\<And>c x. f (c\<lparr>fipsIndicator := x\<rparr>) = f c" "\<And>c x. f (c\<lparr>lastPeerErrorCode := x\<rparr>) = f c"
    "\<And>c x. f (c\<lparr>chunkHandle := x\<rparr>) = f c" "\<And>c x. f (c\<lparr>l1l2State := x\<rparr>) = f c"
  shows "keeps f (wolfSPDM_SecuredExchange K p n)"
  unfolding wolfSPDM_SecuredExchange_def by (intro keeps_intros) (simp_all add: assms)

lemma wpE_ChunkPeerError:
  "wpE (wolfSPDM_ChunkPeerError m) Q E c =
     (if length m \<ge> 4 \<and> m ! 1 = SPDM_ERROR then Q True (c\<lparr>lastPeerErrorCode := m ! 2\<rparr>) else Q False c)"
  by (simp add: wolfSPDM_ChunkPeerError_def wp_simps)

lemma wpE_any: "(\<And>a t. Q a t) \<Longrightarrow> (\<And>e t. E e t) \<Longrightarrow> wpE m Q E s"
  by (simp add: wpE_iff)

lemma ChunkGetLoop_size:
  fixes c :: "'w WOLFSPDM_CTX"
  assumes "sq = 0 \<and> acc = [] \<or> sq \<noteq> 0 \<and> length acc < tot \<and> tot \<le> cap"
  shows "wpE (wolfSPDM_ChunkGetLoop K xfer h cap tot acc sq) (\<lambda>rsp _. rsp \<noteq> [] \<and> length rsp \<le> cap) (\<lambda>_ _. True) c"
  using assms
proof (induction K xfer h cap tot acc sq arbitrary: c rule: wolfSPDM_ChunkGetLoop.induct)
  case (1 K xfer h cap tot acc sq)
  have more: "wpE (wolfSPDM_ChunkGetLoop K xfer h cap t a (sq + 1))
      (\<lambda>rsp _. rsp \<noteq> [] \<and> length rsp \<le> cap) (\<lambda>_ _. True) d"
    if "chunkGetStep c' h cap tot acc sq msg = Inr (ChunkMore t a)" for c' d :: "'w WOLFSPDM_CTX" and msg t a
    using 1(2) chunkGetStep_More [OF that] by (intro 1(1) [OF that refl]) auto
  have fin: "r \<noteq> [] \<and> length r \<le> cap"
    if "chunkGetStep c' h cap tot acc sq msg = Inr (ChunkDone r)" for c' :: "'w WOLFSPDM_CTX" and msg r
    using 1(2) chunkGetStep_Done [OF that] by auto
  show ?case
    by (subst wolfSPDM_ChunkGetLoop.simps, simp only: wp_simps id_apply, split if_split,
        intro conjI impI TrueI; rule wpE_any)
       (auto simp: wpE_ChunkPeerError wp_simps fin split: sum.split chunk_next.split
          intro: more [simplified])
qed

lemma ChunkGet_size:
  assumes "wolfSPDM_ChunkGet K xfer h cap c = (Inr rsp, d)"
  shows "rsp \<noteq> [] \<and> length rsp \<le> cap \<and> length rsp \<le> WOLFSPDM_MAX_MSG_SIZE"
  using wpE_Inr [OF ChunkGetLoop_size [of 0 "[]" 0 "min cap 8192" K xfer h c]] assms
  by (fastforce simp: wolfSPDM_ChunkGet_def)

lemma if_TrueI:
  "(b \<Longrightarrow> P) \<Longrightarrow> (if b then P else True)" "(\<not> b \<Longrightarrow> P) \<Longrightarrow> (if b then True else P)"
  by simp_all

lemma chunkSendAck_fits:
  "wpE (chunkSendAck h ah cap allSent sq ack) (\<lambda>r _. (case r of Some rsp \<Rightarrow> allSent \<and> length rsp \<le> cap | None \<Rightarrow> \<not> allSent)) (\<lambda>_ _. True) c"
  by (simp add: chunkSendAck_def wolfSPDM_ChunkCopyOut_def wp_simps wpE_ChunkPeerError)

lemma ChunkSendLoop_size:
  fixes c :: "'w WOLFSPDM_CTX"
  shows "wpE (wolfSPDM_ChunkSendLoop K xfer limit h ah req cap sent sq) (\<lambda>rsp _. length rsp \<le> cap) (\<lambda>_ _. True) c"
proof (induction K xfer limit h ah req cap sent sq arbitrary: c rule: wolfSPDM_ChunkSendLoop.induct)
  case (1 K xfer limit h ah req cap sent sq)
  have ack: "wpE (chunkSendAck h ah cap allSent sq ack) (\<lambda>r. wpE (case r of Some rsp \<Rightarrow> retE rsp
        | None \<Rightarrow> wolfSPDM_ChunkSendLoop K xfer limit h ah req cap (sent + takeSz) (sq + 1))
        (\<lambda>rsp _. length rsp \<le> cap) (\<lambda>_ _. True)) (\<lambda>_ _. True) d"
    if "takeSz = chunkTake limit (if sq = 0 then 16 else 12) (length req - sent)"
      "\<not> (takeSz = 0 \<and> sq \<noteq> 0)" for allSent ack takeSz and d :: "'w WOLFSPDM_CTX"
    using 1(1) [OF refl that]
    by (intro wpE_mono [OF chunkSendAck_fits]) (auto simp: wp_simps split: option.splits)
  show ?case
    apply (subst wolfSPDM_ChunkSendLoop.simps, unfold Let_def, simp only: wp_simps id_apply)
    apply (rule if_TrueI, rule if_TrueI, rule wpE_any)
     apply (simp only: wpE_bind, rule ack [OF refl])
    by simp_all
qed

lemma ChunkXfer_fits:
  "wolfSPDM_ChunkXfer K b tx cap c = (Inr rsp, d) \<Longrightarrow> length rsp \<le> cap"
  by (auto simp: wolfSPDM_ChunkXfer_def SecuredXfer_fits SendReceive_fits split: if_splits)

interpretation chunk_xfer: exchange "wolfSPDM_ChunkXfer K b" for K b
  by unfold_locales (auto intro!: keeps_intros dest: ChunkXfer_fits)

lemma ChunkExchange_fits:
  "wolfSPDM_ChunkExchange K b req cap c = (Inr rsp, d) \<Longrightarrow> length rsp \<le> cap"
  using wpE_Inr [OF ChunkSendLoop_size] ChunkGet_size
  by (fastforce simp: wolfSPDM_ChunkExchange_def wolfSPDM_ChunkSend_def opE_defs ChunkXfer_fits
      split: prod.splits sum.splits if_splits)

interpretation clear_exchange: exchange "wolfSPDM_ClearExchange K" for K
  by unfold_locales
     (auto intro!: keeps_intros simp: wolfSPDM_ClearExchange_def opE_defs
       dest: ChunkExchange_fits SendReceive_fits split: if_splits)

interpretation secured_exchange: exchange "wolfSPDM_SecuredExchange K" for K
  by unfold_locales
     (auto intro!: keeps_intros simp: wolfSPDM_SecuredExchange_def opE_defs
       dest: ChunkExchange_fits SecuredXfer_fits split: if_splits)

section \<open>Reassembly\<close>

text \<open>
  What a responder that follows DSP0274 answers to CHUNK_GET number \<open>i\<close> when it has split a
  response into the chunks \<open>cs\<close>.
\<close>

definition chunkResponse :: "'w WOLFSPDM_CTX \<Rightarrow> byte \<Rightarrow> bytes list \<Rightarrow> nat \<Rightarrow> bytes" where
  "chunkResponse c handle cs i =
     [spdmVersion c, SPDM_CHUNK_RESPONSE, if i + 1 = length cs then SPDM_CHUNK_LAST_CHUNK else 0, handle] @
     wolfSPDM_ChunkSetSeq c i @ zeros (4 - wolfSPDM_ChunkSeqSz c) @
     SPDM_Set32LE (of_nat (length (cs ! i))) @
     (if i = 0 then SPDM_Set32LE (of_nat (length (concat cs))) else []) @ cs ! i"

lemma ChunkGetSeq_SetSeq:
  assumes "wolfSPDM_ChunkSeqOk c n" "length pre = 4"
  shows "wolfSPDM_ChunkGetSeq c (pre @ wolfSPDM_ChunkSetSeq c n @ post) 4 = of_nat n"
proof -
  have "n \<le> 65535 \<Longrightarrow> unat (of_nat n :: word16) = n \<and> unat (of_nat n :: word32) = n"
    by (auto intro!: unat_of_nat_small)
  then have u: "n \<le> 65535 \<Longrightarrow> ucast (of_nat n :: word16) = (of_nat n :: word32)"
    by (simp add: word_unat_eq_iff unsigned_ucast_eq take_bit_nat_eq_self)
  show ?thesis
    using assms u
    by (auto simp: wolfSPDM_ChunkGetSeq_def wolfSPDM_ChunkSetSeq_def wolfSPDM_ChunkSeqOk_def codec_simps)
qed

lemma length_ChunkSetSeq: "length (wolfSPDM_ChunkSetSeq c n @ zeros (4 - wolfSPDM_ChunkSeqSz c)) = 4"
  by (simp add: wolfSPDM_ChunkSetSeq_def wolfSPDM_ChunkSeqSz_def zeros_def)

lemma concat_take_Suc: "i < length cs \<Longrightarrow> concat (take (Suc i) cs) = concat (take i cs) @ cs ! i"
  by (simp add: take_Suc_conv_app_nth)

lemma length_concat_split:
  assumes "i < length cs"
  shows "length (concat cs) = length (concat (take i cs)) + length (cs ! i) + length (concat (drop (Suc i) cs))"
proof -
  have "concat cs = concat (take (Suc i) cs) @ concat (drop (Suc i) cs)"
    by (simp flip: concat_append)
  then show ?thesis using assms by (simp add: concat_take_Suc)
qed

lemma concat_drop_empty_iff:
  assumes "[] \<notin> set cs"
  shows "concat (drop j cs) = [] \<longleftrightarrow> length cs \<le> j"
proof -
  have "[] \<notin> set (drop j cs)" using assms in_set_dropD by metis
  then show ?thesis by (cases "drop j cs") (auto simp flip: drop_eq_Nil)
qed

lemma chunkGetStep_wellformed:
  assumes "length s = 4" "wolfSPDM_ChunkGetSeq c m 4 = of_nat i" "x \<noteq> []"
    and m: "m = [spdmVersion c, SPDM_CHUNK_RESPONSE, if l then 1 else 0, h] @ s @ SPDM_Set32LE (of_nat (length x)) @
       (if i = 0 then SPDM_Set32LE (of_nat T) else []) @ x"
    and "length acc + length x \<le> T" "T \<le> cap" "cap \<le> 8192" "l \<longleftrightarrow> length acc + length x = T"
    and "i \<noteq> 0 \<Longrightarrow> tot = T"
  shows "chunkGetStep c h cap tot acc i m = Inr (if l then ChunkDone (acc @ x) else ChunkMore T (acc @ x))"
proof -
  have u: "unat (of_nat (length x) :: word32) = length x" "unat (of_nat T :: word32) = T"
    using assms by (intro unat_of_nat_small; simp)+
  have f: "m ! 0 = spdmVersion c" "m ! 1 = 6" "m ! 2 = (if l then 1 else 0)" "m ! 3 = h"
    "SPDM_Get32LE m 8 = of_nat (length x)" "i = 0 \<Longrightarrow> SPDM_Get32LE m 12 = of_nat T"
    "drop (if i = 0 then 16 else 12) m = x" "length m = (if i = 0 then 16 else 12) + length x"
    using assms(1) by (simp_all add: m codec_simps)
  have g: "\<not> T - length acc < length x" "T \<noteq> 0" using assms(3,5) by (simp_all flip: length_greater_0_conv)
  show ?thesis
    using assms(2,3,6-9) u f g by (cases "i = 0") (simp_all add: chunkGetStep_def Let_def)
qed

lemma chunkResponse_step:
  assumes i: "i < length cs" and ne: "[] \<notin> set cs" and sz: "length (concat cs) \<le> cap"
    and cap: "cap \<le> 8192" and ok: "wolfSPDM_ChunkSeqOk c i"
    and tot: "i \<noteq> 0 \<Longrightarrow> tot = length (concat cs)"
  shows "chunkGetStep c handle cap tot (concat (take i cs)) i (chunkResponse c handle cs i) =
    Inr (if i + 1 = length cs then ChunkDone (concat cs)
         else ChunkMore (length (concat cs)) (concat (take (Suc i) cs)))"
proof -
  note split = length_concat_split [OF i]
  have pos: "cs ! i \<noteq> []" using i ne by (metis nth_mem)
  have q: "wolfSPDM_ChunkGetSeq c (chunkResponse c handle cs i) 4 = of_nat i"
    unfolding chunkResponse_def by (rule ChunkGetSeq_SetSeq [OF ok]) simp
  have last: "i + 1 = length cs \<longleftrightarrow> length (concat (take i cs)) + length (cs ! i) = length (concat cs)"
    using split concat_drop_empty_iff [OF ne, of "Suc i"] i by auto
  have fin: "i + 1 = length cs \<Longrightarrow> concat (take i cs) @ cs ! i = concat cs"
    using concat_take_Suc [OF i] by simp
  have "chunkGetStep c handle cap tot (concat (take i cs)) i (chunkResponse c handle cs i) =
    Inr (if i + 1 = length cs then ChunkDone (concat (take i cs) @ cs ! i)
         else ChunkMore (length (concat cs)) (concat (take i cs) @ cs ! i))"
    by (rule chunkGetStep_wellformed
          [where s = "wolfSPDM_ChunkSetSeq c i @ zeros (4 - wolfSPDM_ChunkSeqSz c)", OF length_ChunkSetSeq q pos])
       (use split sz cap last tot in \<open>simp_all add: chunkResponse_def\<close>)
  then show ?thesis using fin concat_take_Suc [OF i] by simp
qed

lemma ChunkGetLoop_reassembles:
  fixes c :: "'w WOLFSPDM_CTX"
  assumes serve: "\<And>d :: 'w WOLFSPDM_CTX. \<And>i. spdmVersion d = v \<Longrightarrow> i < length cs \<Longrightarrow>
       \<exists>d'. xfer (chunkGetMsg d h i) (WOLFSPDM_DATA_TRANSFER_SIZE K) d = (Inr (chunkResponse d h cs i), d') \<and>
            spdmVersion d' = v"
    and cs: "[] \<notin> set cs" "length (concat cs) \<le> cap" "cap \<le> 8192" "v \<ge> 0x14 \<or> length cs \<le> 0x10000"
    and "i < length cs" "spdmVersion c = v" "i \<noteq> 0 \<Longrightarrow> tot = length (concat cs)"
  shows "\<exists>d. wolfSPDM_ChunkGetLoop K xfer h cap tot (concat (take i cs)) i c = (Inr (concat cs), d)"
  using assms(6-8)
proof (induction "length cs - i" arbitrary: i c tot rule: less_induct)
  case less
  have ok: "wolfSPDM_ChunkSeqOk d i" if "spdmVersion d = v" for d :: "'w WOLFSPDM_CTX"
    using cs(4) less(2) that by (auto simp: wolfSPDM_ChunkSeqOk_def)
  obtain d where x: "xfer (chunkGetMsg c h i) (WOLFSPDM_DATA_TRANSFER_SIZE K) c = (Inr (chunkResponse c h cs i), d)"
    and d: "spdmVersion d = v" using serve [OF less(3,2)] by blast
  have r: "chunkResponse c h cs i = chunkResponse d h cs i"
    using d less(3)
    by (simp add: chunkResponse_def wolfSPDM_ChunkSetSeq_def wolfSPDM_ChunkSeqSz_def)
  have pe: "wolfSPDM_ChunkPeerError (chunkResponse d h cs i) d = (Inr False, d)"
    by (simp add: wolfSPDM_ChunkPeerError_def chunkResponse_def retE_def)
  note st = chunkResponse_step [OF less(2) cs(1,2,3) ok [OF d] less(4), of h]
  show ?case
  proof (cases "i + 1 = length cs")
    case True
    then show ?thesis
      using x st pe ok [OF less(3)]
      by (subst wolfSPDM_ChunkGetLoop.simps) (simp add: opE_defs r)
  next
    case False
    have "\<exists>e. wolfSPDM_ChunkGetLoop K xfer h cap (length (concat cs)) (concat (take (Suc i) cs)) (Suc i) d
             = (Inr (concat cs), e)"
      using False less(2) by (intro less(1) d) auto
    then show ?thesis
      using False x st pe ok [OF less(3)]
      by (subst wolfSPDM_ChunkGetLoop.simps) (simp add: opE_defs r)
  qed
qed

section \<open>Delivery\<close>

text \<open>The request bytes carried by a run of CHUNK_SEND messages numbered from \<open>sq\<close>.\<close>

fun chunkPayloads :: "nat \<Rightarrow> bytes list \<Rightarrow> bytes" where
  "chunkPayloads sq [] = []"
| "chunkPayloads sq (m # ms) =
     drop (if sq = 0 then SPDM_CHUNK_FIRST_HDR_SZ else SPDM_CHUNK_HDR_SZ) m @ chunkPayloads (Suc sq) ms"

lemma chunkSendMsg_carries:
  fixes sq defines "hdr \<equiv> (if sq = 0 then 16 else 12 :: nat)"
  shows "drop hdr (chunkSendMsg c h req sent sq n) = take n (drop sent req)"
    and "length (chunkSendMsg c h req sent sq n) = hdr + min n (length req - sent)"
proof -
  obtain s where s: "wolfSPDM_ChunkSetSeq c sq @ zeros (4 - wolfSPDM_ChunkSeqSz c) = s" "length s = 4"
    using length_ChunkSetSeq by blast
  have m: "chunkSendMsg c h req sent sq n =
     [spdmVersion c, SPDM_CHUNK_SEND, if sent + n = length req then SPDM_CHUNK_LAST_CHUNK else 0, h] @ s @
     SPDM_Set32LE (of_nat n) @ (if sq = 0 then SPDM_Set32LE (of_nat (length req)) else []) @
     take n (drop sent req)"
    unfolding chunkSendMsg_def by (simp flip: s(1))
  show "drop hdr (chunkSendMsg c h req sent sq n) = take n (drop sent req)"
    "length (chunkSendMsg c h req sent sq n) = hdr + min n (length req - sent)"
    using s(2) by (simp_all add: m hdr_def min.commute)
qed

lemma ChunkSendLoop_delivers:
  fixes c :: "'w WOLFSPDM_CTX" and sentLog :: "'w WOLFSPDM_CTX \<Rightarrow> bytes list"
  assumes log: "\<And>tx n d rsp d'. xfer tx n d = (Inr rsp, d') \<Longrightarrow> sentLog d' = sentLog d @ [tx]"
    and frame: "\<And>d x. sentLog (d\<lparr>lastPeerErrorCode := x\<rparr>) = sentLog d"
    and lim: "16 \<le> limit"
  shows "sent \<le> length req \<Longrightarrow> wpE (wolfSPDM_ChunkSendLoop K xfer limit h ah req cap sent sq)
     (\<lambda>_ d. \<exists>msgs. sentLog d = sentLog c @ msgs \<and> chunkPayloads sq msgs = drop sent req \<and>
        (\<forall>m \<in> set msgs. length m \<le> limit)) (\<lambda>_ _. True) c"
proof (induction "length req - sent + (if sq = 0 then 1 else 0)" arbitrary: sent sq c rule: less_induct)
  case less
  define hdr where "hdr = (if sq = 0 then 16 else 12 :: nat)"
  define n where "n = chunkTake limit hdr (length req - sent)"
  let ?Q = "\<lambda>_ d. \<exists>msgs. sentLog d = sentLog c @ msgs \<and> chunkPayloads sq msgs = drop sent req \<and>
        (\<forall>m \<in> set msgs. length m \<le> limit)"
  let ?m = "\<lambda>d. chunkSendMsg d h req sent sq n"
  have n: "n \<le> length req - sent" "hdr + n \<le> limit" "hdr \<le> limit"
    using lim by (auto simp: n_def chunkTake_def hdr_def)
  have carries: "drop hdr (?m d) = take n (drop sent req)" "length (?m d) \<le> limit" for d :: "'w WOLFSPDM_CTX"
    using chunkSendMsg_carries [where sq = sq and c = d and h = h and req = req and sent = sent and n = n, folded hdr_def] n
    by simp_all
  have rest: "take n (drop sent req) @ drop (sent + n) req = drop sent req"
    by (metis append_take_drop_id drop_drop add.commute)
  have fin: "?Q r d" if "sentLog d = sentLog c @ [?m c]" "sent + n = length req" for r and d :: "'w WOLFSPDM_CTX"
    using that carries [of c] rest by (auto simp: hdr_def intro!: exI [of _ "[?m c]"])
  have more: "wpE (wolfSPDM_ChunkSendLoop K xfer limit h ah req cap (sent + n) (sq + 1)) ?Q (\<lambda>_ _. True) d"
    if "sentLog d = sentLog c @ [?m c]" "\<not> (n = 0 \<and> sq \<noteq> 0)" for d :: "'w WOLFSPDM_CTX"
  proof -
    have "length req - (sent + n) + (if sq + 1 = 0 then 1 else 0) < length req - sent + (if sq = 0 then 1 else 0)"
      using that(2) n(1) by auto
    note ih = less(1) [OF this, of d]
    have carry: "?Q r e" if "sentLog e = sentLog d @ ms" "chunkPayloads (sq + 1) ms = drop (sent + n) req"
      "\<forall>m \<in> set ms. length m \<le> limit" for r ms and e :: "'w WOLFSPDM_CTX"
      using that \<open>sentLog d = _\<close> carries [of c] rest
      by (intro exI [of _ "?m c # ms"]) (simp add: hdr_def)
    show ?thesis
      using n(1) less(2) carry by (intro wpE_mono [OF ih]) (simp, blast, simp)
  qed
  have ack: "wpE (chunkSendAck h ah cap (sent + n = length req) sq ak) (\<lambda>r. wpE (case r of Some rsp \<Rightarrow> retE rsp
        | None \<Rightarrow> wolfSPDM_ChunkSendLoop K xfer limit h ah req cap (sent + n) (sq + 1)) ?Q (\<lambda>_ _. True))
        (\<lambda>_ _. True) d"
    if "sentLog d = sentLog c @ [?m c]" "\<not> (n = 0 \<and> sq \<noteq> 0)" for ak and d :: "'w WOLFSPDM_CTX"
    using that
    by (intro wpE_mono [OF wpE_conj [OF chunkSendAck_fits keeps_wpE [OF keeps_chunkSendAck [of sentLog]]]])
       (use fin in \<open>auto simp: wp_simps frame more [simplified] split: option.splits\<close>)
  have xf: "wpE (xfer (?m c) k) (\<lambda>_ d. sentLog d = sentLog c @ [?m c]) (\<lambda>_ _. True) c" for k
    by (auto simp: wpE_iff dest: log)
  show ?case
    apply (subst wolfSPDM_ChunkSendLoop.simps, unfold Let_def, fold hdr_def n_def, simp only: wp_simps id_apply)
    apply (rule if_TrueI, rule if_TrueI, rule wpE_mono [OF xf])
     apply (simp only: wpE_bind, rule ack)
    by simp_all
qed

end
