(* ===== verification/Spdm_Msg.thy ===== *)
theory Spdm_Msg
  imports Spdm_Chunk
begin

text \<open>
  Message building and parsing, \<^verbatim>\<open>src/spdm_msg.c\<close>: GET_VERSION, KEY_EXCHANGE, FINISH,
  END_SESSION, HEARTBEAT and KEY_UPDATE with their responses, and the signing helpers. A
  builder takes the size of the caller's buffer (\<^verbatim>\<open>*bufSz\<close> on entry) and returns the
  message; a parser takes the received bytes.
\<close>

section \<open>Argument and response checks\<close>

definition wolfSPDM_CheckError :: "bytes \<Rightarrow> byte option" where
  "wolfSPDM_CheckError buf = (if length buf < 4 then None
     else if buf ! 1 = SPDM_ERROR then Some (buf ! 2) else None)"

definition SPDM_CHECK_PARSE_OR_ERROR_ARGS :: "bytes \<Rightarrow> nat \<Rightarrow> ('w, unit) cop" where
  "SPDM_CHECK_PARSE_OR_ERROR_ARGS buf minSz =
     guardE (\<not> (length buf < 4 \<or> length buf < minSz \<and> buf ! 1 \<noteq> SPDM_ERROR)) E_INVALID_ARG"

definition SPDM_CHECK_PARSE_ARGS :: "bytes \<Rightarrow> nat \<Rightarrow> ('w, unit) cop" where
  "SPDM_CHECK_PARSE_ARGS buf minSz = guardE (length buf \<ge> minSz) E_INVALID_ARG"

definition SPDM_CHECK_RESPONSE :: "bytes \<Rightarrow> byte \<Rightarrow> WOLFSPDM_ERROR \<Rightarrow> ('w, unit) cop" where
  "SPDM_CHECK_RESPONSE buf expected fallbackErr =
     (if buf ! 1 \<noteq> expected
      then (case wolfSPDM_CheckError buf of
              Some ec \<Rightarrow> thenE (modE (\<lambda>c. c\<lparr>lastPeerErrorCode := ec\<rparr>)) (failE E_PEER_ERROR)
            | None \<Rightarrow> failE fallbackErr)
      else retE ())"

section \<open>Simple requests\<close>

definition wolfSPDM_BuildGetVersion :: "nat \<Rightarrow> ('w, bytes) cop" where
  "wolfSPDM_BuildGetVersion bufSz =
     thenE (guardE (bufSz \<ge> 4) E_BUFFER_SMALL)
     (retE [SPDM_VERSION_10, SPDM_GET_VERSION, 0x00, 0x00])"

definition wolfSPDM_BuildSimpleMsg :: "byte \<Rightarrow> nat \<Rightarrow> ('w, bytes) cop" where
  "wolfSPDM_BuildSimpleMsg msgCode bufSz =
     thenE (guardE (bufSz \<ge> 4) E_BUFFER_SMALL)
     (getE (\<lambda>c. [spdmVersion c, msgCode, 0x00, 0x00]))"

definition wolfSPDM_BuildEndSession :: "nat \<Rightarrow> ('w, bytes) cop" where
  "wolfSPDM_BuildEndSession bufSz = wolfSPDM_BuildSimpleMsg SPDM_END_SESSION bufSz"

section \<open>KEY_EXCHANGE\<close>

definition kexOpaqueStd :: bytes where
  "kexOpaqueStd = [
    0x14, 0x00, 0x01, 0x00, 0x00, 0x00, 0x00, 0x00, 0x09, 0x00, 0x01, 0x01,
    0x03, 0x00, 0x10, 0x00, 0x11, 0x00, 0x12, 0x00, 0x00, 0x00]"

definition kexOpaqueNuvoton :: bytes where
  "kexOpaqueNuvoton = [
    0x0c, 0x00, 0x00, 0x00, 0x05, 0x00, 0x01, 0x01, 0x01, 0x00, 0x10, 0x00,
    0x00, 0x00]"

definition kexOpaqueNations :: bytes where
  "kexOpaqueNations = [0x00, 0x00]"

definition kexOpaqueTcg :: bytes where
  "kexOpaqueTcg = [
    0x10, 0x00, 0x01, 0x00, 0x00, 0x00, 0x00, 0x00, 0x05, 0x00,
    0x01, 0x01, 0x01, 0x00, 0x10, 0x00, 0x00, 0x00]"

definition wolfSPDM_KeyExOpaque :: "'w WOLFSPDM_CTX \<Rightarrow> bytes" where
  "wolfSPDM_KeyExOpaque c =
     (case mode c of
        MODE_TCG \<Rightarrow> kexOpaqueTcg
      | MODE_NUVOTON \<Rightarrow> kexOpaqueNuvoton
      | MODE_NATIONS \<Rightarrow> kexOpaqueNations
      | _ \<Rightarrow> kexOpaqueStd)"

abbreviation (input) WOLFSPDM_KEYEX_FIXED_SZ :: nat where
  "WOLFSPDM_KEYEX_FIXED_SZ \<equiv> 40 + 2 * WOLFSPDM_ECC_KEY_SIZE"

definition wolfSPDM_BuildKeyExchange :: "wc_env \<Rightarrow> nat \<Rightarrow> ('w, bytes) cop" where
  "wolfSPDM_BuildKeyExchange K bufSz = bindE (getE id) (\<lambda>c.
     let opaque = wolfSPDM_KeyExOpaque c;
         useKem = (kemAlgSel c \<noteq> 0 \<and> \<not> wolfSPDM_IsTcgMode c) in
     thenE (guardE (bufSz \<ge> WOLFSPDM_KEYEX_FIXED_SZ + length opaque -
                      (if useKem then WOLFSPDM_ECC_POINT_SIZE else 0)) E_BUFFER_SMALL)
     (bindE (wolfSPDM_GetRandom K WOLFSPDM_RANDOM_SIZE) (\<lambda>random.
      bindE (if useKem
             then wolfSPDM_GenerateMlKemKey K (bufSz - 40 - length opaque)
             else thenE (wolfSPDM_GenerateEphemeralKey K)
                  (bindE (wolfSPDM_ExportEphemeralPubKey K) (\<lambda>(x, y). retE (x @ y)))) (\<lambda>exData.
      retE ([spdmVersion c, SPDM_KEY_EXCHANGE, 0x00,
             if wolfSPDM_IsTcgMode c then 0xFF else currentSlotId c] @
            SPDM_Set16LE (reqSessionId c) @ [0x00, 0x00] @ random @ exData @ opaque)))))"

section \<open>Signing\<close>

definition wolfSPDM_BuildSignedMsg :: "byte \<Rightarrow> bytes \<Rightarrow> bytes \<Rightarrow> ('s, bytes) op" where
  "wolfSPDM_BuildSignedMsg ver contextStr inputDigest =
     thenE (guardE (length contextStr \<le> 36) E_INVALID_ARG)
     (let majorVer = 0x30 + (drop_bit 4 ver AND 0xF);
          minorVer = 0x30 + (ver AND 0xF);
          prefix = (cstr ''dmtf-spdm-v1.2.*'')[11 := majorVer, 13 := minorVer, 15 := 0x2A] in
      retE (prefix @ prefix @ prefix @ prefix @ zeros (36 - length contextStr) @ contextStr @
            inputDigest))"

definition wolfSPDM_BuildSignedHash :: "wc_env \<Rightarrow> byte \<Rightarrow> bytes \<Rightarrow> bytes \<Rightarrow> ('s, bytes) op" where
  "wolfSPDM_BuildSignedHash K ver contextStr inputDigest =
     bindE (wolfSPDM_BuildSignedMsg ver contextStr inputDigest) (\<lambda>signMsg.
     wolfSPDM_Sha384Hash K signMsg [] [])"

definition wolfSPDM_VerifyRspSig :: "wc_env \<Rightarrow> bytes \<Rightarrow> bytes \<Rightarrow> bytes \<Rightarrow> ('w, unit) cop" where
  "wolfSPDM_VerifyRspSig K contextStr messageHash sig = bindE (getE id) (\<lambda>c.
     thenE (guardE (hasRspPubKey (flags c)) E_BAD_STATE)
     (thenE (guardE (length sig = wolfSPDM_SigSize c) E_BAD_SIGNATURE)
     (case wolfSPDM_RspMlDsaLevel c of
        Some level \<Rightarrow>
          bindE (wolfSPDM_BuildSignedMsg (spdmVersion c) contextStr messageHash) (\<lambda>signMsg.
          wolfSPDM_MlDsaVerify K level (rspPubKey c) contextStr signMsg sig)
      | None \<Rightarrow>
          bindE (wolfSPDM_BuildSignedHash K (spdmVersion c) contextStr messageHash) (\<lambda>signHash.
          wolfSPDM_VerifySignature K signHash sig))))"

section \<open>FINISH\<close>

definition wolfSPDM_BuildFinish :: "wc_env \<Rightarrow> nat \<Rightarrow> ('w, bytes) cop" where
  "wolfSPDM_BuildFinish K bufSz = bindE (getE id) (\<lambda>c.
     let mutualAuth = (mutAuthRequested c AND 0x01 \<noteq> 0);
         hdr = [spdmVersion c, SPDM_FINISH] @
               (if mutualAuth then [0x01, 0xFF] else [0x00, 0x00]) @
               (if spdmVersion c \<ge> SPDM_VERSION_14 then [0x00, 0x00] else []);
         minSz = 4 + WOLFSPDM_HASH_SIZE + (if spdmVersion c \<ge> SPDM_VERSION_14 then 2 else 0) +
                 (if mutualAuth then WOLFSPDM_ECC_POINT_SIZE else 0) in
     thenE (guardE (\<not> (mutualAuth \<and> \<not> hasReqKeyPair (flags c))) E_BAD_STATE)
     (thenE (guardE (bufSz \<ge> minSz) E_BUFFER_SMALL)
     (thenE (if mutualAuth \<and> reqPubKeyTPMT c \<noteq> []
             then bindE (wolfSPDM_Sha384Hash K (reqPubKeyTPMT c) [] []) wolfSPDM_TranscriptAdd
             else retE ())
     (thenE (wolfSPDM_TranscriptAdd hdr)
     (bindE (wolfSPDM_TranscriptHash K) (\<lambda>th2Hash.
      thenE (modE (\<lambda>d. d\<lparr>th2 := th2Hash\<rparr>))
      (bindE (if mutualAuth
              then bindE (wolfSPDM_BuildSignedHash K (spdmVersion c)
                            (cstr ''requester-finish signing'') th2Hash) (\<lambda>signMsgHash.
                   bindE (wolfSPDM_SignHash K signMsgHash) (\<lambda>sig.
                   thenE (wolfSPDM_TranscriptAdd sig)
                   (bindE (wolfSPDM_TranscriptHash K) (\<lambda>th2Hash'.
                   retE (sig, th2Hash')))))
              else retE ([], th2Hash)) (\<lambda>(sig, th).
       bindE (getE reqFinishedKey) (\<lambda>fk.
       bindE (wolfSPDM_ComputeVerifyData K fk th) (\<lambda>verifyData.
       thenE (wolfSPDM_TranscriptAdd verifyData)
       (retE (hdr @ sig @ verifyData))))))))))))"

section \<open>VERSION\<close>

definition highestMutual :: "byte \<Rightarrow> bytes \<Rightarrow> nat \<Rightarrow> byte" where
  "highestMutual maxVer buf entryCount =
     fold (\<lambda>i highest. let ver = buf ! (6 + i * 2 + 1) in
            if ver \<ge> WOLFSPDM_MIN_SPDM_VERSION \<and> ver \<le> maxVer \<and> ver > highest then ver else highest)
       [0..<entryCount] 0"

definition wolfSPDM_ParseVersion :: "bytes \<Rightarrow> ('w, unit) cop" where
  "wolfSPDM_ParseVersion buf =
     thenE (SPDM_CHECK_PARSE_OR_ERROR_ARGS buf 6)
     (thenE (SPDM_CHECK_RESPONSE buf SPDM_VERSION E_VERSION_MISMATCH)
     (bindE (getE maxVersion) (\<lambda>mv.
      let entryCount = (if buf ! 5 = 0 then unat (buf ! 4) else unat (buf ! 5));
          maxVer = (if mv \<noteq> 0 then mv else WOLFSPDM_MAX_SPDM_VERSION);
          highestVersion = highestMutual maxVer buf entryCount in
      thenE (guardE (6 + entryCount * 2 \<le> length buf) E_VERSION_MISMATCH)
      (thenE (guardE (highestVersion \<noteq> 0) E_VERSION_MISMATCH)
      (modE (\<lambda>c. c\<lparr>spdmVersion := highestVersion, state := WOLFSPDM_STATE_VERSION\<rparr>))))))"

section \<open>KEY_EXCHANGE_RSP\<close>

abbreviation (input) kexSigContext :: bytes where
  "kexSigContext \<equiv> cstr ''responder-key_exchange_rsp signing''"

text \<open>The size of ExchangeData, and where the signature starts after the opaque data.\<close>

definition kexExchangeSz :: "wc_env \<Rightarrow> 'w WOLFSPDM_CTX \<Rightarrow> ('w, nat) cop" where
  "kexExchangeSz K c =
     (if ephemeralKeyInit (flags c) \<and> ephemeralIsKem (flags c)
      then liftE E_CRYPTO_FAIL (wc_MlKemKey_CipherTextSize K (ephemeral c))
      else retE WOLFSPDM_ECC_POINT_SIZE)"

definition kexSigOffset :: "bytes \<Rightarrow> nat \<Rightarrow> nat" where
  "kexSigOffset buf opaqueOff = opaqueOff + 2 + unat (SPDM_Get16LE buf opaqueOff)"

definition kexSharedSecret :: "wc_env \<Rightarrow> bool \<Rightarrow> nat \<Rightarrow> bytes \<Rightarrow> ('w, unit) cop" where
  "kexSharedSecret K isKem exSz buf =
     (if isKem then wolfSPDM_MlKemDecapsulate K (take exSz (drop 40 buf))
      else wolfSPDM_ComputeSharedSecret K (take WOLFSPDM_ECC_KEY_SIZE (drop 40 buf))
             (take WOLFSPDM_ECC_KEY_SIZE (drop (40 + WOLFSPDM_ECC_KEY_SIZE) buf)))"

definition wolfSPDM_ParseKeyExchangeRsp :: "wc_env \<Rightarrow> bytes \<Rightarrow> ('w, unit) cop" where
  "wolfSPDM_ParseKeyExchangeRsp K buf =
     thenE (SPDM_CHECK_PARSE_OR_ERROR_ARGS buf 140)
     (thenE (SPDM_CHECK_RESPONSE buf SPDM_KEY_EXCHANGE_RSP E_KEY_EXCHANGE)
     (bindE (getE id) (\<lambda>c.
      thenE (guardE (\<not> (\<not> wolfSPDM_IsTcgMode c \<and> buf ! 6 \<noteq> 0)) E_KEY_EXCHANGE)
      (bindE (kexExchangeSz K c) (\<lambda>exSz.
       let sigSz = wolfSPDM_SigSize c; opaqueOff = 40 + exSz in
       thenE (guardE (length buf \<ge> opaqueOff + 2) E_BUFFER_SMALL)
       (let sigOffset = kexSigOffset buf opaqueOff;
            sig = take sigSz (drop sigOffset buf);
            rspVerifyData = take WOLFSPDM_HASH_SIZE (drop (sigOffset + sigSz) buf) in
        thenE (guardE (length buf \<ge> sigOffset + sigSz + WOLFSPDM_HASH_SIZE) E_BUFFER_SMALL)
        (thenE (wolfSPDM_TranscriptAdd (take sigOffset buf))
        (bindE (wolfSPDM_TranscriptHash K) (\<lambda>th1SigHash.
         thenE (wolfSPDM_VerifyRspSig K kexSigContext th1SigHash sig)
         (thenE (wolfSPDM_TranscriptAdd sig)
         (thenE (kexSharedSecret K (ephemeralIsKem (flags c)) exSz buf)
         (bindE (wolfSPDM_TranscriptHash K) (\<lambda>th1Hash.
          thenE (modE (\<lambda>d. d\<lparr>th1 := th1Hash\<rparr>))
          (thenE (wolfSPDM_DeriveHandshakeKeys K th1Hash)
          (bindE (getE rspFinishedKey) (\<lambda>fk.
           bindE (wolfSPDM_ComputeVerifyData K fk th1Hash) (\<lambda>expectedHmac.
           thenE (guardE (wolfSPDM_ConstCompare expectedHmac rspVerifyData WOLFSPDM_HASH_SIZE = 0)
                    E_BAD_HMAC)
           (thenE (wolfSPDM_TranscriptAdd rspVerifyData)
           (modE (\<lambda>d. d\<lparr>rspSessionId := SPDM_Get16LE buf 4,
              sessionId := ucast (reqSessionId d) OR push_bit 16 (ucast (SPDM_Get16LE buf 4)),
              mutAuthRequested := buf ! 6, reqSlotIdParam := buf ! 7,
              state := WOLFSPDM_STATE_KEY_EX\<rparr>))))))))))))))))))))"

section \<open>FINISH_RSP\<close>

definition wolfSPDM_ParseFinishRsp :: "bytes \<Rightarrow> ('w, unit) cop" where
  "wolfSPDM_ParseFinishRsp buf =
     thenE (SPDM_CHECK_PARSE_ARGS buf 4)
     (bindE (getE spdmVersion) (\<lambda>ver.
      if buf ! 1 = SPDM_FINISH_RSP
      then bindE (if ver \<ge> SPDM_VERSION_14
                  then thenE (guardE (length buf \<ge> 6) E_BUFFER_SMALL)
                       (let opaqueLen = unat (SPDM_Get16LE buf 4) in
                        thenE (guardE (opaqueLen \<le> WOLFSPDM_FINISH_OPAQUE_MAX) E_INVALID_ARG)
                        (thenE (guardE (length buf \<ge> 4 + 2 + opaqueLen) E_BUFFER_SMALL)
                        (retE (4 + 2 + opaqueLen))))
                  else retE 4) (\<lambda>rspMsgLen.
           thenE (wolfSPDM_TranscriptAdd (take rspMsgLen buf))
           (modE (\<lambda>c. c\<lparr>state := WOLFSPDM_STATE_FINISH\<rparr>)))
      else if buf ! 1 = SPDM_ERROR then failE E_PEER_ERROR
      else failE E_BAD_STATE))"

section \<open>HEARTBEAT and KEY_UPDATE\<close>

definition wolfSPDM_BuildHeartbeat :: "nat \<Rightarrow> ('w, bytes) cop" where
  "wolfSPDM_BuildHeartbeat bufSz = wolfSPDM_BuildSimpleMsg SPDM_HEARTBEAT bufSz"

definition wolfSPDM_ParseHeartbeatAck :: "bytes \<Rightarrow> ('w, unit) cop" where
  "wolfSPDM_ParseHeartbeatAck buf =
     thenE (SPDM_CHECK_PARSE_ARGS buf 4)
     (thenE (SPDM_CHECK_RESPONSE buf SPDM_HEARTBEAT_ACK E_PEER_ERROR)
     (bindE (getE spdmVersion) (\<lambda>ver.
      guardE (length buf = 4 \<and> buf ! 0 = ver) E_PEER_ERROR)))"

definition wolfSPDM_BuildKeyUpdate :: "wc_env \<Rightarrow> nat \<Rightarrow> byte \<Rightarrow> ('w, bytes \<times> byte) cop" where
  "wolfSPDM_BuildKeyUpdate K bufSz operation =
     thenE (guardE (bufSz \<ge> 4) E_BUFFER_SMALL)
     (bindE (wolfSPDM_GetRandom K 1) (\<lambda>tag.
      getE (\<lambda>c. ([spdmVersion c, SPDM_KEY_UPDATE, operation, tag ! 0], tag ! 0))))"

definition wolfSPDM_ParseKeyUpdateAck :: "bytes \<Rightarrow> byte \<Rightarrow> byte \<Rightarrow> ('w, unit) cop" where
  "wolfSPDM_ParseKeyUpdateAck buf operation tag =
     thenE (SPDM_CHECK_PARSE_ARGS buf 4)
     (thenE (SPDM_CHECK_RESPONSE buf SPDM_KEY_UPDATE_ACK E_KEY_UPDATE)
     (bindE (getE spdmVersion) (\<lambda>ver.
      guardE (length buf = 4 \<and> buf ! 0 = ver \<and> buf ! 2 = operation \<and> buf ! 3 = tag) E_KEY_UPDATE)))"

section \<open>Frames\<close>

lemma keeps_CHECKS [keeps_intros]:
  "keeps f (SPDM_CHECK_PARSE_OR_ERROR_ARGS b n)" "keeps f (SPDM_CHECK_PARSE_ARGS b n)"
  unfolding SPDM_CHECK_PARSE_OR_ERROR_ARGS_def SPDM_CHECK_PARSE_ARGS_def by (intro keeps_intros)+

lemma keeps_CHECK_RESPONSE [keeps_intros]:
  assumes "\<And>c x. f (c\<lparr>lastPeerErrorCode := x\<rparr>) = f c"
  shows "keeps f (SPDM_CHECK_RESPONSE b x e)"
  unfolding SPDM_CHECK_RESPONSE_def by (intro keeps_intros) (simp_all add: assms)

lemma keeps_BuildSimple [keeps_intros]:
  "keeps f (wolfSPDM_BuildGetVersion n)" "keeps f (wolfSPDM_BuildSimpleMsg m n)"
  unfolding wolfSPDM_BuildGetVersion_def wolfSPDM_BuildSimpleMsg_def by (intro keeps_intros)+

lemma keeps_BuildKeyExchange [keeps_intros]:
  assumes "\<And>c x. f (c\<lparr>rng := x\<rparr>) = f c" "\<And>c x. f (c\<lparr>ephemeral := x\<rparr>) = f c"
    "\<And>c g. same_but_eph g (flags c) \<Longrightarrow> f (c\<lparr>flags := g\<rparr>) = f c"
  shows "keeps f (wolfSPDM_BuildKeyExchange K n)"
  unfolding wolfSPDM_BuildKeyExchange_def by (intro keeps_intros) (simp_all add: assms)

lemma keeps_BuildSignedMsg [keeps_intros]: "keeps f (wolfSPDM_BuildSignedMsg v cs d)"
  unfolding wolfSPDM_BuildSignedMsg_def by (intro keeps_intros)

lemma keeps_BuildSignedHash [keeps_intros]: "keeps f (wolfSPDM_BuildSignedHash K v cs d)"
  unfolding wolfSPDM_BuildSignedHash_def by (intro keeps_intros)

lemma keeps_VerifyRspSig [keeps_intros]: "keeps f (wolfSPDM_VerifyRspSig K cs h s)"
  unfolding wolfSPDM_VerifyRspSig_def by (intro keeps_intros)

lemma keeps_BuildFinish [keeps_intros]:
  assumes "\<And>c x. f (c\<lparr>rng := x\<rparr>) = f c" "\<And>c x. f (c\<lparr>transcript := x\<rparr>) = f c"
    "\<And>c x. f (c\<lparr>th2 := x\<rparr>) = f c"
  shows "keeps f (wolfSPDM_BuildFinish K n)"
  unfolding wolfSPDM_BuildFinish_def by (intro keeps_intros) (simp_all add: assms)

lemma keeps_ParseVersion [keeps_intros]:
  assumes "\<And>c x. f (c\<lparr>lastPeerErrorCode := x\<rparr>) = f c"
    "\<And>c x y. f (c\<lparr>spdmVersion := x, state := y\<rparr>) = f c"
  shows "keeps f (wolfSPDM_ParseVersion b)"
  unfolding wolfSPDM_ParseVersion_def by (intro keeps_intros) (simp_all add: assms)

lemma keeps_ParseFinishRsp [keeps_intros]:
  assumes "\<And>c x. f (c\<lparr>transcript := x\<rparr>) = f c" "\<And>c x. f (c\<lparr>state := x\<rparr>) = f c"
  shows "keeps f (wolfSPDM_ParseFinishRsp b)"
  unfolding wolfSPDM_ParseFinishRsp_def by (intro keeps_intros) (simp_all add: assms)

lemma keeps_ParseHeartbeatAck [keeps_intros]:
  assumes "\<And>c x. f (c\<lparr>lastPeerErrorCode := x\<rparr>) = f c"
  shows "keeps f (wolfSPDM_ParseHeartbeatAck b)"
  unfolding wolfSPDM_ParseHeartbeatAck_def by (intro keeps_intros) (simp_all add: assms)

lemma keeps_BuildKeyUpdate [keeps_intros]:
  assumes "\<And>c x. f (c\<lparr>rng := x\<rparr>) = f c"
  shows "keeps f (wolfSPDM_BuildKeyUpdate K n p)"
  unfolding wolfSPDM_BuildKeyUpdate_def by (intro keeps_intros) (simp_all add: assms)

lemma keeps_ParseKeyUpdateAck [keeps_intros]:
  assumes "\<And>c x. f (c\<lparr>lastPeerErrorCode := x\<rparr>) = f c"
  shows "keeps f (wolfSPDM_ParseKeyUpdateAck b p t)"
  unfolding wolfSPDM_ParseKeyUpdateAck_def by (intro keeps_intros) (simp_all add: assms)

lemma keeps_kexExchangeSz [keeps_intros]: "keeps f (kexExchangeSz K c)"
  unfolding kexExchangeSz_def by (intro keeps_intros)

lemma keeps_kexSharedSecret [keeps_intros]:
  assumes "\<And>c x. f (c\<lparr>rng := x\<rparr>) = f c" "\<And>c x. f (c\<lparr>sharedSecret := x\<rparr>) = f c"
  shows "keeps f (kexSharedSecret K k n b)"
  unfolding kexSharedSecret_def by (intro keeps_intros assms)

lemma keeps_ParseKeyExchangeRsp [keeps_intros]:
  assumes "\<And>c x. f (c\<lparr>rng := x\<rparr>) = f c" "\<And>c x. f (c\<lparr>transcript := x\<rparr>) = f c"
    "\<And>c x. f (c\<lparr>lastPeerErrorCode := x\<rparr>) = f c" "\<And>c x. f (c\<lparr>sharedSecret := x\<rparr>) = f c"
    "\<And>c x. f (c\<lparr>th1 := x\<rparr>) = f c" "\<And>c d. same_but_keys c d \<Longrightarrow> f d = f c"
    "\<And>c v w x y z. f (c\<lparr>rspSessionId := v, sessionId := w, mutAuthRequested := x,
        reqSlotIdParam := y, state := z\<rparr>) = f c"
  shows "keeps f (wolfSPDM_ParseKeyExchangeRsp K b)"
  unfolding wolfSPDM_ParseKeyExchangeRsp_def by (intro keeps_intros assms)

section \<open>Version negotiation\<close>

text \<open>The versions a VERSION response offers: the high bytes of its entries.\<close>

definition versionEntries :: "bytes \<Rightarrow> byte set" where
  "versionEntries buf =
     (\<lambda>i. buf ! (6 + i * 2 + 1)) ` {0..<(if buf ! 5 = 0 then unat (buf ! 4) else unat (buf ! 5))}"

lemma highestMutual_Suc:
  "highestMutual m buf (Suc n) =
     (let v = buf ! (6 + n * 2 + 1); h = highestMutual m buf n in
      if v \<ge> 0x12 \<and> v \<le> m \<and> v > h then v else h)"
  by (simp add: highestMutual_def Let_def)

lemma highestMutual_spec:
  fixes m :: byte and buf :: bytes
  defines "S \<equiv> \<lambda>n. {v \<in> (\<lambda>i. buf ! (6 + i * 2 + 1)) ` {0..<n}. 0x12 \<le> v \<and> v \<le> m}"
  shows "highestMutual m buf n = 0 \<and> S n = {} \<or>
     highestMutual m buf n \<in> S n \<and> (\<forall>v \<in> S n. v \<le> highestMutual m buf n)"
proof (induction n)
  case 0
  then show ?case by (simp add: highestMutual_def S_def)
next
  case (Suc n)
  have S: "S (Suc n) = (if 0x12 \<le> buf ! (6 + n * 2 + 1) \<and> buf ! (6 + n * 2 + 1) \<le> m
      then insert (buf ! (6 + n * 2 + 1)) (S n) else S n)"
    by (auto simp: S_def atLeast0_lessThan_Suc)
  have pos: "(0x12 :: byte) \<le> v \<Longrightarrow> 0 < v" for v
    using less_le_trans [of 0 "0x12 :: byte" v] by simp
  show ?case
    using Suc pos by (auto simp: S highestMutual_Suc Let_def)
qed

section \<open>KEY_EXCHANGE_RSP commits only what it has verified\<close>

text \<open>The session parameters KEY_EXCHANGE_RSP sets.\<close>

definition kexCommit :: "'w WOLFSPDM_CTX \<Rightarrow> nat \<times> word16 \<times> word32 \<times> byte \<times> byte" where
  "kexCommit c = (state c, rspSessionId c, sessionId c, mutAuthRequested c, reqSlotIdParam c)"

lemma ParseKeyExchangeRsp_failKeeps:
  "failKeeps kexCommit (wolfSPDM_ParseKeyExchangeRsp K buf)"
  unfolding wolfSPDM_ParseKeyExchangeRsp_def
  by (intro failKeeps_intros keeps_intros) (simp_all add: kexCommit_def frame_simps)

lemma wpE_CHECK_RESPONSE:
  "wpE (SPDM_CHECK_RESPONSE buf x e) Q E c =
     (if buf ! 1 = x then Q () c
      else case wolfSPDM_CheckError buf of
        Some ec \<Rightarrow> E E_PEER_ERROR (c\<lparr>lastPeerErrorCode := ec\<rparr>) | None \<Rightarrow> E e c)"
  by (simp add: SPDM_CHECK_RESPONSE_def wp_simps split: option.split)

lemma wpE_TranscriptAdd:
  "wpE (wolfSPDM_TranscriptAdd d) Q E c =
     (if length (transcript c) + length d \<le> WOLFSPDM_MAX_TRANSCRIPT
      then Q () (c\<lparr>transcript := transcript c @ d\<rparr>) else E E_BUFFER_SMALL c)"
  by (auto simp: wolfSPDM_TranscriptAdd_def wp_simps)

lemma TranscriptHash_eq:
  "wolfSPDM_TranscriptHash K c = (map_sum id id (fst (wolfSPDM_Sha384Hash K (transcript c) [] [] c)), c)"
  using keepsD [OF keeps_Sha384Hash [of id K "transcript c" "[]" "[]"], of c]
  by (cases "wolfSPDM_Sha384Hash K (transcript c) [] [] c")
     (auto simp: wolfSPDM_TranscriptHash_def bindE_def getE_def sum.map_id0)

lemma keeps_id_wpE:
  assumes "keeps id m"
  shows "wpE m Q E c = (case fst (m c) of Inl e \<Rightarrow> E e c | Inr a \<Rightarrow> Q a c)"
  using assms by (auto simp: wpE_def keeps_def split: prod.splits sum.splits) (metis snd_conv)+

text \<open>The versions both sides speak: offered, at least 1.2, at most what the requester allows.\<close>

definition mutualVersions :: "'w WOLFSPDM_CTX \<Rightarrow> bytes \<Rightarrow> byte set" where
  "mutualVersions c buf = {v \<in> versionEntries buf. WOLFSPDM_MIN_SPDM_VERSION \<le> v \<and>
     v \<le> (if maxVersion c \<noteq> 0 then maxVersion c else WOLFSPDM_MAX_SPDM_VERSION)}"

lemma ParseVersion_spec:
  "wpE (wolfSPDM_ParseVersion buf)
     (\<lambda>_ d. state d = WOLFSPDM_STATE_VERSION \<and> spdmVersion d \<in> mutualVersions c buf \<and>
        (\<forall>v \<in> mutualVersions c buf. v \<le> spdmVersion d))
     (\<lambda>_ d. state d = state c \<and> spdmVersion d = spdmVersion c) c"
proof -
  let ?m = "if maxVersion c \<noteq> 0 then maxVersion c else WOLFSPDM_MAX_SPDM_VERSION"
  let ?n = "if buf ! 5 = 0 then unat (buf ! 4) else unat (buf ! 5)"
  have best: "highestMutual ?m buf ?n \<noteq> 0 \<Longrightarrow> highestMutual ?m buf ?n \<in> mutualVersions c buf \<and>
      (\<forall>v \<in> mutualVersions c buf. v \<le> highestMutual ?m buf ?n)"
    using highestMutual_spec [of ?m buf ?n] unfolding mutualVersions_def versionEntries_def by blast
  show ?thesis
    unfolding wolfSPDM_ParseVersion_def SPDM_CHECK_PARSE_OR_ERROR_ARGS_def Let_def
    by (simp only: wp_simps wpE_CHECK_RESPONSE) (use best in \<open>auto split: option.split\<close>)
qed

text \<open>
  On success the responder's signature over the transcript up to the signature was verified
  under the responder key, and ResponderVerifyData is the HMAC of TH1 under the finished key
  derived from the shared secret of this exchange; both are in the transcript.
\<close>

definition kexVerified :: "wc_env \<Rightarrow> 'w WOLFSPDM_CTX \<Rightarrow> bytes \<Rightarrow> 'w WOLFSPDM_CTX \<Rightarrow> bool" where
  "kexVerified K c buf d \<longleftrightarrow> (\<exists>ex h hmac c2 c3.
     let off = kexSigOffset buf (40 + ex); sig = take (wolfSPDM_SigSize c) (drop off buf);
         vd = take 48 (drop (off + wolfSPDM_SigSize c) buf) in
     fst (kexExchangeSz K c c) = Inr ex \<and>
     fst (wolfSPDM_Sha384Hash K (transcript c @ take off buf) [] [] c) = Inr h \<and>
     fst (wolfSPDM_VerifyRspSig K kexSigContext h sig c) = Inr () \<and>
     kexSharedSecret K (ephemeralIsKem (flags c)) ex buf
       (c\<lparr>transcript := transcript c @ take off buf @ sig\<rparr>) = (Inr (), c2) \<and>
     wolfSPDM_DeriveHandshakeKeys K (th1 d) (c2\<lparr>th1 := th1 d\<rparr>) = (Inr (), c3) \<and>
     rspFinishedKey d = rspFinishedKey c3 \<and>
     wc_Hmac K (rspFinishedKey d) (th1 d) = Some hmac \<and> wolfSPDM_ConstCompare hmac vd 48 = 0 \<and>
     transcript d = transcript c @ take off buf @ sig @ vd)"

lemma succ_TranscriptAdd [succ_simps]:
  "wolfSPDM_TranscriptAdd d c = (Inr u, t) \<longleftrightarrow>
     length (transcript c) + length d \<le> WOLFSPDM_MAX_TRANSCRIPT \<and> t = c\<lparr>transcript := transcript c @ d\<rparr>"
  by (auto simp: wolfSPDM_TranscriptAdd_def opE_defs)

lemma succ_CHECK_RESPONSE [succ_simps]:
  "SPDM_CHECK_RESPONSE buf x e c = (Inr u, t) \<longleftrightarrow> buf ! 1 = x \<and> t = c"
  by (auto simp: SPDM_CHECK_RESPONSE_def opE_defs split: option.splits)

lemma succ_CHECK_ARGS [succ_simps]:
  "SPDM_CHECK_PARSE_OR_ERROR_ARGS buf n c = (Inr u, t) \<longleftrightarrow>
     \<not> (length buf < 4 \<or> length buf < n \<and> buf ! 1 \<noteq> SPDM_ERROR) \<and> t = c"
  "SPDM_CHECK_PARSE_ARGS buf n c = (Inr u, t) \<longleftrightarrow> length buf \<ge> n \<and> t = c"
  by (auto simp: SPDM_CHECK_PARSE_OR_ERROR_ARGS_def SPDM_CHECK_PARSE_ARGS_def succ_simps)

lemma Sha384Hash_ctx: "fst (wolfSPDM_Sha384Hash K a b d s) = fst (wolfSPDM_Sha384Hash K a b d t)"
  by (simp add: wolfSPDM_Sha384Hash_def sha384Feed_def opE_defs split: option.splits)

lemma succ_Sha384Hash:
  "wolfSPDM_Sha384Hash K a b d s = (Inr h, t) \<longleftrightarrow> fst (wolfSPDM_Sha384Hash K a b d s0) = Inr h \<and> t = s"
  using keepsD [OF keeps_Sha384Hash [of id K a b d], of s] Sha384Hash_ctx [of K a b d s s0]
  by (cases "wolfSPDM_Sha384Hash K a b d s") auto

lemma succ_TranscriptHash:
  "wolfSPDM_TranscriptHash K c = (Inr h, t) \<longleftrightarrow>
     fst (wolfSPDM_Sha384Hash K (transcript c) [] [] s0) = Inr h \<and> t = c"
  by (auto simp: wolfSPDM_TranscriptHash_def succ_simps succ_Sha384Hash [of K _ "[]" "[]" _ _ _ s0])

text \<open>Signature verification reads the responder key and the algorithm selection only.\<close>

lemma sig_params_transcript [simp]:
  "wolfSPDM_IsTcgMode (c\<lparr>transcript := tr\<rparr>) = wolfSPDM_IsTcgMode c"
  "wolfSPDM_RspMlDsaLevel (c\<lparr>transcript := tr\<rparr>) = wolfSPDM_RspMlDsaLevel c"
  "wolfSPDM_SigSize (c\<lparr>transcript := tr\<rparr>) = wolfSPDM_SigSize c"
  by (simp_all add: wolfSPDM_IsTcgMode_def wolfSPDM_RspMlDsaLevel_def wolfSPDM_SigSize_def)

lemma bindE_ctx:
  assumes "keeps id m" "fst (m s) = fst (m t)" "\<And>a. fst (f a s) = fst (g a t)"
  shows "fst (bindE m f s) = fst (bindE m g t)"
  using assms keepsD [OF assms(1), of s] keepsD [OF assms(1), of t]
  by (cases "m s"; cases "m t") (auto simp: bindE_def split: sum.splits)

lemma pure_ctx:
  "fst (guardE b e s) = fst (guardE b e t)" "fst (liftE e r s) = fst (liftE e r t)"
  "fst (retE x s) = fst (retE x t)" "fst (failE e s) = fst (failE e t)"
  by (simp_all add: opE_defs split: option.splits)

definition sigView :: "'w WOLFSPDM_CTX \<Rightarrow> WOLFSPDM_MODE \<times> word32 \<times> byte \<times> bytes \<times> bool" where
  "sigView c = (mode c, pqcAsymSel c, spdmVersion c, rspPubKey c, hasRspPubKey (flags c))"

lemma sigView_params:
  assumes "sigView c = sigView d"
  shows "wolfSPDM_RspMlDsaLevel c = wolfSPDM_RspMlDsaLevel d" "wolfSPDM_SigSize c = wolfSPDM_SigSize d"
    "spdmVersion c = spdmVersion d" "rspPubKey c = rspPubKey d"
    "hasRspPubKey (flags c) = hasRspPubKey (flags d)"
  using assms
  by (simp_all add: sigView_def wolfSPDM_IsTcgMode_def wolfSPDM_RspMlDsaLevel_def wolfSPDM_SigSize_def)

lemma fst_bindE_get: "fst (bindE (getE id) f s) = fst (f s s)"
  by (simp add: bindE_def getE_def)

lemma VerifySignature_view:
  fixes c d :: "'w WOLFSPDM_CTX"
  assumes "sigView c = sigView d"
  shows "fst (wolfSPDM_VerifySignature K h sig c) = fst (wolfSPDM_VerifySignature K h sig d)"
proof -
  have ex: "fst (wolfSPDM_ExtractEccPoint p s) = fst (wolfSPDM_ExtractEccPoint p t)" for p and s t :: "'w WOLFSPDM_CTX"
    by (simp add: wolfSPDM_ExtractEccPoint_def pure_ctx Let_def)
  show ?thesis
    unfolding wolfSPDM_VerifySignature_def
    by (auto simp: fst_bindE_get sigView_params [OF assms]
        intro!: bindE_ctx keeps_intros pure_ctx ex split: prod.split)
qed

lemma VerifyRspSig_view:
  fixes c d :: "'w WOLFSPDM_CTX"
  assumes "sigView c = sigView d"
  shows "fst (wolfSPDM_VerifyRspSig K cs h sig c) = fst (wolfSPDM_VerifyRspSig K cs h sig d)"
proof -
  have msg: "fst (wolfSPDM_BuildSignedMsg v cs h s) = fst (wolfSPDM_BuildSignedMsg v cs h t)" for v and s t :: "'w WOLFSPDM_CTX"
    by (simp add: wolfSPDM_BuildSignedMsg_def opE_defs Let_def)
  have hash: "fst (wolfSPDM_BuildSignedHash K v cs h s) = fst (wolfSPDM_BuildSignedHash K v cs h t)" for v and s t :: "'w WOLFSPDM_CTX"
    unfolding wolfSPDM_BuildSignedHash_def by (intro bindE_ctx keeps_intros msg Sha384Hash_ctx)
  have mldsa: "fst (wolfSPDM_MlDsaVerify K l p cs m sig s) = fst (wolfSPDM_MlDsaVerify K l p cs m sig t)" for l p m and s t :: "'w WOLFSPDM_CTX"
    by (simp add: wolfSPDM_MlDsaVerify_def opE_defs)
  show ?thesis
    unfolding wolfSPDM_VerifyRspSig_def
    by (auto simp: fst_bindE_get sigView_params [OF assms]
        intro!: bindE_ctx keeps_intros pure_ctx msg hash mldsa VerifySignature_view assms
        split: option.split)
qed

lemma VerifyRspSig_transcript:
  "fst (wolfSPDM_VerifyRspSig K cs h sig (c\<lparr>transcript := tr\<rparr>)) = fst (wolfSPDM_VerifyRspSig K cs h sig c)"
  by (rule VerifyRspSig_view) (simp add: sigView_def)

lemma succ_VerifyRspSig:
  "wolfSPDM_VerifyRspSig K cs h sig c = (Inr u, t) \<longleftrightarrow> fst (wolfSPDM_VerifyRspSig K cs h sig c) = Inr () \<and> t = c"
  using keepsD [OF keeps_VerifyRspSig [of id K cs h sig], of c]
  by (cases "wolfSPDM_VerifyRspSig K cs h sig c") auto

lemma succ_kexExchangeSz [succ_simps]:
  "kexExchangeSz K c s = (Inr n, t) \<longleftrightarrow> fst (kexExchangeSz K c s) = Inr n \<and> t = s"
  using keepsD [OF keeps_kexExchangeSz [of id K c], of s] by (cases "kexExchangeSz K c s") auto

lemma ParseKeyExchangeRsp_verified:
  assumes "wolfSPDM_ParseKeyExchangeRsp K buf c = (Inr u, d)"
  shows "kexVerified K c buf d" "state d = WOLFSPDM_STATE_KEY_EX"
proof -
  obtain ex off h th hm c2 c3 where
    ex: "fst (kexExchangeSz K c c) = Inr ex" "off = kexSigOffset buf (40 + ex)" and
    h: "fst (wolfSPDM_Sha384Hash K (transcript c @ take off buf) [] [] c) = Inr h" and
    v: "fst (wolfSPDM_VerifyRspSig K kexSigContext h (take (wolfSPDM_SigSize c) (drop off buf))
           (c\<lparr>transcript := transcript c @ take off buf\<rparr>)) = Inr ()" and
    s: "kexSharedSecret K (ephemeralIsKem (flags c)) ex buf (c\<lparr>transcript := transcript c @ take off buf @
           take (wolfSPDM_SigSize c) (drop off buf)\<rparr>) = (Inr (), c2)" and
    dv: "wolfSPDM_DeriveHandshakeKeys K th (c2\<lparr>th1 := th\<rparr>) = (Inr (), c3)" and
    hm: "wc_Hmac K (rspFinishedKey c3) th = Some hm"
       "wolfSPDM_ConstCompare hm (take 48 (drop (off + wolfSPDM_SigSize c) buf)) 48 = 0" and
    d: "rspFinishedKey d = rspFinishedKey c3" "th1 d = th1 c3" "state d = WOLFSPDM_STATE_KEY_EX"
       "transcript d = transcript c3 @ take 48 (drop (off + wolfSPDM_SigSize c) buf)"
    using assms
    by (auto simp add: wolfSPDM_ParseKeyExchangeRsp_def succ_simps Let_def
        succ_TranscriptHash [of K _ _ _ c] succ_VerifyRspSig wolfSPDM_ComputeVerifyData_def
        simp del: take_append drop_append)
  have "transcript c2 = transcript c @ take off buf @ take (wolfSPDM_SigSize c) (drop off buf)"
    using keepsD [OF keeps_kexSharedSecret [of transcript] s] by simp
  moreover have "transcript c3 = transcript c2" "th1 c3 = th"
    using keepsD [OF keeps_DeriveHandshakeKeys [of transcript] dv]
      keepsD [OF keeps_DeriveHandshakeKeys [of th1] dv] by (simp_all add: frame_simps)
  ultimately show "kexVerified K c buf d"
    unfolding kexVerified_def Let_def using ex h v s dv hm d(1,2,4)
    by (intro exI [of _ ex] exI [of _ h] exI [of _ hm] exI [of _ c2] exI [of _ c3])
       (simp add: VerifyRspSig_transcript)
  show "state d = WOLFSPDM_STATE_KEY_EX" by (fact d(3))
qed

end
