(* ===== verification/Spdm_Cert.thy ===== *)
theory Spdm_Cert
  imports Spdm_Msg
begin

text \<open>
  Certificate chain verification of \<^verbatim>\<open>src/spdm_standard.c\<close> and the running transcript
  hashes of \<^verbatim>\<open>src/spdm_attest.c\<close> that the certificate and session flows share. A running
  hash (\<^verbatim>\<open>wc_Sha384*\<close> and its state byte, passed as two pointers) is a pair of accessors.
\<close>

section \<open>Running hashes\<close>

record 'w run_field =
  runHash :: "'w WOLFSPDM_CTX \<Rightarrow> bytes"
  runState :: "'w WOLFSPDM_CTX \<Rightarrow> nat"
  setRunHash :: "bytes \<Rightarrow> 'w WOLFSPDM_CTX \<Rightarrow> 'w WOLFSPDM_CTX"
  setRunState :: "nat \<Rightarrow> 'w WOLFSPDM_CTX \<Rightarrow> 'w WOLFSPDM_CTX"

definition l1l2Run :: "'w run_field" where
  "l1l2Run = \<lparr>runHash = l1l2Hash, runState = l1l2State,
     setRunHash = (\<lambda>x c. c\<lparr>l1l2Hash := x\<rparr>), setRunState = (\<lambda>x c. c\<lparr>l1l2State := x\<rparr>)\<rparr>"

definition m1Run :: "'w run_field" where
  "m1Run = \<lparr>runHash = m1Hash, runState = m1State,
     setRunHash = (\<lambda>x c. c\<lparr>m1Hash := x\<rparr>), setRunState = (\<lambda>x c. c\<lparr>m1State := x\<rparr>)\<rparr>"

definition wolfSPDM_RunStart :: "wc_env \<Rightarrow> 'w run_field \<Rightarrow> ('w, unit) cop" where
  "wolfSPDM_RunStart K r = bindE (getE id) (\<lambda>c.
     thenE (if runState r c \<noteq> WOLFSPDM_RUN_NONE
            then modE (setRunState r WOLFSPDM_RUN_NONE) else retE ())
     (thenE (guardE (wc_InitSha384 K) E_CRYPTO_FAIL)
     (thenE (modE (\<lambda>d. setRunState r WOLFSPDM_RUN_LIVE (setRunHash r [] d)))
     (let vca = take (vcaLen c) (transcript c) in
      thenE (guardE (wc_Sha384Update K [] vca) E_CRYPTO_FAIL)
      (modE (setRunHash r vca))))))"

definition wolfSPDM_RunAdd :: "wc_env \<Rightarrow> 'w run_field \<Rightarrow> bytes \<Rightarrow> bytes \<Rightarrow> ('w, unit) cop" where
  "wolfSPDM_RunAdd K r req rsp = bindE (getE (runHash r)) (\<lambda>h.
     thenE (guardE (wc_Sha384Update K h req) E_CRYPTO_FAIL)
     (thenE (modE (setRunHash r (h @ req)))
     (thenE (guardE (wc_Sha384Update K (h @ req) rsp) E_CRYPTO_FAIL)
     (modE (setRunHash r (h @ req @ rsp))))))"

definition wolfSPDM_RunVerify ::
  "wc_env \<Rightarrow> 'w run_field \<Rightarrow> bytes \<Rightarrow> bytes \<Rightarrow> bytes \<Rightarrow> nat \<Rightarrow> ('w, unit) cop" where
  "wolfSPDM_RunVerify K r label req rsp sigOff =
     bindE (finallyE
              (thenE (wolfSPDM_RunAdd K r req (take sigOff rsp))
              (bindE (getE (runHash r)) (\<lambda>h. liftE E_CRYPTO_FAIL (wc_Sha384Final K h))))
              (setRunState r WOLFSPDM_RUN_NONE)) (\<lambda>digest.
     bindE (getE wolfSPDM_SigSize) (\<lambda>sigSz.
     wolfSPDM_VerifyRspSig K label digest (take sigSz (drop sigOff rsp))))"

definition wolfSPDM_ReqContextSz :: "'w WOLFSPDM_CTX \<Rightarrow> nat" where
  "wolfSPDM_ReqContextSz c = (if spdmVersion c \<ge> SPDM_VERSION_13 then 8 else 0)"

text \<open>The offset of the signature, when the tail of the response is well formed.\<close>

definition wolfSPDM_ParseTail ::
  "'w WOLFSPDM_CTX \<Rightarrow> bytes \<Rightarrow> bytes \<Rightarrow> nat \<Rightarrow> nat \<Rightarrow> nat option" where
  "wolfSPDM_ParseTail c req buf off sigSz =
     (let ctxSz = wolfSPDM_ReqContextSz c in
      if off + 2 > length buf then None
      else (let off2 = off + 2 + unat (SPDM_Get16LE buf off) in
            if off2 > length buf \<or> length buf - off2 \<noteq> ctxSz + sigSz \<or> length req < ctxSz \<or>
               take ctxSz (drop off2 buf) \<noteq> drop (length req - ctxSz) req
            then None else Some (off2 + ctxSz)))"

definition wolfSPDM_M1Start :: "wc_env \<Rightarrow> ('w, unit) cop" where
  "wolfSPDM_M1Start K = wolfSPDM_RunStart K m1Run"

definition wolfSPDM_M1Add :: "wc_env \<Rightarrow> bytes \<Rightarrow> bytes \<Rightarrow> ('w, unit) cop" where
  "wolfSPDM_M1Add K req rsp = bindE (getE m1State) (\<lambda>st.
     if st = WOLFSPDM_RUN_NONE then retE () else wolfSPDM_RunAdd K m1Run req rsp)"

section \<open>DER\<close>

text \<open>The full length of the DER SEQUENCE at the head of \<open>der\<close>, or 0 if it is malformed.\<close>

definition wolfSPDM_DerSeqLen :: "bytes \<Rightarrow> nat" where
  "wolfSPDM_DerSeqLen der =
     (if length der < 2 \<or> der ! 0 \<noteq> 0x30 then 0
      else if der ! 1 < 0x80
      then (if unat (der ! 1) > length der - 2 then 0 else 2 + unat (der ! 1))
      else (let n = unat (der ! 1 AND 0x7F) in
            if n = 0 \<or> n > 3 \<or> length der < 2 + n then 0
            else (let len = fold (\<lambda>i l. l * 256 + unat (der ! (2 + i))) [0..<n] 0;
                      hdr = 2 + n in
                  if len > length der - hdr then 0 else hdr + len)))"

section \<open>Certificates\<close>

record WOLFSPDM_CERT_KEY =
  ckOid :: key_oid
  ckDer :: bytes

definition wolfSPDM_KeyOidMlDsaLevel :: "key_oid \<Rightarrow> mldsa_level option" where
  "wolfSPDM_KeyOidMlDsaLevel oid =
     (case oid of
        ML_DSA_44k \<Rightarrow> wolfSPDM_MlDsaLevel 0x1
      | ML_DSA_65k \<Rightarrow> wolfSPDM_MlDsaLevel 0x2
      | ML_DSA_87k \<Rightarrow> wolfSPDM_MlDsaLevel 0x4
      | _ \<Rightarrow> None)"

definition wolfSPDM_SigOidMlDsaLevel :: "sig_oid \<Rightarrow> mldsa_level option" where
  "wolfSPDM_SigOidMlDsaLevel oid =
     (case oid of
        CTC_ML_DSA_44 \<Rightarrow> wolfSPDM_MlDsaLevel 0x1
      | CTC_ML_DSA_65 \<Rightarrow> wolfSPDM_MlDsaLevel 0x2
      | CTC_ML_DSA_87 \<Rightarrow> wolfSPDM_MlDsaLevel 0x4
      | _ \<Rightarrow> None)"

definition wolfSPDM_CertKey :: "wc_env \<Rightarrow> bytes \<Rightarrow> ('s, WOLFSPDM_CERT_KEY \<times> bool) op" where
  "wolfSPDM_CertKey K der =
     bindE (liftE E_CERT_PARSE (wc_ParseCert K der)) (\<lambda>cert.
     thenE (guardE (keyOID cert = ECDSAk \<or> wolfSPDM_KeyOidMlDsaLevel (keyOID cert) \<noteq> None) E_CERT_PARSE)
     (bindE (liftE E_CERT_PARSE (publicKey cert)) (\<lambda>pk.
      thenE (guardE (length pk \<le> WOLFSPDM_RSP_PUBKEY_SZ) E_CERT_PARSE)
      (retE (\<lparr>ckOid = keyOID cert, ckDer = pk\<rparr>, isCA cert)))))"

definition wolfSPDM_EccSpkiVerify :: "wc_env \<Rightarrow> bytes \<Rightarrow> bytes \<Rightarrow> bytes \<Rightarrow> ('s, unit) op" where
  "wolfSPDM_EccSpkiVerify K spki sig hash =
     bindE (liftE E_CERT_FAIL (wc_EccPublicKeyDecode K spki)) (\<lambda>key.
     guardE (wc_ecc_verify_hash K sig hash key = Some True) E_CERT_FAIL)"

text \<open>Every failure inside is the one code \<^verbatim>\<open>WOLFSPDM_E_CERT_FAIL\<close>.\<close>

definition asE :: "WOLFSPDM_ERROR \<Rightarrow> ('s, 'a) op \<Rightarrow> ('s, 'a) op" where
  "asE e m s = (case m s of (Inl _, t) \<Rightarrow> (Inl e, t) | (Inr a, t) \<Rightarrow> (Inr a, t))"

definition wolfSPDM_CertSignedBy :: "wc_env \<Rightarrow> bytes \<Rightarrow> WOLFSPDM_CERT_KEY \<Rightarrow> ('s, unit) op" where
  "wolfSPDM_CertSignedBy K der issuer = asE E_CERT_FAIL
     (bindE (liftE E_CERT_FAIL (wc_ParseCert K der)) (\<lambda>cert.
      thenE (guardE (sigIndex cert > certBegin cert) E_CERT_FAIL)
      (let tbs = take (sigIndex cert - certBegin cert) (drop (certBegin cert) der) in
       if ckOid issuer = ECDSAk
       then thenE (guardE (signatureOID cert = CTC_SHA384wECDSA) E_CERT_FAIL)
            (bindE (wolfSPDM_Sha384Hash K tbs [] []) (\<lambda>hash.
             wolfSPDM_EccSpkiVerify K (ckDer issuer) (signature cert) hash))
       else (case wolfSPDM_KeyOidMlDsaLevel (ckOid issuer) of
               Some level \<Rightarrow>
                 thenE (guardE (wolfSPDM_SigOidMlDsaLevel (signatureOID cert) = Some level) E_CERT_FAIL)
                 (wolfSPDM_MlDsaVerify K level (ckDer issuer) [] tbs (signature cert))
             | None \<Rightarrow> failE E_CERT_FAIL))))"

definition wolfSPDM_LeafKey ::
  "wc_env \<Rightarrow> 'w WOLFSPDM_CTX \<Rightarrow> WOLFSPDM_CERT_KEY \<Rightarrow> nat \<Rightarrow> ('s, bytes) op" where
  "wolfSPDM_LeafKey K c key leafSz =
     (case wolfSPDM_RspMlDsaLevel c of
        Some level \<Rightarrow>
          thenE (guardE (wolfSPDM_KeyOidMlDsaLevel (ckOid key) = Some level \<and>
                         length (ckDer key) \<le> leafSz) E_CERT_PARSE)
          (retE (ckDer key))
      | None \<Rightarrow>
          thenE (guardE (ckOid key = ECDSAk \<and> leafSz \<ge> WOLFSPDM_ECC_POINT_SIZE) E_CERT_PARSE)
          (bindE (liftE E_CERT_PARSE (wc_EccPublicKeyDecode K (ckDer key))) (\<lambda>ecc.
           thenE (guardE (wc_ecc_is_P384 K ecc) E_CERT_PARSE)
           (bindE (liftE E_CERT_PARSE (wc_ecc_export_public_raw K ecc)) (\<lambda>(x, y).
            thenE (guardE (length x = WOLFSPDM_ECC_KEY_SIZE \<and> length y = WOLFSPDM_ECC_KEY_SIZE)
                     E_CERT_PARSE)
            (retE (x @ y)))))))"

section \<open>Walking the chain\<close>

text \<open>
  The loop of \<^verbatim>\<open>wolfSPDM_ValidateCertChain\<close>: \<open>rest\<close> is the chain from \<^verbatim>\<open>pos\<close> on, \<open>cur\<close> the
  key and CA flag of the issuer (\<open>None\<close> while \<^verbatim>\<open>haveKey\<close> is 0).
\<close>

lemma wolfSPDM_DerSeqLen_pos: "wolfSPDM_DerSeqLen der \<noteq> 0 \<Longrightarrow> 2 \<le> wolfSPDM_DerSeqLen der"
  by (auto simp: wolfSPDM_DerSeqLen_def Let_def split: if_splits)

lemma wolfSPDM_DerSeqLen_le: "wolfSPDM_DerSeqLen der \<le> length der"
  by (auto simp: wolfSPDM_DerSeqLen_def Let_def split: if_splits)

function walkCertChain ::
  "wc_env \<Rightarrow> bytes \<Rightarrow> (WOLFSPDM_CERT_KEY \<times> bool) option \<Rightarrow>
   ('s, (WOLFSPDM_CERT_KEY \<times> bool) option) op" where
  "walkCertChain K rest cur =
     (if rest = [] then retE cur
      else (let certSz = wolfSPDM_DerSeqLen rest; cert = take certSz rest in
        if certSz = 0 then failE E_CERT_PARSE
        else thenE (case cur of
                      None \<Rightarrow> retE ()
                    | Some (key, ca) \<Rightarrow>
                        if ca then wolfSPDM_CertSignedBy K cert key else failE E_CERT_FAIL)
             (bindE (wolfSPDM_CertKey K cert) (\<lambda>next.
              walkCertChain K (drop certSz rest) (Some next)))))"
  by pat_completeness auto
termination
  by (relation "measure (\<lambda>(K, rest, cur). length rest)") auto

declare walkCertChain.simps [simp del]

definition dropCertKey :: "'w WOLFSPDM_CTX \<Rightarrow> 'w WOLFSPDM_CTX" where
  "dropCertKey c = (if rspKeyFromCert (flags c)
     then c\<lparr>flags := (flags c)\<lparr>hasRspPubKey := False, rspKeyFromCert := False\<rparr>, rspPubKey := []\<rparr>
     else c)"

definition certAnchor :: "wc_env \<Rightarrow> 'w WOLFSPDM_CTX \<Rightarrow> ('s, (WOLFSPDM_CERT_KEY \<times> bool) option) op" where
  "certAnchor K c =
     (if trustedCA c \<noteq> []
      then bindE (wolfSPDM_Sha384Hash K (trustedCA c) [] []) (\<lambda>hash.
           thenE (guardE (hash = take WOLFSPDM_HASH_SIZE (drop 4 (certChain c))) E_CERT_FAIL)
           (bindE (wolfSPDM_CertKey K (trustedCA c)) (\<lambda>k. retE (Some k))))
      else retE None)"

definition acceptLeaf :: "wc_env \<Rightarrow> WOLFSPDM_CERT_KEY \<Rightarrow> ('w, unit) cop" where
  "acceptLeaf K key = bindE (getE id) (\<lambda>c.
     if hasRspPubKey (flags c) \<and> \<not> rspKeyFromCert (flags c)
     then bindE (wolfSPDM_LeafKey K c key WOLFSPDM_ECC_POINT_SIZE) (\<lambda>leafKey.
          guardE (rspPubKey c = leafKey) E_CERT_FAIL)
     else if trustedCA c = [] \<and> \<not> allowUntrustedCert (flags c)
     then failE E_CERT_FAIL
     else bindE (wolfSPDM_LeafKey K c key WOLFSPDM_RSP_PUBKEY_SZ) (\<lambda>leafKey.
          modE (\<lambda>d. d\<lparr>rspPubKey := leafKey,
            flags := (flags d)\<lparr>hasRspPubKey := True, rspKeyFromCert := True\<rparr>\<rparr>)))"

definition wolfSPDM_ValidateCertChain :: "wc_env \<Rightarrow> ('w, unit) cop" where
  "wolfSPDM_ValidateCertChain K =
     thenE (modE dropCertKey)
     (bindE (getE id) (\<lambda>c.
      thenE (guardE (length (certChain c) > WOLFSPDM_CERT_CHAIN_HDR_SZ) E_CERT_FAIL)
      (bindE (certAnchor K c) (\<lambda>root.
       bindE (walkCertChain K (drop WOLFSPDM_CERT_CHAIN_HDR_SZ (certChain c)) root) (\<lambda>leaf.
       bindE (liftE E_CERT_PARSE leaf) (\<lambda>(key, _). acceptLeaf K key))))))"

section \<open>Frames\<close>

lemma keeps_RunStart [keeps_intros]:
  assumes "\<And>c x. f (setRunHash r x c) = f c" "\<And>c x. f (setRunState r x c) = f c"
  shows "keeps f (wolfSPDM_RunStart K r)"
  unfolding wolfSPDM_RunStart_def by (intro keeps_intros) (simp_all add: assms)

lemma keeps_RunAdd [keeps_intros]:
  assumes "\<And>c x. f (setRunHash r x c) = f c"
  shows "keeps f (wolfSPDM_RunAdd K r a b)"
  unfolding wolfSPDM_RunAdd_def by (intro keeps_intros) (simp_all add: assms)

lemma keeps_RunVerify [keeps_intros]:
  assumes "\<And>c x. f (setRunHash r x c) = f c" "\<And>c x. f (setRunState r x c) = f c"
  shows "keeps f (wolfSPDM_RunVerify K r l a b n)"
  unfolding wolfSPDM_RunVerify_def by (intro keeps_intros) (simp_all add: assms)

lemma keeps_M1Start [keeps_intros]:
  assumes "\<And>c x. f (c\<lparr>m1Hash := x\<rparr>) = f c" "\<And>c x. f (c\<lparr>m1State := x\<rparr>) = f c"
  shows "keeps f (wolfSPDM_M1Start K)"
  unfolding wolfSPDM_M1Start_def by (intro keeps_intros) (simp_all add: assms m1Run_def)

lemma keeps_M1Add [keeps_intros]:
  assumes "\<And>c x. f (c\<lparr>m1Hash := x\<rparr>) = f c"
  shows "keeps f (wolfSPDM_M1Add K a b)"
  unfolding wolfSPDM_M1Add_def by (intro keeps_intros) (simp_all add: assms m1Run_def)

lemma keeps_asE [keeps_intros]: "keeps f m \<Longrightarrow> keeps f (asE e m)"
  by (auto simp: keeps_def asE_def split: prod.splits sum.splits) (metis snd_conv)+

lemma succ_asE [succ_simps]: "asE e m s = (Inr b, t) \<longleftrightarrow> m s = (Inr b, t)"
  by (auto simp: asE_def split: prod.splits sum.splits)

lemma keeps_certs [keeps_intros]:
  "keeps f (wolfSPDM_CertKey K d)" "keeps f (wolfSPDM_EccSpkiVerify K s g h)"
  unfolding wolfSPDM_CertKey_def wolfSPDM_EccSpkiVerify_def by (intro keeps_intros)+

lemma keeps_CertSignedBy [keeps_intros]: "keeps f (wolfSPDM_CertSignedBy K d i)"
  unfolding wolfSPDM_CertSignedBy_def by (intro keeps_intros)

lemma keeps_LeafKey [keeps_intros]: "keeps f (wolfSPDM_LeafKey K c k n)"
  unfolding wolfSPDM_LeafKey_def by (intro keeps_intros)

lemma keeps_walkCertChain [keeps_intros]: "keeps f (walkCertChain K rest cur)"
proof (induction K rest cur rule: walkCertChain.induct)
  case (1 K rest cur)
  show ?case
    by (subst walkCertChain.simps, unfold Let_def, intro keeps_intros 1 [OF _ refl refl])
qed

lemma keeps_certAnchor [keeps_intros]: "keeps f (certAnchor K c)"
  unfolding certAnchor_def by (intro keeps_intros)

lemma keeps_acceptLeaf [keeps_intros]:
  assumes
    "\<And>c k. f (c\<lparr>rspPubKey := k, flags := (flags c)\<lparr>hasRspPubKey := True, rspKeyFromCert := True\<rparr>\<rparr>) = f c"
  shows "keeps f (acceptLeaf K k)"
  unfolding acceptLeaf_def by (intro keeps_intros) (simp_all add: assms)

lemma keeps_ValidateCertChain [keeps_intros]:
  assumes "\<And>c. f (dropCertKey c) = f c"
    "\<And>c k. f (c\<lparr>rspPubKey := k, flags := (flags c)\<lparr>hasRspPubKey := True, rspKeyFromCert := True\<rparr>\<rparr>) = f c"
  shows "keeps f (wolfSPDM_ValidateCertChain K)"
  unfolding wolfSPDM_ValidateCertChain_def by (intro keeps_intros) (simp_all add: assms)

section \<open>What an accepted chain is\<close>

text \<open>
  \<open>certified K issuer certs leaf\<close>: walking \<open>certs\<close> from \<open>issuer\<close>, every certificate parses
  to a supported key, has a CA for its issuer, carries a valid signature of that issuer, and
  the last key is \<open>leaf\<close>.
\<close>

definition certSigned :: "wc_env \<Rightarrow> bytes \<Rightarrow> WOLFSPDM_CERT_KEY \<Rightarrow> bool" where
  "certSigned K cert key \<longleftrightarrow> fst (wolfSPDM_CertSignedBy K cert key ()) = Inr ()"

definition certSubject :: "wc_env \<Rightarrow> bytes \<Rightarrow> (WOLFSPDM_CERT_KEY \<times> bool) option" where
  "certSubject K cert = (case fst (wolfSPDM_CertKey K cert ()) of Inl _ \<Rightarrow> None | Inr k \<Rightarrow> Some k)"

inductive certified :: "wc_env \<Rightarrow> (WOLFSPDM_CERT_KEY \<times> bool) option \<Rightarrow> bytes list \<Rightarrow>
   (WOLFSPDM_CERT_KEY \<times> bool) option \<Rightarrow> bool" for K where
  certified_nil: "certified K cur [] cur"
| certified_first: "certSubject K cert = Some k \<Longrightarrow> certified K (Some k) certs leaf \<Longrightarrow>
    certified K None (cert # certs) leaf"
| certified_next: "certSigned K cert key \<Longrightarrow> certSubject K cert = Some k \<Longrightarrow>
    certified K (Some k) certs leaf \<Longrightarrow> certified K (Some (key, True)) (cert # certs) leaf"

inductive_cases certified_ConsE: "certified K cur (cert # certs) leaf"
inductive_simps certified_Nil: "certified K cur [] leaf"

lemma CertKey_ctx: "fst (wolfSPDM_CertKey K d s) = fst (wolfSPDM_CertKey K d t)"
  by (simp add: wolfSPDM_CertKey_def opE_defs split: option.splits)

lemma CertSignedBy_ctx: "fst (wolfSPDM_CertSignedBy K d i s) = fst (wolfSPDM_CertSignedBy K d i t)"
  by (simp add: wolfSPDM_CertSignedBy_def asE_def wolfSPDM_Sha384Hash_def sha384Feed_def
      wolfSPDM_EccSpkiVerify_def wolfSPDM_MlDsaVerify_def opE_defs Let_def split: option.splits)

lemma succ_CertKey [succ_simps]:
  "wolfSPDM_CertKey K d s = (Inr k, t) \<longleftrightarrow> certSubject K d = Some k \<and> t = s"
  using keepsD [OF keeps_certs(1) [of id K d], of s] CertKey_ctx [of K d s "()"]
  by (cases "wolfSPDM_CertKey K d s") (auto simp: certSubject_def split: sum.splits)

lemma succ_CertSignedBy [succ_simps]:
  "wolfSPDM_CertSignedBy K d i s = (Inr u, t) \<longleftrightarrow> certSigned K d i \<and> t = s"
  using keepsD [OF keeps_CertSignedBy [of id K d i], of s] CertSignedBy_ctx [of K d i s "()"]
  by (cases "wolfSPDM_CertSignedBy K d i s") (auto simp: certSigned_def)

lemma certified_Some: "certified K cur certs leaf \<Longrightarrow> cur \<noteq> None \<or> certs \<noteq> [] \<Longrightarrow> leaf \<noteq> None"
  by (induction rule: certified.induct) auto

lemma walkCertChain_certified:
  "walkCertChain K rest cur s = (Inr leaf, t) \<Longrightarrow>
   t = s \<and> (\<exists>certs. concat certs = rest \<and> certified K cur certs leaf \<and> (rest \<noteq> [] \<longrightarrow> leaf \<noteq> None))"
proof (induction K rest cur rule: walkCertChain.induct)
  case (1 K rest cur)
  show ?case
  proof (cases "rest = []")
    case True
    then show ?thesis using 1(2)
      by (subst (asm) walkCertChain.simps) (auto simp: succ_simps intro!: exI [of _ "[]"] certified.intros)
  next
    case False
    let ?n = "wolfSPDM_DerSeqLen rest" and ?c = "take (wolfSPDM_DerSeqLen rest) rest"
    have n: "?n \<noteq> 0" and iss: "case cur of None \<Rightarrow> True | Some (key, ca) \<Rightarrow> ca \<and> certSigned K ?c key"
      and "\<exists>k. certSubject K ?c = Some k \<and> walkCertChain K (drop ?n rest) (Some k) s = (Inr leaf, t)"
      using 1(2) False
      by (subst (asm) walkCertChain.simps;
          auto simp: succ_simps Let_def split: if_splits option.splits prod.splits)+
    then obtain k where k: "certSubject K ?c = Some k"
      and w: "walkCertChain K (drop ?n rest) (Some k) s = (Inr leaf, t)" by blast
    from 1(1) [OF False refl refl n w] obtain certs where
      r: "t = s" "concat certs = drop ?n rest" "certified K (Some k) certs leaf"
        "drop ?n rest \<noteq> [] \<longrightarrow> leaf \<noteq> None" by blast
    have "certified K cur (?c # certs) leaf"
      using iss k r(3) by (cases cur) (auto intro: certified.intros)
    moreover have "leaf \<noteq> None" using certified_Some [OF r(3)] by simp
    ultimately show ?thesis
      using r(1,2) by (intro conjI exI [of _ "?c # certs"]) auto
  qed
qed

text \<open>
  The trust basis of an accepted chain: a configured root that the chain header names and
  that signed the first certificate, a pinned key the leaf equals, or the explicit opt-out.
\<close>

definition chainTrusted :: "wc_env \<Rightarrow> 'w WOLFSPDM_CTX \<Rightarrow> 'w WOLFSPDM_CTX \<Rightarrow> bool" where
  "chainTrusted K c d \<longleftrightarrow> (\<exists>root certs key ca.
     drop WOLFSPDM_CERT_CHAIN_HDR_SZ (certChain c) = concat certs \<and>
     certified K root certs (Some (key, ca)) \<and>
     (if trustedCA c \<noteq> []
      then certSubject K (trustedCA c) = root \<and> root \<noteq> None \<and>
           fst (wolfSPDM_Sha384Hash K (trustedCA c) [] [] ()) = Inr (take 48 (drop 4 (certChain c)))
      else root = None) \<and>
     fst (wolfSPDM_LeafKey K c key (if rspKeyFromCert (flags d) then WOLFSPDM_RSP_PUBKEY_SZ else WOLFSPDM_ECC_POINT_SIZE) ())
       = Inr (rspPubKey d) \<and>
     (trustedCA c = [] \<longrightarrow> allowUntrustedCert (flags c) \<or>
        hasRspPubKey (flags c) \<and> \<not> rspKeyFromCert (flags c) \<and> rspPubKey d = rspPubKey c))"

lemma LeafKey_ctx:
  assumes "wolfSPDM_RspMlDsaLevel c = wolfSPDM_RspMlDsaLevel c'"
  shows "fst (wolfSPDM_LeafKey K c k n s) = fst (wolfSPDM_LeafKey K c' k n t)"
  by (simp add: wolfSPDM_LeafKey_def assms opE_defs split: option.splits)

lemma succ_LeafKey:
  assumes "wolfSPDM_RspMlDsaLevel c = wolfSPDM_RspMlDsaLevel c'"
  shows "wolfSPDM_LeafKey K c k n s = (Inr x, t) \<longleftrightarrow> fst (wolfSPDM_LeafKey K c' k n ()) = Inr x \<and> t = s"
  using keepsD [OF keeps_LeafKey [of id K c k n], of s] LeafKey_ctx [OF assms, of K k n s "()"]
  by (cases "wolfSPDM_LeafKey K c k n s") auto

lemma dropCertKey_simps [simp]:
  "certChain (dropCertKey c) = certChain c" "trustedCA (dropCertKey c) = trustedCA c"
  "wolfSPDM_RspMlDsaLevel (dropCertKey c) = wolfSPDM_RspMlDsaLevel c"
  "rspKeyFromCert (flags (dropCertKey c)) = False"
  "allowUntrustedCert (flags (dropCertKey c)) = allowUntrustedCert (flags c)"
  "hasRspPubKey (flags (dropCertKey c)) \<longleftrightarrow> hasRspPubKey (flags c) \<and> \<not> rspKeyFromCert (flags c)"
  by (simp_all add: dropCertKey_def wolfSPDM_RspMlDsaLevel_def wolfSPDM_IsTcgMode_def)

lemma succ_certAnchor:
  "certAnchor K c s = (Inr root, t) \<longleftrightarrow> t = s \<and>
     (if trustedCA c \<noteq> []
      then certSubject K (trustedCA c) = root \<and> root \<noteq> None \<and>
           fst (wolfSPDM_Sha384Hash K (trustedCA c) [] [] ()) = Inr (take 48 (drop 4 (certChain c)))
      else root = None)"
  by (auto simp: certAnchor_def succ_simps succ_Sha384Hash [of K _ _ _ _ _ _ "()"])

lemma acceptLeaf_trusted:
  assumes "acceptLeaf K key (dropCertKey c) = (Inr u, d)"
  shows "fst (wolfSPDM_LeafKey K c key (if rspKeyFromCert (flags d) then WOLFSPDM_RSP_PUBKEY_SZ else WOLFSPDM_ECC_POINT_SIZE) ())
       = Inr (rspPubKey d)"
    "trustedCA c = [] \<longrightarrow> allowUntrustedCert (flags c) \<or>
        hasRspPubKey (flags c) \<and> \<not> rspKeyFromCert (flags c) \<and> rspPubKey d = rspPubKey c"
    "hasRspPubKey (flags d)"
proof -
  have keep: "hasRspPubKey (flags c) \<and> \<not> rspKeyFromCert (flags c) \<Longrightarrow> dropCertKey c = c"
    by (simp add: dropCertKey_def)
  show "fst (wolfSPDM_LeafKey K c key (if rspKeyFromCert (flags d) then WOLFSPDM_RSP_PUBKEY_SZ else WOLFSPDM_ECC_POINT_SIZE) ())
       = Inr (rspPubKey d)"
    "trustedCA c = [] \<longrightarrow> allowUntrustedCert (flags c) \<or>
        hasRspPubKey (flags c) \<and> \<not> rspKeyFromCert (flags c) \<and> rspPubKey d = rspPubKey c"
    "hasRspPubKey (flags d)"
    using assms keep
    by (auto simp: acceptLeaf_def succ_simps succ_LeafKey [of "dropCertKey c" c] succ_LeafKey [of c c] split: if_splits)
qed

lemma ValidateCertChain_trusted:
  assumes "wolfSPDM_ValidateCertChain K c = (Inr u, d)"
  shows "chainTrusted K c d" "hasRspPubKey (flags d)"
proof -
  obtain root key ca t where
    anc: "certAnchor K (dropCertKey c) (dropCertKey c) = (Inr root, dropCertKey c)" and
    w: "walkCertChain K (drop 52 (certChain c)) root (dropCertKey c) = (Inr (Some (key, ca)), t)" and
    r: "acceptLeaf K key t = (Inr u, d)"
    using assms by (auto simp: wolfSPDM_ValidateCertChain_def succ_simps succ_certAnchor)
  from walkCertChain_certified [OF w] obtain certs where
    t: "t = dropCertKey c" and c: "concat certs = drop 52 (certChain c)" "certified K root certs (Some (key, ca))"
    by blast
  note acc = acceptLeaf_trusted [OF r [unfolded t]]
  show "chainTrusted K c d"
    unfolding chainTrusted_def using acc(1,2) anc c
    by (intro exI [of _ root] exI [of _ certs] exI [of _ key] exI [of _ ca]) (auto simp: succ_certAnchor)
  show "hasRspPubKey (flags d)" by (fact acc(3))
qed

text \<open>A chain that is not accepted leaves no certificate key behind.\<close>

lemma ValidateCertChain_outcome:
  "wpE (wolfSPDM_ValidateCertChain K) (\<lambda>_ d. chainTrusted K c d \<and> hasRspPubKey (flags d))
     (\<lambda>_ d. d = dropCertKey c) c"
proof -
  have acc: "failKeeps id (acceptLeaf K key)" for key
    unfolding acceptLeaf_def
    by (intro failKeeps_intros failKeeps_keeps [OF keeps_guard] keeps_intros; simp?)
  have rest: "failKeeps id (bindE (getE id) (\<lambda>c.
      thenE (guardE (length (certChain c) > WOLFSPDM_CERT_CHAIN_HDR_SZ) E_CERT_FAIL)
      (bindE (certAnchor K c) (\<lambda>root.
       bindE (walkCertChain K (drop WOLFSPDM_CERT_CHAIN_HDR_SZ (certChain c)) root) (\<lambda>leaf.
       bindE (liftE E_CERT_PARSE leaf) (\<lambda>(key, _). acceptLeaf K key))))))"
    by (intro failKeeps_intros keeps_intros) (auto intro: acc split: prod.split)
  have "wolfSPDM_ValidateCertChain K c = (Inl e, d) \<Longrightarrow> d = dropCertKey c" for e d
    using failKeepsD [OF rest, of "dropCertKey c" e d]
    unfolding wolfSPDM_ValidateCertChain_def by (simp add: bindE_def [of "modE _"] modE_def)
  then show ?thesis using ValidateCertChain_trusted by (auto simp: wpE_iff)
qed

end
