(* ===== verification/Spdm_Session.thy ===== *)
theory Spdm_Session
  imports Spdm_Cert
begin

text \<open>
  The session flow of \<^verbatim>\<open>src/spdm_session.c\<close>: one transcripted exchange, GET_VERSION,
  KEY_EXCHANGE, FINISH under the handshake keys, heartbeat and key update.
\<close>

section \<open>Exchanges under the transcript\<close>

definition rollback :: "nat \<Rightarrow> 'w WOLFSPDM_CTX \<Rightarrow> 'w WOLFSPDM_CTX" where
  "rollback mark c = (if length (transcript c) > mark then c\<lparr>transcript := take mark (transcript c)\<rparr> else c)"

definition wolfSPDM_ExchangeMsg ::
  "wc_env \<Rightarrow> (nat \<Rightarrow> ('w, bytes) cop) \<Rightarrow> (bytes \<Rightarrow> ('w, unit) cop) \<Rightarrow> nat \<Rightarrow> nat \<Rightarrow> ('w, unit) cop" where
  "wolfSPDM_ExchangeMsg K buildFn parseFn txBufSz rxBufSz = bindE (getE (\<lambda>c. length (transcript c))) (\<lambda>mark.
     onFailE
       (bindE (buildFn txBufSz) (\<lambda>tx.
        thenE (wolfSPDM_TranscriptAdd tx)
        (bindE (wolfSPDM_ClearExchange K tx rxBufSz) (\<lambda>rx.
         thenE (wolfSPDM_TranscriptAdd rx)
         (parseFn rx)))))
       (rollback mark))"

definition wolfSPDM_GetVersion :: "wc_env \<Rightarrow> ('w, unit) cop" where
  "wolfSPDM_GetVersion K = wolfSPDM_ExchangeMsg K wolfSPDM_BuildGetVersion wolfSPDM_ParseVersion 8 32"

section \<open>KEY_EXCHANGE and FINISH\<close>

definition wolfSPDM_KeyExchange :: "wc_env \<Rightarrow> ('w, unit) cop" where
  "wolfSPDM_KeyExchange K = bindE (getE id) (\<lambda>c.
     thenE (guardE (hasRspPubKey (flags c)) E_BAD_STATE)
     (thenE (if \<not> wolfSPDM_IsTcgMode c \<and> rspKeyFromCert (flags c)
             then wolfSPDM_ValidateCertChain K else retE ())
     (bindE (wolfSPDM_BuildKeyExchange K WOLFSPDM_KEY_EX_TX_SZ) (\<lambda>tx.
      bindE (getE m1State) (\<lambda>ms.
      thenE (if ms \<noteq> WOLFSPDM_RUN_NONE then wolfSPDM_M1Start K else retE ())
      (thenE (wolfSPDM_TranscriptAdd tx)
      (bindE (wolfSPDM_ClearExchange K tx WOLFSPDM_KEY_EX_RX_SZ) (\<lambda>rx.
       wolfSPDM_ParseKeyExchangeRsp K rx))))))))"

definition wolfSPDM_FinishXfer :: "wc_env \<Rightarrow> bytes \<Rightarrow> nat \<Rightarrow> ('w, bytes) cop" where
  "wolfSPDM_FinishXfer K finishBuf cap = bindE (getE wolfSPDM_ChunkOn) (\<lambda>chunk.
     if chunk then wolfSPDM_ChunkExchange K True finishBuf cap
     else bindE (wolfSPDM_EncryptInternal K finishBuf WOLFSPDM_VENDOR_BUF_SZ) (\<lambda>encBuf.
          bindE (wolfSPDM_SendReceive encBuf (WOLFSPDM_FINISH_RSP_MAX + 128)) (\<lambda>rxBuf.
          if length rxBuf \<ge> 2 \<and> rxBuf ! 0 \<ge> 0x10 \<and> rxBuf ! 0 \<le> 0x1F
          then thenE (if length rxBuf \<ge> 4 \<and> rxBuf ! 1 = SPDM_ERROR
                      then modE (\<lambda>c. c\<lparr>lastPeerErrorCode := rxBuf ! 2\<rparr>) else retE ())
               (failE E_PEER_ERROR)
          else wolfSPDM_DecryptInternal K rxBuf cap)))"

definition wolfSPDM_Finish :: "wc_env \<Rightarrow> ('w, unit) cop" where
  "wolfSPDM_Finish K = bindE (getE state) (\<lambda>st.
     thenE (guardE (st = WOLFSPDM_STATE_KEY_EX) E_BAD_STATE)
     (bindE (wolfSPDM_BuildFinish K WOLFSPDM_FINISH_BUF_SZ) (\<lambda>finishBuf.
      bindE (wolfSPDM_FinishXfer K finishBuf WOLFSPDM_FINISH_RSP_MAX) (\<lambda>decBuf.
      thenE (wolfSPDM_ParseFinishRsp decBuf)
      (wolfSPDM_DeriveAppDataKeys K)))))"

section \<open>Heartbeat\<close>

definition wolfSPDM_CheckSessionCap :: "word32 \<Rightarrow> ('w, unit) cop" where
  "wolfSPDM_CheckSessionCap capBit = bindE (getE id) (\<lambda>c.
     thenE (guardE (state c = WOLFSPDM_STATE_CONNECTED) E_NOT_CONNECTED)
     (guardE (\<not> (\<not> wolfSPDM_IsTcgMode c \<and> rspCaps c AND capBit = 0)) E_CAPS_MISMATCH))"

definition wolfSPDM_Heartbeat :: "wc_env \<Rightarrow> ('w, unit) cop" where
  "wolfSPDM_Heartbeat K =
     thenE (wolfSPDM_CheckSessionCap SPDM_CAP_HBEAT_CAP)
     (bindE (wolfSPDM_BuildHeartbeat 4) (\<lambda>tx.
      bindE (wolfSPDM_SecuredExchange K tx 32) (\<lambda>rx.
      wolfSPDM_ParseHeartbeatAck rx)))"

section \<open>Key update\<close>

abbreviation (input) SPDM_KEY_UPDATE_OP_UPDATE_KEY :: byte where "SPDM_KEY_UPDATE_OP_UPDATE_KEY \<equiv> 1"
abbreviation (input) SPDM_KEY_UPDATE_OP_UPDATE_ALL_KEYS :: byte where "SPDM_KEY_UPDATE_OP_UPDATE_ALL_KEYS \<equiv> 2"
abbreviation (input) SPDM_KEY_UPDATE_OP_VERIFY_NEW_KEY :: byte where "SPDM_KEY_UPDATE_OP_VERIFY_NEW_KEY \<equiv> 3"

text \<open>\<^verbatim>\<open>wolfSPDM_SaveTrafficKeys\<close> with \<^verbatim>\<open>save\<close> 1 and 0.\<close>

type_synonym traffic_snap = "bytes \<times> bytes \<times> bytes \<times> bytes \<times> bytes \<times> bytes \<times> word64 \<times> word64"

definition saveTrafficKeys :: "'w WOLFSPDM_CTX \<Rightarrow> traffic_snap" where
  "saveTrafficKeys c = (reqDataKey c, rspDataKey c, reqDataIv c, rspDataIv c, reqAppSecret c,
     rspAppSecret c, reqSeqNum c, rspSeqNum c)"

definition restoreTrafficKeys :: "traffic_snap \<Rightarrow> 'w WOLFSPDM_CTX \<Rightarrow> 'w WOLFSPDM_CTX" where
  "restoreTrafficKeys snap c = (case snap of (k1, k2, v1, v2, s1, s2, n1, n2) \<Rightarrow>
     c\<lparr>reqDataKey := k1, rspDataKey := k2, reqDataIv := v1, rspDataIv := v2,
       reqAppSecret := s1, rspAppSecret := s2, reqSeqNum := n1, rspSeqNum := n2\<rparr>)"

text \<open>Opening the acknowledgement: under the current keys, or for UpdateAllKeys under the new ones.\<close>

definition keyUpdateOpen :: "wc_env \<Rightarrow> bool \<Rightarrow> bytes \<Rightarrow> ('w, bytes \<times> bool) cop" where
  "keyUpdateOpen K updateAll rawBuf =
     bindE (tryE (wolfSPDM_DecryptInternal K rawBuf 32)) (\<lambda>r.
     case r of
       Inr rx \<Rightarrow> retE (rx, False)
     | Inl e \<Rightarrow>
         if \<not> updateAll then failE e
         else bindE (getE saveTrafficKeys) (\<lambda>saved.
              onFailE
                (thenE (finallyE (wolfSPDM_DeriveUpdatedKeys K True) (\<lambda>c. c\<lparr>reqSeqNum := 0, rspSeqNum := 0\<rparr>))
                (bindE (wolfSPDM_DecryptInternal K rawBuf 32) (\<lambda>rx. retE (rx, True))))
                (restoreTrafficKeys saved)))"

definition keyUpdateReqOnly :: "wc_env \<Rightarrow> ('w, unit) cop" where
  "keyUpdateReqOnly K = finallyE (wolfSPDM_DeriveUpdatedKeys K False) (\<lambda>c. c\<lparr>reqSeqNum := 0\<rparr>)"

definition wolfSPDM_KeyUpdate :: "wc_env \<Rightarrow> bool \<Rightarrow> ('w, unit) cop" where
  "wolfSPDM_KeyUpdate K updateAll =
     (let op = (if updateAll then SPDM_KEY_UPDATE_OP_UPDATE_ALL_KEYS else SPDM_KEY_UPDATE_OP_UPDATE_KEY) in
      thenE (wolfSPDM_CheckSessionCap SPDM_CAP_KEY_UPD_CAP)
      (bindE (wolfSPDM_BuildKeyUpdate K 4 op) (\<lambda>(tx, tag).
       bindE (wolfSPDM_EncryptInternal K tx 64) (\<lambda>encBuf.
       bindE (wolfSPDM_SendReceive encBuf 64) (\<lambda>rawBuf.
       bindE (keyUpdateOpen K updateAll rawBuf) (\<lambda>(rx, rotated).
       thenE (wolfSPDM_ParseKeyUpdateAck rx op tag)
       (thenE (guardE (\<not> (updateAll \<and> \<not> rotated)) E_KEY_UPDATE)
       (thenE (if \<not> updateAll then keyUpdateReqOnly K else retE ())
       (bindE (wolfSPDM_BuildKeyUpdate K 4 SPDM_KEY_UPDATE_OP_VERIFY_NEW_KEY) (\<lambda>(tx2, tag2).
        bindE (wolfSPDM_SecuredExchange K tx2 32) (\<lambda>rx2.
        wolfSPDM_ParseKeyUpdateAck rx2 SPDM_KEY_UPDATE_OP_VERIFY_NEW_KEY tag2)))))))))))"

section \<open>Frames\<close>

lemma keeps_ExchangeMsg [keeps_intros]:
  assumes "\<And>c x. f (c\<lparr>transcript := x\<rparr>) = f c" "\<And>c x. f (c\<lparr>ioUserCtx := x\<rparr>) = f c"
    "\<And>c x. f (c\<lparr>fipsIndicator := x\<rparr>) = f c" "\<And>c x. f (c\<lparr>lastPeerErrorCode := x\<rparr>) = f c"
    "\<And>c x. f (c\<lparr>chunkHandle := x\<rparr>) = f c" "\<And>n. keeps f (b n)" "\<And>rx. keeps f (p rx)"
  shows "keeps f (wolfSPDM_ExchangeMsg K b p m n)"
  unfolding wolfSPDM_ExchangeMsg_def by (intro keeps_intros assms) (simp_all add: rollback_def assms)

lemma keeps_KeyExchange [keeps_intros]:
  assumes "\<And>c x. f (c\<lparr>rng := x\<rparr>) = f c" "\<And>c x. f (c\<lparr>ephemeral := x\<rparr>) = f c"
    "\<And>c g. same_but_eph g (flags c) \<Longrightarrow> f (c\<lparr>flags := g\<rparr>) = f c"
    "\<And>c x. f (c\<lparr>m1Hash := x\<rparr>) = f c" "\<And>c x. f (c\<lparr>m1State := x\<rparr>) = f c"
    "\<And>c x. f (c\<lparr>transcript := x\<rparr>) = f c" "\<And>c x. f (c\<lparr>ioUserCtx := x\<rparr>) = f c"
    "\<And>c x. f (c\<lparr>fipsIndicator := x\<rparr>) = f c" "\<And>c x. f (c\<lparr>lastPeerErrorCode := x\<rparr>) = f c"
    "\<And>c x. f (c\<lparr>chunkHandle := x\<rparr>) = f c" "\<And>c x. f (c\<lparr>sharedSecret := x\<rparr>) = f c"
    "\<And>c x. f (c\<lparr>th1 := x\<rparr>) = f c"
    "\<And>c v w x y z. f (c\<lparr>rspSessionId := v, sessionId := w, mutAuthRequested := x,
        reqSlotIdParam := y, state := z\<rparr>) = f c"
    "\<And>c. f (dropCertKey c) = f c"
    "\<And>c k. f (c\<lparr>rspPubKey := k, flags := (flags c)\<lparr>hasRspPubKey := True, rspKeyFromCert := True\<rparr>\<rparr>) = f c"
    "\<And>c d. same_but_keys c d \<Longrightarrow> f d = f c"
  shows "keeps f (wolfSPDM_KeyExchange K)"
  unfolding wolfSPDM_KeyExchange_def by (intro keeps_intros) (rule assms; assumption?)+

lemma keeps_FinishXfer [keeps_intros]:
  assumes "\<And>c x. f (c\<lparr>rng := x\<rparr>) = f c" "\<And>c x. f (c\<lparr>reqSeqNum := x\<rparr>) = f c"
    "\<And>c x. f (c\<lparr>rspSeqNum := x\<rparr>) = f c" "\<And>c x. f (c\<lparr>ioUserCtx := x\<rparr>) = f c"
    "\<And>c x. f (c\<lparr>fipsIndicator := x\<rparr>) = f c" "\<And>c x. f (c\<lparr>lastPeerErrorCode := x\<rparr>) = f c"
    "\<And>c x. f (c\<lparr>chunkHandle := x\<rparr>) = f c"
  shows "keeps f (wolfSPDM_FinishXfer K b n)"
  unfolding wolfSPDM_FinishXfer_def wolfSPDM_EncryptInternal_def wolfSPDM_DecryptInternal_def
  by (intro keeps_intros assms)

lemma keeps_CheckSessionCap [keeps_intros]: "keeps f (wolfSPDM_CheckSessionCap b)"
  unfolding wolfSPDM_CheckSessionCap_def by (intro keeps_intros)

section \<open>A failed exchange leaves the transcript as it was\<close>

lemma holdsE_TranscriptAdd [holds_intros]:
  "holdsE (\<lambda>c. \<exists>x. transcript c = tr @ x) (wolfSPDM_TranscriptAdd d)"
  unfolding wolfSPDM_TranscriptAdd_def holdsE_def by (auto simp: opE_defs)

lemma rollback_prefix: "\<exists>x. transcript c = tr @ x \<Longrightarrow> transcript (rollback (length tr) c) = tr"
  by (auto simp: rollback_def)

lemma ExchangeMsg_rollback:
  fixes b :: "nat \<Rightarrow> ('w, bytes) cop"
  assumes "\<And>n. keeps transcript (b n)" "\<And>rx. keeps transcript (p rx)"
  shows "failKeeps transcript (wolfSPDM_ExchangeMsg K b p m n)"
  unfolding failKeeps_def
proof (intro allI impI)
  fix c d :: "'w WOLFSPDM_CTX" and e
  let ?P = "\<lambda>d. \<exists>x. transcript d = transcript c @ x"
  let ?body = "bindE (b m) (\<lambda>tx. thenE (wolfSPDM_TranscriptAdd tx)
        (bindE (wolfSPDM_ClearExchange K tx n) (\<lambda>rx. thenE (wolfSPDM_TranscriptAdd rx) (p rx))))"
  have body: "holdsE ?P ?body"
    by (intro holds_intros keeps_holdsE [where P = "\<lambda>tr. \<exists>x. tr = transcript c @ x"] assms keeps_intros)
       simp_all
  assume "wolfSPDM_ExchangeMsg K b p m n c = (Inl e, d)"
  then obtain t where "?body c = (Inl e, t)" "d = rollback (length (transcript c)) t"
    by (auto simp: wolfSPDM_ExchangeMsg_def bindE_def [of "getE _"] getE_def onFailE_def
        split: prod.splits sum.splits)
  moreover have "?P c" by simp
  ultimately show "transcript d = transcript c"
    using holdsE_D [OF body, of c "Inl e" t] rollback_prefix [of t "transcript c"] by simp
qed

text \<open>
  What an exchange does to the transcript: the request that was built and the answer are appended,
  or nothing.
\<close>

definition transcripted :: "(nat \<Rightarrow> ('w, bytes) cop) \<Rightarrow> nat \<Rightarrow> nat \<Rightarrow> ('w, unit) cop \<Rightarrow> 'w WOLFSPDM_CTX \<Rightarrow> bool" where
  "transcripted b txSz rxSz x c \<longleftrightarrow>
     wpE x (\<lambda>_ d. \<exists>tx rx. fst (b txSz c) = Inr tx \<and> transcript d = transcript c @ tx @ rx \<and> length rx \<le> rxSz \<and>
              length (transcript d) \<le> WOLFSPDM_MAX_TRANSCRIPT)
       (\<lambda>_ d. transcript d = transcript c) c"

lemma ExchangeMsg_transcripted:
  assumes "\<And>n. keeps transcript (b n)" "\<And>rx. keeps transcript (p rx)"
  shows "transcripted b m n (wolfSPDM_ExchangeMsg K b p m n) c"
proof -
  have "\<exists>tx rx. fst (b m c) = Inr tx \<and> transcript d = transcript c @ tx @ rx \<and> length rx \<le> n \<and>
     length (transcript d) \<le> WOLFSPDM_MAX_TRANSCRIPT" if s: "wolfSPDM_ExchangeMsg K b p m n c = (Inr u, d)" for u d
  proof -
    obtain tx rx c1 c2 c3 where
      b: "b m c = (Inr tx, c1)" and
      x: "wolfSPDM_ClearExchange K tx n (c1\<lparr>transcript := transcript c1 @ tx\<rparr>) = (Inr rx, c2)" and
      l: "length (transcript c2) + length rx \<le> WOLFSPDM_MAX_TRANSCRIPT" and
      p: "p rx (c2\<lparr>transcript := transcript c2 @ rx\<rparr>) = (Inr u, d)"
      using s by (auto simp: wolfSPDM_ExchangeMsg_def succ_simps)
    have "transcript c1 = transcript c" "transcript c2 = transcript c1 @ tx" "transcript d = transcript c2 @ rx"
      using keepsD [OF assms(1) b] keepsD [OF keeps_ClearExchange [of transcript] x] keepsD [OF assms(2) p]
      by simp_all
    then show ?thesis
      using clear_exchange.xfer_fits [OF x] l b by auto
  qed
  then show ?thesis
    using failKeepsD [OF ExchangeMsg_rollback [OF assms]] by (auto simp: transcripted_def wpE_iff)
qed

section \<open>Key update is all or nothing until the responder has proved it rotated\<close>

definition trafficKeys :: "'w WOLFSPDM_CTX \<Rightarrow> bytes list" where
  "trafficKeys c = [reqDataKey c, rspDataKey c, reqDataIv c, rspDataIv c, reqAppSecret c, rspAppSecret c]"

lemma keeps_DecryptInternal [keeps_intros]:
  assumes "\<And>c x. f (c\<lparr>rspSeqNum := x\<rparr>) = f c"
  shows "keeps f (wolfSPDM_DecryptInternal K e n)"
  unfolding wolfSPDM_DecryptInternal_def by (intro keeps_intros assms)

text \<open>The secret, key and IV of one direction are the ones the key schedule derives from the old secret.\<close>

definition directionUpdated :: "wc_env \<Rightarrow> byte \<Rightarrow> bytes \<Rightarrow> bytes \<Rightarrow> bytes \<Rightarrow> bytes \<Rightarrow> bool" where
  "directionUpdated K ver old new key iv \<longleftrightarrow>
     fst (wolfSPDM_HkdfExpandLabel K ver old (cstr ''traffic upd'') [] WOLFSPDM_HASH_SIZE ()) = Inr new \<and>
     fst (wolfSPDM_HkdfExpandLabel K ver new (cstr ''key'') [] WOLFSPDM_AEAD_KEY_SIZE ()) = Inr key \<and>
     fst (wolfSPDM_HkdfExpandLabel K ver new (cstr ''iv'') [] WOLFSPDM_AEAD_IV_SIZE ()) = Inr iv"

text \<open>The two contexts differ at most in the traffic secrets, keys, IVs and sequence numbers.\<close>

definition onlyTraffic :: "'w WOLFSPDM_CTX \<Rightarrow> 'w WOLFSPDM_CTX \<Rightarrow> bool" where
  "onlyTraffic c d \<longleftrightarrow> restoreTrafficKeys (saveTrafficKeys c) d = c"

definition bothUpdated :: "wc_env \<Rightarrow> 'w WOLFSPDM_CTX \<Rightarrow> 'w WOLFSPDM_CTX \<Rightarrow> bool" where
  "bothUpdated K c d \<longleftrightarrow> onlyTraffic c d \<and>
     directionUpdated K (spdmVersion c) (reqAppSecret c) (reqAppSecret d) (reqDataKey d) (reqDataIv d) \<and>
     directionUpdated K (spdmVersion c) (rspAppSecret c) (rspAppSecret d) (rspDataKey d) (rspDataIv d)"

lemma onlyTraffic_refl [simp]: "onlyTraffic c c"
  by (simp add: onlyTraffic_def restoreTrafficKeys_def saveTrafficKeys_def)

lemma onlyTraffic_step [simp]:
  "onlyTraffic c (d\<lparr>reqDataKey := k\<rparr>) = onlyTraffic c d" "onlyTraffic c (d\<lparr>rspDataKey := k\<rparr>) = onlyTraffic c d"
  "onlyTraffic c (d\<lparr>reqDataIv := k\<rparr>) = onlyTraffic c d" "onlyTraffic c (d\<lparr>rspDataIv := k\<rparr>) = onlyTraffic c d"
  "onlyTraffic c (d\<lparr>reqAppSecret := k\<rparr>) = onlyTraffic c d" "onlyTraffic c (d\<lparr>rspAppSecret := k\<rparr>) = onlyTraffic c d"
  "onlyTraffic c (d\<lparr>reqSeqNum := n\<rparr>) = onlyTraffic c d" "onlyTraffic c (d\<lparr>rspSeqNum := n\<rparr>) = onlyTraffic c d"
  by (simp_all add: onlyTraffic_def restoreTrafficKeys_def saveTrafficKeys_def)

lemma onlyTraffic_nextRsp: "onlyTraffic (nextRsp c) d \<Longrightarrow> onlyTraffic c d"
  unfolding onlyTraffic_def
  by (drule arg_cong [where f = "\<lambda>x. x\<lparr>rspSeqNum := rspSeqNum c\<rparr>"])
     (simp add: restoreTrafficKeys_def saveTrafficKeys_def)

lemma DeriveUpdatedKeys_wp:
  "wpE (wolfSPDM_DeriveUpdatedKeys K True) (\<lambda>_ d. bothUpdated K c d) (\<lambda>_ d. onlyTraffic c d) c"
  by (auto simp: wolfSPDM_DeriveUpdatedKeys_def wolfSPDM_UpdateDirection_def wolfSPDM_DeriveKeyIvPair_def wolfSPDM_HkdfExpandLabel_def
      wp_simps bothUpdated_def directionUpdated_def opE_defs split: option.splits if_splits)

lemma DecryptInternal_wp:
  "wpE (wolfSPDM_DecryptInternal K enc cap) (\<lambda>_ d. recordAuthentic K c enc \<and> d = nextRsp c)
     (\<lambda>_ d. d = c \<or> recordAuthentic K c enc \<and> d = nextRsp c) c"
  unfolding wolfSPDM_DecryptInternal_def by (rule wpE_mono [OF DecryptRecord_authentic]) auto

text \<open>Both directions are on their new keys, and the acknowledgement was the first record under them.\<close>

definition keysRotated :: "wc_env \<Rightarrow> bytes \<Rightarrow> 'w WOLFSPDM_CTX \<Rightarrow> 'w WOLFSPDM_CTX \<Rightarrow> bool" where
  "keysRotated K raw c d \<longleftrightarrow> bothUpdated K c d \<and> reqSeqNum d = 0 \<and> rspSeqNum d = 1 \<and> recordAuthentic K (d\<lparr>rspSeqNum := 0\<rparr>) raw"

lemma rotate_wp:
  fixes s :: "'w WOLFSPDM_CTX"
  shows "wpE (thenE (finallyE (wolfSPDM_DeriveUpdatedKeys K True) (\<lambda>c. c\<lparr>reqSeqNum := 0, rspSeqNum := 0\<rparr>))
       (bindE (wolfSPDM_DecryptInternal K raw 32) (\<lambda>rx. retE (rx, True))))
     (\<lambda>r d. snd r \<and> keysRotated K raw s d) (\<lambda>_ d. onlyTraffic s d) s"
proof -
  let ?z = "\<lambda>t. t\<lparr>reqSeqNum := 0, rspSeqNum := 0\<rparr>"
  have open': "wpE (bindE (wolfSPDM_DecryptInternal K raw 32) (\<lambda>rx. retE (rx, True)))
      (\<lambda>r d. snd r \<and> keysRotated K raw s d) (\<lambda>_ d. onlyTraffic s d) (?z t)" if "bothUpdated K s t" for t
    unfolding wpE_bind wpE_ret
    using that by (intro wpE_mono [OF DecryptInternal_wp]) (auto simp: keysRotated_def bothUpdated_def)
  show ?thesis
    unfolding wpE_bind [of "finallyE _ _"] wpE_finally
    by (rule wpE_mono [OF DeriveUpdatedKeys_wp]) (simp_all add: open')
qed

lemma keyUpdateOpen_spec:
  fixes c :: "'w WOLFSPDM_CTX"
  shows "wpE (keyUpdateOpen K updateAll raw)
     (\<lambda>(rx, rotated) d. if rotated then updateAll \<and> keysRotated K raw c d else d = nextRsp c \<and> recordAuthentic K c raw)
     (\<lambda>e d. d = c \<or> d = nextRsp c \<and> recordAuthentic K c raw) c"
proof -
  have same: "keysRotated K raw c d" if "keysRotated K raw (nextRsp c) d" for d
    using that onlyTraffic_nextRsp [of c d] by (simp add: keysRotated_def bothUpdated_def)
  have upd: "wpE (if \<not> updateAll then failE e
         else bindE (getE saveTrafficKeys) (\<lambda>saved.
              onFailE
                (thenE (finallyE (wolfSPDM_DeriveUpdatedKeys K True) (\<lambda>c. c\<lparr>reqSeqNum := 0, rspSeqNum := 0\<rparr>))
                (bindE (wolfSPDM_DecryptInternal K raw 32) (\<lambda>rx. retE (rx, True))))
                (restoreTrafficKeys saved)))
     (\<lambda>(rx, rotated) d. if rotated then updateAll \<and> keysRotated K raw c d else d = nextRsp c \<and> recordAuthentic K c raw)
     (\<lambda>e d. d = c \<or> d = nextRsp c \<and> recordAuthentic K c raw) s"
    if "s = c \<or> recordAuthentic K c raw \<and> s = nextRsp c" for e s
    using that by (auto simp: wpE_bind [of "getE _"] wpE_get wpE_fail wpE_onFail onlyTraffic_def
        intro!: wpE_mono [OF rotate_wp] dest: same)
  show ?thesis
    unfolding keyUpdateOpen_def wpE_bind [of "tryE _"] wpE_try
  proof (rule wpE_mono [OF DecryptInternal_wp], goal_cases)
    case (1 rx d)
    then show ?case by (simp add: wpE_ret)
  next
    case (2 e d)
    then show ?case by (simp only: sum.case) (rule upd)
  qed
qed

text \<open>What a successful update has done to the keys: the outgoing direction is always updated.\<close>

definition keysUpdated :: "wc_env \<Rightarrow> bool \<Rightarrow> 'w WOLFSPDM_CTX \<Rightarrow> 'w WOLFSPDM_CTX \<Rightarrow> bool" where
  "keysUpdated K updateAll c d \<longleftrightarrow>
     directionUpdated K (spdmVersion c) (reqAppSecret c) (reqAppSecret d) (reqDataKey d) (reqDataIv d) \<and>
     (if updateAll then directionUpdated K (spdmVersion c) (rspAppSecret c) (rspAppSecret d) (rspDataKey d) (rspDataIv d)
      else (rspAppSecret d, rspDataKey d, rspDataIv d) = (rspAppSecret c, rspDataKey c, rspDataIv c))"

definition updateView :: "'w WOLFSPDM_CTX \<Rightarrow> byte \<times> bytes list" where
  "updateView c = (spdmVersion c, trafficKeys c)"

lemma keysUpdated_cong:
  "updateView c' = updateView c \<Longrightarrow> updateView d' = updateView d \<Longrightarrow> keysUpdated K u c' d' = keysUpdated K u c d"
  by (simp add: keysUpdated_def updateView_def trafficKeys_def)

lemma keyUpdateReqOnly_updates:
  "keyUpdateReqOnly K c = (Inr u, d) \<Longrightarrow> keysUpdated K False c d"
  by (auto simp: keyUpdateReqOnly_def wolfSPDM_DeriveUpdatedKeys_def wolfSPDM_UpdateDirection_def wolfSPDM_DeriveKeyIvPair_def
      wolfSPDM_HkdfExpandLabel_def succ_simps keysUpdated_def directionUpdated_def opE_defs split: option.splits if_splits)

lemma keeps_updateView:
  "keeps updateView (wolfSPDM_BuildKeyUpdate K n x)" "keeps updateView (wolfSPDM_EncryptInternal K p n)"
  "keeps updateView (wolfSPDM_SendReceive e n)" "keeps updateView (wolfSPDM_ParseKeyUpdateAck rx x t)"
  "keeps updateView (wolfSPDM_SecuredExchange K p n)" "keeps updateView (wolfSPDM_CheckSessionCap b)"
  unfolding wolfSPDM_EncryptInternal_def
  by (intro keeps_intros; simp add: updateView_def trafficKeys_def)+

lemma succ_KeyUpdate:
  assumes "wolfSPDM_KeyUpdate K updateAll c = (Inr u, d)"
  shows "keysUpdated K updateAll c d"
proof -
  from assms obtain op1 tx tag enc raw rx rotated tx2 tag2 rx2 c0 c1 c2 c3 c4 c5 c6 c7 c8 where
    s: "wolfSPDM_CheckSessionCap SPDM_CAP_KEY_UPD_CAP c = (Inr (), c0)"
    "wolfSPDM_BuildKeyUpdate K 4 op1 c0 = (Inr (tx, tag), c1)" "wolfSPDM_EncryptInternal K tx 64 c1 = (Inr enc, c2)"
    "wolfSPDM_SendReceive enc 64 c2 = (Inr raw, c3)" and
    o': "keyUpdateOpen K updateAll raw c3 = (Inr (rx, rotated), c4)" and
    p: "wolfSPDM_ParseKeyUpdateAck rx op1 tag c4 = (Inr (), c5)" and
    r: "\<not> (updateAll \<and> \<not> rotated)" "(if \<not> updateAll then keyUpdateReqOnly K else retE ()) c5 = (Inr (), c6)" and
    e: "wolfSPDM_BuildKeyUpdate K 4 SPDM_KEY_UPDATE_OP_VERIFY_NEW_KEY c6 = (Inr (tx2, tag2), c7)"
    "wolfSPDM_SecuredExchange K tx2 32 c7 = (Inr rx2, c8)"
    "wolfSPDM_ParseKeyUpdateAck rx2 SPDM_KEY_UPDATE_OP_VERIFY_NEW_KEY tag2 c8 = (Inr u, d)"
    unfolding wolfSPDM_KeyUpdate_def Let_def by (clarsimp simp: succ_bind succ_guard)
  have v: "updateView c3 = updateView c" "updateView c5 = updateView c4" "updateView d = updateView c6"
    using s(1) [THEN keepsD [OF keeps_updateView(6)]] s(2) [THEN keepsD [OF keeps_updateView(1)]]
      s(3) [THEN keepsD [OF keeps_updateView(2)]] s(4) [THEN keepsD [OF keeps_updateView(3)]]
      p [THEN keepsD [OF keeps_updateView(4)]] e(1) [THEN keepsD [OF keeps_updateView(1)]]
      e(2) [THEN keepsD [OF keeps_updateView(5)]] e(3) [THEN keepsD [OF keeps_updateView(4)]] by simp_all
  note o'' = wpE_Inr [OF keyUpdateOpen_spec o']
  have "keysUpdated K updateAll c3 c6"
  proof (cases updateAll)
    case True
    with r o'' have "keysRotated K raw c3 c4" "c6 = c5" by (auto simp: opE_defs)
    then have "keysUpdated K True c3 c4" by (simp add: keysRotated_def bothUpdated_def keysUpdated_def)
    with True v(2) \<open>c6 = c5\<close> show ?thesis using keysUpdated_cong [of c3 c3 c5 c4] by simp
  next
    case False
    with o'' have "updateView c4 = updateView c3" by (simp add: updateView_def trafficKeys_def split: if_splits)
    with False r(2) v(2) show ?thesis
      using keyUpdateReqOnly_updates keysUpdated_cong [of c3 c5 c6 c6] by auto
  qed
  with v show ?thesis using keysUpdated_cong [of c c3 d c6] by simp
qed

text \<open>
  A requester-only update whose key derivation fails still restarts the outgoing sequence
  number, under the key it already had.
\<close>

lemma keyUpdateReqOnly_failure:
  assumes "\<And>prk info n. wc_HKDF_Expand K prk info n = None"
  shows "keyUpdateReqOnly K c = (Inl E_CRYPTO_FAIL, c\<lparr>reqSeqNum := 0\<rparr>)"
  using assms
  by (simp add: keyUpdateReqOnly_def wolfSPDM_DeriveUpdatedKeys_def wolfSPDM_UpdateDirection_def
      wolfSPDM_HkdfExpandLabel_def opE_defs cstr_def)

section \<open>A key exchange that succeeds was signed by the trusted responder\<close>

definition kexTrusted :: "wc_env \<Rightarrow> 'w WOLFSPDM_CTX \<Rightarrow> 'w WOLFSPDM_CTX \<Rightarrow> bool" where
  "kexTrusted K c d \<longleftrightarrow> (\<exists>c1 c2 buf.
     hasRspPubKey (flags c) \<and>
     (if \<not> wolfSPDM_IsTcgMode c \<and> rspKeyFromCert (flags c) then chainTrusted K c c1 else c1 = c) \<and>
     sigView c2 = sigView c1 \<and> kexVerified K c2 buf d)"

lemma keeps_view_clear:
  "keeps sigView (wolfSPDM_ClearExchange K tx n)" "keeps sigView (wolfSPDM_M1Start K)"
  "keeps sigView (wolfSPDM_TranscriptAdd tx)" "keeps sigView (wolfSPDM_BuildKeyExchange K n)"
  by (intro keeps_intros; simp add: sigView_def frame_simps)+

lemma succ_KeyExchange:
  assumes "wolfSPDM_KeyExchange K c = (Inr u, d)"
  shows "kexTrusted K c d" "state d = WOLFSPDM_STATE_KEY_EX"
proof -
  obtain c1 c2 c3 c4 c5 tx rx where
    h: "hasRspPubKey (flags c)" and
    v: "(if \<not> wolfSPDM_IsTcgMode c \<and> rspKeyFromCert (flags c)
             then wolfSPDM_ValidateCertChain K else retE ()) c = (Inr (), c1)" and
    b: "wolfSPDM_BuildKeyExchange K WOLFSPDM_KEY_EX_TX_SZ c1 = (Inr tx, c2)" and
    m: "(if m1State c2 \<noteq> WOLFSPDM_RUN_NONE then wolfSPDM_M1Start K else retE ()) c2 = (Inr (), c3)" and
    t: "wolfSPDM_TranscriptAdd tx c3 = (Inr (), c4)" and
    x: "wolfSPDM_ClearExchange K tx WOLFSPDM_KEY_EX_RX_SZ c4 = (Inr rx, c5)" and
    p: "wolfSPDM_ParseKeyExchangeRsp K rx c5 = (Inr u, d)"
    using assms unfolding wolfSPDM_KeyExchange_def by (clarsimp simp: succ_bind succ_guard succ_get)
  have "sigView c3 = sigView c2"
    using m keepsD [OF keeps_view_clear(2)] by (auto simp: succ_simps split: if_splits)
  then have sv: "sigView c5 = sigView c1"
    using keepsD [OF keeps_view_clear(4) b] keepsD [OF keeps_view_clear(3) t]
      keepsD [OF keeps_view_clear(1) x] by simp
  have "if \<not> wolfSPDM_IsTcgMode c \<and> rspKeyFromCert (flags c) then chainTrusted K c c1 else c1 = c"
    using v by (auto simp: succ_simps ValidateCertChain_trusted split: if_splits)
  with h sv ParseKeyExchangeRsp_verified(1) [OF p] show "kexTrusted K c d"
    unfolding kexTrusted_def by blast
  show "state d = WOLFSPDM_STATE_KEY_EX" by (rule ParseKeyExchangeRsp_verified [OF p])
qed

end
