(* ===== verification/Spdm_Standard.thy ===== *)
theory Spdm_Standard
  imports Spdm_Session
begin

text \<open>
  The certificate requester of \<^verbatim>\<open>src/spdm_standard.c\<close>: capability and algorithm
  negotiation, DIGESTS and CERTIFICATE retrieval, and the standard connect sequence.
\<close>

section \<open>Capabilities\<close>

definition wolfSPDM_BuildGetCapabilities :: "wc_env \<Rightarrow> nat \<Rightarrow> ('w, bytes) cop" where
  "wolfSPDM_BuildGetCapabilities K bufSz =
     thenE (guardE (bufSz \<ge> 20) E_BUFFER_SMALL)
     (getE (\<lambda>c. [spdmVersion c, SPDM_GET_CAPABILITIES, 0, 0, 0, 0, 0, 0] @
        SPDM_Set32LE WOLFSPDM_REQ_CAPS @
        SPDM_Set32LE (of_nat (WOLFSPDM_DATA_TRANSFER_SIZE K)) @
        SPDM_Set32LE (of_nat WOLFSPDM_MAX_MSG_SIZE)))"

abbreviation (input) requiredCaps :: word32 where
  "requiredCaps \<equiv> SPDM_CAP_CERT_CAP OR SPDM_CAP_ENCRYPT_CAP OR SPDM_CAP_MAC_CAP OR SPDM_CAP_KEY_EX_CAP"

definition wolfSPDM_ParseCapabilities :: "bytes \<Rightarrow> ('w, unit) cop" where
  "wolfSPDM_ParseCapabilities buf =
     thenE (SPDM_CHECK_PARSE_ARGS buf 4)
     (thenE (SPDM_CHECK_RESPONSE buf SPDM_CAPABILITIES E_CAPS_MISMATCH)
     (bindE (getE spdmVersion) (\<lambda>ver.
      thenE (guardE (\<not> (length buf < 20 \<or> buf ! 0 \<noteq> ver)) E_CAPS_MISMATCH)
      (let caps = SPDM_Get32LE buf 8; dts = SPDM_Get32LE buf 12; maxMsg = SPDM_Get32LE buf 16 in
       thenE (guardE (\<not> (caps AND requiredCaps \<noteq> requiredCaps \<or> dts < 42 \<or> maxMsg < dts))
                E_CAPS_MISMATCH)
       (modE (\<lambda>c. c\<lparr>rspCaps := caps, dataTransferSize := dts, maxSpdmMsgSize := maxMsg\<rparr>))))))"

definition wolfSPDM_GetCapabilities :: "wc_env \<Rightarrow> ('w, unit) cop" where
  "wolfSPDM_GetCapabilities K =
     wolfSPDM_ExchangeMsg K (wolfSPDM_BuildGetCapabilities K) wolfSPDM_ParseCapabilities 20 64"

section \<open>Algorithms\<close>

abbreviation (input) SPDM_ALG_TYPE_DHE :: byte where "SPDM_ALG_TYPE_DHE \<equiv> 0x02"
abbreviation (input) SPDM_ALG_TYPE_AEAD :: byte where "SPDM_ALG_TYPE_AEAD \<equiv> 0x03"
abbreviation (input) SPDM_ALG_TYPE_REQ_BASE_ASYM :: byte where "SPDM_ALG_TYPE_REQ_BASE_ASYM \<equiv> 0x04"
abbreviation (input) SPDM_ALG_TYPE_KEY_SCHEDULE :: byte where "SPDM_ALG_TYPE_KEY_SCHEDULE \<equiv> 0x05"
abbreviation (input) SPDM_ALG_TYPE_KEM :: byte where "SPDM_ALG_TYPE_KEM \<equiv> 0x07"
abbreviation (input) SPDM_ASYM_ALGO_ECDSA_P384 :: word32 where "SPDM_ASYM_ALGO_ECDSA_P384 \<equiv> 0x00000080"
abbreviation (input) SPDM_HASH_ALGO_SHA_384 :: word32 where "SPDM_HASH_ALGO_SHA_384 \<equiv> 0x00000002"
abbreviation (input) SPDM_DHE_ALGO_SECP384R1 :: word16 where "SPDM_DHE_ALGO_SECP384R1 \<equiv> 0x0010"
abbreviation (input) SPDM_AEAD_ALGO_AES_256_GCM :: word16 where "SPDM_AEAD_ALGO_AES_256_GCM \<equiv> 0x0002"
abbreviation (input) SPDM_KEY_SCHEDULE_SPDM :: word16 where "SPDM_KEY_SCHEDULE_SPDM \<equiv> 0x0001"
abbreviation (input) WOLFSPDM_NEG_ALGO_SZ :: nat where "WOLFSPDM_NEG_ALGO_SZ \<equiv> 52"

definition algStruct :: "byte \<Rightarrow> word16 \<Rightarrow> bytes" where
  "algStruct algType sel = [algType, 0x20] @ SPDM_Set16LE sel"

definition wolfSPDM_BuildNegotiateAlgorithms :: "nat \<Rightarrow> ('w, bytes) cop" where
  "wolfSPDM_BuildNegotiateAlgorithms bufSz =
     thenE (guardE (bufSz \<ge> WOLFSPDM_NEG_ALGO_SZ) E_BUFFER_SMALL)
     (bindE (getE id) (\<lambda>c.
      let advDhe = (kexAdvDhe c \<noteq> 0);
          advKem = (spdmVersion c \<ge> SPDM_VERSION_14 \<and> kexAdvKem c \<noteq> 0);
          algs = (if advDhe then algStruct SPDM_ALG_TYPE_DHE SPDM_DHE_ALGO_SECP384R1 else []) @
                 algStruct SPDM_ALG_TYPE_AEAD SPDM_AEAD_ALGO_AES_256_GCM @
                 algStruct SPDM_ALG_TYPE_REQ_BASE_ASYM (ucast SPDM_ASYM_ALGO_ECDSA_P384) @
                 algStruct SPDM_ALG_TYPE_KEY_SCHEDULE SPDM_KEY_SCHEDULE_SPDM @
                 (if advKem then algStruct SPDM_ALG_TYPE_KEM (kexAdvKem c) else []);
          off = 32 + length algs in
      thenE (guardE (advDhe \<or> advKem) E_ALGO_MISMATCH)
      (retE ([spdmVersion c, SPDM_NEGOTIATE_ALGORITHMS, of_nat ((off - 32) div 4), 0] @
             SPDM_Set16LE (of_nat off) @ [0x01, 0x02] @
             SPDM_Set32LE SPDM_ASYM_ALGO_ECDSA_P384 @ SPDM_Set32LE SPDM_HASH_ALGO_SHA_384 @
             (if spdmVersion c \<ge> SPDM_VERSION_14 then SPDM_Set32LE WOLFSPDM_MLDSA_SETS else zeros 4) @
             zeros 12 @ algs))))"

record alg_sel =
  dheOk :: bool
  kemOk :: bool
  aeadOk :: bool
  ksOk :: bool
  kemSel :: word16

text \<open>One AlgStruct at \<open>off\<close>; \<open>None\<close> is \<^verbatim>\<open>WOLFSPDM_E_ALGO_MISMATCH\<close>.\<close>

definition parseAlgStruct :: "'w WOLFSPDM_CTX \<Rightarrow> byte \<Rightarrow> word16 \<Rightarrow> alg_sel \<Rightarrow> alg_sel option" where
  "parseAlgStruct c algType algSel a =
     (if algType = SPDM_ALG_TYPE_DHE
      then (let ok = (algSel = SPDM_DHE_ALGO_SECP384R1) in
            if algSel \<noteq> 0 \<and> \<not> ok \<or> ok \<and> kexAdvDhe c = 0 then None else Some (a\<lparr>dheOk := ok\<rparr>))
      else if algType = SPDM_ALG_TYPE_KEM
      then (if algSel \<noteq> 0 \<and> (algSel AND (algSel - 1) \<noteq> 0 \<or>
               algSel AND kexAdvKem c AND WOLFSPDM_MLKEM_SETS = 0 \<or> spdmVersion c < SPDM_VERSION_14)
            then None else Some (a\<lparr>kemOk := (algSel \<noteq> 0), kemSel := algSel\<rparr>))
      else if algType = SPDM_ALG_TYPE_AEAD then Some (a\<lparr>aeadOk := (algSel = SPDM_AEAD_ALGO_AES_256_GCM)\<rparr>)
      else if algType = SPDM_ALG_TYPE_KEY_SCHEDULE then Some (a\<lparr>ksOk := (algSel = SPDM_KEY_SCHEDULE_SPDM)\<rparr>)
      else Some a)"

fun parseAlgStructs :: "'w WOLFSPDM_CTX \<Rightarrow> bytes \<Rightarrow> nat \<Rightarrow> nat \<Rightarrow> alg_sel \<Rightarrow> alg_sel option" where
  "parseAlgStructs c buf 0 off a = Some a"
| "parseAlgStructs c buf (Suc n) off a =
     (if off > length buf \<or> length buf - off < 4 then None
      else (case parseAlgStruct c (buf ! off) (SPDM_Get16LE buf (off + 2)) a of
              None \<Rightarrow> None
            | Some a' \<Rightarrow> parseAlgStructs c buf n (off + 4 + unat (buf ! (off + 1) AND 0x0F) * 4) a'))"

definition rspPqcSel :: "'w WOLFSPDM_CTX \<Rightarrow> bytes \<Rightarrow> word32" where
  "rspPqcSel c buf = (if spdmVersion c \<ge> SPDM_VERSION_14 then SPDM_Get32LE buf 20 else 0)"

definition sigAlgOk :: "word32 \<Rightarrow> word32 \<Rightarrow> bool" where
  "sigAlgOk baseAsymSel pqcSel =
     (if pqcSel \<noteq> 0 then \<not> (baseAsymSel \<noteq> 0 \<or> wolfSPDM_MlDsaLevel pqcSel = None)
      else baseAsymSel = SPDM_ASYM_ALGO_ECDSA_P384)"

definition wolfSPDM_ParseAlgorithms :: "bytes \<Rightarrow> ('w, unit) cop" where
  "wolfSPDM_ParseAlgorithms buf =
     thenE (SPDM_CHECK_PARSE_ARGS buf 4)
     (thenE (SPDM_CHECK_RESPONSE buf SPDM_ALGORITHMS E_ALGO_MISMATCH)
     (bindE (getE id) (\<lambda>c.
      thenE (guardE (\<not> (length buf < 36 \<or> buf ! 0 \<noteq> spdmVersion c \<or>
                        unat (SPDM_Get16LE buf 4) \<noteq> length buf)) E_ALGO_MISMATCH)
      (thenE (guardE (\<not> (buf ! 6 > 0x01 \<or> buf ! 7 \<noteq> 0x02)) E_ALGO_MISMATCH)
      (thenE (guardE (SPDM_Get32LE buf 16 = SPDM_HASH_ALGO_SHA_384) E_ALGO_MISMATCH)
      (thenE (modE (\<lambda>d. d\<lparr>pqcAsymSel := 0, kemAlgSel := 0\<rparr>))
      (let baseAsymSel = SPDM_Get32LE buf 12;
           pqcSel = rspPqcSel c buf in
       thenE (guardE (sigAlgOk baseAsymSel pqcSel) E_ALGO_MISMATCH)
       (bindE (liftE E_ALGO_MISMATCH
                 (parseAlgStructs c buf (unat (buf ! 2))
                    (36 + unat (buf ! 32) * 4 + unat (buf ! 33) * 4)
                    \<lparr>dheOk = False, kemOk = False, aeadOk = False, ksOk = False, kemSel = 0\<rparr>)) (\<lambda>a.
        thenE (guardE (\<not> ((dheOk a = kemOk a) \<or> \<not> aeadOk a \<or> \<not> ksOk a)) E_ALGO_MISMATCH)
        (modE (\<lambda>d. d\<lparr>pqcAsymSel := pqcSel, kemAlgSel := kemSel a\<rparr>)))))))))))"

definition wolfSPDM_NegotiateAlgorithms :: "wc_env \<Rightarrow> ('w, unit) cop" where
  "wolfSPDM_NegotiateAlgorithms K =
     thenE (wolfSPDM_ExchangeMsg K wolfSPDM_BuildNegotiateAlgorithms wolfSPDM_ParseAlgorithms
              WOLFSPDM_NEG_ALGO_SZ 128)
     (thenE (modE (\<lambda>c. c\<lparr>vcaLen := length (transcript c)\<rparr>))
     (wolfSPDM_M1Start K))"

section \<open>Digests and certificates\<close>

definition wolfSPDM_ParseDigests :: "bytes \<Rightarrow> ('w, unit) cop" where
  "wolfSPDM_ParseDigests buf =
     thenE (SPDM_CHECK_PARSE_ARGS buf 4)
     (thenE (SPDM_CHECK_RESPONSE buf SPDM_DIGESTS E_CERT_FAIL)
     (modE (\<lambda>c. c\<lparr>slotMask := buf ! 3\<rparr>)))"

definition wolfSPDM_GetDigests :: "wc_env \<Rightarrow> ('w, unit) cop" where
  "wolfSPDM_GetDigests K =
     bindE (getE (\<lambda>c. [spdmVersion c, SPDM_GET_DIGESTS, 0x00, 0x00])) (\<lambda>tx.
     bindE (wolfSPDM_ClearExchange K tx 512) (\<lambda>rx.
     thenE (wolfSPDM_ParseDigests rx)
     (wolfSPDM_M1Add K tx rx)))"

definition wolfSPDM_ParseCertificate :: "bytes \<Rightarrow> ('w, word16 \<times> word16) cop" where
  "wolfSPDM_ParseCertificate buf =
     thenE (SPDM_CHECK_PARSE_ARGS buf 4)
     (thenE (SPDM_CHECK_RESPONSE buf SPDM_CERTIFICATE E_CERT_FAIL)
     (bindE (getE id) (\<lambda>c.
      thenE (guardE (\<not> (length buf < 8 \<or> buf ! 2 AND 0x0F \<noteq> currentSlotId c)) E_CERT_FAIL)
      (let portionLen = SPDM_Get16LE buf 4; remainderLen = SPDM_Get16LE buf 6 in
       thenE (guardE (\<not> (length buf - 8 < unat portionLen \<or>
                         unat portionLen > WOLFSPDM_MAX_CERT_CHAIN - length (certChain c))) E_BUFFER_SMALL)
       (thenE (modE (\<lambda>d. d\<lparr>certChain := certChain d @ take (unat portionLen) (drop 8 buf)\<rparr>))
       (retE (portionLen, remainderLen)))))))"

definition WOLFSPDM_CERT_PORTION_SZ :: "wc_env \<Rightarrow> nat" where
  "WOLFSPDM_CERT_PORTION_SZ K =
     (if WOLFSPDM_DATA_TRANSFER_SIZE K < 1024 + 8 then WOLFSPDM_DATA_TRANSFER_SIZE K - 8 else 1024)"

text \<open>One GET_CERTIFICATE: the portion and remainder lengths the response announced.\<close>

definition getCertPortion :: "wc_env \<Rightarrow> byte \<Rightarrow> word16 \<Rightarrow> word16 \<Rightarrow> ('w, word16 \<times> word16) cop" where
  "getCertPortion K slotId reqLen offset =
     bindE (getE (\<lambda>c. [spdmVersion c, SPDM_GET_CERTIFICATE, slotId, 0x00] @
                      SPDM_Set16LE offset @ SPDM_Set16LE reqLen)) (\<lambda>tx.
     bindE (wolfSPDM_ClearExchange K tx (8 + WOLFSPDM_CERT_PORTION_SZ K)) (\<lambda>rx.
     bindE (wolfSPDM_ParseCertificate rx) (\<lambda>(portionLen, remainderLen).
     thenE (wolfSPDM_M1Add K tx (take (8 + unat portionLen) rx))
     (thenE (guardE (\<not> (portionLen = 0 \<and> remainderLen > 0)) E_CERT_FAIL)
     (retE (portionLen, remainderLen))))))"

lemma succ_ParseCertificate:
  "wolfSPDM_ParseCertificate rx c = (Inr (p, r), d) \<Longrightarrow>
     d = c\<lparr>certChain := certChain c @ take (unat p) (drop 8 rx)\<rparr> \<and>
     length (take (unat p) (drop 8 rx)) = unat p \<and> unat p \<le> WOLFSPDM_MAX_CERT_CHAIN - length (certChain c)"
  by (auto simp: wolfSPDM_ParseCertificate_def succ_simps Let_def)

lemma getCertPortion_grows:
  assumes "getCertPortion K slotId reqLen offset c = (Inr (p, r), d)"
  shows "length (certChain d) = length (certChain c) + unat p"
    "r \<noteq> 0 \<Longrightarrow> 0 < unat p \<and> length (certChain d) \<le> WOLFSPDM_MAX_CERT_CHAIN"
proof -
  obtain tx rx c1 c2 where
    x: "wolfSPDM_ClearExchange K tx (8 + WOLFSPDM_CERT_PORTION_SZ K) c = (Inr rx, c1)" and
    pc: "wolfSPDM_ParseCertificate rx c1 = (Inr (p, r), c2)" and
    m: "wolfSPDM_M1Add K tx (take (8 + unat p) rx) c2 = (Inr (), d)" and
    g: "\<not> (p = 0 \<and> r > 0)"
    using assms by (auto simp: getCertPortion_def succ_simps)
  have "certChain c1 = certChain c" "certChain d = certChain c2"
    using keepsD [OF keeps_ClearExchange [of certChain] x] keepsD [OF keeps_M1Add [of certChain] m] by simp_all
  moreover have "p \<noteq> 0 \<Longrightarrow> 0 < unat p" by (simp add: unat_gt_0)
  ultimately show "length (certChain d) = length (certChain c) + unat p"
    "r \<noteq> 0 \<Longrightarrow> 0 < unat p \<and> length (certChain d) \<le> WOLFSPDM_MAX_CERT_CHAIN"
    using g succ_ParseCertificate [OF pc] by (auto simp: word_gt_0)
qed

lemma getCertPortion_bound:
  fixes c :: "'w WOLFSPDM_CTX"
  assumes "length (certChain c) \<le> WOLFSPDM_MAX_CERT_CHAIN"
  shows "length (certChain (snd (getCertPortion K slotId reqLen offset c))) \<le> WOLFSPDM_MAX_CERT_CHAIN"
proof -
  let ?P = "\<lambda>c :: 'w WOLFSPDM_CTX. length (certChain c) \<le> WOLFSPDM_MAX_CERT_CHAIN"
  have p: "holdsE ?P (wolfSPDM_ParseCertificate rx)" for rx
    unfolding holdsE_def wolfSPDM_ParseCertificate_def SPDM_CHECK_PARSE_ARGS_def SPDM_CHECK_RESPONSE_def
    by (auto simp: opE_defs Let_def split: option.splits)
  have "holdsE ?P (getCertPortion K slotId reqLen offset)"
    unfolding getCertPortion_def
    by (intro holds_intros p keeps_holdsE [where f = certChain and P = "\<lambda>x. length x \<le> WOLFSPDM_MAX_CERT_CHAIN"]
        keeps_intros; simp)
  then show ?thesis using assms by (simp add: holdsE_def)
qed

lemma getCertPortion_progress:
  assumes "getCertPortion K slotId reqLen offset c = (Inr (p, r), d)" "0 < r"
  shows "WOLFSPDM_MAX_CERT_CHAIN - length (certChain d) < WOLFSPDM_MAX_CERT_CHAIN - length (certChain c)"
  using getCertPortion_grows [OF assms(1)] assms(2) by (auto simp: word_gt_0)

function getCertLoop :: "wc_env \<Rightarrow> byte \<Rightarrow> word16 \<Rightarrow> word16 \<Rightarrow> ('w, unit) cop" where
  "getCertLoop K slotId reqLen offset c =
     (case getCertPortion K slotId reqLen offset c of
        (Inl e, d) \<Rightarrow> (Inl e, d)
      | (Inr (portionLen, remainderLen), d) \<Rightarrow>
          if remainderLen > 0 then getCertLoop K slotId reqLen (offset + portionLen) d
          else (Inr (), d))"
  by pat_completeness auto
termination
  by (relation "measure (\<lambda>(K, s, r, off, c). WOLFSPDM_MAX_CERT_CHAIN - length (certChain c))")
     (auto dest!: getCertPortion_progress [OF sym])

declare getCertLoop.simps [simp del]

definition wolfSPDM_GetCertificate :: "wc_env \<Rightarrow> int \<Rightarrow> ('w, unit) cop" where
  "wolfSPDM_GetCertificate K slotId =
     thenE (guardE (\<not> (slotId < 0 \<or> slotId > 7)) E_INVALID_ARG)
     (bindE (getE id) (\<lambda>c.
      let portion = WOLFSPDM_CERT_PORTION_SZ K;
          reqLen = (if dataTransferSize c \<noteq> 0 \<and> unat (dataTransferSize c) < portion + 8
                    then ucast (dataTransferSize c - 8) else of_nat portion :: word16) in
      thenE (modE (\<lambda>d. dropCertKey (d\<lparr>currentSlotId := of_int slotId, certChain := []\<rparr>)))
      (thenE (getCertLoop K (of_int slotId) reqLen 0)
      (bindE (getE certChain) (\<lambda>chain.
       thenE (guardE (\<not> (length chain \<le> WOLFSPDM_CERT_CHAIN_HDR_SZ \<or>
                         unat (SPDM_Get16LE chain 0) \<noteq> length chain)) E_CERT_FAIL)
       (bindE (wolfSPDM_Sha384Hash K chain [] []) (\<lambda>h.
        thenE (modE (\<lambda>d. d\<lparr>certChainHash := h\<rparr>))
        (thenE (wolfSPDM_TranscriptAdd h)
        (modE (\<lambda>d. d\<lparr>state := WOLFSPDM_STATE_CERT\<rparr>))))))))))"

section \<open>Connecting\<close>

definition SPDM_CONNECT_STEP :: "('w, 'a) cop \<Rightarrow> ('w, 'a) cop" where
  "SPDM_CONNECT_STEP m = onFailE m (\<lambda>c. c\<lparr>state := WOLFSPDM_STATE_ERROR\<rparr>)"

function lowestSlot :: "byte \<Rightarrow> nat \<Rightarrow> nat" where
  "lowestSlot sm slot =
     (if slot < 7 \<and> sm \<noteq> 0 \<and> sm AND push_bit slot 1 = 0 then lowestSlot sm (slot + 1) else slot)"
  by pat_completeness auto
termination by (relation "measure (\<lambda>(m, s). 7 - s)") auto

declare lowestSlot.simps [simp del]

definition wolfSPDM_ConnectStandard :: "wc_env \<Rightarrow> ('w, unit) cop" where
  "wolfSPDM_ConnectStandard K =
     thenE (modE (\<lambda>c. wolfSPDM_AttestFree (wolfSPDM_TranscriptReset
              ((dropCertKey c)\<lparr>state := WOLFSPDM_STATE_INIT, lastPeerErrorCode := 0, rspCaps := 0\<rparr>))))
     (thenE (SPDM_CONNECT_STEP (wolfSPDM_GetVersion K))
     (thenE (SPDM_CONNECT_STEP (wolfSPDM_GetCapabilities K))
     (thenE (SPDM_CONNECT_STEP (wolfSPDM_NegotiateAlgorithms K))
     (thenE (SPDM_CONNECT_STEP (wolfSPDM_GetDigests K))
     (bindE (getE (\<lambda>c. lowestSlot (slotMask c) 0)) (\<lambda>slot.
      thenE (SPDM_CONNECT_STEP (wolfSPDM_GetCertificate K (int slot)))
      (thenE (SPDM_CONNECT_STEP (wolfSPDM_ValidateCertChain K))
      (thenE (SPDM_CONNECT_STEP (wolfSPDM_KeyExchange K))
      (thenE (SPDM_CONNECT_STEP (wolfSPDM_Finish K))
      (modE (\<lambda>c. c\<lparr>state := WOLFSPDM_STATE_CONNECTED\<rparr>)))))))))))"

section \<open>Frames\<close>

lemma keeps_CHECK_ARGS [keeps_intros]: "keeps f (SPDM_CHECK_PARSE_ARGS b n)"
  unfolding SPDM_CHECK_PARSE_ARGS_def by (intro keeps_intros)

lemma keeps_builders [keeps_intros]:
  "keeps f (wolfSPDM_BuildGetCapabilities K n)" "keeps f (wolfSPDM_BuildNegotiateAlgorithms n)"
  "keeps f (wolfSPDM_BuildGetVersion n)"
  unfolding wolfSPDM_BuildGetCapabilities_def wolfSPDM_BuildNegotiateAlgorithms_def wolfSPDM_BuildGetVersion_def
  by (intro keeps_intros)+

lemma keeps_ParseCapabilities [keeps_intros]:
  assumes "\<And>c x. f (c\<lparr>lastPeerErrorCode := x\<rparr>) = f c"
    "\<And>c x y z. f (c\<lparr>rspCaps := x, dataTransferSize := y, maxSpdmMsgSize := z\<rparr>) = f c"
  shows "keeps f (wolfSPDM_ParseCapabilities b)"
  unfolding wolfSPDM_ParseCapabilities_def by (intro keeps_intros assms)

lemma keeps_ParseAlgorithms [keeps_intros]:
  assumes "\<And>c x. f (c\<lparr>lastPeerErrorCode := x\<rparr>) = f c"
    "\<And>c x y. f (c\<lparr>pqcAsymSel := x, kemAlgSel := y\<rparr>) = f c"
  shows "keeps f (wolfSPDM_ParseAlgorithms b)"
  unfolding wolfSPDM_ParseAlgorithms_def by (intro keeps_intros assms)

lemma keeps_GetDigests [keeps_intros]:
  assumes "\<And>c x. f (c\<lparr>lastPeerErrorCode := x\<rparr>) = f c" "\<And>c x. f (c\<lparr>ioUserCtx := x\<rparr>) = f c"
    "\<And>c x. f (c\<lparr>fipsIndicator := x\<rparr>) = f c" "\<And>c x. f (c\<lparr>chunkHandle := x\<rparr>) = f c"
    "\<And>c x. f (c\<lparr>slotMask := x\<rparr>) = f c" "\<And>c x. f (c\<lparr>m1Hash := x\<rparr>) = f c"
  shows "keeps f (wolfSPDM_GetDigests K)"
  unfolding wolfSPDM_GetDigests_def wolfSPDM_ParseDigests_def by (intro keeps_intros assms)

lemma keeps_getCertPortion [keeps_intros]:
  assumes "\<And>c x. f (c\<lparr>lastPeerErrorCode := x\<rparr>) = f c" "\<And>c x. f (c\<lparr>ioUserCtx := x\<rparr>) = f c"
    "\<And>c x. f (c\<lparr>fipsIndicator := x\<rparr>) = f c" "\<And>c x. f (c\<lparr>chunkHandle := x\<rparr>) = f c"
    "\<And>c x. f (c\<lparr>certChain := x\<rparr>) = f c" "\<And>c x. f (c\<lparr>m1Hash := x\<rparr>) = f c"
  shows "keeps f (getCertPortion K s r off)"
  unfolding getCertPortion_def wolfSPDM_ParseCertificate_def by (intro keeps_intros assms)

lemma keeps_getCertLoop [keeps_intros]:
  assumes "\<And>c x. f (c\<lparr>lastPeerErrorCode := x\<rparr>) = f c" "\<And>c x. f (c\<lparr>ioUserCtx := x\<rparr>) = f c"
    "\<And>c x. f (c\<lparr>fipsIndicator := x\<rparr>) = f c" "\<And>c x. f (c\<lparr>chunkHandle := x\<rparr>) = f c"
    "\<And>c x. f (c\<lparr>certChain := x\<rparr>) = f c" "\<And>c x. f (c\<lparr>m1Hash := x\<rparr>) = f c"
  shows "keeps f (getCertLoop K s r off)"
proof -
  note step = keepsD [OF keeps_getCertPortion [where f = f, OF assms]]
  have "f (snd (getCertLoop K s r off c)) = f c" for c
  proof (induction K s r off c rule: getCertLoop.induct)
    case (1 K s r off c)
    show ?case
      using step [of K s r off c] 1
      by (subst getCertLoop.simps) (auto split: prod.splits sum.splits)
  qed
  then show ?thesis by (simp add: keeps_def)
qed

section \<open>What a negotiation that succeeds has settled\<close>

lemma ParseCapabilities_sound:
  "wpE (wolfSPDM_ParseCapabilities buf)
     (\<lambda>_ d. rspCaps d AND requiredCaps = requiredCaps \<and> 42 \<le> dataTransferSize d \<and>
        dataTransferSize d \<le> maxSpdmMsgSize d \<and> rspCaps d = SPDM_Get32LE buf 8)
     (\<lambda>e d. (rspCaps d, dataTransferSize d, maxSpdmMsgSize d) =
            (rspCaps c, dataTransferSize c, maxSpdmMsgSize c)) c"
  unfolding wolfSPDM_ParseCapabilities_def SPDM_CHECK_PARSE_ARGS_def
  by (auto simp: wp_simps wpE_CHECK_RESPONSE Let_def not_less split: option.splits)

text \<open>The selections so far are among those the requester offered.\<close>

definition algsOffered :: "'w WOLFSPDM_CTX \<Rightarrow> alg_sel \<Rightarrow> bool" where
  "algsOffered c a \<longleftrightarrow>
     (dheOk a \<longrightarrow> kexAdvDhe c \<noteq> 0) \<and> (kemOk a \<longleftrightarrow> kemSel a \<noteq> 0) \<and>
     (kemOk a \<longrightarrow> spdmVersion c \<ge> SPDM_VERSION_14 \<and> kemSel a AND (kemSel a - 1) = 0 \<and>
        kemSel a AND kexAdvKem c AND WOLFSPDM_MLKEM_SETS \<noteq> 0)"

lemma parseAlgStruct_offered:
  "parseAlgStruct c t sel a = Some a' \<Longrightarrow> algsOffered c a \<Longrightarrow> algsOffered c a'"
  by (auto simp: parseAlgStruct_def algsOffered_def Let_def not_less split: if_splits)

lemma parseAlgStructs_offered:
  "parseAlgStructs c buf n off a = Some a' \<Longrightarrow> algsOffered c a \<Longrightarrow> algsOffered c a'"
  by (induction n arbitrary: off a) (auto dest: parseAlgStruct_offered split: if_splits option.splits)

text \<open>
  The table of algorithm structures of a request or a response, and what it selects for a type: the
  last entry of that type, nothing without one.
\<close>

fun algTable :: "bytes \<Rightarrow> nat \<Rightarrow> nat \<Rightarrow> (byte \<times> word16) list option" where
  "algTable buf 0 off = Some []"
| "algTable buf (Suc n) off =
     (if off > length buf \<or> length buf - off < 4 then None
      else map_option (Cons (buf ! off, SPDM_Get16LE buf (off + 2)))
             (algTable buf n (off + 4 + unat (buf ! (off + 1) AND 0x0F) * 4)))"

definition selected :: "(byte \<times> word16) list \<Rightarrow> byte \<Rightarrow> word16" where
  "selected tbl t = (case map_of (rev tbl) t of None \<Rightarrow> 0 | Some s \<Rightarrow> s)"

text \<open>One bit, and a bit that was offered.\<close>

definition oneOf :: "'l::len word \<Rightarrow> 'l word \<Rightarrow> bool" where
  "oneOf sel offer \<longleftrightarrow> sel AND (sel - 1) = 0 \<and> sel AND offer \<noteq> 0"

lemma selected_simps [simp]:
  "selected [] t = 0" "selected (tbl @ [(u, s)]) t = (if t = u then s else selected tbl t)"
  by (simp_all add: selected_def)

text \<open>The scan of the code is a fold over the table, which keeps the selections so far.\<close>

primrec scanAlgs :: "'w WOLFSPDM_CTX \<Rightarrow> (byte \<times> word16) list \<Rightarrow> alg_sel \<Rightarrow> alg_sel option" where
  "scanAlgs c [] a = Some a"
| "scanAlgs c (e # es) a = Option.bind (parseAlgStruct c (fst e) (snd e) a) (scanAlgs c es)"

lemma scanAlgs_append: "scanAlgs c (xs @ ys) a = Option.bind (scanAlgs c xs a) (scanAlgs c ys)"
  by (induction xs arbitrary: a) (simp_all split: bind_split)

lemma parseAlgStructs_scan:
  "parseAlgStructs c buf n off a = Option.bind (algTable buf n off) (\<lambda>tbl. scanAlgs c tbl a)"
  by (induction n arbitrary: off a) (auto split: option.splits bind_splits)

definition tracks :: "'w WOLFSPDM_CTX \<Rightarrow> (byte \<times> word16) list \<Rightarrow> alg_sel \<Rightarrow> bool" where
  "tracks c tbl a \<longleftrightarrow>
     dheOk a = (selected tbl SPDM_ALG_TYPE_DHE = SPDM_DHE_ALGO_SECP384R1) \<and>
     (dheOk a \<or> selected tbl SPDM_ALG_TYPE_DHE = 0) \<and>
     kemSel a = selected tbl SPDM_ALG_TYPE_KEM \<and>
     aeadOk a = (selected tbl SPDM_ALG_TYPE_AEAD = SPDM_AEAD_ALGO_AES_256_GCM) \<and>
     ksOk a = (selected tbl SPDM_ALG_TYPE_KEY_SCHEDULE = SPDM_KEY_SCHEDULE_SPDM)"

lemma parseAlgStruct_tracks:
  "parseAlgStruct c t s a = Some b \<Longrightarrow> tracks c tbl a \<Longrightarrow> tracks c (tbl @ [(t, s)]) b"
  by (auto simp: parseAlgStruct_def tracks_def Let_def split: if_splits)

abbreviation (input) noAlgs :: alg_sel where
  "noAlgs \<equiv> \<lparr>dheOk = False, kemOk = False, aeadOk = False, ksOk = False, kemSel = 0\<rparr>"

lemma scanAlgs_tracks: "scanAlgs c tbl noAlgs = Some a \<Longrightarrow> tracks c tbl a"
proof (induction tbl arbitrary: a rule: rev_induct)
  case (snoc e es)
  then show ?case
    by (cases e) (auto simp: scanAlgs_append bind_eq_Some_conv intro: parseAlgStruct_tracks)
qed (simp add: tracks_def)

text \<open>
  Every selection of the response is one bit of what the request of \<open>c\<close> offers in the same place:
  hash, signature (base or post-quantum, not both), AEAD, key schedule and key exchange (a DHE group
  or a KEM, not both); \<open>d\<close> has recorded the post-quantum signature and the KEM. The entry for the
  requester's own signatures is not looked at.
\<close>

definition algorithmsAgreed :: "'w WOLFSPDM_CTX \<Rightarrow> bytes \<Rightarrow> 'w WOLFSPDM_CTX \<Rightarrow> bool" where
  "algorithmsAgreed c buf d \<longleftrightarrow> (\<exists>tx req rsp.
     wolfSPDM_BuildNegotiateAlgorithms WOLFSPDM_NEG_ALGO_SZ c = (Inr tx, c) \<and>
     algTable tx (unat (tx ! 2)) 32 = Some req \<and>
     algTable buf (unat (buf ! 2)) (36 + unat (buf ! 32) * 4 + unat (buf ! 33) * 4) = Some rsp \<and>
     buf ! 0 = tx ! 0 \<and> unat (SPDM_Get16LE buf 4) = length buf \<and> buf ! 6 \<le> tx ! 6 \<and> buf ! 7 = tx ! 7 \<and>
     oneOf (SPDM_Get32LE buf 16) (SPDM_Get32LE tx 12) \<and>
     (if pqcAsymSel d = 0 then oneOf (SPDM_Get32LE buf 12) (SPDM_Get32LE tx 8)
      else SPDM_Get32LE buf 12 = 0 \<and> oneOf (pqcAsymSel d) (SPDM_Get32LE tx 16) \<and> pqcAsymSel d = SPDM_Get32LE buf 20) \<and>
     oneOf (selected rsp SPDM_ALG_TYPE_AEAD) (selected req SPDM_ALG_TYPE_AEAD) \<and>
     oneOf (selected rsp SPDM_ALG_TYPE_KEY_SCHEDULE) (selected req SPDM_ALG_TYPE_KEY_SCHEDULE) \<and>
     (if kemAlgSel d = 0 then oneOf (selected rsp SPDM_ALG_TYPE_DHE) (selected req SPDM_ALG_TYPE_DHE)
      else selected rsp SPDM_ALG_TYPE_DHE = 0 \<and> oneOf (kemAlgSel d) (selected req SPDM_ALG_TYPE_KEM)) \<and>
     kemAlgSel d = selected rsp SPDM_ALG_TYPE_KEM)"

lemma MlDsaLevel_oneOf: "wolfSPDM_MlDsaLevel s \<noteq> None \<Longrightarrow> oneOf s WOLFSPDM_MLDSA_SETS"
  by (auto simp: wolfSPDM_MlDsaLevel_def oneOf_def split: if_splits)

abbreviation (input) encodeAlgs :: "(byte \<times> word16) list \<Rightarrow> bytes" where
  "encodeAlgs tbl \<equiv> concat (map (\<lambda>(t, s). algStruct t s) tbl)"

text \<open>Round trip: a table that was written is read back.\<close>

lemma algTable_encodeAlgs: "algTable (pre @ encodeAlgs tbl) (length tbl) (length pre) = Some tbl"
proof (induction tbl arbitrary: pre)
  case (Cons e tbl)
  obtain t s where e: "e = (t, s)" by (cases e)
  let ?b = "pre @ encodeAlgs (e # tbl)"
  have "algTable ?b (length tbl) (length pre + 4) = Some tbl"
    using Cons.IH [of "pre @ algStruct t s"] by (simp add: e algStruct_def)
  moreover have "?b ! length pre = t" "?b ! (length pre + 1) = 0x20" "SPDM_Get16LE ?b (length pre + 2) = s"
    by (simp_all add: e algStruct_def codec_simps nth_append)
  ultimately show ?case by (simp add: e algStruct_def)
qed simp

definition offeredAlgs :: "'w WOLFSPDM_CTX \<Rightarrow> (byte \<times> word16) list" where
  "offeredAlgs c =
     (if kexAdvDhe c \<noteq> 0 then [(SPDM_ALG_TYPE_DHE, SPDM_DHE_ALGO_SECP384R1)] else []) @
     [(SPDM_ALG_TYPE_AEAD, SPDM_AEAD_ALGO_AES_256_GCM),
      (SPDM_ALG_TYPE_REQ_BASE_ASYM, ucast SPDM_ASYM_ALGO_ECDSA_P384),
      (SPDM_ALG_TYPE_KEY_SCHEDULE, SPDM_KEY_SCHEDULE_SPDM)] @
     (if spdmVersion c \<ge> SPDM_VERSION_14 \<and> kexAdvKem c \<noteq> 0 then [(SPDM_ALG_TYPE_KEM, kexAdvKem c)] else [])"

lemma BuildNegotiateAlgorithms_table:
  assumes "kexAdvDhe c \<noteq> 0 \<or> spdmVersion c \<ge> SPDM_VERSION_14 \<and> kexAdvKem c \<noteq> 0"
  obtains tx where "wolfSPDM_BuildNegotiateAlgorithms WOLFSPDM_NEG_ALGO_SZ c = (Inr tx, c)"
    "algTable tx (unat (tx ! 2)) 32 = Some (offeredAlgs c)" "tx ! 0 = spdmVersion c" "tx ! 6 = 1" "tx ! 7 = 2"
    "SPDM_Get32LE tx 8 = SPDM_ASYM_ALGO_ECDSA_P384" "SPDM_Get32LE tx 12 = SPDM_HASH_ALGO_SHA_384"
    "SPDM_Get32LE tx 16 = (if spdmVersion c \<ge> SPDM_VERSION_14 then WOLFSPDM_MLDSA_SETS else 0)"
proof
  let ?n = "length (offeredAlgs c)"
  let ?pre = "[spdmVersion c, SPDM_NEGOTIATE_ALGORITHMS, of_nat ?n, 0] @ SPDM_Set16LE (of_nat (32 + 4 * ?n)) @ [0x01, 0x02] @
             SPDM_Set32LE SPDM_ASYM_ALGO_ECDSA_P384 @ SPDM_Set32LE SPDM_HASH_ALGO_SHA_384 @
             (if spdmVersion c \<ge> SPDM_VERSION_14 then SPDM_Set32LE WOLFSPDM_MLDSA_SETS else zeros 4) @ zeros 12"
  let ?tx = "?pre @ encodeAlgs (offeredAlgs c)"
  show "wolfSPDM_BuildNegotiateAlgorithms WOLFSPDM_NEG_ALGO_SZ c = (Inr ?tx, c)"
    using assms by (simp add: wolfSPDM_BuildNegotiateAlgorithms_def opE_defs Let_def offeredAlgs_def algStruct_def)
  have n: "?n < 256" by (simp add: offeredAlgs_def)
  have "unat (?tx ! 2) = ?n" using n by (simp add: unat_of_nat_small)
  moreover have "length ?pre = 32" by (simp add: zeros_def)
  ultimately show "algTable ?tx (unat (?tx ! 2)) 32 = Some (offeredAlgs c)"
    using algTable_encodeAlgs [of ?pre "offeredAlgs c"] by metis
  show "?tx ! 0 = spdmVersion c" "?tx ! 6 = 1" "?tx ! 7 = 2" by (simp_all add: SPDM_Set16LE_def)
  show "SPDM_Get32LE ?tx 8 = SPDM_ASYM_ALGO_ECDSA_P384" "SPDM_Get32LE ?tx 12 = SPDM_HASH_ALGO_SHA_384"
    "SPDM_Get32LE ?tx 16 = (if spdmVersion c \<ge> SPDM_VERSION_14 then WOLFSPDM_MLDSA_SETS else 0)"
    by (simp_all add: codec_simps SPDM_Get32LE_def [of "replicate _ _"] zeros_def)
qed

lemma selected_offered:
  "selected (offeredAlgs c) SPDM_ALG_TYPE_AEAD = SPDM_AEAD_ALGO_AES_256_GCM"
  "selected (offeredAlgs c) SPDM_ALG_TYPE_KEY_SCHEDULE = SPDM_KEY_SCHEDULE_SPDM"
  "selected (offeredAlgs c) SPDM_ALG_TYPE_DHE = (if kexAdvDhe c \<noteq> 0 then SPDM_DHE_ALGO_SECP384R1 else 0)"
  "selected (offeredAlgs c) SPDM_ALG_TYPE_KEM = (if spdmVersion c \<ge> SPDM_VERSION_14 then kexAdvKem c else 0)"
  by (simp_all add: offeredAlgs_def selected_def)

lemma ParseAlgorithms_agreed:
  assumes "wolfSPDM_ParseAlgorithms buf c = (Inr u, d)"
  shows "algorithmsAgreed c buf d"
proof -
  from assms obtain a where g: "buf ! 0 = spdmVersion c" "unat (SPDM_Get16LE buf 4) = length buf" "buf ! 6 \<le> 1" "buf ! 7 = 2" 
    and h: "SPDM_Get32LE buf 16 = SPDM_HASH_ALGO_SHA_384" and
    p: "parseAlgStructs c buf (unat (buf ! 2)) (36 + unat (buf ! 32) * 4 + unat (buf ! 33) * 4) noAlgs = Some a" and
    x: "dheOk a \<noteq> kemOk a" "aeadOk a" "ksOk a" and
    q: "sigAlgOk (SPDM_Get32LE buf 12) (rspPqcSel c buf)" and
    d: "d = c\<lparr>pqcAsymSel := rspPqcSel c buf, kemAlgSel := kemSel a\<rparr>"
    unfolding wolfSPDM_ParseAlgorithms_def by (auto simp: succ_simps Let_def not_less)
  from p obtain rsp where rsp: "algTable buf (unat (buf ! 2)) (36 + unat (buf ! 32) * 4 + unat (buf ! 33) * 4) = Some rsp"
    and "scanAlgs c rsp noAlgs = Some a" by (auto simp: parseAlgStructs_scan bind_eq_Some_conv)
  then have t: "tracks c rsp a" by (simp add: scanAlgs_tracks)
  have o': "algsOffered c a" by (rule parseAlgStructs_offered [OF p]) (simp add: algsOffered_def)
  with x have "kexAdvDhe c \<noteq> 0 \<or> spdmVersion c \<ge> SPDM_VERSION_14 \<and> kexAdvKem c \<noteq> 0" by (auto simp: algsOffered_def)
  then obtain tx where tx: "wolfSPDM_BuildNegotiateAlgorithms WOLFSPDM_NEG_ALGO_SZ c = (Inr tx, c)"
    "algTable tx (unat (tx ! 2)) 32 = Some (offeredAlgs c)" "tx ! 0 = spdmVersion c" "tx ! 6 = 1" "tx ! 7 = 2"
    "SPDM_Get32LE tx 8 = SPDM_ASYM_ALGO_ECDSA_P384" "SPDM_Get32LE tx 12 = SPDM_HASH_ALGO_SHA_384"
    "SPDM_Get32LE tx 16 = (if spdmVersion c \<ge> SPDM_VERSION_14 then WOLFSPDM_MLDSA_SETS else 0)"
    by (rule BuildNegotiateAlgorithms_table)
  have sig: "if pqcAsymSel d = 0 then oneOf (SPDM_Get32LE buf 12) (SPDM_Get32LE tx 8)
      else SPDM_Get32LE buf 12 = 0 \<and> oneOf (pqcAsymSel d) (SPDM_Get32LE tx 16) \<and> pqcAsymSel d = SPDM_Get32LE buf 20"
    using q by (auto simp: d tx sigAlgOk_def rspPqcSel_def MlDsaLevel_oneOf oneOf_def [of "0x80"] split: if_splits)
  have kex: "if kemAlgSel d = 0 then oneOf (selected rsp SPDM_ALG_TYPE_DHE) (selected (offeredAlgs c) SPDM_ALG_TYPE_DHE)
      else selected rsp SPDM_ALG_TYPE_DHE = 0 \<and> oneOf (kemAlgSel d) (selected (offeredAlgs c) SPDM_ALG_TYPE_KEM)"
    using x o' t by (auto simp: d selected_offered tracks_def algsOffered_def oneOf_def and.assoc [symmetric])
  have rest: "buf ! 0 = tx ! 0" "buf ! 6 \<le> tx ! 6" "buf ! 7 = tx ! 7" "oneOf (SPDM_Get32LE buf 16) (SPDM_Get32LE tx 12)"
    "oneOf (selected rsp SPDM_ALG_TYPE_AEAD) (selected (offeredAlgs c) SPDM_ALG_TYPE_AEAD)"
    "oneOf (selected rsp SPDM_ALG_TYPE_KEY_SCHEDULE) (selected (offeredAlgs c) SPDM_ALG_TYPE_KEY_SCHEDULE)"
    "kemAlgSel d = selected rsp SPDM_ALG_TYPE_KEM"
    using g h x(2,3) t by (simp_all add: tx d selected_offered tracks_def oneOf_def)
  show ?thesis
    unfolding algorithmsAgreed_def
    by (rule exI [of _ tx], rule exI [of _ "offeredAlgs c"], rule exI [of _ rsp])
       (intro conjI tx rsp g(2) rest sig kex)
qed

lemma ParseAlgorithms_failure:
  "wpE (wolfSPDM_ParseAlgorithms buf) (\<lambda>_ _. True)
     (\<lambda>_ d. (pqcAsymSel d, kemAlgSel d) \<in> {(pqcAsymSel c, kemAlgSel c), (0, 0)}) c"
  unfolding wolfSPDM_ParseAlgorithms_def SPDM_CHECK_PARSE_ARGS_def
  by (auto simp: wp_simps wpE_CHECK_RESPONSE Let_def split: option.splits)

text \<open>Retrieval stays inside the chain buffer, and a chain that is kept has the length its header says.\<close>

lemma getCertLoop_bound:
  "length (certChain c) \<le> WOLFSPDM_MAX_CERT_CHAIN \<Longrightarrow>
   length (certChain (snd (getCertLoop K s r off c))) \<le> WOLFSPDM_MAX_CERT_CHAIN"
proof (induction K s r off c rule: getCertLoop.induct)
  case (1 K s r off c)
  have b: "length (certChain d) \<le> WOLFSPDM_MAX_CERT_CHAIN" if "getCertPortion K s r off c = (res, d)" for res d
    using that 1(2) getCertPortion_bound [where K = K and slotId = s and reqLen = r and offset = off and c = c] by simp
  show ?case
    using 1(1) b by (subst getCertLoop.simps) (auto split: prod.splits sum.splits)
qed

lemma GetCertificate_sound:
  "wpE (wolfSPDM_GetCertificate K slot)
     (\<lambda>_ d. state d = WOLFSPDM_STATE_CERT \<and> WOLFSPDM_CERT_CHAIN_HDR_SZ < length (certChain d) \<and>
        length (certChain d) \<le> WOLFSPDM_MAX_CERT_CHAIN \<and>
        unat (SPDM_Get16LE (certChain d) 0) = length (certChain d) \<and>
        fst (wolfSPDM_Sha384Hash K (certChain d) [] [] ()) = Inr (certChainHash d))
     (\<lambda>e d. True) c"
proof -
  let ?c1 = "dropCertKey (c\<lparr>currentSlotId := of_int slot, certChain := []\<rparr>)"
  have b: "length (certChain d) \<le> WOLFSPDM_MAX_CERT_CHAIN" if "getCertLoop K s r off ?c1 = (x, d)" for s r off x d
    using getCertLoop_bound [of ?c1 K s r off] that by simp
  show ?thesis
    unfolding wpE_iff wolfSPDM_GetCertificate_def
    by (auto simp: succ_simps Let_def succ_Sha384Hash [of K _ _ _ _ _ _ "()"] dest: b)
qed

text \<open>Only a handshake that ran to its end leaves the context connected.\<close>

definition failsIn :: "nat \<Rightarrow> ('w, 'a) cop \<Rightarrow> bool" where
  "failsIn st m \<longleftrightarrow> (\<forall>c e d. m c = (Inl e, d) \<longrightarrow> state d = st)"

lemma failsIn_step: "failsIn WOLFSPDM_STATE_ERROR (SPDM_CONNECT_STEP m)"
  by (auto simp: failsIn_def SPDM_CONNECT_STEP_def onFailE_def split: prod.splits sum.splits)

lemma failsIn_bind: "failsIn st m \<Longrightarrow> (\<And>a. failsIn st (f a)) \<Longrightarrow> failsIn st (bindE m f)"
  by (auto simp: failsIn_def bindE_def split: prod.splits sum.splits)

lemma failsIn_basic:
  "failsIn st (modE g)" "failsIn st (getE h)" "failsIn st (retE x)"
  "failsIn st m \<Longrightarrow> failsIn st n \<Longrightarrow> failsIn st (if b then m else n)"
  by (simp_all add: failsIn_def opE_defs)

lemmas failsIn_intros = failsIn_step failsIn_bind failsIn_basic

lemma succ_CONNECT_STEP [succ_simps]: "SPDM_CONNECT_STEP m c = (Inr u, d) \<longleftrightarrow> m c = (Inr u, d)"
  by (simp add: SPDM_CONNECT_STEP_def succ_simps)

text \<open>What a configuration trusts: the root, the permission to go without, the pinned key.\<close>

definition trustView :: "'w WOLFSPDM_CTX \<Rightarrow> bytes \<times> bool \<times> bytes option" where
  "trustView c = (trustedCA c, allowUntrustedCert (flags c),
     if hasRspPubKey (flags c) \<and> \<not> rspKeyFromCert (flags c) then Some (rspPubKey c) else None)"

lemma trustView_dropCertKey [simp]: "trustView (dropCertKey c) = trustView c"
  by (simp add: trustView_def dropCertKey_def)

lemma keeps_trustView:
  "keeps trustView (wolfSPDM_GetVersion K)" "keeps trustView (wolfSPDM_GetCapabilities K)"
  "keeps trustView (wolfSPDM_NegotiateAlgorithms K)" "keeps trustView (wolfSPDM_GetDigests K)"
  "keeps trustView (wolfSPDM_GetCertificate K n)"
  unfolding wolfSPDM_GetVersion_def wolfSPDM_GetCapabilities_def wolfSPDM_NegotiateAlgorithms_def
    wolfSPDM_GetCertificate_def Let_def
  by (intro keeps_intros; simp add: trustView_def dropCertKey_def frame_simps)+

text \<open>
  The end of a connection: the chain was trusted under the configuration of \<open>c\<close>,
  KEY_EXCHANGE_RSP was signed with the key that chain gave, and FINISH ran under the keys of
  that exchange.
\<close>

definition standardSession :: "wc_env \<Rightarrow> 'w WOLFSPDM_CTX \<Rightarrow> 'w WOLFSPDM_CTX \<Rightarrow> bool" where
  "standardSession K c d \<longleftrightarrow> (\<exists>(c0 :: 'w WOLFSPDM_CTX) c1 c2 c3. trustView c0 = trustView c \<and>
     chainTrusted K c0 c1 \<and> kexTrusted K c1 c2 \<and> state c2 = WOLFSPDM_STATE_KEY_EX \<and>
     wolfSPDM_Finish K c2 = (Inr (), c3) \<and> d = c3\<lparr>state := WOLFSPDM_STATE_CONNECTED\<rparr>)"

lemma ConnectStandard_outcome:
  "wpE (wolfSPDM_ConnectStandard K)
     (\<lambda>_ d. state d = WOLFSPDM_STATE_CONNECTED \<and> standardSession K c d)
     (\<lambda>_ d. state d = WOLFSPDM_STATE_ERROR) c"
proof -
  have e: "wpE (wolfSPDM_ConnectStandard K) (\<lambda>_ _. True) (\<lambda>_ d. state d = WOLFSPDM_STATE_ERROR) c"
  proof -
    have "failsIn WOLFSPDM_STATE_ERROR (wolfSPDM_ConnectStandard K :: ('a, unit) cop)"
      unfolding wolfSPDM_ConnectStandard_def by (intro failsIn_intros)
    then show ?thesis by (simp add: wpE_iff failsIn_def)
  qed
  have s: "state d = WOLFSPDM_STATE_CONNECTED \<and> standardSession K c d"
    if r: "wolfSPDM_ConnectStandard K c = (Inr u, d)" for u d
  proof -
    let ?c = "wolfSPDM_AttestFree (wolfSPDM_TranscriptReset
        ((dropCertKey c)\<lparr>state := WOLFSPDM_STATE_INIT, lastPeerErrorCode := 0, rspCaps := 0\<rparr>))"
    obtain b1 b2 b3 b4 c0 c1 c2 c3 slot where
      b: "wolfSPDM_GetVersion K ?c = (Inr (), b1)" "wolfSPDM_GetCapabilities K b1 = (Inr (), b2)"
      "wolfSPDM_NegotiateAlgorithms K b2 = (Inr (), b3)" "wolfSPDM_GetDigests K b3 = (Inr (), b4)"
      "wolfSPDM_GetCertificate K slot b4 = (Inr (), c0)" and
      x: "wolfSPDM_ValidateCertChain K c0 = (Inr (), c1)"
      "wolfSPDM_KeyExchange K c1 = (Inr (), c2)" "wolfSPDM_Finish K c2 = (Inr (), c3)"
      "d = c3\<lparr>state := WOLFSPDM_STATE_CONNECTED\<rparr>"
      using r unfolding wolfSPDM_ConnectStandard_def by (clarsimp simp: succ_simps)
    have "trustView ?c = trustView (dropCertKey c)"
      by (simp add: trustView_def wolfSPDM_AttestFree_def wolfSPDM_TranscriptReset_def Let_def)
    then have "trustView c0 = trustView c"
      using b(1) [THEN keepsD [OF keeps_trustView(1)]] b(2) [THEN keepsD [OF keeps_trustView(2)]]
        b(3) [THEN keepsD [OF keeps_trustView(3)]] b(4) [THEN keepsD [OF keeps_trustView(4)]]
        b(5) [THEN keepsD [OF keeps_trustView(5)]] by simp
    with x show ?thesis
      unfolding standardSession_def
      using ValidateCertChain_trusted succ_KeyExchange by (fastforce intro: exI)
  qed
  from e s show ?thesis unfolding wpE_iff by blast
qed

end
