(* ===== verification/Spdm_Attest.thy ===== *)
theory Spdm_Attest
  imports Spdm_Standard
begin

text \<open>
  Attestation, \<^verbatim>\<open>src/spdm_attest.c\<close>: GET_MEASUREMENTS with the running L1/L2 hash and the
  stored record, and CHALLENGE with the running M1 hash.
\<close>

section \<open>GET_MEASUREMENTS\<close>

abbreviation (input) SPDM_NONCE_SZ :: nat where "SPDM_NONCE_SZ \<equiv> 32"
abbreviation (input) WOLFSPDM_ATTEST_TAIL_SZ :: nat where
  "WOLFSPDM_ATTEST_TAIL_SZ \<equiv> 2 + 512 + 8 + WOLFSPDM_MAX_SIG_SIZE"
abbreviation (input) WOLFSPDM_MEAS_RSP_SZ :: nat where
  "WOLFSPDM_MEAS_RSP_SZ \<equiv> 8 + WOLFSPDM_MAX_MEAS_RECORD + SPDM_NONCE_SZ + WOLFSPDM_ATTEST_TAIL_SZ"
abbreviation (input) WOLFSPDM_CHAL_RSP_SZ :: nat where
  "WOLFSPDM_CHAL_RSP_SZ \<equiv> 4 + 2 * WOLFSPDM_HASH_SIZE + SPDM_NONCE_SZ + WOLFSPDM_ATTEST_TAIL_SZ"
abbreviation (input) SPDM_MEAS_REQUEST_SIG_BIT :: byte where "SPDM_MEAS_REQUEST_SIG_BIT \<equiv> 0x01"
abbreviation (input) WOLFSPDM_MEAS_BLOCK_HDR_SZ :: nat where "WOLFSPDM_MEAS_BLOCK_HDR_SZ \<equiv> 4"
abbreviation (input) SPDM_MEAS_SPEC_DMTF :: byte where "SPDM_MEAS_SPEC_DMTF \<equiv> 0x01"
abbreviation (input) SPDM_MEAS_SUMMARY_HASH_NONE :: byte where "SPDM_MEAS_SUMMARY_HASH_NONE \<equiv> 0x00"

definition wolfSPDM_BuildGetMeasurements :: "wc_env \<Rightarrow> nat \<Rightarrow> byte \<Rightarrow> bool \<Rightarrow> ('w, bytes) cop" where
  "wolfSPDM_BuildGetMeasurements K bufSz operation requestSig = bindE (getE id) (\<lambda>c.
     let ctxSz = wolfSPDM_ReqContextSz c;
         sz = 4 + (if requestSig then SPDM_NONCE_SZ + 1 else 0) + ctxSz in
     thenE (guardE (bufSz \<ge> sz) E_BUFFER_SMALL)
     (bindE (if requestSig
             then bindE (wolfSPDM_GetRandom K SPDM_NONCE_SZ) (\<lambda>nonce. retE (nonce @ [currentSlotId c]))
             else retE []) (\<lambda>nonceSlot.
      bindE (if ctxSz > 0 then wolfSPDM_GetRandom K ctxSz else retE []) (\<lambda>reqCtx.
      retE ([spdmVersion c, SPDM_GET_MEASUREMENTS,
             if requestSig then SPDM_MEAS_REQUEST_SIG_BIT else 0x00, operation] @ nonceSlot @ reqCtx)))))"

text \<open>
  The block walk: \<open>n\<close> blocks are left at \<open>off\<close>; the result is what is left when the walk
  stops and where it stopped.
\<close>

fun measWalk :: "bytes \<Rightarrow> nat \<Rightarrow> nat \<Rightarrow> nat \<Rightarrow> nat \<times> nat" where
  "measWalk buf recordEnd 0 off = (0, off)"
| "measWalk buf recordEnd (Suc n) off =
     (if off + WOLFSPDM_MEAS_BLOCK_HDR_SZ \<le> recordEnd
      then measWalk buf recordEnd n
             (off + WOLFSPDM_MEAS_BLOCK_HDR_SZ + unat (SPDM_Get16LE buf (off + 2)))
      else (Suc n, off))"

definition measRecordLen :: "bytes \<Rightarrow> nat" where
  "measRecordLen buf = unat (ucast (buf ! 5) OR push_bit 8 (ucast (buf ! 6)) OR
     push_bit 16 (ucast (buf ! 7)) :: word32)"

definition wolfSPDM_ParseMeasurements :: "bytes \<Rightarrow> bytes \<Rightarrow> ('w, nat) cop" where
  "wolfSPDM_ParseMeasurements req buf =
     thenE (SPDM_CHECK_PARSE_OR_ERROR_ARGS buf 8)
     (thenE (guardE (length req \<ge> 4) E_INVALID_ARG)
     (thenE (SPDM_CHECK_RESPONSE buf SPDM_MEASUREMENTS E_MEASUREMENT)
     (bindE (getE id) (\<lambda>c.
      let signedReq = (req ! 2 AND SPDM_MEAS_REQUEST_SIG_BIT \<noteq> 0);
          recordEnd = 8 + measRecordLen buf in
      thenE (guardE (\<not> (buf ! 0 \<noteq> spdmVersion c \<or> recordEnd > length buf \<or>
                        signedReq \<and> buf ! 3 AND 0x0F \<noteq> currentSlotId c)) E_MEASUREMENT)
      (thenE (guardE (measWalk buf recordEnd (unat (buf ! 4)) 8 = (0, recordEnd)) E_MEASUREMENT)
      (liftE E_MEASUREMENT
         (wolfSPDM_ParseTail c req buf (recordEnd + SPDM_NONCE_SZ)
            (if signedReq then wolfSPDM_SigSize c else 0))))))))"

text \<open>The part of \<^verbatim>\<open>wolfSPDM_GetMeasurements\<close> after the old report has been dropped.\<close>

definition fetchMeasurements :: "wc_env \<Rightarrow> byte \<Rightarrow> bool \<Rightarrow> ('w, unit) cop" where
  "fetchMeasurements K measOperation requestSignature = bindE (getE l1l2State) (\<lambda>run.
     thenE (if run \<noteq> WOLFSPDM_RUN_OPEN then wolfSPDM_RunStart K l1l2Run else retE ())
     (bindE (wolfSPDM_BuildGetMeasurements K (4 + SPDM_NONCE_SZ + 1 + 8) measOperation requestSignature) (\<lambda>req.
      bindE (wolfSPDM_SecuredExchange K req WOLFSPDM_MEAS_RSP_SZ) (\<lambda>rsp.
      bindE (wolfSPDM_ParseMeasurements req rsp) (\<lambda>sigOff.
      thenE (if requestSignature
             then wolfSPDM_RunVerify K l1l2Run (cstr ''responder-measurements signing'') req rsp sigOff
             else thenE (wolfSPDM_RunAdd K l1l2Run req rsp)
                  (modE (\<lambda>d. d\<lparr>l1l2State := WOLFSPDM_RUN_OPEN\<rparr>)))
      (let recLen = measRecordLen rsp in
       thenE (guardE (recLen \<le> WOLFSPDM_MAX_MEAS_RECORD) E_BUFFER_SMALL)
       (modE (\<lambda>d. d\<lparr>measRecord := take recLen (drop 8 rsp), measBlockCount := rsp ! 4\<rparr>))))))))"

definition wolfSPDM_GetMeasurements :: "wc_env \<Rightarrow> byte \<Rightarrow> bool \<Rightarrow> ('w, unit) cop" where
  "wolfSPDM_GetMeasurements K measOperation requestSignature = bindE (getE id) (\<lambda>c.
     let capBits = (if requestSignature then SPDM_CAP_MEAS_CAP_SIG
                    else SPDM_CAP_MEAS_CAP_SIG OR SPDM_CAP_MEAS_CAP_NO_SIG) in
     thenE (guardE (state c = WOLFSPDM_STATE_CONNECTED) E_NOT_CONNECTED)
     (thenE (guardE (rspCaps c AND capBits \<noteq> 0) E_CAPS_MISMATCH)
     (thenE (modE (\<lambda>d. d\<lparr>measBlockCount := 0, measRecord := []\<rparr>))
     (fetchMeasurements K measOperation requestSignature))))"

definition wolfSPDM_GetMeasurementCount :: "'w WOLFSPDM_CTX \<Rightarrow> nat" where
  "wolfSPDM_GetMeasurementCount c = unat (measBlockCount c)"

section \<open>Reading the stored record\<close>

text \<open>
  The value is \<open>None\<close> when it does not fit (\<^verbatim>\<open>WOLFSPDM_E_BUFFER_SMALL\<close>); the size, index and
  type come back either way.
\<close>

record meas_block =
  mbIndex :: byte
  mbType :: byte
  mbSize :: nat
  mbValue :: "bytes option"

fun measBlockOff :: "bytes \<Rightarrow> nat \<Rightarrow> nat \<Rightarrow> nat" where
  "measBlockOff rec 0 off = off"
| "measBlockOff rec (Suc i) off =
     measBlockOff rec i (off + WOLFSPDM_MEAS_BLOCK_HDR_SZ + unat (SPDM_Get16LE rec (off + 2)))"

definition wolfSPDM_GetMeasurementBlock ::
  "'w WOLFSPDM_CTX \<Rightarrow> int \<Rightarrow> nat \<Rightarrow> WOLFSPDM_ERROR + meas_block" where
  "wolfSPDM_GetMeasurementBlock c blockIdx valueSz =
     (if blockIdx < 0 \<or> blockIdx \<ge> int (unat (measBlockCount c)) then Inl E_INVALID_ARG
      else (let rec = measRecord c;
                off = measBlockOff rec (nat blockIdx) 0;
                len = unat (SPDM_Get16LE rec (off + 2));
                dmtf = (rec ! (off + 1) = SPDM_MEAS_SPEC_DMTF \<and> len \<ge> 3 \<and>
                        unat (SPDM_Get16LE rec (off + WOLFSPDM_MEAS_BLOCK_HDR_SZ + 1)) \<le> len - 3);
                vlen = (if dmtf then unat (SPDM_Get16LE rec (off + WOLFSPDM_MEAS_BLOCK_HDR_SZ + 1)) else len);
                voff = off + (if dmtf then 3 else 0) + WOLFSPDM_MEAS_BLOCK_HDR_SZ in
            Inr \<lparr>mbIndex = rec ! off,
                 mbType = (if dmtf then rec ! (off + WOLFSPDM_MEAS_BLOCK_HDR_SZ) else 0),
                 mbSize = vlen,
                 mbValue = (if vlen > valueSz then None else Some (take vlen (drop voff rec)))\<rparr>))"

section \<open>CHALLENGE\<close>

definition wolfSPDM_BuildChallenge :: "wc_env \<Rightarrow> nat \<Rightarrow> int \<Rightarrow> byte \<Rightarrow> ('w, bytes) cop" where
  "wolfSPDM_BuildChallenge K bufSz slotId measHashType =
     thenE (guardE (\<not> (slotId < 0 \<or> slotId > 7)) E_INVALID_ARG)
     (bindE (getE id) (\<lambda>c.
      let sz = 4 + SPDM_NONCE_SZ + wolfSPDM_ReqContextSz c in
      thenE (guardE (bufSz \<ge> sz) E_BUFFER_SMALL)
      (bindE (wolfSPDM_GetRandom K (sz - 4)) (\<lambda>rnd.
       retE ([spdmVersion c, SPDM_CHALLENGE, of_int slotId, measHashType] @ rnd)))))"

definition wolfSPDM_ParseChallengeAuth :: "bytes \<Rightarrow> bytes \<Rightarrow> ('w, nat) cop" where
  "wolfSPDM_ParseChallengeAuth req buf =
     thenE (SPDM_CHECK_PARSE_ARGS buf 4)
     (thenE (guardE (length req \<ge> 4) E_INVALID_ARG)
     (thenE (SPDM_CHECK_RESPONSE buf SPDM_CHALLENGE_AUTH E_CHALLENGE)
     (bindE (getE id) (\<lambda>c.
      let off = 4 + WOLFSPDM_HASH_SIZE + SPDM_NONCE_SZ +
                (if req ! 3 \<noteq> SPDM_MEAS_SUMMARY_HASH_NONE then WOLFSPDM_HASH_SIZE else 0) in
      thenE (guardE (\<not> (buf ! 0 \<noteq> spdmVersion c \<or> buf ! 2 AND 0x0F \<noteq> req ! 2 \<or> length buf < off \<or>
                        take WOLFSPDM_HASH_SIZE (drop 4 buf) \<noteq> certChainHash c)) E_CHALLENGE)
      (liftE E_CHALLENGE (wolfSPDM_ParseTail c req buf off (wolfSPDM_SigSize c)))))))"

definition wolfSPDM_Challenge :: "wc_env \<Rightarrow> int \<Rightarrow> byte \<Rightarrow> ('w, unit) cop" where
  "wolfSPDM_Challenge K slotId measHashType = bindE (getE id) (\<lambda>c.
     thenE (guardE (\<not> (state c < WOLFSPDM_STATE_CERT \<or> state c = WOLFSPDM_STATE_ERROR \<or>
                       m1State c = WOLFSPDM_RUN_NONE \<or> slotId \<noteq> int (unat (currentSlotId c)))) E_BAD_STATE)
     (thenE (guardE (rspCaps c AND SPDM_CAP_CHAL_CAP \<noteq> 0) E_CAPS_MISMATCH)
     (thenE (wolfSPDM_ValidateCertChain K)
     (bindE (wolfSPDM_BuildChallenge K (4 + SPDM_NONCE_SZ + 8) slotId measHashType) (\<lambda>req.
      bindE (wolfSPDM_ClearExchange K req WOLFSPDM_CHAL_RSP_SZ) (\<lambda>rsp.
      bindE (wolfSPDM_ParseChallengeAuth req rsp) (\<lambda>sigOff.
      thenE (wolfSPDM_RunVerify K m1Run (cstr ''responder-challenge_auth signing'') req rsp sigOff)
      (wolfSPDM_M1Start K))))))))"

section \<open>The stored record is well formed\<close>

definition measRecordWf :: "bytes \<Rightarrow> nat \<Rightarrow> bool" where
  "measRecordWf rec n \<longleftrightarrow> measWalk rec (length rec) n 0 = (0, length rec)"

lemma measWalk_shift:
  assumes "8 + L \<le> length buf"
  shows "measWalk buf (8 + L) n (8 + o') = (r, 8 + e) \<longleftrightarrow>
     measWalk (take L (drop 8 buf)) L n o' = (r, e)"
proof (induction n arbitrary: o')
  case (Suc n)
  have g: "SPDM_Get16LE (take L (drop 8 buf)) (o' + 2) = SPDM_Get16LE buf (8 + o' + 2)" if "o' + 4 \<le> L"
    using assms that by (simp add: SPDM_Get16LE_def add.commute add.left_commute)
  show ?case
    using Suc.IH [of "o' + 4 + unat (SPDM_Get16LE buf (8 + o' + 2))"] g by (auto simp: add.assoc)
qed auto

lemma measWalk_bounds:
  assumes "measWalk rec L n o' = (0, e)" "i < n"
  shows "measBlockOff rec i o' + 4 + unat (SPDM_Get16LE rec (measBlockOff rec i o' + 2)) \<le> e"
  using assms
proof (induction n arbitrary: i o')
  case (Suc n)
  have mono: "measWalk rec L m p = (0, e) \<Longrightarrow> p \<le> e" for m p
    by (induction m arbitrary: p) (auto split: if_splits dest: add_leD1)
  from Suc.prems(1) have step: "measWalk rec L n (o' + 4 + unat (SPDM_Get16LE rec (o' + 2))) = (0, e)"
    by (auto split: if_splits)
  show ?case
    using Suc.IH [OF step] Suc.prems(2) mono [OF step] by (cases i) auto
qed simp

lemma GetMeasurementBlock_bounds:
  assumes "measRecordWf (measRecord c) (unat (measBlockCount c))"
    and "wolfSPDM_GetMeasurementBlock c i sz = Inr b"
  shows "mbSize b \<le> length (measRecord c)" "\<forall>v. mbValue b = Some v \<longrightarrow> length v = mbSize b"
proof -
  let ?off = "measBlockOff (measRecord c) (nat i) 0"
  have i: "nat i < unat (measBlockCount c)"
    using assms(2)
    by (simp add: wolfSPDM_GetMeasurementBlock_def nat_less_iff not_le del: of_nat_unat split: if_splits)
  note bnd = measWalk_bounds [OF assms(1) [unfolded measRecordWf_def] i]
  show "mbSize b \<le> length (measRecord c)" "\<forall>v. mbValue b = Some v \<longrightarrow> length v = mbSize b"
    using assms(2) bnd
    by (auto simp: wolfSPDM_GetMeasurementBlock_def Let_def split: if_splits; linarith)+
qed

lemma succ_ParseMeasurements:
  assumes "wolfSPDM_ParseMeasurements req rsp c = (Inr off, d)"
  shows "measRecordWf (take (measRecordLen rsp) (drop 8 rsp)) (unat (rsp ! 4))"
    "length (take (measRecordLen rsp) (drop 8 rsp)) = measRecordLen rsp"
proof -
  have l: "8 + measRecordLen rsp \<le> length rsp"
    and w: "measWalk rsp (8 + measRecordLen rsp) (unat (rsp ! 4)) 8 = (0, 8 + measRecordLen rsp)"
    using assms by (auto simp: wolfSPDM_ParseMeasurements_def succ_simps Let_def)
  show len: "length (take (measRecordLen rsp) (drop 8 rsp)) = measRecordLen rsp" using l by simp
  show "measRecordWf (take (measRecordLen rsp) (drop 8 rsp)) (unat (rsp ! 4))"
    using w measWalk_shift [OF l, of "unat (rsp ! 4)" 0 0 "measRecordLen rsp"]
    by (simp add: measRecordWf_def len del: length_take)
qed

text \<open>A call that gets past its checks never leaves an older record behind.\<close>

definition measReport :: "'w WOLFSPDM_CTX \<Rightarrow> bytes \<times> byte" where
  "measReport c = (measRecord c, measBlockCount c)"

lemma keeps_BuildGetMeasurements [keeps_intros]:
  assumes "\<And>c x. f (c\<lparr>rng := x\<rparr>) = f c"
  shows "keeps f (wolfSPDM_BuildGetMeasurements K n x y)"
  unfolding wolfSPDM_BuildGetMeasurements_def by (intro keeps_intros assms)

lemma keeps_ParseMeasurements [keeps_intros]:
  assumes "\<And>c x. f (c\<lparr>lastPeerErrorCode := x\<rparr>) = f c"
  shows "keeps f (wolfSPDM_ParseMeasurements a b)"
  unfolding wolfSPDM_ParseMeasurements_def by (intro keeps_intros assms)

lemma run_fields [simp]:
  "setRunHash l1l2Run x c = c\<lparr>l1l2Hash := x\<rparr>" "setRunState l1l2Run y c = c\<lparr>l1l2State := y\<rparr>"
  "runHash l1l2Run c = l1l2Hash c" "runState l1l2Run c = l1l2State c"
  "setRunHash m1Run x c = c\<lparr>m1Hash := x\<rparr>" "setRunState m1Run y c = c\<lparr>m1State := y\<rparr>"
  "runHash m1Run c = m1Hash c" "runState m1Run c = m1State c"
  by (simp_all add: l1l2Run_def m1Run_def)

lemma keeps_RunStart_l1l2 [keeps_intros]:
  assumes "\<And>c x. f (c\<lparr>l1l2Hash := x\<rparr>) = f c" "\<And>c x. f (c\<lparr>l1l2State := x\<rparr>) = f c"
  shows "keeps f (wolfSPDM_RunStart K l1l2Run)" "keeps f (wolfSPDM_RunAdd K l1l2Run req rsp)"
    "keeps f (wolfSPDM_RunVerify K l1l2Run lbl req rsp off)"
  unfolding wolfSPDM_RunStart_def wolfSPDM_RunVerify_def wolfSPDM_RunAdd_def
  by ((intro keeps_intros; simp add: assms)+)

lemma fetchMeasurements_failKeeps:
  "failKeeps measReport (fetchMeasurements K op sig)"
  unfolding fetchMeasurements_def
  by (intro failKeeps_intros keeps_intros; simp add: measReport_def)

lemma fetchMeasurements_success:
  fixes c d :: "'a WOLFSPDM_CTX"
  assumes "fetchMeasurements K op sig c = (Inr u, d)"
  shows "measRecordWf (measRecord d) (unat (measBlockCount d))"
    "length (measRecord d) \<le> WOLFSPDM_MAX_MEAS_RECORD"
proof -
  obtain req rsp off and c1 c2 c3 :: "'a WOLFSPDM_CTX" where p: "wolfSPDM_ParseMeasurements req rsp c1 = (Inr off, c2)"
    and d: "measRecordLen rsp \<le> WOLFSPDM_MAX_MEAS_RECORD"
      "d = c3\<lparr>measRecord := take (measRecordLen rsp) (drop 8 rsp), measBlockCount := rsp ! 4\<rparr>"
    using assms unfolding fetchMeasurements_def by (simp add: succ_simps Let_def) blast
  from succ_ParseMeasurements [OF p] d show "measRecordWf (measRecord d) (unat (measBlockCount d))"
    "length (measRecord d) \<le> WOLFSPDM_MAX_MEAS_RECORD" by simp_all
qed

lemma GetMeasurements_report:
  "wpE (wolfSPDM_GetMeasurements K op sig)
     (\<lambda>_ d. measRecordWf (measRecord d) (unat (measBlockCount d)) \<and>
        length (measRecord d) \<le> WOLFSPDM_MAX_MEAS_RECORD)
     (\<lambda>e d. measReport d = ([], 0) \<or> d = c \<and> (e = E_NOT_CONNECTED \<or> e = E_CAPS_MISMATCH)) c"
proof -
  have f: "wpE (fetchMeasurements K op sg)
     (\<lambda>_ d. measRecordWf (measRecord d) (unat (measBlockCount d)) \<and>
        length (measRecord d) \<le> WOLFSPDM_MAX_MEAS_RECORD) (\<lambda>_ d. measReport d = measReport s) s"
    for sg and s :: "'a WOLFSPDM_CTX"
    unfolding wpE_iff using fetchMeasurements_success failKeepsD [OF fetchMeasurements_failKeeps] by blast
  show ?thesis
    unfolding wolfSPDM_GetMeasurements_def
    by (auto simp: wp_simps Let_def intro!: wpE_mono [OF f]) (simp_all add: measReport_def)
qed

section \<open>A signed report or challenge was signed by the responder\<close>

lemma succ_RunStart:
  assumes "wolfSPDM_RunStart K l1l2Run c = (Inr u, d)"
  shows "l1l2Hash d = take (vcaLen c) (transcript c)" "sigView d = sigView c"
  using assms unfolding wolfSPDM_RunStart_def by (auto simp: succ_simps Let_def sigView_def split: if_splits)

lemma succ_RunVerify:
  assumes "wolfSPDM_RunVerify K r lbl req rsp off c = (Inr u, d)"
    and "\<And>c x. runHash r (setRunHash r x c) = x" "\<And>c x. sigView (setRunHash r x c) = sigView c"
    "\<And>c x. sigView (setRunState r x c) = sigView c"
  shows "\<exists>digest. wc_Sha384Final K (runHash r c @ req @ take off rsp) = Some digest \<and>
     fst (wolfSPDM_VerifyRspSig K lbl digest (take (wolfSPDM_SigSize c) (drop off rsp)) c) = Inr ()"
proof -
  let ?d = "setRunState r WOLFSPDM_RUN_NONE (setRunHash r (runHash r c @ req @ take off rsp)
     (setRunHash r (runHash r c @ req) c))"
  have v: "sigView ?d = sigView c" by (simp add: assms)
  from assms(1) obtain digest where "wc_Sha384Final K (runHash r c @ req @ take off rsp) = Some digest"
    "wolfSPDM_VerifyRspSig K lbl digest (take (wolfSPDM_SigSize ?d) (drop off rsp)) ?d = (Inr u, d)"
    unfolding wolfSPDM_RunVerify_def wolfSPDM_RunAdd_def by (auto simp: succ_simps assms(2))
  then show ?thesis
    using VerifyRspSig_view [OF v, of K lbl digest] sigView_params(2) [OF v]
    by (auto simp: succ_VerifyRspSig)
qed

lemma l1l2_frame: "\<And>c x. runHash l1l2Run (setRunHash l1l2Run x c) = x"
  "\<And>c x. sigView (setRunHash l1l2Run x c) = sigView c" "\<And>c x. sigView (setRunState l1l2Run x c) = sigView c"
  by (simp_all add: sigView_def)

lemma m1_frame: "\<And>c x. runHash m1Run (setRunHash m1Run x c) = x"
  "\<And>c x. sigView (setRunHash m1Run x c) = sigView c" "\<And>c x. sigView (setRunState m1Run x c) = sigView c"
  by (simp_all add: sigView_def)

lemma succ_ParseTail:
  "wolfSPDM_ParseTail c req buf off sz = Some o' \<Longrightarrow> off + 2 \<le> o' \<and> length buf = o' + sz"
  by (auto simp: wolfSPDM_ParseTail_def Let_def split: if_splits)

definition signedReport :: "wc_env \<Rightarrow> 'w WOLFSPDM_CTX \<Rightarrow> 'w WOLFSPDM_CTX \<Rightarrow> bool" where
  "signedReport K c d \<longleftrightarrow> (\<exists>h req rsp off digest.
     h = (if l1l2State c = WOLFSPDM_RUN_OPEN then l1l2Hash c else take (vcaLen c) (transcript c)) \<and>
     wc_Sha384Final K (h @ req @ take off rsp) = Some digest \<and>
     fst (wolfSPDM_VerifyRspSig K (cstr ''responder-measurements signing'') digest (drop off rsp) c) = Inr () \<and>
     8 + measRecordLen rsp < off \<and> off \<le> length rsp \<and>
     measRecord d = take (measRecordLen rsp) (drop 8 rsp))"

lemma fetchMeasurements_signed:
  assumes "fetchMeasurements K op True c = (Inr u, d)"
  shows "signedReport K c d"
proof -
  let ?v = "\<lambda>c. (sigView c, l1l2Hash c)"
  obtain req rsp off c1 c2 c3 c4 c5 where
    s: "(if l1l2State c \<noteq> WOLFSPDM_RUN_OPEN then wolfSPDM_RunStart K l1l2Run else retE ()) c = (Inr (), c1)" and
    b: "wolfSPDM_BuildGetMeasurements K 45 op True c1 = (Inr req, c2)" and
    x: "wolfSPDM_SecuredExchange K req WOLFSPDM_MEAS_RSP_SZ c2 = (Inr rsp, c3)" and
    p: "wolfSPDM_ParseMeasurements req rsp c3 = (Inr off, c4)" and
    v: "wolfSPDM_RunVerify K l1l2Run (cstr ''responder-measurements signing'') req rsp off c4 = (Inr (), c5)" and
    d: "measRecord d = take (measRecordLen rsp) (drop 8 rsp)"
    using assms unfolding fetchMeasurements_def by (auto simp: succ_simps Let_def)
  have sv: "l1l2Hash c1 = (if l1l2State c = WOLFSPDM_RUN_OPEN then l1l2Hash c else take (vcaLen c) (transcript c))"
    "sigView c1 = sigView c"
    using s by (auto simp: succ_simps succ_RunStart split: if_splits)
  have r2: "req ! 2 = 1"
    using b by (auto simp: wolfSPDM_BuildGetMeasurements_def succ_simps Let_def)
  have k: "?v c2 = ?v c1" "?v c3 = ?v c2" "?v c4 = ?v c3"
    using keepsD [OF keeps_BuildGetMeasurements [of ?v] b] keepsD [OF keeps_SecuredExchange [of ?v] x]
      keepsD [OF keeps_ParseMeasurements [of ?v] p] by (simp_all add: sigView_def)
  have o': "8 + measRecordLen rsp < off" "length rsp = off + wolfSPDM_SigSize c3"
    using p r2 by (auto simp: wolfSPDM_ParseMeasurements_def succ_simps Let_def dest!: succ_ParseTail)
  have ss: "wolfSPDM_SigSize c4 = wolfSPDM_SigSize c3" using k by (auto intro: sigView_params)
  have vc: "sigView c4 = sigView c" "l1l2Hash c4 = l1l2Hash c1" using k sv by auto
  from succ_RunVerify [OF v l1l2_frame] obtain digest where
    "wc_Sha384Final K (l1l2Hash c1 @ req @ take off rsp) = Some digest"
    "fst (wolfSPDM_VerifyRspSig K (cstr ''responder-measurements signing'') digest (drop off rsp) c) = Inr ()"
    using o' ss vc(2) by (auto simp: VerifyRspSig_view [OF vc(1)])
  then show ?thesis
    unfolding signedReport_def using o' d sv(1) by (metis le_add1)
qed

text \<open>A challenge that succeeds covers the certificate chain the requester holds, under M1.\<close>

definition challengeSigned :: "wc_env \<Rightarrow> 'w WOLFSPDM_CTX \<Rightarrow> int \<Rightarrow> bool" where
  "challengeSigned K c slotId \<longleftrightarrow> (\<exists>req rsp off digest. \<exists>d :: 'w WOLFSPDM_CTX.
     d = snd (wolfSPDM_ValidateCertChain K c) \<and>
     wc_Sha384Final K (m1Hash d @ req @ take off rsp) = Some digest \<and>
     fst (wolfSPDM_VerifyRspSig K (cstr ''responder-challenge_auth signing'') digest (drop off rsp) d) = Inr () \<and>
     req ! 2 = of_int slotId \<and> take 48 (drop 4 rsp) = certChainHash d \<and> off \<le> length rsp)"

lemma keeps_BuildChallenge [keeps_intros]:
  assumes "\<And>c x. f (c\<lparr>rng := x\<rparr>) = f c"
  shows "keeps f (wolfSPDM_BuildChallenge K n x y)"
  unfolding wolfSPDM_BuildChallenge_def by (intro keeps_intros assms)

lemma keeps_ParseChallengeAuth [keeps_intros]:
  assumes "\<And>c x. f (c\<lparr>lastPeerErrorCode := x\<rparr>) = f c"
  shows "keeps f (wolfSPDM_ParseChallengeAuth a b)"
  unfolding wolfSPDM_ParseChallengeAuth_def by (intro keeps_intros assms)

lemma Challenge_signed:
  assumes "wolfSPDM_Challenge K slotId mh c = (Inr u, d)"
  shows "challengeSigned K c slotId"
proof -
  let ?v = "\<lambda>c. (sigView c, m1Hash c, certChainHash c)"
  obtain req rsp off c1 c2 c3 c4 c5 where
    s: "wolfSPDM_ValidateCertChain K c = (Inr (), c1)" and
    b: "wolfSPDM_BuildChallenge K 44 slotId mh c1 = (Inr req, c2)" and
    x: "wolfSPDM_ClearExchange K req WOLFSPDM_CHAL_RSP_SZ c2 = (Inr rsp, c3)" and
    p: "wolfSPDM_ParseChallengeAuth req rsp c3 = (Inr off, c4)" and
    v: "wolfSPDM_RunVerify K m1Run (cstr ''responder-challenge_auth signing'') req rsp off c4 = (Inr (), c5)"
    using assms unfolding wolfSPDM_Challenge_def by (auto simp: succ_simps Let_def)
  have r2: "req ! 2 = of_int slotId"
    using b by (auto simp: wolfSPDM_BuildChallenge_def succ_simps Let_def)
  have k: "?v c2 = ?v c1" "?v c3 = ?v c2" "?v c4 = ?v c3"
    using keepsD [OF keeps_BuildChallenge [of ?v] b] keepsD [OF keeps_ClearExchange [of ?v] x]
      keepsD [OF keeps_ParseChallengeAuth [of ?v] p] by (simp_all add: sigView_def)
  have o': "length rsp = off + wolfSPDM_SigSize c3" "take 48 (drop 4 rsp) = certChainHash c3"
    using p by (auto simp: wolfSPDM_ParseChallengeAuth_def succ_simps Let_def dest!: succ_ParseTail)
  have ss: "wolfSPDM_SigSize c4 = wolfSPDM_SigSize c3" using k by (auto intro: sigView_params)
  have vc: "sigView c4 = sigView c1" "m1Hash c4 = m1Hash c1" using k by auto
  from succ_RunVerify [OF v m1_frame] obtain digest where
    "wc_Sha384Final K (m1Hash c1 @ req @ take off rsp) = Some digest"
    "fst (wolfSPDM_VerifyRspSig K (cstr ''responder-challenge_auth signing'') digest (drop off rsp) c1) = Inr ()"
    using o' ss vc(2) by (auto simp: VerifyRspSig_view [OF vc(1)])
  then show ?thesis
    unfolding challengeSigned_def using o' k r2 s by (metis snd_conv le_add1 Pair_inject)
qed

end
