(* ===== verification/Spdm_Psk.thy ===== *)
theory Spdm_Psk
  imports Spdm_Session
begin

text \<open>
  The pre-shared-key handshake, \<^verbatim>\<open>src/spdm_psk.c\<close>: PSK_EXCHANGE and PSK_FINISH, their
  responses, and the connection flow. The PSK setter is in \<open>Spdm_Context\<close>, the PSK branch of
  the key schedule in \<open>Spdm_Crypto\<close>.
\<close>

section \<open>PSK_EXCHANGE\<close>

definition wolfSPDM_BuildPskExchange :: "wc_env \<Rightarrow> nat \<Rightarrow> ('w, bytes) cop" where
  "wolfSPDM_BuildPskExchange K bufSz = bindE (getE id) (\<lambda>c.
     thenE (guardE (bufSz \<ge> 48) E_BUFFER_SMALL)
     (thenE (guardE (psk c \<noteq> []) E_BAD_STATE)
     (thenE (guardE (\<not> (length (pskHint c) > 0 \<and> 12 + length (pskHint c) > bufSz)) E_BUFFER_SMALL)
     (thenE (guardE (12 + length (pskHint c) + WOLFSPDM_RANDOM_SIZE \<le> bufSz) E_BUFFER_SMALL)
     (bindE (wolfSPDM_GetRandom K WOLFSPDM_RANDOM_SIZE) (\<lambda>rnd.
      retE ([spdmVersion c, SPDM_PSK_EXCHANGE, 0x00, 0x00] @ SPDM_Set16LE (reqSessionId c) @
            SPDM_Set16LE (of_nat (length (pskHint c))) @
            SPDM_Set16LE (of_nat WOLFSPDM_RANDOM_SIZE) @ SPDM_Set16LE 0 @ pskHint c @ rnd)))))))"

definition wolfSPDM_ParsePskExchangeRsp :: "wc_env \<Rightarrow> bytes \<Rightarrow> ('w, unit) cop" where
  "wolfSPDM_ParsePskExchangeRsp K buf =
     thenE (SPDM_CHECK_PARSE_OR_ERROR_ARGS buf 59)
     (thenE (SPDM_CHECK_RESPONSE buf SPDM_PSK_EXCHANGE_RSP E_KEY_EXCHANGE)
     (let verifyOffset = 12 + unat (SPDM_Get16LE buf 8) + unat (SPDM_Get16LE buf 10);
          rspVerifyData = take WOLFSPDM_HASH_SIZE (drop verifyOffset buf) in
      thenE (guardE (length buf \<ge> verifyOffset + WOLFSPDM_HASH_SIZE) E_BUFFER_SMALL)
      (thenE (wolfSPDM_TranscriptAdd (take verifyOffset buf))
      (bindE (wolfSPDM_TranscriptHash K) (\<lambda>th1Hash.
       thenE (modE (\<lambda>d. d\<lparr>th1 := th1Hash\<rparr>))
       (thenE (wolfSPDM_DeriveHandshakeKeysPsk K th1Hash)
       (bindE (getE rspFinishedKey) (\<lambda>fk.
        bindE (wolfSPDM_ComputeVerifyData K fk th1Hash) (\<lambda>expectedHmac.
        thenE (guardE (wolfSPDM_ConstCompare expectedHmac rspVerifyData WOLFSPDM_HASH_SIZE = 0)
                 E_BAD_HMAC)
        (thenE (wolfSPDM_TranscriptAdd rspVerifyData)
        (modE (\<lambda>d. d\<lparr>rspSessionId := SPDM_Get16LE buf 4,
           sessionId := ucast (reqSessionId d) OR push_bit 16 (ucast (SPDM_Get16LE buf 4)),
           state := WOLFSPDM_STATE_KEY_EX\<rparr>))))))))))))"

section \<open>PSK_FINISH\<close>

definition wolfSPDM_BuildPskFinish :: "wc_env \<Rightarrow> nat \<Rightarrow> ('w, bytes) cop" where
  "wolfSPDM_BuildPskFinish K bufSz = bindE (getE id) (\<lambda>c.
     let hdr = [spdmVersion c, SPDM_PSK_FINISH, 0x00, 0x00] in
     thenE (guardE (bufSz \<ge> 4 + WOLFSPDM_HASH_SIZE) E_BUFFER_SMALL)
     (thenE (wolfSPDM_TranscriptAdd hdr)
     (bindE (wolfSPDM_TranscriptHash K) (\<lambda>th2Hash.
      thenE (modE (\<lambda>d. d\<lparr>th2 := th2Hash\<rparr>))
      (bindE (wolfSPDM_ComputeVerifyData K (reqFinishedKey c) th2Hash) (\<lambda>verifyData.
       thenE (wolfSPDM_TranscriptAdd verifyData)
       (retE (hdr @ verifyData))))))))"

definition wolfSPDM_ParsePskFinishRsp :: "bytes \<Rightarrow> ('w, unit) cop" where
  "wolfSPDM_ParsePskFinishRsp buf =
     thenE (SPDM_CHECK_PARSE_ARGS buf 4)
     (if buf ! 1 = SPDM_PSK_FINISH_RSP
      then thenE (wolfSPDM_TranscriptAdd (take 4 buf))
           (modE (\<lambda>c. c\<lparr>state := WOLFSPDM_STATE_FINISH\<rparr>))
      else if buf ! 1 = SPDM_ERROR then failE E_PEER_ERROR
      else failE E_BAD_STATE)"

section \<open>The connection flow\<close>

abbreviation (input) pskBufSz :: nat where "pskBufSz \<equiv> WOLFSPDM_MAX_MSG_SIZE + WOLFSPDM_AEAD_OVERHEAD"

definition pskHandshake :: "wc_env \<Rightarrow> ('w, unit) cop" where
  "pskHandshake K =
     thenE (wolfSPDM_GetVersion K)
     (bindE (wolfSPDM_BuildPskExchange K 128) (\<lambda>tx.
      thenE (wolfSPDM_TranscriptAdd tx)
      (bindE (wolfSPDM_SendReceive tx pskBufSz) (\<lambda>rx.
       thenE (wolfSPDM_ParsePskExchangeRsp K rx)
       (bindE (wolfSPDM_BuildPskFinish K 64) (\<lambda>fin.
        bindE (wolfSPDM_EncryptInternal K fin pskBufSz) (\<lambda>enc.
        bindE (wolfSPDM_SendReceive enc pskBufSz) (\<lambda>rx2.
        bindE (wolfSPDM_DecryptInternal K rx2 64) (\<lambda>dec.
        thenE (wolfSPDM_ParsePskFinishRsp dec)
        (wolfSPDM_DeriveAppDataKeys K))))))))))"

definition wolfSPDM_ConnectPsk :: "wc_env \<Rightarrow> ('w, unit) cop" where
  "wolfSPDM_ConnectPsk K = bindE (getE id) (\<lambda>c.
     thenE (guardE (initialized (flags c)) E_BAD_STATE)
     (thenE (guardE (psk c \<noteq> []) E_BAD_STATE)
     (thenE (guardE (\<not> Option.is_none (ioCb c)) E_IO_FAIL)
     (thenE (modE (\<lambda>d. wolfSPDM_TranscriptReset (d\<lparr>state := WOLFSPDM_STATE_INIT\<rparr>)))
     (thenE (onFailE (pskHandshake K) (\<lambda>d. d\<lparr>state := WOLFSPDM_STATE_ERROR\<rparr>))
     (modE (\<lambda>d. d\<lparr>state := WOLFSPDM_STATE_CONNECTED\<rparr>)))))))"

section \<open>Frames\<close>

lemma keeps_BuildPskExchange [keeps_intros]:
  assumes "\<And>c x. f (c\<lparr>rng := x\<rparr>) = f c"
  shows "keeps f (wolfSPDM_BuildPskExchange K n)"
  unfolding wolfSPDM_BuildPskExchange_def by (intro keeps_intros assms)

lemma keeps_ParsePskExchangeRsp [keeps_intros]:
  assumes "\<And>c x. f (c\<lparr>lastPeerErrorCode := x\<rparr>) = f c" "\<And>c x. f (c\<lparr>transcript := x\<rparr>) = f c"
    "\<And>c x. f (c\<lparr>th1 := x\<rparr>) = f c" "\<And>c x. f (c\<lparr>psk := x\<rparr>) = f c"
    "\<And>c x y z. f (c\<lparr>rspSessionId := x, sessionId := y, state := z\<rparr>) = f c"
    "\<And>c d. same_but_keys c d \<Longrightarrow> f d = f c"
  shows "keeps f (wolfSPDM_ParsePskExchangeRsp K b)"
  unfolding wolfSPDM_ParsePskExchangeRsp_def by (intro keeps_intros) (rule assms; assumption?)+

lemma keeps_BuildPskFinish [keeps_intros]:
  assumes "\<And>c x. f (c\<lparr>transcript := x\<rparr>) = f c" "\<And>c x. f (c\<lparr>th2 := x\<rparr>) = f c"
  shows "keeps f (wolfSPDM_BuildPskFinish K n)"
  unfolding wolfSPDM_BuildPskFinish_def by (intro keeps_intros assms)

lemma keeps_ParsePskFinishRsp [keeps_intros]:
  assumes "\<And>c x. f (c\<lparr>transcript := x\<rparr>) = f c" "\<And>c x. f (c\<lparr>state := x\<rparr>) = f c"
  shows "keeps f (wolfSPDM_ParsePskFinishRsp b)"
  unfolding wolfSPDM_ParsePskFinishRsp_def SPDM_CHECK_PARSE_ARGS_def by (intro keeps_intros assms)

lemma keeps_EncryptInternal [keeps_intros]:
  assumes "\<And>c x. f (c\<lparr>rng := x\<rparr>) = f c" "\<And>c x. f (c\<lparr>reqSeqNum := x\<rparr>) = f c"
  shows "keeps f (wolfSPDM_EncryptInternal K p n)"
  unfolding wolfSPDM_EncryptInternal_def by (intro keeps_intros assms)

section \<open>The session exists only once the responder has proved the key\<close>

definition pskVerified :: "wc_env \<Rightarrow> 'w WOLFSPDM_CTX \<Rightarrow> bytes \<Rightarrow> 'w WOLFSPDM_CTX \<Rightarrow> bool" where
  "pskVerified K c buf d \<longleftrightarrow> (\<exists>hmac c3.
     let off = 12 + unat (SPDM_Get16LE buf 8) + unat (SPDM_Get16LE buf 10);
         vd = take WOLFSPDM_HASH_SIZE (drop off buf) in
     off + WOLFSPDM_HASH_SIZE \<le> length buf \<and>
     fst (wolfSPDM_Sha384Hash K (transcript c @ take off buf) [] [] c) = Inr (th1 d) \<and>
     wolfSPDM_DeriveHandshakeKeysPsk K (th1 d)
       (c\<lparr>transcript := transcript c @ take off buf, th1 := th1 d\<rparr>) = (Inr (), c3) \<and>
     rspFinishedKey d = rspFinishedKey c3 \<and>
     wc_Hmac K (rspFinishedKey d) (th1 d) = Some hmac \<and>
     wolfSPDM_ConstCompare hmac vd WOLFSPDM_HASH_SIZE = 0 \<and>
     transcript d = transcript c @ take off buf @ vd)"

lemma psk_gone: "wolfSPDM_DeriveHandshakeKeysPsk K th c = (r, d) \<Longrightarrow> psk d = []"
  by (auto simp: wolfSPDM_DeriveHandshakeKeysPsk_def opE_defs split: prod.splits sum.splits if_splits option.splits)

lemma ParsePskExchangeRsp_verified:
  assumes "wolfSPDM_ParsePskExchangeRsp K buf c = (Inr u, d)"
  shows "pskVerified K c buf d" "state d = WOLFSPDM_STATE_KEY_EX" "psk d = []"
proof -
  define off where "off = 12 + unat (SPDM_Get16LE buf 8) + unat (SPDM_Get16LE buf 10)"
  from assms obtain th hm c3 where
    len: "off + 48 \<le> length buf" and
    h: "fst (wolfSPDM_Sha384Hash K (transcript c @ take off buf) [] [] c) = Inr th" and
    dv: "wolfSPDM_DeriveHandshakeKeysPsk K th (c\<lparr>transcript := transcript c @ take off buf, th1 := th\<rparr>) = (Inr (), c3)" and
    hm: "wc_Hmac K (rspFinishedKey c3) th = Some hm"
       "wolfSPDM_ConstCompare hm (take 48 (drop off buf)) 48 = 0" and
    d: "rspFinishedKey d = rspFinishedKey c3" "th1 d = th1 c3" "state d = WOLFSPDM_STATE_KEY_EX"
       "transcript d = transcript c3 @ take 48 (drop off buf)" "psk d = psk c3"
    by (auto simp add: wolfSPDM_ParsePskExchangeRsp_def succ_simps Let_def off_def [symmetric]
        succ_TranscriptHash [of K _ _ _ c] wolfSPDM_ComputeVerifyData_def
        simp del: take_append drop_append)
  have "transcript c3 = transcript c @ take off buf" "th1 c3 = th"
    using keepsD [OF keeps_DeriveHandshakeKeysPsk [of transcript] dv]
      keepsD [OF keeps_DeriveHandshakeKeysPsk [of th1] dv] by (simp_all add: frame_simps)
  with h hm d len dv show "pskVerified K c buf d"
    unfolding pskVerified_def Let_def off_def by (intro exI [of _ hm] exI [of _ c3]) simp
  show "state d = WOLFSPDM_STATE_KEY_EX" "psk d = []" using d psk_gone [OF dv] by simp_all
qed

definition pskCommit :: "'w WOLFSPDM_CTX \<Rightarrow> word16 \<times> word32 \<times> nat" where
  "pskCommit c = (rspSessionId c, sessionId c, state c)"

lemma ParsePskExchangeRsp_failKeeps: "failKeeps pskCommit (wolfSPDM_ParsePskExchangeRsp K b)"
  unfolding wolfSPDM_ParsePskExchangeRsp_def
  by (intro failKeeps_intros keeps_intros; simp add: pskCommit_def frame_simps)

text \<open>A connection that succeeds has used the pre-shared key up and holds a session.\<close>

lemma pskHandshake_success:
  assumes "pskHandshake K c = (Inr u, d)"
  shows "psk d = []" "state d = WOLFSPDM_STATE_FINISH"
proof -
  obtain c1 c2 c3 c4 c5 c6 c7 c8 tx rx fin enc rx2 dec where
    p: "wolfSPDM_ParsePskExchangeRsp K rx c1 = (Inr (), c2)" and
    f: "wolfSPDM_BuildPskFinish K 64 c2 = (Inr fin, c3)" and
    e: "wolfSPDM_EncryptInternal K fin pskBufSz c3 = (Inr enc, c4)" and
    x: "wolfSPDM_SendReceive enc pskBufSz c4 = (Inr rx2, c5)" and
    y: "wolfSPDM_DecryptInternal K rx2 64 c5 = (Inr dec, c6)" and
    z: "wolfSPDM_ParsePskFinishRsp dec c6 = (Inr (), c7)" and
    a: "wolfSPDM_DeriveAppDataKeys K c7 = (Inr u, d)"
    using assms unfolding pskHandshake_def by (auto simp: succ_simps)
  have "state c7 = WOLFSPDM_STATE_FINISH"
    using z by (auto simp: wolfSPDM_ParsePskFinishRsp_def succ_simps split: if_splits)
  then show "state d = WOLFSPDM_STATE_FINISH"
    using keepsD [OF keeps_DeriveAppDataKeys [of state] a] by (simp add: frame_simps)
  have "psk c2 = []" by (rule ParsePskExchangeRsp_verified [OF p])
  moreover have "psk c3 = psk c2" "psk c4 = psk c3" "psk c5 = psk c4" "psk c6 = psk c5" "psk c7 = psk c6"
    "psk d = psk c7"
    using keepsD [OF keeps_BuildPskFinish [of psk] f] keepsD [OF keeps_EncryptInternal [of psk] e]
      keepsD [OF keeps_SendReceive [of psk] x] keepsD [OF keeps_DecryptInternal [of psk] y]
      keepsD [OF keeps_ParsePskFinishRsp [of psk] z] keepsD [OF keeps_DeriveAppDataKeys [of psk] a]
    by (simp_all add: frame_simps)
  ultimately show "psk d = []" by simp
qed

lemma ConnectPsk_outcome:
  "wpE (wolfSPDM_ConnectPsk K) (\<lambda>_ d. state d = WOLFSPDM_STATE_CONNECTED \<and> psk d = [])
     (\<lambda>e d. state d = WOLFSPDM_STATE_ERROR \<or> d = c \<and> (e = E_BAD_STATE \<or> e = E_IO_FAIL)) c"
proof -
  have h: "wpE (pskHandshake K) (\<lambda>_ d. psk d = []) (\<lambda>_ _. True) s" for s :: "'a WOLFSPDM_CTX"
    using pskHandshake_success [of K s] by (simp add: wpE_iff)
  show ?thesis
    unfolding wolfSPDM_ConnectPsk_def by (auto simp: wp_simps intro!: wpE_mono [OF h])
qed

end
