(* ===== verification/Spdm_Tcg.thy ===== *)
theory Spdm_Tcg
  imports Spdm_Attest Spdm_Psk
begin

text \<open>
  The TCG binding flow of \<^verbatim>\<open>src/spdm_tcg.c\<close> (vendor commands, public key exchange,
  capability and algorithm negotiation, the identity-key connection) and the vendor
  adapters of \<^verbatim>\<open>src/vendor/\<close>.
\<close>

section \<open>Vendor commands\<close>

definition WOLFSPDM_VDCODE_GET_PUBK :: bytes where "WOLFSPDM_VDCODE_GET_PUBK = cstr ''GET_PUBK''"
definition WOLFSPDM_VDCODE_GIVE_PUB :: bytes where "WOLFSPDM_VDCODE_GIVE_PUB = cstr ''GIVE_PUB''"
definition WOLFSPDM_VDCODE_GET_STS :: bytes where "WOLFSPDM_VDCODE_GET_STS = cstr ''GET_STS_''"
definition WOLFSPDM_VDCODE_SPDMONLY :: bytes where "WOLFSPDM_VDCODE_SPDMONLY = cstr ''SPDMONLY''"
definition WOLFSPDM_NATIONS_VDCODE_PSK_SET :: bytes where "WOLFSPDM_NATIONS_VDCODE_PSK_SET = cstr ''PSK_SET_''"
definition WOLFSPDM_NATIONS_VDCODE_PSK_CLEAR :: bytes where "WOLFSPDM_NATIONS_VDCODE_PSK_CLEAR = cstr ''PSK_CLR_''"

definition vendorVersion :: "'w WOLFSPDM_CTX \<Rightarrow> byte" where
  "vendorVersion c = (if spdmVersion c \<noteq> 0 then spdmVersion c else SPDM_VERSION_13)"

text \<open>\<open>wantRsp\<close> is a non-NULL \<^verbatim>\<open>rsp\<close>; its code and payload are the result.\<close>

definition wolfSPDM_TCG_VendorCmdClear ::
  "bytes \<Rightarrow> bytes \<Rightarrow> bool \<Rightarrow> ('w, bytes \<times> bytes) cop" where
  "wolfSPDM_TCG_VendorCmdClear vdCode payload wantRsp = bindE (getE vendorVersion) (\<lambda>ver.
     bindE (wolfSPDM_BuildVendorDefined ver vdCode payload WOLFSPDM_VENDOR_BUF_SZ) (\<lambda>spdmMsg.
     bindE (wolfSPDM_SendReceive spdmMsg WOLFSPDM_VENDOR_RX_SZ) (\<lambda>rxBuf.
     if length rxBuf \<ge> 4 \<and> rxBuf ! 1 = SPDM_ERROR
     then thenE (modE (\<lambda>c. c\<lparr>lastPeerErrorCode := rxBuf ! 2\<rparr>)) (failE E_PEER_ERROR)
     else if wantRsp
     then bindE (wolfSPDM_ParseVendorDefined rxBuf WOLFSPDM_VENDOR_BUF_SZ) (\<lambda>(rspCode, rspPayload).
          thenE (guardE (rspCode = take WOLFSPDM_VDCODE_LEN vdCode) E_PEER_ERROR)
          (retE (rspCode, rspPayload)))
     else retE ([], []))))"

definition wolfSPDM_TCG_VendorCmdSecured :: "wc_env \<Rightarrow> bytes \<Rightarrow> bytes \<Rightarrow> ('w, unit) cop" where
  "wolfSPDM_TCG_VendorCmdSecured K vdCode payload = bindE (getE vendorVersion) (\<lambda>ver.
     bindE (wolfSPDM_BuildVendorDefined ver vdCode payload WOLFSPDM_VENDOR_BUF_SZ) (\<lambda>spdmMsg.
     bindE (wolfSPDM_SecuredExchange K spdmMsg WOLFSPDM_VENDOR_BUF_SZ) (\<lambda>decBuf.
     guardE (\<not> (length decBuf \<ge> 4 \<and> decBuf ! 1 = SPDM_ERROR)) E_PEER_ERROR)))"

section \<open>Public keys\<close>

definition wolfSPDM_TCG_CheckPubKey :: "bytes \<Rightarrow> ('w, unit) cop" where
  "wolfSPDM_TCG_CheckPubKey pubKey = bindE (getE id) (\<lambda>c.
     if \<not> hasRspPubKey (flags c) then retE ()
     else thenE (guardE (length (rspPubKey c) = WOLFSPDM_ECC_POINT_SIZE) E_BAD_STATE)
          (bindE (asE E_PEER_ERROR (wolfSPDM_ExtractEccPoint pubKey)) (\<lambda>(x, y).
           guardE (x = take WOLFSPDM_ECC_KEY_SIZE (rspPubKey c) \<and>
                   y = drop WOLFSPDM_ECC_KEY_SIZE (rspPubKey c)) E_PEER_ERROR)))"

definition wolfSPDM_TCG_GetPubKey :: "wc_env \<Rightarrow> nat \<Rightarrow> ('w, bytes) cop" where
  "wolfSPDM_TCG_GetPubKey K pubKeySz = bindE (getE state) (\<lambda>st.
     thenE (if st = WOLFSPDM_STATE_INIT
            then thenE (modE wolfSPDM_TranscriptReset) (wolfSPDM_GetVersion K) else retE ())
     (bindE (wolfSPDM_TCG_VendorCmdClear WOLFSPDM_VDCODE_GET_PUBK [] True) (\<lambda>(code, payload).
      thenE (guardE (code = WOLFSPDM_VDCODE_GET_PUBK) E_PEER_ERROR)
      (thenE (wolfSPDM_TCG_CheckPubKey payload)
      (thenE (guardE (length payload \<le> pubKeySz) E_BUFFER_SMALL)
      (retE payload))))))"

definition wolfSPDM_TCG_GivePubKey :: "wc_env \<Rightarrow> bytes \<Rightarrow> ('w, unit) cop" where
  "wolfSPDM_TCG_GivePubKey K pubKey = bindE (getE state) (\<lambda>st.
     thenE (guardE (st \<ge> WOLFSPDM_STATE_KEY_EX) E_BAD_STATE)
     (wolfSPDM_TCG_VendorCmdSecured K WOLFSPDM_VDCODE_GIVE_PUB pubKey))"

section \<open>Capabilities and algorithms\<close>

abbreviation (input) WOLFSPDM_TCG_CAP_PSK :: word32 where "WOLFSPDM_TCG_CAP_PSK \<equiv> 0x00000400"
abbreviation (input) WOLFSPDM_TCG_CAP_PSK_MASK :: word32 where "WOLFSPDM_TCG_CAP_PSK_MASK \<equiv> 0x00000C00"
abbreviation (input) WOLFSPDM_TCG_CAP_PSK_WITH_CONTEXT :: word32 where "WOLFSPDM_TCG_CAP_PSK_WITH_CONTEXT \<equiv> 0x00000800"
abbreviation (input) WOLFSPDM_TCG_CAP_PUB_KEY_ID :: word32 where "WOLFSPDM_TCG_CAP_PUB_KEY_ID \<equiv> 0x00010000"
abbreviation (input) WOLFSPDM_TCG_CAPS_FLAGS_DEFAULT :: word32 where "WOLFSPDM_TCG_CAPS_FLAGS_DEFAULT \<equiv> 0x000193C0"
abbreviation (input) WOLFSPDM_TCG_CAPS_FLAGS_PSK :: word32 where "WOLFSPDM_TCG_CAPS_FLAGS_PSK \<equiv> 0x000197C0"

definition wolfSPDM_TCG_CheckResponse :: "bytes \<Rightarrow> nat \<Rightarrow> byte \<Rightarrow> ('w, unit) cop" where
  "wolfSPDM_TCG_CheckResponse rsp minRspSz expectedCode = bindE (getE spdmVersion) (\<lambda>ver.
     thenE (guardE (length rsp \<ge> 4) E_BUFFER_SMALL)
     (thenE (guardE (wolfSPDM_CheckError rsp = None) E_PEER_ERROR)
     (thenE (guardE (length rsp \<ge> minRspSz) E_BUFFER_SMALL)
     (thenE (guardE (rsp ! 0 = ver) E_VERSION_MISMATCH)
     (guardE (rsp ! 1 = expectedCode) E_PEER_ERROR)))))"

definition wolfSPDM_TCG_CheckCapabilities :: "bytes \<Rightarrow> word32 \<Rightarrow> ('w, unit) cop" where
  "wolfSPDM_TCG_CheckCapabilities rsp capsFlags =
     thenE (wolfSPDM_TCG_CheckResponse rsp 20 0x61)
     (thenE (guardE (length rsp = 20) E_PEER_ERROR)
     (let requiredFlags = SPDM_CAP_ENCRYPT_CAP OR SPDM_CAP_MAC_CAP OR WOLFSPDM_TCG_CAP_PUB_KEY_ID OR
            (if capsFlags AND WOLFSPDM_TCG_CAP_PSK = 0 then SPDM_CAP_KEY_EX_CAP else 0);
          rspFlags = SPDM_Get32LE rsp 8;
          dataTransferSz = SPDM_Get32LE rsp 12;
          maxSpdmMsgSz = SPDM_Get32LE rsp 16 in
      guardE (\<not> (rspFlags AND requiredFlags \<noteq> requiredFlags \<or>
                 (capsFlags AND WOLFSPDM_TCG_CAP_PSK \<noteq> 0 \<and>
                  rspFlags AND WOLFSPDM_TCG_CAP_PSK_MASK \<noteq> WOLFSPDM_TCG_CAP_PSK \<and>
                  rspFlags AND WOLFSPDM_TCG_CAP_PSK_MASK \<noteq> WOLFSPDM_TCG_CAP_PSK_WITH_CONTEXT) \<or>
                 dataTransferSz < 42 \<or> maxSpdmMsgSz < dataTransferSz)) E_PEER_ERROR))"

definition tcgAlgStructs :: bytes where
  "tcgAlgStructs = [
     0x02, 0x20, 0x10, 0x00,
     0x03, 0x20, 0x02, 0x00,
     0x04, 0x20, 0x80, 0x00,
     0x05, 0x20, 0x01, 0x00]"

definition wolfSPDM_TCG_CheckAlgorithms :: "bytes \<Rightarrow> ('w, unit) cop" where
  "wolfSPDM_TCG_CheckAlgorithms rsp =
     thenE (wolfSPDM_TCG_CheckResponse rsp 52 0x63)
     (guardE (\<not> (length rsp \<noteq> 52 \<or> unat (SPDM_Get16LE rsp 4) \<noteq> length rsp \<or> rsp ! 2 \<noteq> 4 \<or> rsp ! 3 \<noteq> 0 \<or>
                 rsp ! 6 \<noteq> 0 \<or> rsp ! 7 \<noteq> 0x02 \<or>
                 SPDM_Get32LE rsp 8 \<noteq> 0 \<or> SPDM_Get32LE rsp 12 \<noteq> 0x00000080 \<or>
                 SPDM_Get32LE rsp 16 \<noteq> 0x00000002 \<or> SPDM_Get32LE rsp 20 \<noteq> 0 \<or>
                 SPDM_Get32LE rsp 24 \<noteq> 0 \<or> SPDM_Get32LE rsp 28 \<noteq> 0 \<or>
                 rsp ! 32 \<noteq> 0 \<or> rsp ! 33 \<noteq> 0 \<or> rsp ! 34 \<noteq> 0 \<or> rsp ! 35 \<noteq> 0 \<or>
                 drop 36 rsp \<noteq> tcgAlgStructs)) E_PEER_ERROR)"

definition wolfSPDM_TCG_GetCapabilities :: "word32 \<Rightarrow> ('w, unit) cop" where
  "wolfSPDM_TCG_GetCapabilities capsFlags = SPDM_CONNECT_STEP (bindE (getE spdmVersion) (\<lambda>ver.
     let capsReq = [ver, 0xE1, 0x00, 0x00, 0x00, 0x1F, 0x00, 0x00] @ SPDM_Set32LE capsFlags @
           [0xC0, 0x07, 0x00, 0x00, 0xC0, 0x07, 0x00, 0x00] in
     thenE (wolfSPDM_TranscriptAdd capsReq)
     (bindE (wolfSPDM_SendReceive capsReq 64) (\<lambda>capsRsp.
      thenE (wolfSPDM_TCG_CheckCapabilities capsRsp capsFlags)
      (wolfSPDM_TranscriptAdd capsRsp)))))"

definition wolfSPDM_TCG_NegotiateAlgorithms :: "('w, unit) cop" where
  "wolfSPDM_TCG_NegotiateAlgorithms = SPDM_CONNECT_STEP (bindE (getE spdmVersion) (\<lambda>ver.
     let algReq = [ver, 0xE3, 0x04, 0x00, 0x30, 0x00, 0x00, 0x02,
           0x80, 0x00, 0x00, 0x00, 0x02, 0x00, 0x00, 0x00] @ zeros 16 @ tcgAlgStructs in
     thenE (wolfSPDM_TranscriptAdd algReq)
     (bindE (wolfSPDM_SendReceive algReq 128) (\<lambda>algRsp.
      thenE (wolfSPDM_TCG_CheckAlgorithms algRsp)
      (wolfSPDM_TranscriptAdd algRsp)))))"

section \<open>The identity-key connection\<close>

definition tcgHandshake :: "wc_env \<Rightarrow> ('w, unit) cop" where
  "tcgHandshake K =
     thenE (SPDM_CONNECT_STEP (wolfSPDM_GetVersion K))
     (bindE (getE mode) (\<lambda>md.
      thenE (if md \<noteq> MODE_NUVOTON
             then thenE (SPDM_CONNECT_STEP (wolfSPDM_TCG_GetCapabilities WOLFSPDM_TCG_CAPS_FLAGS_DEFAULT))
                  (SPDM_CONNECT_STEP wolfSPDM_TCG_NegotiateAlgorithms)
             else retE ())
      (bindE (SPDM_CONNECT_STEP (wolfSPDM_TCG_GetPubKey K WOLFSPDM_PUBKEY_BUF_SZ)) (\<lambda>pubKey.
       thenE (modE (\<lambda>c. c\<lparr>state := WOLFSPDM_STATE_CERT\<rparr>))
       (thenE (SPDM_CONNECT_STEP
                 (bindE (wolfSPDM_Sha384Hash K pubKey [] []) (\<lambda>h.
                  thenE (modE (\<lambda>c. c\<lparr>certChainHash := h\<rparr>))
                  (wolfSPDM_TranscriptAdd h))))
       (thenE (SPDM_CONNECT_STEP (wolfSPDM_KeyExchange K))
       (bindE (getE id) (\<lambda>c.
        thenE (if hasReqKeyPair (flags c) \<and> reqPubKeyTPMT c \<noteq> []
               then SPDM_CONNECT_STEP (wolfSPDM_TCG_GivePubKey K (reqPubKeyTPMT c)) else retE ())
        (thenE (SPDM_CONNECT_STEP (wolfSPDM_Finish K))
        (modE (\<lambda>d. d\<lparr>state := WOLFSPDM_STATE_CONNECTED\<rparr>)))))))))))"

definition wolfSPDM_ConnectTCG :: "wc_env \<Rightarrow> ('w, unit) cop" where
  "wolfSPDM_ConnectTCG K = bindE (getE id) (\<lambda>c.
     thenE (guardE (initialized (flags c)) E_BAD_STATE)
     (thenE (guardE (hasRspPubKey (flags c) \<and> length (rspPubKey c) = WOLFSPDM_ECC_POINT_SIZE) E_BAD_STATE)
     (thenE (guardE (\<not> Option.is_none (ioCb c)) E_IO_FAIL)
     (thenE (modE (\<lambda>d. wolfSPDM_TranscriptReset (d\<lparr>state := WOLFSPDM_STATE_INIT\<rparr>)))
     (tcgHandshake K)))))"

section \<open>Vendor adapters\<close>

record WOLFSPDM_NUVOTON_STATUS =
  nuvSpdmEnabled :: bool
  nuvSessionActive :: bool
  nuvSpdmOnlyLocked :: bool
  nuvSpecVersionMajor :: byte
  nuvSpecVersionMinor :: byte

definition wolfSPDM_Nuvoton_GetStatus :: "('w, WOLFSPDM_NUVOTON_STATUS) cop" where
  "wolfSPDM_Nuvoton_GetStatus =
     bindE (wolfSPDM_TCG_VendorCmdClear WOLFSPDM_VDCODE_GET_STS [0x00, 0x00, 0x00, 0x00] True) (\<lambda>(code, p).
     if length p \<ge> 4
     then retE \<lparr>nuvSpdmEnabled = True, nuvSessionActive = False, nuvSpdmOnlyLocked = (p ! 3 \<noteq> 0),
                nuvSpecVersionMajor = p ! 0, nuvSpecVersionMinor = p ! 1\<rparr>
     else if length p \<ge> 1
     then retE \<lparr>nuvSpdmEnabled = True, nuvSessionActive = False, nuvSpdmOnlyLocked = (p ! 0 \<noteq> 0),
                nuvSpecVersionMajor = 0, nuvSpecVersionMinor = 0\<rparr>
     else failE E_FRAMING)"

text \<open>The three vendors' \<^verbatim>\<open>SetOnlyMode\<close> functions have the same body.\<close>

definition spdmOnlyCmd :: "wc_env \<Rightarrow> bool \<Rightarrow> ('w, unit) cop" where
  "spdmOnlyCmd K lock = bindE (getE state) (\<lambda>st.
     thenE (guardE (st = WOLFSPDM_STATE_CONNECTED) E_NOT_CONNECTED)
     (wolfSPDM_TCG_VendorCmdSecured K WOLFSPDM_VDCODE_SPDMONLY [if lock then 0x01 else 0x00]))"

definition wolfSPDM_Nuvoton_SetOnlyMode :: "wc_env \<Rightarrow> bool \<Rightarrow> ('w, unit) cop" where
  "wolfSPDM_Nuvoton_SetOnlyMode K lock = spdmOnlyCmd K lock"

record WOLFSPDM_NATIONS_STATUS =
  natSpdmEnabled :: bool
  natSessionActive :: bool
  natSpdmOnlyLocked :: bool
  natSpdmOnlyPending :: bool
  natPskProvisioned :: bool
  natIdentityKeyProvisioned :: bool

definition wolfSPDM_Nations_GetStatus :: "('w, WOLFSPDM_NATIONS_STATUS) cop" where
  "wolfSPDM_Nations_GetStatus =
     bindE (wolfSPDM_TCG_VendorCmdClear WOLFSPDM_VDCODE_GET_STS [] True) (\<lambda>(code, p).
     thenE (guardE (length p \<ge> 4) E_FRAMING)
     (retE \<lparr>natSpdmEnabled = True, natSessionActive = False, natSpdmOnlyLocked = (p ! 3 \<noteq> 0),
            natSpdmOnlyPending = False, natPskProvisioned = (p ! 2 \<noteq> 0),
            natIdentityKeyProvisioned = False\<rparr>))"

definition wolfSPDM_Nations_SetOnlyMode :: "wc_env \<Rightarrow> bool \<Rightarrow> ('w, unit) cop" where
  "wolfSPDM_Nations_SetOnlyMode K lock = spdmOnlyCmd K lock"

definition wolfSPDM_Nations_PskSet :: "bytes \<Rightarrow> ('w, unit) cop" where
  "wolfSPDM_Nations_PskSet key =
     thenE (guardE (key \<noteq> []) E_INVALID_ARG)
     (thenE (wolfSPDM_TCG_VendorCmdClear WOLFSPDM_NATIONS_VDCODE_PSK_SET key False) (retE ()))"

definition wolfSPDM_Nations_PskClear :: "bytes \<Rightarrow> ('w, unit) cop" where
  "wolfSPDM_Nations_PskClear clearAuth =
     thenE (guardE (clearAuth \<noteq> []) E_INVALID_ARG)
     (thenE (wolfSPDM_TCG_VendorCmdClear WOLFSPDM_NATIONS_VDCODE_PSK_CLEAR clearAuth False) (retE ()))"

definition wolfSPDM_Nations_PskClearWithVCA :: "wc_env \<Rightarrow> bytes \<Rightarrow> ('w, unit) cop" where
  "wolfSPDM_Nations_PskClearWithVCA K clearAuth =
     thenE (guardE (clearAuth \<noteq> []) E_INVALID_ARG)
     (thenE (wolfSPDM_GetVersion K)
     (thenE (wolfSPDM_TCG_GetCapabilities WOLFSPDM_TCG_CAPS_FLAGS_PSK)
     (thenE wolfSPDM_TCG_NegotiateAlgorithms
     (wolfSPDM_Nations_PskClear clearAuth))))"

record WOLFSPDM_INFINEON_STATUS =
  ifxSpdmEnabled :: bool
  ifxSessionActive :: bool
  ifxSpdmOnlyLocked :: bool
  ifxSpdmOnlyPending :: bool
  ifxPskProvisioned :: bool

definition wolfSPDM_Infineon_GetStatus :: "('w, WOLFSPDM_INFINEON_STATUS) cop" where
  "wolfSPDM_Infineon_GetStatus =
     bindE (wolfSPDM_TCG_VendorCmdClear WOLFSPDM_VDCODE_GET_STS [] True) (\<lambda>(code, p).
     thenE (guardE (length p \<ge> 4) E_FRAMING)
     (retE \<lparr>ifxSpdmEnabled = True, ifxSessionActive = False, ifxSpdmOnlyLocked = (p ! 3 \<noteq> 0),
            ifxSpdmOnlyPending = (p ! 3 = 0x81), ifxPskProvisioned = (p ! 2 \<noteq> 0)\<rparr>))"

definition wolfSPDM_Infineon_SetOnlyMode :: "wc_env \<Rightarrow> bool \<Rightarrow> ('w, unit) cop" where
  "wolfSPDM_Infineon_SetOnlyMode K lock = spdmOnlyCmd K lock"

section \<open>Frames\<close>

lemma keeps_SPDM_CONNECT_STEP [keeps_intros]:
  "keeps f m \<Longrightarrow> (\<And>c x. f (c\<lparr>state := x\<rparr>) = f c) \<Longrightarrow> keeps f (SPDM_CONNECT_STEP m)"
  unfolding SPDM_CONNECT_STEP_def by (intro keeps_intros)

lemma keeps_VendorCmdClear [keeps_intros]:
  assumes "\<And>c x. f (c\<lparr>ioUserCtx := x\<rparr>) = f c" "\<And>c x. f (c\<lparr>fipsIndicator := x\<rparr>) = f c"
    "\<And>c x. f (c\<lparr>lastPeerErrorCode := x\<rparr>) = f c"
  shows "keeps f (wolfSPDM_TCG_VendorCmdClear v p w)"
  unfolding wolfSPDM_TCG_VendorCmdClear_def by (intro keeps_intros assms)

lemma keeps_VendorCmdSecured [keeps_intros]:
  assumes "\<And>c x. f (c\<lparr>rng := x\<rparr>) = f c" "\<And>c x. f (c\<lparr>reqSeqNum := x\<rparr>) = f c"
    "\<And>c x. f (c\<lparr>rspSeqNum := x\<rparr>) = f c" "\<And>c x. f (c\<lparr>ioUserCtx := x\<rparr>) = f c"
    "\<And>c x. f (c\<lparr>fipsIndicator := x\<rparr>) = f c" "\<And>c x. f (c\<lparr>lastPeerErrorCode := x\<rparr>) = f c"
    "\<And>c x. f (c\<lparr>chunkHandle := x\<rparr>) = f c" "\<And>c x. f (c\<lparr>l1l2State := x\<rparr>) = f c"
  shows "keeps f (wolfSPDM_TCG_VendorCmdSecured K v p)"
  unfolding wolfSPDM_TCG_VendorCmdSecured_def by (intro keeps_intros assms)

lemma keeps_GivePubKey [keeps_intros]:
  assumes "\<And>c x. f (c\<lparr>rng := x\<rparr>) = f c" "\<And>c x. f (c\<lparr>reqSeqNum := x\<rparr>) = f c"
    "\<And>c x. f (c\<lparr>rspSeqNum := x\<rparr>) = f c" "\<And>c x. f (c\<lparr>ioUserCtx := x\<rparr>) = f c"
    "\<And>c x. f (c\<lparr>fipsIndicator := x\<rparr>) = f c" "\<And>c x. f (c\<lparr>lastPeerErrorCode := x\<rparr>) = f c"
    "\<And>c x. f (c\<lparr>chunkHandle := x\<rparr>) = f c" "\<And>c x. f (c\<lparr>l1l2State := x\<rparr>) = f c"
  shows "keeps f (wolfSPDM_TCG_GivePubKey K p)"
  unfolding wolfSPDM_TCG_GivePubKey_def by (intro keeps_intros assms)

lemma keeps_TCG_checks [keeps_intros]:
  "keeps f (wolfSPDM_TCG_CheckPubKey p)" "keeps f (wolfSPDM_TCG_CheckResponse r n x)"
  "keeps f (wolfSPDM_TCG_CheckCapabilities r fl)" "keeps f (wolfSPDM_TCG_CheckAlgorithms r)"
  unfolding wolfSPDM_TCG_CheckPubKey_def wolfSPDM_TCG_CheckCapabilities_def
    wolfSPDM_TCG_CheckAlgorithms_def wolfSPDM_TCG_CheckResponse_def
  by (intro keeps_intros)+

lemma keeps_GetVersion [keeps_intros]:
  assumes "\<And>c x. f (c\<lparr>transcript := x\<rparr>) = f c" "\<And>c x. f (c\<lparr>ioUserCtx := x\<rparr>) = f c"
    "\<And>c x. f (c\<lparr>fipsIndicator := x\<rparr>) = f c" "\<And>c x. f (c\<lparr>lastPeerErrorCode := x\<rparr>) = f c"
    "\<And>c x. f (c\<lparr>chunkHandle := x\<rparr>) = f c" "\<And>c x y. f (c\<lparr>spdmVersion := x, state := y\<rparr>) = f c"
  shows "keeps f (wolfSPDM_GetVersion K)"
  unfolding wolfSPDM_GetVersion_def by (intro keeps_intros assms)

lemma keeps_TCG_negotiation [keeps_intros]:
  assumes "\<And>c x. f (c\<lparr>transcript := x\<rparr>) = f c" "\<And>c x. f (c\<lparr>ioUserCtx := x\<rparr>) = f c"
    "\<And>c x. f (c\<lparr>fipsIndicator := x\<rparr>) = f c" "\<And>c x. f (c\<lparr>state := x\<rparr>) = f c"
  shows "keeps f (wolfSPDM_TCG_GetCapabilities fl)" "keeps f wolfSPDM_TCG_NegotiateAlgorithms"
  unfolding wolfSPDM_TCG_GetCapabilities_def wolfSPDM_TCG_NegotiateAlgorithms_def
  by (intro keeps_intros assms)+

lemma keeps_GetPubKey [keeps_intros]:
  assumes "\<And>c x. f (c\<lparr>transcript := x\<rparr>) = f c" "\<And>c x. f (c\<lparr>ioUserCtx := x\<rparr>) = f c"
    "\<And>c x. f (c\<lparr>fipsIndicator := x\<rparr>) = f c" "\<And>c x. f (c\<lparr>lastPeerErrorCode := x\<rparr>) = f c"
    "\<And>c x. f (c\<lparr>chunkHandle := x\<rparr>) = f c" "\<And>c x y. f (c\<lparr>spdmVersion := x, state := y\<rparr>) = f c"
    "\<And>c. f (wolfSPDM_TranscriptReset c) = f c"
  shows "keeps f (wolfSPDM_TCG_GetPubKey K n)"
  unfolding wolfSPDM_TCG_GetPubKey_def by (intro keeps_intros assms)

section \<open>Negotiation and the pinned key\<close>

text \<open>A public key that comes back from the wire is the one configured, when one is.\<close>

lemma succ_ExtractEccPoint:
  "wolfSPDM_ExtractEccPoint p s = (Inr xy, t) \<longleftrightarrow> fst (wolfSPDM_ExtractEccPoint p ()) = Inr xy \<and> t = s"
  by (auto simp: wolfSPDM_ExtractEccPoint_def opE_defs Let_def)

lemma GetPubKey_pinned:
  "wpE (wolfSPDM_TCG_GetPubKey K n)
     (\<lambda>pubKey d. length pubKey \<le> n \<and>
        (hasRspPubKey (flags d) \<longrightarrow>
           fst (wolfSPDM_ExtractEccPoint pubKey ()) = Inr (take 48 (rspPubKey d), drop 48 (rspPubKey d))))
     (\<lambda>_ _. True) c"
  unfolding wpE_iff wolfSPDM_TCG_GetPubKey_def wolfSPDM_TCG_CheckPubKey_def
  by (auto simp: succ_simps succ_ExtractEccPoint split: if_splits)

lemma TCG_CheckCapabilities_sound:
  assumes "wolfSPDM_TCG_CheckCapabilities rsp fl c = (Inr u, d)"
  shows "SPDM_Get32LE rsp 8 AND (SPDM_CAP_ENCRYPT_CAP OR SPDM_CAP_MAC_CAP) =
           SPDM_CAP_ENCRYPT_CAP OR SPDM_CAP_MAC_CAP"
    "42 \<le> SPDM_Get32LE rsp 12" "SPDM_Get32LE rsp 12 \<le> SPDM_Get32LE rsp 16" "rsp ! 0 = spdmVersion c"
proof -
  have r: "x AND (s OR y) = s OR y \<Longrightarrow> x AND s = s" for x s y :: word32
    by (auto simp: bit_eq_iff bit_simps)
  let ?fl = "SPDM_Get32LE rsp 8"
  show "SPDM_Get32LE rsp 8 AND (SPDM_CAP_ENCRYPT_CAP OR SPDM_CAP_MAC_CAP) =
           SPDM_CAP_ENCRYPT_CAP OR SPDM_CAP_MAC_CAP"
    using assms r [of ?fl "SPDM_CAP_ENCRYPT_CAP OR SPDM_CAP_MAC_CAP" "WOLFSPDM_TCG_CAP_PUB_KEY_ID OR SPDM_CAP_KEY_EX_CAP"]
      r [of ?fl "SPDM_CAP_ENCRYPT_CAP OR SPDM_CAP_MAC_CAP" "WOLFSPDM_TCG_CAP_PUB_KEY_ID"]
    by (auto simp: wolfSPDM_TCG_CheckCapabilities_def wolfSPDM_TCG_CheckResponse_def succ_simps Let_def split: if_splits)
  show "42 \<le> SPDM_Get32LE rsp 12" "SPDM_Get32LE rsp 12 \<le> SPDM_Get32LE rsp 16" "rsp ! 0 = spdmVersion c"
    using assms
    by (auto simp: wolfSPDM_TCG_CheckCapabilities_def wolfSPDM_TCG_CheckResponse_def succ_simps Let_def)
qed

section \<open>The identity-key session\<close>

definition tcgSession :: "wc_env \<Rightarrow> 'w WOLFSPDM_CTX \<Rightarrow> 'w WOLFSPDM_CTX \<Rightarrow> bool" where
  "tcgSession K c d \<longleftrightarrow> (\<exists>(c1 :: 'w WOLFSPDM_CTX) (c2 :: 'w WOLFSPDM_CTX) c3 c4.
     rspPubKey c1 = rspPubKey c \<and> mode c1 = mode c \<and> kexTrusted K c1 c2 \<and>
     trafficKeys c3 = trafficKeys c2 \<and> wolfSPDM_Finish K c3 = (Inr (), c4) \<and>
     d = c4\<lparr>state := WOLFSPDM_STATE_CONNECTED\<rparr>)"

definition pinView :: "'w WOLFSPDM_CTX \<Rightarrow> bytes \<times> WOLFSPDM_MODE" where
  "pinView c = (rspPubKey c, mode c)"

lemma tcgHandshake_session:
  assumes "tcgHandshake K c = (Inr u, d)"
  shows "tcgSession K c d"
proof -
  obtain c1 c2 c3 c4 c5 c6 c7 c8 pk h where
    v: "wolfSPDM_GetVersion K c = (Inr (), c1)" and
    n: "(if mode c1 \<noteq> MODE_NUVOTON
             then thenE (SPDM_CONNECT_STEP (wolfSPDM_TCG_GetCapabilities WOLFSPDM_TCG_CAPS_FLAGS_DEFAULT))
                  (SPDM_CONNECT_STEP wolfSPDM_TCG_NegotiateAlgorithms)
             else retE ()) c1 = (Inr (), c2)" and
    g: "wolfSPDM_TCG_GetPubKey K WOLFSPDM_PUBKEY_BUF_SZ c2 = (Inr pk, c3)" and
    h: "wolfSPDM_Sha384Hash K pk [] [] (c3\<lparr>state := WOLFSPDM_STATE_CERT\<rparr>) = (Inr h, c4)" and
    x: "wolfSPDM_KeyExchange K (c4\<lparr>certChainHash := h, transcript := transcript c4 @ h\<rparr>) = (Inr (), c6)" and
    p: "(if hasReqKeyPair (flags c6) \<and> reqPubKeyTPMT c6 \<noteq> []
               then SPDM_CONNECT_STEP (wolfSPDM_TCG_GivePubKey K (reqPubKeyTPMT c6)) else retE ()) c6 = (Inr (), c7)" and
    f: "wolfSPDM_Finish K c7 = (Inr (), c8)" and d: "d = c8\<lparr>state := WOLFSPDM_STATE_CONNECTED\<rparr>"
    using assms unfolding tcgHandshake_def
    by (clarsimp simp: succ_bind succ_get succ_mod succ_onFail succ_CONNECT_STEP succ_TranscriptAdd)
  let ?c5 = "c4\<lparr>certChainHash := h, transcript := transcript c4 @ h\<rparr>"
  have kn: "keeps pinView (if mode c1 \<noteq> MODE_NUVOTON
             then thenE (SPDM_CONNECT_STEP (wolfSPDM_TCG_GetCapabilities WOLFSPDM_TCG_CAPS_FLAGS_DEFAULT))
                  (SPDM_CONNECT_STEP wolfSPDM_TCG_NegotiateAlgorithms) else retE ())"
    by (intro keeps_intros; simp add: pinView_def)
  have kp: "keeps trafficKeys (if hasReqKeyPair (flags c6) \<and> reqPubKeyTPMT c6 \<noteq> []
               then SPDM_CONNECT_STEP (wolfSPDM_TCG_GivePubKey K (reqPubKeyTPMT c6)) else retE ())"
    by (intro keeps_intros; simp add: trafficKeys_def)
  have "pinView c1 = pinView c" "pinView c3 = pinView c2" "c4 = c3\<lparr>state := WOLFSPDM_STATE_CERT\<rparr>"
    using keepsD [OF keeps_GetVersion [of pinView] v] keepsD [OF keeps_GetPubKey [of pinView] g]
      keepsD [OF keeps_Sha384Hash [of id] h]
    by (simp_all add: pinView_def wolfSPDM_TranscriptReset_def)
  with keepsD [OF kn n] have "rspPubKey ?c5 = rspPubKey c" "mode ?c5 = mode c"
    by (auto simp: pinView_def)
  then show ?thesis
    unfolding tcgSession_def using succ_KeyExchange(1) [OF x] keepsD [OF kp p] f d by blast
qed

lemma ConnectTCG_outcome:
  "wpE (wolfSPDM_ConnectTCG K)
     (\<lambda>_ d. state d = WOLFSPDM_STATE_CONNECTED \<and> hasRspPubKey (flags c) \<and>
        length (rspPubKey c) = WOLFSPDM_ECC_POINT_SIZE \<and> tcgSession K c d)
     (\<lambda>e d. state d = WOLFSPDM_STATE_ERROR \<or> d = c \<and> (e = E_BAD_STATE \<or> e = E_IO_FAIL)) c"
proof -
  have e: "wpE (tcgHandshake K) (\<lambda>_ _. True) (\<lambda>_ d. state d = WOLFSPDM_STATE_ERROR) s"
    for s :: "'a WOLFSPDM_CTX"
  proof -
    have "failsIn WOLFSPDM_STATE_ERROR (tcgHandshake K :: ('a, unit) cop)"
      unfolding tcgHandshake_def by (intro failsIn_intros)
    then show ?thesis by (simp add: wpE_iff failsIn_def)
  qed
  have c: "state d = WOLFSPDM_STATE_CONNECTED" if "tcgSession K s d" for s d :: "'a WOLFSPDM_CTX"
    using that by (auto simp: tcgSession_def)
  have h: "wpE (tcgHandshake K) (\<lambda>_ d. state d = WOLFSPDM_STATE_CONNECTED \<and> tcgSession K s d)
      (\<lambda>_ d. state d = WOLFSPDM_STATE_ERROR) s" for s :: "'a WOLFSPDM_CTX"
    using e [of s] tcgHandshake_session [of K s] c by (auto simp: wpE_iff)
  have t: "tcgSession K (wolfSPDM_TranscriptReset (c\<lparr>state := 0\<rparr>)) d \<Longrightarrow> tcgSession K c d" for d
    by (simp add: tcgSession_def wolfSPDM_TranscriptReset_def)
  show ?thesis
    unfolding wolfSPDM_ConnectTCG_def by (auto simp: wp_simps intro!: wpE_mono [OF h] t)
qed

end
