(* ===== verification/Spdm_Connect.thy ===== *)
theory Spdm_Connect
  imports Spdm_Tcg
begin

text \<open>
  Session establishment and teardown of \<^verbatim>\<open>src/spdm_context.c\<close>: \<^verbatim>\<open>wolfSPDM_Connect\<close> with its
  dispatch on the mode, \<^verbatim>\<open>wolfSPDM_Disconnect\<close>, \<^verbatim>\<open>wolfSPDM_Free\<close>, and the calls an
  application makes on a context as one step function.
\<close>

section \<open>Connect and disconnect\<close>

definition wolfSPDM_Connect :: "wc_env \<Rightarrow> ('w, unit) cop" where
  "wolfSPDM_Connect K = bindE (getE id) (\<lambda>c.
     thenE (guardE (initialized (flags c)) E_BAD_STATE)
     (thenE (guardE (\<not> Option.is_none (ioCb c)) E_IO_FAIL)
     (thenE (modE wolfSPDM_ResetSession)
     (case mode c of
        MODE_TCG \<Rightarrow> wolfSPDM_ConnectTCG K
      | MODE_NUVOTON \<Rightarrow> wolfSPDM_ConnectTCG K
      | MODE_NATIONS \<Rightarrow> wolfSPDM_ConnectTCG K
      | MODE_NATIONS_PSK \<Rightarrow> wolfSPDM_ConnectPsk K
      | MODE_AUTO \<Rightarrow> wolfSPDM_ConnectStandard K))))"

text \<open>The exchange of END_SESSION for a live session.\<close>

definition endSession :: "wc_env \<Rightarrow> ('w, unit) cop" where
  "endSession K =
     bindE (wolfSPDM_BuildEndSession 8) (\<lambda>tx.
     bindE (wolfSPDM_SecuredExchange K tx 16) (\<lambda>rx.
     thenE (guardE (length rx \<ge> 4) E_BUFFER_SMALL)
     (thenE (guardE (wolfSPDM_CheckError rx = None) E_PEER_ERROR)
     (bindE (getE spdmVersion) (\<lambda>ver.
      guardE (\<not> (length rx \<noteq> 4 \<or> rx ! 0 \<noteq> ver \<or> rx ! 1 \<noteq> SPDM_END_SESSION_ACK \<or> rx ! 2 \<noteq> 0 \<or> rx ! 3 \<noteq> 0))
        E_PEER_ERROR)))))"

definition wolfSPDM_Disconnect :: "wc_env \<Rightarrow> ('w, unit) cop" where
  "wolfSPDM_Disconnect K =
     finallyE
       (bindE (getE state) (\<lambda>st.
        if st = WOLFSPDM_STATE_CONNECTED then endSession K else failE E_NOT_CONNECTED))
       wolfSPDM_ResetSession"

text \<open>\<^verbatim>\<open>wolfSPDM_Free\<close> zeroes the whole structure.\<close>

definition wolfSPDM_Free :: "'w \<Rightarrow> 'w WOLFSPDM_CTX \<Rightarrow> 'w WOLFSPDM_CTX" where
  "wolfSPDM_Free nul c = zero_ctx nul"

definition wolfSPDM_GetLastPeerError :: "'w WOLFSPDM_CTX \<Rightarrow> byte" where
  "wolfSPDM_GetLastPeerError c = lastPeerErrorCode c"

section \<open>What a connection that succeeds has proved\<close>

definition pskSession :: "wc_env \<Rightarrow> 'w WOLFSPDM_CTX \<Rightarrow> 'w WOLFSPDM_CTX \<Rightarrow> bool" where
  "pskSession K c d \<longleftrightarrow> psk c \<noteq> [] \<and> psk d = [] \<and>
     (\<exists>(c1 :: 'w WOLFSPDM_CTX) c2 buf. psk c1 = psk c \<and> pskVerified K c1 buf c2 \<and> sessionId d = sessionId c2)"

definition authenticated :: "wc_env \<Rightarrow> 'w WOLFSPDM_CTX \<Rightarrow> 'w WOLFSPDM_CTX \<Rightarrow> bool" where
  "authenticated K c d \<longleftrightarrow> state d = WOLFSPDM_STATE_CONNECTED \<and>
     (case mode c of
        MODE_AUTO \<Rightarrow> standardSession K c d
      | MODE_NATIONS_PSK \<Rightarrow> pskSession K c d
      | _ \<Rightarrow> hasRspPubKey (flags c) \<and> length (rspPubKey c) = WOLFSPDM_ECC_POINT_SIZE \<and> tcgSession K c d)"

lemma pskHandshake_session:
  assumes "pskHandshake K c = (Inr u, d)"
  shows "\<exists>(c1 :: 'w WOLFSPDM_CTX) c2 buf. psk c1 = psk (c :: 'w WOLFSPDM_CTX) \<and> pskVerified K c1 buf c2 \<and> sessionId d = sessionId c2"
proof -
  let ?f = "\<lambda>c :: 'w WOLFSPDM_CTX. psk c"
  obtain c0 c0' c1 c2 c3 c4 c5 c6 c7 tx rx fin enc rx2 dec where
    v: "wolfSPDM_GetVersion K c = (Inr (), c0)" and
    b: "wolfSPDM_BuildPskExchange K 128 c0 = (Inr tx, c0')" and
    s: "wolfSPDM_SendReceive tx pskBufSz (c0'\<lparr>transcript := transcript c0' @ tx\<rparr>) = (Inr rx, c1)" and
    p: "wolfSPDM_ParsePskExchangeRsp K rx c1 = (Inr (), c2)" and
    f: "wolfSPDM_BuildPskFinish K 64 c2 = (Inr fin, c3)" and
    e: "wolfSPDM_EncryptInternal K fin pskBufSz c3 = (Inr enc, c4)" and
    x: "wolfSPDM_SendReceive enc pskBufSz c4 = (Inr rx2, c5)" and
    y: "wolfSPDM_DecryptInternal K rx2 64 c5 = (Inr dec, c6)" and
    z: "wolfSPDM_ParsePskFinishRsp dec c6 = (Inr (), c7)" and
    a: "wolfSPDM_DeriveAppDataKeys K c7 = (Inr u, d)"
    using assms unfolding pskHandshake_def by (auto simp: succ_simps)
  have "sessionId d = sessionId c2"
    using keepsD [OF keeps_BuildPskFinish [of sessionId] f] keepsD [OF keeps_EncryptInternal [of sessionId] e]
      keepsD [OF keeps_SendReceive [of sessionId] x] keepsD [OF keeps_DecryptInternal [of sessionId] y]
      keepsD [OF keeps_ParsePskFinishRsp [of sessionId] z] keepsD [OF keeps_DeriveAppDataKeys [of sessionId] a]
    by (simp add: frame_simps)
  moreover have "psk c1 = psk c"
    using keepsD [OF keeps_GetVersion [of psk] v] keepsD [OF keeps_BuildPskExchange [of psk] b]
      keepsD [OF keeps_SendReceive [of psk] s] by simp
  ultimately show ?thesis using ParsePskExchangeRsp_verified(1) [OF p] by blast
qed

lemma ConnectPsk_session:
  "wpE (wolfSPDM_ConnectPsk K) (\<lambda>_ d. state d = WOLFSPDM_STATE_CONNECTED \<and> pskSession K c d)
     (\<lambda>e d. state d = WOLFSPDM_STATE_ERROR \<or> d = c \<and> (e = E_BAD_STATE \<or> e = E_IO_FAIL)) c"
proof -
  have h: "wpE (pskHandshake K) (\<lambda>_ d. psk d = [] \<and>
      (\<exists>(c1 :: 'a WOLFSPDM_CTX) c2 buf. psk c1 = psk s \<and> pskVerified K c1 buf c2 \<and> sessionId d = sessionId c2))
      (\<lambda>_ _. True) s" for s :: "'a WOLFSPDM_CTX"
    using pskHandshake_success [of K s] pskHandshake_session [of K s] by (simp add: wpE_iff)
  show ?thesis
    unfolding wolfSPDM_ConnectPsk_def pskSession_def
    by (auto simp: wp_simps wolfSPDM_TranscriptReset_def intro!: wpE_mono [OF h]) blast
qed

lemma ResetSession_identity:
  "let d = wolfSPDM_ResetSession c in
     psk d = psk c \<and> rspPubKey d = rspPubKey c \<and> mode d = mode c \<and>
     (hasRspPubKey (flags d) \<longleftrightarrow> hasRspPubKey (flags c)) \<and> state d = WOLFSPDM_STATE_INIT \<and>
     trustView d = trustView c"
  by (simp add: trustView_def wolfSPDM_ResetSession_def wolfSPDM_AttestFree_def wolfSPDM_FreeEphemeralKey_def Let_def)

lemma sessions_reset:
  "tcgSession K (wolfSPDM_ResetSession c) d \<longleftrightarrow> tcgSession K c d"
  "pskSession K (wolfSPDM_ResetSession c) d \<longleftrightarrow> pskSession K c d"
  "standardSession K (wolfSPDM_ResetSession c) d \<longleftrightarrow> standardSession K c d"
  using ResetSession_identity [of c] by (simp_all add: tcgSession_def pskSession_def standardSession_def Let_def)

lemma Connect_outcome:
  "wpE (wolfSPDM_Connect K) (\<lambda>_ d. authenticated K c d)
     (\<lambda>e d. state d = WOLFSPDM_STATE_ERROR \<or>
        (e = E_BAD_STATE \<or> e = E_IO_FAIL) \<and> (d = c \<or> d = wolfSPDM_ResetSession c)) c"
proof -
  let ?r = "wolfSPDM_ResetSession c"
  note id = ResetSession_identity [of c, unfolded Let_def]
  show ?thesis
    unfolding wolfSPDM_Connect_def authenticated_def
    using id
    by (cases "mode c")
       (auto simp: wp_simps sessions_reset
         intro!: wpE_mono [OF ConnectTCG_outcome [of K ?r]] wpE_mono [OF ConnectPsk_session [of K ?r]]
           wpE_mono [OF ConnectStandard_outcome [of K ?r]])
qed

text \<open>Disconnecting wipes the session whatever the peer answered.\<close>

lemma Disconnect_wipes:
  "\<exists>s. snd (wolfSPDM_Disconnect K c) = wolfSPDM_ResetSession s"
  by (auto simp: wolfSPDM_Disconnect_def finallyE_def split: prod.splits)

end
