(* ===== verification/Spdm_Responder.thy ===== *)
theory Spdm_Responder
  imports Spdm_Connect
begin

text \<open>
  The responder of \<^verbatim>\<open>src/spdm_responder.c\<close>: its context around an embedded requester context,
  configuration, the clear and secured dispatchers with every handler, and the frame entry
  point. What follows the definitions are the frame rules of the embedded operations; the
  properties are in \<open>Spdm_RespProps\<close>, \<open>Spdm_RespAuth\<close>, \<open>Spdm_RespReplay\<close>,
  \<open>Spdm_RespSecrets\<close> and \<open>Spdm_Handshake\<close>.

  The four scratch buffers are represented by what was last left in them, \<open>[]\<close> for a wiped
  buffer. The TPM behind the tunnel is a function on its own state.
\<close>

section \<open>The responder context\<close>

type_synonym 't WOLFSPDM_RESP_TPM_CB = "bytes \<Rightarrow> nat \<Rightarrow> 't \<Rightarrow> (int \<times> bytes) \<times> 't"

record ('w, 't) WOLFSPDM_RESP_CTX =
  rctx :: "'w WOLFSPDM_CTX"
  useTcg :: bool
  usePsk :: bool
  hasIdKey :: bool
  respInitialized :: bool
  spdmOnlyLock :: bool
  pskProvisioned :: bool
  clearAuthSet :: bool
  sessionAsym :: bool
  pendingAsym :: bool
  clearAuthDigest :: bytes
  idPrivKey :: bytes
  idPubKey :: bytes
  pskStore :: bytes
  pskHintStore :: bytes
  tpmCb :: "'t WOLFSPDM_RESP_TPM_CB option"
  tpmCbUserCtx :: 't
  secureInPlain :: bytes
  secureOutPlain :: bytes
  vdInPayload :: bytes
  vdOutPayload :: bytes

type_synonym ('w, 't, 'a) rop = "(('w, 't) WOLFSPDM_RESP_CTX, 'a) op"

text \<open>An operation on the embedded context, \<^verbatim>\<open>f(&rctx->ctx, ...)\<close>.\<close>

definition zoomE :: "('w, 'a) cop \<Rightarrow> ('w, 't, 'a) rop" where
  "zoomE m r = (case m (rctx r) of (x, d) \<Rightarrow> (x, r\<lparr>rctx := d\<rparr>))"

definition zero_resp :: "'w \<Rightarrow> 't \<Rightarrow> ('w, 't) WOLFSPDM_RESP_CTX" where
  "zero_resp nul tnul = \<lparr>rctx = zero_ctx nul, useTcg = False, usePsk = False, hasIdKey = False,
     respInitialized = False, spdmOnlyLock = False, pskProvisioned = False, clearAuthSet = False,
     sessionAsym = False, pendingAsym = False, clearAuthDigest = zeros WOLFSPDM_HASH_SIZE,
     idPrivKey = [], idPubKey = [], pskStore = [], pskHintStore = [], tpmCb = None,
     tpmCbUserCtx = tnul, secureInPlain = [], secureOutPlain = [], vdInPayload = [],
     vdOutPayload = []\<rparr>"

section \<open>Configuration\<close>

definition wolfSPDM_RespInit :: "wc_env \<Rightarrow> 'w \<Rightarrow> 't \<Rightarrow> ('w, 't, unit) rop" where
  "wolfSPDM_RespInit K nul tnul =
     thenE (modE (\<lambda>_. zero_resp nul tnul))
     (thenE (zoomE (wolfSPDM_Init K nul))
     (modE (\<lambda>r. r\<lparr>respInitialized := True\<rparr>)))"

definition wolfSPDM_RespFree :: "'w \<Rightarrow> 't \<Rightarrow> ('w, 't) WOLFSPDM_RESP_CTX \<Rightarrow> ('w, 't) WOLFSPDM_RESP_CTX" where
  "wolfSPDM_RespFree nul tnul r = zero_resp nul tnul"

definition wolfSPDM_RespSetMode :: "bool \<Rightarrow> bool \<Rightarrow> ('w, 't, unit) rop" where
  "wolfSPDM_RespSetMode tcg pskOn = bindE (getE respInitialized) (\<lambda>ini.
     thenE (guardE ini E_INVALID_ARG)
     (thenE (guardE (tcg \<or> pskOn) E_INVALID_ARG)
     (modE (\<lambda>r. r\<lparr>useTcg := tcg, usePsk := pskOn,
        rctx := (rctx r)\<lparr>mode := if pskOn then MODE_NATIONS_PSK else MODE_NUVOTON\<rparr>\<rparr>))))"

definition wolfSPDM_RespSetPSK :: "bytes \<Rightarrow> bytes option \<Rightarrow> ('w, 't, unit) rop" where
  "wolfSPDM_RespSetPSK key hint = bindE (getE respInitialized) (\<lambda>ini.
     thenE (guardE ini E_INVALID_ARG)
     (thenE (guardE (key \<noteq> [] \<and> length key \<le> WOLFSPDM_PSK_MAX_SIZE) E_INVALID_ARG)
     (thenE (zoomE (wolfSPDM_SetPSK key hint))
     (modE (\<lambda>r. r\<lparr>pskStore := key,
        pskHintStore := (case hint of None \<Rightarrow> []
                         | Some h \<Rightarrow> if length h \<le> WOLFSPDM_PSK_HINT_MAX then h else []),
        pskProvisioned := True, clearAuthSet := False,
        clearAuthDigest := zeros WOLFSPDM_HASH_SIZE\<rparr>)))))"

definition wolfSPDM_RespSetIdentityKey :: "bytes \<Rightarrow> bytes \<Rightarrow> ('w, 't, unit) rop" where
  "wolfSPDM_RespSetIdentityKey priv pub = bindE (getE id) (\<lambda>r.
     thenE (guardE (respInitialized r) E_INVALID_ARG)
     (thenE (guardE (length priv = WOLFSPDM_ECC_KEY_SIZE \<and> length pub = WOLFSPDM_ECC_POINT_SIZE) E_INVALID_ARG)
     (thenE (guardE (state (rctx r) = WOLFSPDM_STATE_INIT) E_BAD_STATE)
     (modE (\<lambda>r. r\<lparr>idPrivKey := priv, idPubKey := pub, hasIdKey := True\<rparr>)))))"

definition wolfSPDM_RespSetTpmCallback :: "'t WOLFSPDM_RESP_TPM_CB option \<Rightarrow> 't \<Rightarrow> ('w, 't, unit) rop" where
  "wolfSPDM_RespSetTpmCallback cb userCtx = bindE (getE respInitialized) (\<lambda>ini.
     thenE (guardE ini E_INVALID_ARG)
     (modE (\<lambda>r. r\<lparr>tpmCb := cb, tpmCbUserCtx := userCtx\<rparr>)))"

definition wolfSPDM_RespSetDebug :: "bool \<Rightarrow> ('w, 't) WOLFSPDM_RESP_CTX \<Rightarrow> ('w, 't) WOLFSPDM_RESP_CTX" where
  "wolfSPDM_RespSetDebug enable r = r\<lparr>rctx := wolfSPDM_SetDebug enable (rctx r)\<rparr>"

definition wolfSPDM_RespIsLocked :: "('w, 't) WOLFSPDM_RESP_CTX \<Rightarrow> bool" where
  "wolfSPDM_RespIsLocked r = spdmOnlyLock r"

definition wolfSPDM_RespIsSessionActive :: "('w, 't) WOLFSPDM_RESP_CTX \<Rightarrow> bool" where
  "wolfSPDM_RespIsSessionActive r \<longleftrightarrow>
     state (rctx r) = WOLFSPDM_STATE_CONNECTED \<and> sessionId (rctx r) \<noteq> 0"

text \<open>The identity key the session authenticated with, \<open>None\<close> for a returned length of 0.\<close>

definition wolfSPDM_RespGetIdentityKey :: "('w, 't) WOLFSPDM_RESP_CTX \<Rightarrow> bytes option" where
  "wolfSPDM_RespGetIdentityKey r = (if hasIdKey r \<and> sessionAsym r then Some (idPubKey r) else None)"

definition wolfSPDM_RespReset :: "('w, 't) WOLFSPDM_RESP_CTX \<Rightarrow> ('w, 't) WOLFSPDM_RESP_CTX" where
  "wolfSPDM_RespReset r = r\<lparr>
     rctx := (wolfSPDM_TranscriptReset (wolfSPDM_FreeEphemeralKey ((rctx r)\<lparr>
        reqDataKey := zeros WOLFSPDM_AEAD_KEY_SIZE, rspDataKey := zeros WOLFSPDM_AEAD_KEY_SIZE,
        reqDataIv := zeros WOLFSPDM_AEAD_IV_SIZE, rspDataIv := zeros WOLFSPDM_AEAD_IV_SIZE,
        handshakeSecret := zeros WOLFSPDM_HASH_SIZE,
        reqHsSecret := zeros WOLFSPDM_HASH_SIZE, rspHsSecret := zeros WOLFSPDM_HASH_SIZE,
        reqFinishedKey := zeros WOLFSPDM_HASH_SIZE, rspFinishedKey := zeros WOLFSPDM_HASH_SIZE,
        sharedSecret := [],
        reqAppSecret := zeros WOLFSPDM_HASH_SIZE, rspAppSecret := zeros WOLFSPDM_HASH_SIZE\<rparr>)))
      \<lparr>reqSeqNum := 0, rspSeqNum := 0, sessionId := 0, state := WOLFSPDM_STATE_INIT\<rparr>,
     sessionAsym := False, pendingAsym := False,
     secureInPlain := [], secureOutPlain := [], vdInPayload := [], vdOutPayload := []\<rparr>"

section \<open>Clear messages\<close>

abbreviation (input) WOLFSPDM_GET_CAPABILITIES :: byte where "WOLFSPDM_GET_CAPABILITIES \<equiv> 0xE1"
abbreviation (input) WOLFSPDM_CAPABILITIES :: byte where "WOLFSPDM_CAPABILITIES \<equiv> 0x61"
abbreviation (input) WOLFSPDM_NEGOTIATE_ALGORITHMS :: byte where "WOLFSPDM_NEGOTIATE_ALGORITHMS \<equiv> 0xE3"
abbreviation (input) WOLFSPDM_ALGORITHMS :: byte where "WOLFSPDM_ALGORITHMS \<equiv> 0x63"
abbreviation (input) WOLFSPDM_VENDOR_DEFINED_RSP :: byte where "WOLFSPDM_VENDOR_DEFINED_RSP \<equiv> 0x7E"
abbreviation (input) WOLFSPDM_MAX_TPM_MSG_SIZE :: nat where "WOLFSPDM_MAX_TPM_MSG_SIZE \<equiv> WOLFSPDM_MAX_MSG_SIZE"
abbreviation (input) WOLFSPDM_SPDMONLY_LOCK :: byte where "WOLFSPDM_SPDMONLY_LOCK \<equiv> 0x01"
abbreviation (input) WOLFSPDM_SPDMONLY_UNLOCK :: byte where "WOLFSPDM_SPDMONLY_UNLOCK \<equiv> 0x00"
definition WOLFSPDM_VDCODE_TPM2_CMD :: bytes where "WOLFSPDM_VDCODE_TPM2_CMD = cstr ''TPM2_CMD''"

definition RespBuildErrorClear :: "byte \<Rightarrow> byte \<Rightarrow> nat \<Rightarrow> ('w, bytes) cop" where
  "RespBuildErrorClear errCode errData cap =
     thenE (guardE (cap \<ge> 4) E_BUFFER_SMALL)
     (getE (\<lambda>c. [if spdmVersion c \<noteq> 0 then spdmVersion c else SPDM_VERSION_10, SPDM_ERROR, errCode, errData]))"

definition RespSwapDataDir :: "'w WOLFSPDM_CTX \<Rightarrow> 'w WOLFSPDM_CTX" where
  "RespSwapDataDir c = c\<lparr>reqDataKey := rspDataKey c, rspDataKey := reqDataKey c,
     reqDataIv := rspDataIv c, rspDataIv := reqDataIv c,
     reqSeqNum := rspSeqNum c, rspSeqNum := reqSeqNum c\<rparr>"

definition RespEncrypt :: "wc_env \<Rightarrow> bytes \<Rightarrow> nat \<Rightarrow> ('w, bytes) cop" where
  "RespEncrypt K plain cap =
     thenE (modE RespSwapDataDir) (finallyE (wolfSPDM_EncryptInternal K plain cap) RespSwapDataDir)"

definition RespDecrypt :: "wc_env \<Rightarrow> bytes \<Rightarrow> nat \<Rightarrow> ('w, bytes) cop" where
  "RespDecrypt K enc cap =
     thenE (modE RespSwapDataDir) (finallyE (wolfSPDM_DecryptInternal K enc cap) RespSwapDataDir)"

abbreviation (input) WOLFSPDM_RESP_MAX_VERSION :: byte where "WOLFSPDM_RESP_MAX_VERSION \<equiv> SPDM_VERSION_13"
abbreviation (input) WOLFSPDM_RESP_VERSION_COUNT :: byte where
  "WOLFSPDM_RESP_VERSION_COUNT \<equiv> WOLFSPDM_RESP_MAX_VERSION - WOLFSPDM_MIN_SPDM_VERSION + 1"

text \<open>The entries of the version loop, from \<open>ver\<close> up to the highest one served.\<close>

function respVersionEntries :: "byte \<Rightarrow> bytes" where
  "respVersionEntries ver =
     (if ver \<le> WOLFSPDM_RESP_MAX_VERSION then [0x00, ver] @ respVersionEntries (ver + 1) else [])"
  by pat_completeness auto
termination
  by (relation "measure (\<lambda>v. 20 - unat v)") (auto simp: word_le_nat_alt unat_word_ariths)

declare respVersionEntries.simps [simp del]

definition RespBuildVersion :: "nat \<Rightarrow> ('w, bytes) cop" where
  "RespBuildVersion cap =
     thenE (guardE (cap \<ge> 6 + 2 * unat WOLFSPDM_RESP_VERSION_COUNT) E_BUFFER_SMALL)
     (thenE (modE (\<lambda>c. c\<lparr>spdmVersion := 0, state := WOLFSPDM_STATE_VERSION\<rparr>))
     (retE ([SPDM_VERSION_10, SPDM_VERSION, 0x00, 0x00, 0x00, WOLFSPDM_RESP_VERSION_COUNT] @
            respVersionEntries WOLFSPDM_MIN_SPDM_VERSION)))"

definition RespSelectVersion :: "byte \<Rightarrow> bool \<Rightarrow> ('w, unit) cop" where
  "RespSelectVersion reqVer isVendor = bindE (getE id) (\<lambda>c.
     if spdmVersion c \<noteq> 0 then guardE (reqVer = spdmVersion c) E_VERSION_MISMATCH
     else if state c \<noteq> WOLFSPDM_STATE_VERSION then guardE isVendor E_BAD_STATE
     else if reqVer < WOLFSPDM_MIN_SPDM_VERSION \<or> reqVer > WOLFSPDM_RESP_MAX_VERSION
     then failE E_VERSION_MISMATCH
     else modE (\<lambda>d. d\<lparr>spdmVersion := reqVer\<rparr>))"

definition RespBuildCapabilities :: "bool \<Rightarrow> nat \<Rightarrow> ('w, bytes) cop" where
  "RespBuildCapabilities pskEnabled cap =
     thenE (guardE (cap \<ge> 20) E_BUFFER_SMALL)
     (getE (\<lambda>c. [spdmVersion c, WOLFSPDM_CAPABILITIES, 0x00, 0x00, 0x00, 0x1F, 0x00, 0x00] @
        SPDM_Set32LE (if pskEnabled then 0x000193C0 OR 0x00000400 else 0x000193C0) @
        [0xC0, 0x07, 0x00, 0x00] @ [0xC0, 0x07, 0x00, 0x00]))"

definition RespBuildAlgorithms :: "nat \<Rightarrow> ('w, bytes) cop" where
  "RespBuildAlgorithms cap =
     thenE (guardE (cap \<ge> 52) E_BUFFER_SMALL)
     (getE (\<lambda>c. [spdmVersion c, WOLFSPDM_ALGORITHMS, 0x04, 0x00, 0x34, 0x00, 0x00, 0x02] @ zeros 4 @
        [0x80, 0x00, 0x00, 0x00] @ [0x02, 0x00, 0x00, 0x00] @ zeros 12 @ [0x00, 0x00, 0x00, 0x00] @
        [0x02, 0x20, 0x10, 0x00] @ [0x03, 0x20, 0x02, 0x00] @
        [0x04, 0x20, 0x80, 0x00] @ [0x05, 0x20, 0x01, 0x00]))"

section \<open>Handshakes\<close>

definition respSessionIds :: "bytes \<Rightarrow> 'w WOLFSPDM_CTX \<Rightarrow> 'w WOLFSPDM_CTX" where
  "respSessionIds inb c = c\<lparr>reqSessionId := SPDM_Get16LE inb 4, rspSessionId := 0xFFFE,
     sessionId := ucast (SPDM_Get16LE inb 4) OR push_bit 16 (ucast (0xFFFE :: word16))\<rparr>"

definition respPskLoad :: "('w, 't) WOLFSPDM_RESP_CTX \<Rightarrow> 'w WOLFSPDM_CTX \<Rightarrow> 'w WOLFSPDM_CTX" where
  "respPskLoad r c = c\<lparr>psk := pskStore r,
     pskHint := if pskHintStore r \<noteq> [] then pskHintStore r else pskHint c\<rparr>"

text \<open>PSK_EXCHANGE_RSP under the session ids and the PSK just loaded.\<close>

definition respPskReply :: "wc_env \<Rightarrow> ('w, 't, bytes) rop" where
  "respPskReply K = bindE (zoomE (wolfSPDM_GetRandom K 32)) (\<lambda>rnd.
     bindE (zoomE (getE (\<lambda>c. [spdmVersion c, SPDM_PSK_EXCHANGE_RSP, 0x00, 0x00] @
        SPDM_Set16LE (rspSessionId c) @ [0x00, 0x00] @ SPDM_Set16LE 32 @ SPDM_Set16LE 0 @ rnd))) (\<lambda>partial.
     thenE (zoomE (wolfSPDM_TranscriptAdd partial))
     (bindE (zoomE (wolfSPDM_TranscriptHash K)) (\<lambda>th1Hash.
      thenE (zoomE (modE (\<lambda>c. c\<lparr>th1 := th1Hash\<rparr>)))
      (thenE (zoomE (wolfSPDM_DeriveHandshakeKeysPsk K th1Hash))
      (bindE (zoomE (getE rspFinishedKey)) (\<lambda>fk.
       bindE (zoomE (wolfSPDM_ComputeVerifyData K fk th1Hash)) (\<lambda>verifyData.
       thenE (zoomE (wolfSPDM_TranscriptAdd verifyData))
       (thenE (modE (\<lambda>r. r\<lparr>rctx := (rctx r)\<lparr>state := WOLFSPDM_STATE_KEY_EX\<rparr>, pendingAsym := False\<rparr>))
       (retE (partial @ verifyData)))))))))))"

definition RespBuildPskExchangeRsp :: "wc_env \<Rightarrow> bytes \<Rightarrow> nat \<Rightarrow> ('w, 't, bytes) rop" where
  "RespBuildPskExchangeRsp K inb cap = bindE (getE id) (\<lambda>r.
     thenE (guardE (\<not> (length inb < 12 \<or> pskStore r = [])) E_BAD_STATE)
     (thenE (guardE (cap \<ge> 12 + 32 + WOLFSPDM_HASH_SIZE) E_BUFFER_SMALL)
     (thenE (guardE (12 + unat (SPDM_Get16LE inb 6) + unat (SPDM_Get16LE inb 8) +
                unat (SPDM_Get16LE inb 10) \<le> length inb) E_FRAMING)
     (thenE (modE (\<lambda>r. r\<lparr>rctx := respSessionIds inb (respPskLoad r (rctx r))\<rparr>))
     (respPskReply K)))))"

text \<open>\<^verbatim>\<open>wolfSPDM_SignHash\<close> with the identity key swapped in for the requester's key pair.\<close>

definition respSign :: "wc_env \<Rightarrow> bytes \<Rightarrow> ('w, 't, bytes) rop" where
  "respSign K h = bindE (getE id) (\<lambda>r.
     let saved = rctx r in
     zoomE (thenE (modE (\<lambda>c. c\<lparr>reqPrivKey := idPrivKey r, reqPubKey := idPubKey r,
                      flags := (flags c)\<lparr>hasReqKeyPair := True\<rparr>\<rparr>))
            (finallyE (wolfSPDM_SignHash K h)
               (\<lambda>c. c\<lparr>reqPrivKey := reqPrivKey saved, reqPubKey := reqPubKey saved,
                  flags := (flags c)\<lparr>hasReqKeyPair := hasReqKeyPair (flags saved)\<rparr>\<rparr>))))"

text \<open>KEY_EXCHANGE_RSP for the requester's ephemeral point at offset 40 of the request.\<close>

definition respKexReply :: "wc_env \<Rightarrow> bytes \<Rightarrow> ('w, 't, bytes) rop" where
  "respKexReply K inb = bindE (zoomE (wolfSPDM_GetRandom K WOLFSPDM_RANDOM_SIZE)) (\<lambda>rnd.
     thenE (zoomE (wolfSPDM_GenerateEphemeralKey K))
     (bindE (zoomE (wolfSPDM_ExportEphemeralPubKey K)) (\<lambda>(myX, myY).
     bindE (zoomE (getE (\<lambda>c. [spdmVersion c, SPDM_KEY_EXCHANGE_RSP, 0x00, 0x00] @
        SPDM_Set16LE (rspSessionId c) @ [0x00, 0x00] @ rnd @ myX @ myY @ SPDM_Set16LE 0))) (\<lambda>partial.
     thenE (zoomE (wolfSPDM_TranscriptAdd partial))
     (bindE (zoomE (wolfSPDM_TranscriptHash K)) (\<lambda>th1Sig.
      bindE (zoomE (getE spdmVersion)) (\<lambda>ver.
      bindE (zoomE (wolfSPDM_BuildSignedHash K ver kexSigContext th1Sig)) (\<lambda>signMsgHash.
      bindE (respSign K signMsgHash) (\<lambda>sig.
      thenE (zoomE (wolfSPDM_TranscriptAdd sig))
      (thenE (zoomE (wolfSPDM_ComputeSharedSecret K (take WOLFSPDM_ECC_KEY_SIZE (drop 40 inb))
                 (take WOLFSPDM_ECC_KEY_SIZE (drop 88 inb))))
      (bindE (zoomE (wolfSPDM_TranscriptHash K)) (\<lambda>th1Hash.
       thenE (zoomE (modE (\<lambda>c. c\<lparr>th1 := th1Hash\<rparr>)))
       (thenE (zoomE (wolfSPDM_DeriveHandshakeKeys K th1Hash))
       (bindE (zoomE (getE rspFinishedKey)) (\<lambda>fk.
        bindE (zoomE (wolfSPDM_ComputeVerifyData K fk th1Hash)) (\<lambda>verifyData.
        thenE (zoomE (wolfSPDM_TranscriptAdd verifyData))
        (thenE (modE (\<lambda>r. r\<lparr>rctx := (rctx r)\<lparr>state := WOLFSPDM_STATE_KEY_EX\<rparr>, pendingAsym := True\<rparr>))
        (retE (partial @ sig @ verifyData)))))))))))))))))))"

definition RespBuildKeyExchangeRsp :: "wc_env \<Rightarrow> bytes \<Rightarrow> nat \<Rightarrow> ('w, 't, bytes) rop" where
  "RespBuildKeyExchangeRsp K inb cap = bindE (getE hasIdKey) (\<lambda>hasKey.
     thenE (guardE (\<not> (length inb < 136 \<or> \<not> hasKey)) E_BAD_STATE)
     (thenE (guardE (cap \<ge> 138 + WOLFSPDM_ECC_SIG_SIZE + WOLFSPDM_HASH_SIZE) E_BUFFER_SMALL)
     (thenE (zoomE (modE (respSessionIds inb)))
     (respKexReply K inb))))"

text \<open>The common body of the two FINISH handlers: they differ in the response code and label.\<close>

definition respFinish :: "wc_env \<Rightarrow> byte \<Rightarrow> bool \<Rightarrow> bytes \<Rightarrow> nat \<Rightarrow> ('w, 't, bytes) rop" where
  "respFinish K rspCode isAsym inb cap =
     thenE (guardE (length inb \<ge> 4 + WOLFSPDM_HASH_SIZE) E_FRAMING)
     (thenE (guardE (cap \<ge> 4) E_BUFFER_SMALL)
     (thenE (zoomE (wolfSPDM_TranscriptAdd (take 4 inb)))
     (bindE (zoomE (wolfSPDM_TranscriptHash K)) (\<lambda>th2Hash.
      thenE (zoomE (modE (\<lambda>c. c\<lparr>th2 := th2Hash\<rparr>)))
      (bindE (zoomE (getE reqFinishedKey)) (\<lambda>fk.
       bindE (zoomE (wolfSPDM_ComputeVerifyData K fk th2Hash)) (\<lambda>expectedHmac.
       let vd = take WOLFSPDM_HASH_SIZE (drop 4 inb) in
       thenE (guardE (wolfSPDM_ConstCompare expectedHmac vd WOLFSPDM_HASH_SIZE = 0) E_BAD_HMAC)
       (thenE (zoomE (wolfSPDM_TranscriptAdd vd))
       (bindE (zoomE (getE (\<lambda>c. [spdmVersion c, rspCode, 0x00, 0x00]))) (\<lambda>out.
        thenE (zoomE (wolfSPDM_TranscriptAdd out))
        (thenE (modE (\<lambda>r. r\<lparr>rctx := (rctx r)\<lparr>state := WOLFSPDM_STATE_CONNECTED\<rparr>, sessionAsym := isAsym\<rparr>))
        (retE out))))))))))))"

definition RespHandleFinish :: "wc_env \<Rightarrow> bytes \<Rightarrow> nat \<Rightarrow> ('w, 't, bytes) rop" where
  "RespHandleFinish K inb cap = respFinish K SPDM_FINISH_RSP True inb cap"

definition RespHandlePskFinish :: "wc_env \<Rightarrow> bytes \<Rightarrow> nat \<Rightarrow> ('w, 't, bytes) rop" where
  "RespHandlePskFinish K inb cap = respFinish K SPDM_PSK_FINISH_RSP False inb cap"

definition RespBuildEndSessionAck :: "nat \<Rightarrow> ('w, bytes) cop" where
  "RespBuildEndSessionAck cap =
     thenE (guardE (cap \<ge> 4) E_BUFFER_SMALL)
     (getE (\<lambda>c. [spdmVersion c, SPDM_END_SESSION_ACK, 0x00, 0x00]))"

section \<open>Vendor commands\<close>

text \<open>The scratch buffer for a vendor response; the result is its content.\<close>

definition putOut :: "bytes \<Rightarrow> ('w, 't, bytes) rop" where
  "putOut resp = thenE (modE (\<lambda>r. r\<lparr>vdOutPayload := resp\<rparr>)) (retE resp)"

definition respTpmCmd :: "bytes \<Rightarrow> ('w, 't, bytes) rop" where
  "respTpmCmd payload = bindE (getE id) (\<lambda>r.
     let tpmRespCap = WOLFSPDM_MAX_TPM_MSG_SIZE - (9 + WOLFSPDM_VDCODE_LEN) in
     case tpmCb r of
       None \<Rightarrow> failE E_BAD_STATE
     | Some cb \<Rightarrow> (case cb payload tpmRespCap (tpmCbUserCtx r) of ((rc, resp), w) \<Rightarrow>
         thenE (modE (\<lambda>r. r\<lparr>tpmCbUserCtx := w\<rparr>))
         (thenE (putOut resp)
         (thenE (guardE (rc = 0) E_IO_FAIL)
         (thenE (guardE (length resp \<le> tpmRespCap) E_BUFFER_SMALL)
         (retE resp))))))"

definition respPskSet :: "bytes \<Rightarrow> ('w, 't, unit) rop" where
  "respPskSet payload = bindE (getE id) (\<lambda>r.
     let pskLen = WOLFSPDM_PSK_MAX_SIZE; key = take pskLen payload in
     thenE (guardE (length payload = pskLen + WOLFSPDM_HASH_SIZE) E_INVALID_ARG)
     (thenE (guardE (\<not> clearAuthSet r) E_BAD_STATE)
     (thenE (guardE (\<not> (pskStore r \<noteq> [] \<and> length (pskStore r) \<noteq> pskLen)) E_BAD_STATE)
     (thenE (guardE (\<not> (pskStore r \<noteq> [] \<and> wolfSPDM_ConstCompare (pskStore r) payload pskLen \<noteq> 0)) E_BAD_STATE)
     (modE (\<lambda>r. r\<lparr>pskStore := key, clearAuthDigest := drop pskLen payload, pskProvisioned := True,
        clearAuthSet := True, rctx := (rctx r)\<lparr>psk := key\<rparr>\<rparr>))))))"

definition respPskClear :: "wc_env \<Rightarrow> bytes \<Rightarrow> ('w, 't, unit) rop" where
  "respPskClear K payload = bindE (getE id) (\<lambda>r.
     thenE (guardE (\<not> (length payload \<noteq> 32 \<or> \<not> pskProvisioned r)) E_INVALID_ARG)
     (bindE (wolfSPDM_Sha384Hash K payload [] []) (\<lambda>digest.
      thenE (guardE (wolfSPDM_ConstCompare digest (clearAuthDigest r) WOLFSPDM_HASH_SIZE = 0) E_BAD_HMAC)
      (modE (\<lambda>r. r\<lparr>pskStore := [], clearAuthDigest := zeros WOLFSPDM_HASH_SIZE, pskProvisioned := False,
         clearAuthSet := False, rctx := (rctx r)\<lparr>psk := []\<rparr>\<rparr>)))))"

definition respVendorCmd :: "wc_env \<Rightarrow> bytes \<Rightarrow> bytes \<Rightarrow> ('w, 't, bytes) rop" where
  "respVendorCmd K vdCode payload = bindE (getE id) (\<lambda>r.
     if vdCode = WOLFSPDM_VDCODE_TPM2_CMD then respTpmCmd payload
     else if vdCode = WOLFSPDM_VDCODE_GET_PUBK
     then thenE (guardE (hasIdKey r) E_BAD_STATE)
          (thenE (guardE (length (idPubKey r) \<le> WOLFSPDM_MAX_MSG_SIZE) E_BUFFER_SMALL)
          (putOut (idPubKey r)))
     else if vdCode = WOLFSPDM_VDCODE_GIVE_PUB
     then thenE (guardE (length payload \<le> WOLFSPDM_PUBKEY_BUF_SZ div 2) E_BUFFER_SMALL)
          (thenE (zoomE (modE (\<lambda>c. c\<lparr>reqPubKeyTPMT := payload\<rparr>)))
          (putOut []))
     else if vdCode = WOLFSPDM_VDCODE_GET_STS
     then putOut [0x00, 0x04, if pskProvisioned r then 0x01 else 0x00, if spdmOnlyLock r then 0x01 else 0x00]
     else if vdCode = WOLFSPDM_VDCODE_SPDMONLY
     then thenE (guardE (\<not> (length payload \<noteq> 1 \<or>
                   payload ! 0 \<noteq> WOLFSPDM_SPDMONLY_LOCK \<and> payload ! 0 \<noteq> WOLFSPDM_SPDMONLY_UNLOCK)) E_INVALID_ARG)
          (thenE (modE (\<lambda>r. r\<lparr>spdmOnlyLock := (payload ! 0 = WOLFSPDM_SPDMONLY_LOCK)\<rparr>))
          (putOut []))
     else if vdCode = WOLFSPDM_NATIONS_VDCODE_PSK_SET then thenE (respPskSet payload) (putOut [])
     else if vdCode = WOLFSPDM_NATIONS_VDCODE_PSK_CLEAR then thenE (respPskClear K payload) (putOut [])
     else failE E_NOT_AVAILABLE)"

definition vendorSecuredOnly :: "bytes \<Rightarrow> bool" where
  "vendorSecuredOnly vdCode \<longleftrightarrow> vdCode = WOLFSPDM_VDCODE_TPM2_CMD \<or>
     vdCode = WOLFSPDM_VDCODE_GIVE_PUB \<or> vdCode = WOLFSPDM_VDCODE_SPDMONLY"

definition RespHandleVendorDefinedInner :: "wc_env \<Rightarrow> bytes \<Rightarrow> nat \<Rightarrow> bool \<Rightarrow> ('w, 't, bytes \<times> bytes) rop" where
  "RespHandleVendorDefinedInner K inb cap fromSecured =
     bindE (wolfSPDM_ParseVendorDefined inb WOLFSPDM_MAX_TPM_MSG_SIZE) (\<lambda>(vdCode, payload).
     thenE (modE (\<lambda>r. r\<lparr>vdInPayload := payload\<rparr>))
     (bindE (getE (\<lambda>r. state (rctx r))) (\<lambda>st.
      thenE (guardE (\<not> (\<not> fromSecured \<and> vendorSecuredOnly vdCode)) E_BAD_STATE)
      (thenE (guardE (\<not> (fromSecured \<and> st \<noteq> WOLFSPDM_STATE_CONNECTED \<and>
                         vdCode \<noteq> WOLFSPDM_VDCODE_GIVE_PUB)) E_BAD_STATE)
      (bindE (respVendorCmd K vdCode payload) (\<lambda>resp.
       thenE (guardE (1 + 1 + 1 + 1 + 2 + 1 + 2 + WOLFSPDM_VDCODE_LEN + length resp \<le> cap) E_BUFFER_SMALL)
       (bindE (zoomE (getE spdmVersion)) (\<lambda>ver.
        retE ([ver, WOLFSPDM_VENDOR_DEFINED_RSP, 0x00, 0x00] @ SPDM_Set16LE 0x0001 @ [0x00] @
              SPDM_Set16LE (of_nat (WOLFSPDM_VDCODE_LEN + length resp)) @ vdCode @ resp, vdCode)))))))))"

definition RespHandleVendorDefined :: "wc_env \<Rightarrow> bytes \<Rightarrow> nat \<Rightarrow> bool \<Rightarrow> ('w, 't, bytes \<times> bytes) rop" where
  "RespHandleVendorDefined K inb cap fromSecured =
     finallyE (RespHandleVendorDefinedInner K inb cap fromSecured)
       (\<lambda>r. r\<lparr>vdInPayload := [], vdOutPayload := []\<rparr>)"

section \<open>Dispatch\<close>

definition respAddOut :: "('w, 't, bytes) rop \<Rightarrow> ('w, 't, bytes) rop" where
  "respAddOut m = bindE m (\<lambda>out. thenE (zoomE (wolfSPDM_TranscriptAdd out)) (retE out))"

definition respSwitch :: "wc_env \<Rightarrow> byte \<Rightarrow> bytes \<Rightarrow> nat \<Rightarrow> ('w, 't, bytes) rop" where
  "respSwitch K code inb cap =
     (if code = SPDM_GET_VERSION then respAddOut (zoomE (RespBuildVersion cap))
      else if code = WOLFSPDM_GET_CAPABILITIES
      then bindE (getE usePsk) (\<lambda>pskOn. respAddOut (zoomE (RespBuildCapabilities pskOn cap)))
      else if code = WOLFSPDM_NEGOTIATE_ALGORITHMS then respAddOut (zoomE (RespBuildAlgorithms cap))
      else if code = SPDM_PSK_EXCHANGE then RespBuildPskExchangeRsp K inb cap
      else if code = SPDM_KEY_EXCHANGE then RespBuildKeyExchangeRsp K inb cap
      else if code = SPDM_VENDOR_DEFINED_REQUEST
      then bindE (RespHandleVendorDefined K inb cap False) (\<lambda>(out, vdCode).
           thenE (if vdCode = WOLFSPDM_VDCODE_GET_PUBK
                  then bindE (getE idPubKey) (\<lambda>pub.
                       bindE (wolfSPDM_Sha384Hash K pub [] []) (\<lambda>ct.
                       zoomE (wolfSPDM_TranscriptAdd ct)))
                  else retE ())
           (retE out))
      else zoomE (RespBuildErrorClear SPDM_ERROR_UNSUPPORTED_REQUEST code cap))"

definition respAdmit :: "wc_env \<Rightarrow> byte \<Rightarrow> bytes \<Rightarrow> nat \<Rightarrow> ('w, 't, bytes) rop" where
  "respAdmit K code inb cap = bindE (getE id) (\<lambda>r.
     if code = SPDM_KEY_EXCHANGE \<and> \<not> useTcg r \<or> code = SPDM_PSK_EXCHANGE \<and> \<not> usePsk r
     then zoomE (RespBuildErrorClear SPDM_ERROR_UNSUPPORTED_REQUEST code cap)
     else if (code = SPDM_KEY_EXCHANGE \<or> code = SPDM_PSK_EXCHANGE) \<and>
       (state (rctx r) = WOLFSPDM_STATE_KEY_EX \<or> state (rctx r) = WOLFSPDM_STATE_CONNECTED)
     then zoomE (RespBuildErrorClear SPDM_ERROR_UNEXPECTED_REQUEST 0 cap)
     else thenE (if code \<noteq> SPDM_VENDOR_DEFINED_REQUEST then zoomE (wolfSPDM_TranscriptAdd inb) else retE ())
          (respSwitch K code inb cap))"

definition RespDispatchClear :: "wc_env \<Rightarrow> bytes \<Rightarrow> nat \<Rightarrow> ('w, 't, bytes) rop" where
  "RespDispatchClear K inb cap =
     thenE (guardE (length inb \<ge> 2) E_FRAMING)
     (let code = inb ! 1 in
      if code = SPDM_GET_VERSION
      then thenE (modE (\<lambda>r. wolfSPDM_RespReset (r\<lparr>rctx := wolfSPDM_TranscriptReset (rctx r)\<rparr>)))
           (respAdmit K code inb cap)
      else bindE (tryE (zoomE (RespSelectVersion (inb ! 0) (code = SPDM_VENDOR_DEFINED_REQUEST)))) (\<lambda>rc.
           case rc of
             Inl e \<Rightarrow> zoomE (RespBuildErrorClear
                (if e = E_BAD_STATE then SPDM_ERROR_UNEXPECTED_REQUEST
                 else SPDM_ERROR_MAJOR_VERSION_MISMATCH) 0 cap)
           | Inr _ \<Rightarrow> respAdmit K code inb cap))"

text \<open>The handler of a decrypted request; the flags are \<^verbatim>\<open>derivedAppKeys\<close> and \<^verbatim>\<open>sessionEnded\<close>.\<close>

definition respSecuredSwitch :: "wc_env \<Rightarrow> byte \<Rightarrow> bytes \<Rightarrow> ('w, 't, bytes \<times> bool \<times> bool) rop" where
  "respSecuredSwitch K code plain = bindE (getE id) (\<lambda>r.
     if code = SPDM_PSK_FINISH
     then thenE (guardE (\<not> (state (rctx r) \<noteq> WOLFSPDM_STATE_KEY_EX \<or> pendingAsym r)) E_BAD_STATE)
          (bindE (RespHandlePskFinish K plain WOLFSPDM_MAX_MSG_SIZE) (\<lambda>out. retE (out, True, False)))
     else if code = SPDM_FINISH
     then thenE (guardE (\<not> (state (rctx r) \<noteq> WOLFSPDM_STATE_KEY_EX \<or> \<not> pendingAsym r)) E_BAD_STATE)
          (bindE (RespHandleFinish K plain WOLFSPDM_MAX_MSG_SIZE) (\<lambda>out. retE (out, True, False)))
     else if code = SPDM_END_SESSION
     then bindE (zoomE (RespBuildEndSessionAck WOLFSPDM_MAX_MSG_SIZE)) (\<lambda>out. retE (out, False, True))
     else if code = SPDM_VENDOR_DEFINED_REQUEST
     then bindE (RespHandleVendorDefined K plain WOLFSPDM_MAX_MSG_SIZE True) (\<lambda>(out, vd). retE (out, False, False))
     else bindE (zoomE (RespBuildErrorClear SPDM_ERROR_UNSUPPORTED_REQUEST code WOLFSPDM_MAX_MSG_SIZE))
            (\<lambda>out. retE (out, False, False)))"

definition RespDispatchSecuredInner :: "wc_env \<Rightarrow> bytes \<Rightarrow> nat \<Rightarrow> ('w, 't, bytes) rop" where
  "RespDispatchSecuredInner K enc cap = bindE (getE rctx) (\<lambda>c.
     thenE (guardE (\<not> (state c \<noteq> WOLFSPDM_STATE_KEY_EX \<and> state c \<noteq> WOLFSPDM_STATE_CONNECTED \<or> sessionId c = 0))
              E_BAD_STATE)
     (bindE (zoomE (RespDecrypt K enc WOLFSPDM_MAX_MSG_SIZE)) (\<lambda>plain.
      thenE (modE (\<lambda>r. r\<lparr>secureInPlain := plain\<rparr>))
      (thenE (guardE (length plain \<ge> 2) E_FRAMING)
      (bindE (respSecuredSwitch K (plain ! 1) plain) (\<lambda>(resp, derivedAppKeys, sessionEnded).
       thenE (modE (\<lambda>r. r\<lparr>secureOutPlain := resp\<rparr>))
       (bindE (zoomE (RespEncrypt K resp cap)) (\<lambda>out.
        thenE (if derivedAppKeys then zoomE (wolfSPDM_DeriveAppDataKeys K) else retE ())
        (thenE (if sessionEnded then modE wolfSPDM_RespReset else retE ())
        (retE out))))))))))"

definition RespDispatchSecured :: "wc_env \<Rightarrow> bytes \<Rightarrow> nat \<Rightarrow> ('w, 't, bytes) rop" where
  "RespDispatchSecured K enc cap =
     finallyE (RespDispatchSecuredInner K enc cap) (\<lambda>r. r\<lparr>secureInPlain := [], secureOutPlain := []\<rparr>)"

definition wolfSPDM_RespHandleMessage :: "wc_env \<Rightarrow> bytes \<Rightarrow> nat \<Rightarrow> ('w, 't, bytes) rop" where
  "wolfSPDM_RespHandleMessage K inBuf cap = bindE (getE id) (\<lambda>r.
     thenE (guardE (respInitialized r) E_BAD_STATE)
     (thenE (guardE (useTcg r \<or> usePsk r) E_BAD_STATE)
     (thenE (guardE (length inBuf \<ge> WOLFSPDM_TCG_HEADER_SIZE) E_FRAMING)
     (let tag = SPDM_Get16BE inBuf 0; msgSize = unat (SPDM_Get32BE inBuf 2);
          payload = take (msgSize - WOLFSPDM_TCG_HEADER_SIZE) (drop WOLFSPDM_TCG_HEADER_SIZE inBuf);
          spdmCap = cap - WOLFSPDM_TCG_HEADER_SIZE in
      thenE (guardE (tag = WOLFSPDM_TCG_TAG_CLEAR \<or> tag = WOLFSPDM_TCG_TAG_SECURED) E_FRAMING)
      (thenE (guardE (WOLFSPDM_TCG_HEADER_SIZE \<le> msgSize \<and> msgSize \<le> length inBuf) E_FRAMING)
      (thenE (zoomE (modE (\<lambda>c. c\<lparr>connectionHandle := SPDM_Get32BE inBuf 6,
                 fipsIndicator := SPDM_Get16BE inBuf 10\<rparr>)))
      (thenE (guardE (cap \<ge> WOLFSPDM_TCG_HEADER_SIZE) E_BUFFER_SMALL)
      (bindE (if tag = WOLFSPDM_TCG_TAG_CLEAR then RespDispatchClear K payload spdmCap
              else RespDispatchSecured K payload spdmCap) (\<lambda>out.
       getE (\<lambda>r. wolfSPDM_WriteTcgHeader tag (of_nat (WOLFSPDM_TCG_HEADER_SIZE + length out))
                 (connectionHandle (rctx r)) (fipsIndicator (rctx r)) @ out))))))))))"

section \<open>Rules for operations on the embedded context\<close>

lemma wpE_zoom [wp_simps]:
  "wpE (zoomE m) Q E r = wpE m (\<lambda>a d. Q a (r\<lparr>rctx := d\<rparr>)) (\<lambda>e d. E e (r\<lparr>rctx := d\<rparr>)) (rctx r)"
  by (simp add: wpE_def zoomE_def split: prod.splits sum.splits)

lemma succ_zoom [succ_simps]:
  "zoomE m r = (Inr a, t) \<longleftrightarrow> (\<exists>d. m (rctx r) = (Inr a, d) \<and> t = r\<lparr>rctx := d\<rparr>)"
  by (auto simp: zoomE_def split: prod.splits)

lemma keeps_zoom [keeps_intros]: "(\<And>r. keeps (\<lambda>c. f (r\<lparr>rctx := c\<rparr>)) m) \<Longrightarrow> keeps f (zoomE m)"
proof (unfold keeps_def zoomE_def, intro allI)
  fix s assume a: "\<And>r. \<forall>s. f (r\<lparr>rctx := snd (m s)\<rparr>) = f (r\<lparr>rctx := s\<rparr>)"
  show "f (snd (case m (rctx s) of (x, d) \<Rightarrow> (x, s\<lparr>rctx := d\<rparr>))) = f s"
    using a [of s, rule_format, of "rctx s"] by (simp add: case_prod_unfold)
qed

lemma holdsE_zoom [holds_intros]: "(\<And>r. holdsE (\<lambda>c. P (r\<lparr>rctx := c\<rparr>)) m) \<Longrightarrow> holdsE P (zoomE m)"
proof (unfold holdsE_def zoomE_def, intro allI impI)
  fix s assume a: "\<And>r. \<forall>s. P (r\<lparr>rctx := s\<rparr>) \<longrightarrow> P (r\<lparr>rctx := snd (m s)\<rparr>)" and "P s"
  then show "P (snd (case m (rctx s) of (x, d) \<Rightarrow> (x, s\<lparr>rctx := d\<rparr>)))"
    using a [of s, rule_format, of "rctx s"] by (simp add: case_prod_unfold)
qed

end
