(* ===== verification/Spdm_RespRules.thy ===== *)
theory Spdm_RespRules
  imports Spdm_Responder
begin

text \<open>
  Proof rules for the responder: frames of its handlers, and one rule per dispatcher that
  reduces an assertion about a message to the handlers that message can reach. Every property
  of the responder is proved through them.
\<close>

section \<open>Frames of the handlers\<close>

lemma keeps_holds: "keeps P m \<Longrightarrow> holdsE P m"
  by (simp add: keeps_def holdsE_def)

lemma holdsE_wpE: "holdsE P m \<Longrightarrow> P s \<Longrightarrow> wpE m (\<lambda>_. P) (\<lambda>_. P) s"
  by (auto simp: wpE_iff dest: holdsE_D)

lemma wpE_same: "wpE m (\<lambda>_. P) (\<lambda>_. P) s \<longleftrightarrow> P (snd (m s))"
  by (simp add: wpE_def split: prod.splits sum.splits)

lemma holdsE_iff: "holdsE P m \<longleftrightarrow> (\<forall>s. P s \<longrightarrow> wpE m (\<lambda>_. P) (\<lambda>_. P) s)"
  by (simp add: holdsE_def wpE_same)

lemma wpE_then:
  "wpE m (\<lambda>_. P) (\<lambda>_. P) s \<Longrightarrow> (\<And>a. holdsE P (n a)) \<Longrightarrow> wpE (bindE m n) (\<lambda>_. P) (\<lambda>_. P) s"
  by (auto simp: wpE_bind holdsE_wpE elim: wpE_mono)

lemma keeps_RespEncrypt [keeps_intros]:
  assumes "\<And>c. f (RespSwapDataDir c) = f c" "\<And>c x. f (c\<lparr>rng := x\<rparr>) = f c" "\<And>c x. f (c\<lparr>reqSeqNum := x\<rparr>) = f c"
  shows "keeps f (RespEncrypt K p n)"
  unfolding RespEncrypt_def by (intro keeps_intros assms)

lemma keeps_RespDecrypt [keeps_intros]:
  assumes "\<And>c. f (RespSwapDataDir c) = f c" "\<And>c x. f (c\<lparr>rspSeqNum := x\<rparr>) = f c"
  shows "keeps f (RespDecrypt K p n)"
  unfolding RespDecrypt_def by (intro keeps_intros assms)

lemma keeps_resp_builders [keeps_intros]:
  "keeps f (RespBuildErrorClear a b n)" "keeps f (RespBuildCapabilities p n)"
  "keeps f (RespBuildAlgorithms n)" "keeps f (RespBuildEndSessionAck n)"
  unfolding RespBuildErrorClear_def RespBuildCapabilities_def RespBuildAlgorithms_def RespBuildEndSessionAck_def
  by (intro keeps_intros)+

lemma keeps_respSign [keeps_intros]:
  assumes "\<And>r c x. f (r\<lparr>rctx := c\<lparr>rng := x\<rparr>\<rparr>) = f (r\<lparr>rctx := c\<rparr>)"
    "\<And>r c x y b. f (r\<lparr>rctx := c\<lparr>reqPrivKey := x, reqPubKey := y, flags := (flags c)\<lparr>hasReqKeyPair := b\<rparr>\<rparr>\<rparr>) = f (r\<lparr>rctx := c\<rparr>)"
  shows "keeps f (respSign K h)"
  unfolding respSign_def Let_def by (intro keeps_intros assms)

lemma holdsE_TranscriptAdd_bound [holds_intros]:
  assumes "\<And>c x. P c \<Longrightarrow> length x \<le> WOLFSPDM_MAX_TRANSCRIPT \<Longrightarrow> P (c\<lparr>transcript := x\<rparr>)"
  shows "holdsE P (wolfSPDM_TranscriptAdd d)"
  using assms by (auto simp: wolfSPDM_TranscriptAdd_def holdsE_def opE_defs)

text \<open>A digest depends on its input only.\<close>

lemma Sha384Hash_result: "fst (wolfSPDM_Sha384Hash K a b c s) = fst (wolfSPDM_Sha384Hash K a b c ())"
  by (auto simp: wolfSPDM_Sha384Hash_def sha384Feed_def opE_defs split: option.splits)

lemma wpE_Sha384Hash:
  "wpE (wolfSPDM_Sha384Hash K a b c) Q E s \<longleftrightarrow>
     (case fst (wolfSPDM_Sha384Hash K a b c ()) of Inl e \<Rightarrow> E e s | Inr h \<Rightarrow> Q h s)"
proof -
  have "snd (wolfSPDM_Sha384Hash K a b c s) = s"
    using keepsD [OF keeps_Sha384Hash [of id]] by (metis id_apply prod.collapse)
  then show ?thesis
    unfolding wpE_def Sha384Hash_result [of K a b c s, symmetric]
    by (simp add: case_prod_unfold split: sum.splits)
qed

text \<open>What a frame header writes, and the message it carries.\<close>

definition respHdr :: "word32 \<Rightarrow> word16 \<Rightarrow> ('w, 't) WOLFSPDM_RESP_CTX \<Rightarrow> ('w, 't) WOLFSPDM_RESP_CTX" where
  "respHdr x y r = r\<lparr>rctx := (rctx r)\<lparr>connectionHandle := x, fipsIndicator := y\<rparr>\<rparr>"

definition framePayload :: "bytes \<Rightarrow> bytes" where
  "framePayload inBuf = take (unat (SPDM_Get32BE inBuf 2) - WOLFSPDM_TCG_HEADER_SIZE) (drop WOLFSPDM_TCG_HEADER_SIZE inBuf)"

lemma wp_HandleMessage:
  assumes "P r" "\<And>x y. P (respHdr x y r)"
    and "\<And>x y n. SPDM_Get16BE inBuf 0 = WOLFSPDM_TCG_TAG_CLEAR \<Longrightarrow>
          wpE (RespDispatchClear K (framePayload inBuf) n) (\<lambda>_. P) (\<lambda>_. P) (respHdr x y r)"
    and "\<And>x y n. SPDM_Get16BE inBuf 0 = WOLFSPDM_TCG_TAG_SECURED \<Longrightarrow>
          wpE (RespDispatchSecured K (framePayload inBuf) n) (\<lambda>_. P) (\<lambda>_. P) (respHdr x y r)"
  shows "wpE (wolfSPDM_RespHandleMessage K inBuf cap) (\<lambda>_. P) (\<lambda>_. P) r"
  unfolding wolfSPDM_RespHandleMessage_def Let_def framePayload_def [symmetric] wpE_bind [of "getE _"] wpE_get
    wpE_bind [of "guardE _ _"] wpE_guard wpE_bind [of "zoomE (modE _)"] wpE_zoom wpE_mod id_apply respHdr_def [symmetric]
  using assms by (auto intro!: wpE_then holds_intros)

text \<open>Application keys are derived for a finish only, which is refused outside the handshake.\<close>

lemma SecuredSwitch_derives:
  "wpE (respSecuredSwitch K code plain) (\<lambda>x _. fst (snd x) \<longrightarrow> state (rctx r) = WOLFSPDM_STATE_KEY_EX) (\<lambda>_ _. True) r"
unfolding respSecuredSwitch_def wpE_bind wpE_get wpE_if wpE_guard wpE_ret split_def
  by (auto intro!: wpE_any)

text \<open>
  The secured dispatcher, once for every assertion that does not look at the scratch buffers:
  what decryption gives, what the handler does with it, and that sealing the answer, the
  switch to application keys and the end of a session keep the assertion. The keys are
  switched only when the handshake was still going on.
\<close>

lemma wp_DispatchSecured_keyed:
  fixes r :: "('w, 't) WOLFSPDM_RESP_CTX"
  assumes scratch: "\<And>(s :: ('w, 't) WOLFSPDM_RESP_CTX) x. P (s\<lparr>secureInPlain := x\<rparr>) = P s"
      "\<And>(s :: ('w, 't) WOLFSPDM_RESP_CTX) x. P (s\<lparr>secureOutPlain := x\<rparr>) = P s"
    and idle: "P r"
    and decF: "\<And>e c. RespDecrypt K enc WOLFSPDM_MAX_MSG_SIZE (rctx r) = (Inl e, c) \<Longrightarrow> P (r\<lparr>rctx := c\<rparr>)"
    and decS: "\<And>plain c. RespDecrypt K enc WOLFSPDM_MAX_MSG_SIZE (rctx r) = (Inr plain, c) \<Longrightarrow> P (r\<lparr>rctx := c\<rparr>)"
    and handler: "\<And>plain c. state (rctx r) = WOLFSPDM_STATE_KEY_EX \<or> state (rctx r) = WOLFSPDM_STATE_CONNECTED \<Longrightarrow>
        sessionId (rctx r) \<noteq> 0 \<Longrightarrow>
        RespDecrypt K enc WOLFSPDM_MAX_MSG_SIZE (rctx r) = (Inr plain, c) \<Longrightarrow>
        wpE (respSecuredSwitch K (plain ! 1) plain) (\<lambda>_. P) (\<lambda>_. P) (r\<lparr>rctx := c, secureInPlain := plain\<rparr>)"
    and seal: "\<And>resp. holdsE P (zoomE (RespEncrypt K resp cap))"
      "state (rctx r) = WOLFSPDM_STATE_KEY_EX \<Longrightarrow> holdsE P (zoomE (wolfSPDM_DeriveAppDataKeys K))"
      "\<And>s. P s \<Longrightarrow> P (wolfSPDM_RespReset s)"
  shows "wpE (RespDispatchSecured K enc cap) (\<lambda>_. P) (\<lambda>_. P) r"
proof -
  let ?rest = "\<lambda>(resp, k, e). thenE (modE (\<lambda>r. r\<lparr>secureOutPlain := resp\<rparr>)) (bindE (zoomE (RespEncrypt K resp cap)) (\<lambda>out.
        thenE (if k then zoomE (wolfSPDM_DeriveAppDataKeys K) else retE ())
        (thenE (if e then modE wolfSPDM_RespReset else retE ()) (retE out))))"
  have rest: "holdsE P (?rest (resp, k, e))" if "k \<longrightarrow> state (rctx r) = WOLFSPDM_STATE_KEY_EX" for resp k e
    using that unfolding prod.case by (intro holdsE_bind holdsE_if holdsE_mod holdsE_ret seal) (simp_all add: scratch seal(3))
  have wipe: "P (s\<lparr>secureInPlain := x, secureOutPlain := y\<rparr>) = P s" for s x y
    by (simp add: scratch)
  have sw: "wpE (bindE (respSecuredSwitch K (plain ! 1) plain) ?rest) (\<lambda>_. P) (\<lambda>_. P) (r\<lparr>rctx := c, secureInPlain := plain\<rparr>)"
    if a: "state (rctx r) = WOLFSPDM_STATE_KEY_EX \<or> state (rctx r) = WOLFSPDM_STATE_CONNECTED" "sessionId (rctx r) \<noteq> 0"
      "RespDecrypt K enc WOLFSPDM_MAX_MSG_SIZE (rctx r) = (Inr plain, c)" for plain c
  proof -
    have "state c = state (rctx r)" using keepsD [OF keeps_RespDecrypt [of state] a(3)] by (simp add: RespSwapDataDir_def)
    then have k: "wpE (respSecuredSwitch K (plain ! 1) plain) (\<lambda>x _. fst (snd x) \<longrightarrow> state (rctx r) = WOLFSPDM_STATE_KEY_EX) (\<lambda>_ _. True)
        (r\<lparr>rctx := c, secureInPlain := plain\<rparr>)"
      using SecuredSwitch_derives [of K "plain ! 1" plain "r\<lparr>rctx := c, secureInPlain := plain\<rparr>"] by (simp del: One_nat_def)
    show ?thesis
    proof (subst wpE_bind, rule wpE_mono [OF wpE_conj [OF handler [OF a] k]])
      fix x :: "bytes \<times> bool \<times> bool" and t :: "('w, 't) WOLFSPDM_RESP_CTX"
      assume x: "P t \<and> (fst (snd x) \<longrightarrow> state (rctx r) = WOLFSPDM_STATE_KEY_EX)"
      then show "wpE (?rest x) (\<lambda>_. P) (\<lambda>_. P) t"
        using rest [of "fst (snd x)" "fst x" "snd (snd x)"] by (intro holdsE_wpE) simp_all
    qed simp
  qed
  show ?thesis
    unfolding RespDispatchSecured_def RespDispatchSecuredInner_def wpE_finally wipe wpE_bind [of "getE _"] wpE_get
      wpE_bind [of "guardE _ _"] wpE_guard wpE_bind [of "zoomE (RespDecrypt _ _ _)"] wpE_zoom
      wpE_bind [of "modE _"] wpE_mod
    using idle sw by (auto simp del: One_nat_def simp: wpE_iff [of "RespDecrypt _ _ _"] scratch decS intro!: decF)
qed


lemma wp_DispatchSecured:
  fixes r :: "('w, 't) WOLFSPDM_RESP_CTX"
  assumes scratch: "\<And>(s :: ('w, 't) WOLFSPDM_RESP_CTX) x. P (s\<lparr>secureInPlain := x\<rparr>) = P s"
      "\<And>(s :: ('w, 't) WOLFSPDM_RESP_CTX) x. P (s\<lparr>secureOutPlain := x\<rparr>) = P s"
    and idle: "P r"
    and decF: "\<And>e c. RespDecrypt K enc WOLFSPDM_MAX_MSG_SIZE (rctx r) = (Inl e, c) \<Longrightarrow> P (r\<lparr>rctx := c\<rparr>)"
    and decS: "\<And>plain c. RespDecrypt K enc WOLFSPDM_MAX_MSG_SIZE (rctx r) = (Inr plain, c) \<Longrightarrow> P (r\<lparr>rctx := c\<rparr>)"
    and handler: "\<And>plain c. state (rctx r) = WOLFSPDM_STATE_KEY_EX \<or> state (rctx r) = WOLFSPDM_STATE_CONNECTED \<Longrightarrow>
        sessionId (rctx r) \<noteq> 0 \<Longrightarrow>
        RespDecrypt K enc WOLFSPDM_MAX_MSG_SIZE (rctx r) = (Inr plain, c) \<Longrightarrow>
        wpE (respSecuredSwitch K (plain ! 1) plain) (\<lambda>_. P) (\<lambda>_. P) (r\<lparr>rctx := c, secureInPlain := plain\<rparr>)"
    and seal: "\<And>resp. holdsE P (zoomE (RespEncrypt K resp cap))" "holdsE P (zoomE (wolfSPDM_DeriveAppDataKeys K))"
      "\<And>s. P s \<Longrightarrow> P (wolfSPDM_RespReset s)"
  shows "wpE (RespDispatchSecured K enc cap) (\<lambda>_. P) (\<lambda>_. P) r"
  by (rule wp_DispatchSecured_keyed; (fact assms | rule seal(2)))

section \<open>Clear messages and decrypted requests\<close>

definition isExchange :: "byte \<Rightarrow> bool" where
  "isExchange code \<longleftrightarrow> code = SPDM_PSK_EXCHANGE \<or> code = SPDM_KEY_EXCHANGE"

text \<open>\<open>entered r s\<close>: between \<open>r\<close> and the handler, \<open>s\<close>, only the version and the transcript were written.\<close>

definition entered :: "('w, 't) WOLFSPDM_RESP_CTX \<Rightarrow> ('w, 't) WOLFSPDM_RESP_CTX \<Rightarrow> bool" where
  "entered r s \<longleftrightarrow> (\<exists>v t. s = r\<lparr>rctx := (rctx r)\<lparr>spdmVersion := v, transcript := t\<rparr>\<rparr>)"

definition isIdle :: "('w, 't) WOLFSPDM_RESP_CTX \<Rightarrow> bool" where
  "isIdle r \<longleftrightarrow> state (rctx r) \<noteq> WOLFSPDM_STATE_KEY_EX \<and> state (rctx r) \<noteq> WOLFSPDM_STATE_CONNECTED"

lemma entered_refl: "entered r r"
  unfolding entered_def by (intro exI [of _ "spdmVersion (rctx r)"] exI [of _ "transcript (rctx r)"]) simp

lemma entered_version: "entered r (r\<lparr>rctx := (rctx r)\<lparr>spdmVersion := v\<rparr>\<rparr>)"
  unfolding entered_def by (intro exI [of _ v] exI [of _ "transcript (rctx r)"]) simp

lemma entered_transcript: "entered r s \<Longrightarrow> entered r (s\<lparr>rctx := (rctx s)\<lparr>transcript := t\<rparr>\<rparr>)"
  unfolding entered_def by (elim exE, hypsubst, intro exI) simp

lemma entered_idle: "entered r s \<Longrightarrow> isIdle s = isIdle r"
  by (auto simp: entered_def isIdle_def)

abbreviation (input) respRestart :: "('w, 't) WOLFSPDM_RESP_CTX \<Rightarrow> ('w, 't) WOLFSPDM_RESP_CTX" where
  "respRestart r \<equiv> wolfSPDM_RespReset (r\<lparr>rctx := wolfSPDM_TranscriptReset (rctx r)\<rparr>)"

lemma wp_zoom_keeps_id: "keeps id m \<Longrightarrow> P r \<Longrightarrow> wpE (zoomE m) (\<lambda>_. P) (\<lambda>_. P) r"
  using keeps_wpE [of id m "rctx r"] by (auto simp: wpE_zoom elim!: wpE_mono)

lemma wp_addOut:
  assumes "\<And>s t. P s \<Longrightarrow> length t \<le> WOLFSPDM_MAX_TRANSCRIPT \<Longrightarrow> P (s\<lparr>rctx := (rctx s)\<lparr>transcript := t\<rparr>\<rparr>)"
    and "wpE m (\<lambda>_. P) (\<lambda>_. P) r"
  shows "wpE (respAddOut m) (\<lambda>_. P) (\<lambda>_. P) r"
  unfolding respAddOut_def
proof (rule wpE_then [OF assms(2)])
  fix a
  have "holdsE P (zoomE (wolfSPDM_TranscriptAdd a))"
    using assms(1) by (auto simp: holdsE_iff wpE_zoom wolfSPDM_TranscriptAdd_def wp_simps)
  then show "holdsE P (thenE (zoomE (wolfSPDM_TranscriptAdd a)) (retE a))"
    by (intro holdsE_bind holdsE_ret)
qed

lemma wp_Switch:
  assumes tr: "\<And>s t. P s \<Longrightarrow> length t \<le> WOLFSPDM_MAX_TRANSCRIPT \<Longrightarrow> P (s\<lparr>rctx := (rctx s)\<lparr>transcript := t\<rparr>\<rparr>)"
    and idle: "P r"
    and ver: "code = SPDM_GET_VERSION \<Longrightarrow> P (r\<lparr>rctx := (rctx r)\<lparr>spdmVersion := 0, state := WOLFSPDM_STATE_VERSION\<rparr>\<rparr>)"
    and psk: "code = SPDM_PSK_EXCHANGE \<Longrightarrow> wpE (RespBuildPskExchangeRsp K inb cap) (\<lambda>_. P) (\<lambda>_. P) r"
    and kex: "code = SPDM_KEY_EXCHANGE \<Longrightarrow> wpE (RespBuildKeyExchangeRsp K inb cap) (\<lambda>_. P) (\<lambda>_. P) r"
    and vd: "wpE (RespHandleVendorDefined K inb cap False) (\<lambda>_. P) (\<lambda>_. P) r"
  shows "wpE (respSwitch K code inb cap) (\<lambda>_. P) (\<lambda>_. P) r"
proof -
  have add: "holdsE P (zoomE (wolfSPDM_TranscriptAdd x))" for x
    using tr by (auto simp: holdsE_iff wpE_zoom wolfSPDM_TranscriptAdd_def wp_simps)
  have sha: "holdsE P (wolfSPDM_Sha384Hash K x [] [])" for x
    by (intro keeps_holds keeps_intros)
  have vd2: "wpE (bindE (RespHandleVendorDefined K inb cap False) (\<lambda>(out, vdCode).
           thenE (if vdCode = WOLFSPDM_VDCODE_GET_PUBK
                  then bindE (getE idPubKey) (\<lambda>pub.
                       bindE (wolfSPDM_Sha384Hash K pub [] []) (\<lambda>ct. zoomE (wolfSPDM_TranscriptAdd ct)))
                  else retE ())
           (retE out))) (\<lambda>_. P) (\<lambda>_. P) r"
    by (rule wpE_then [OF vd])
       (intro holdsE_case_prod holdsE_bind holdsE_if holdsE_get holdsE_ret add sha)
  have ver2: "wpE (zoomE (RespBuildVersion cap)) (\<lambda>_. P) (\<lambda>_. P) r" if "code = SPDM_GET_VERSION"
    using idle ver [OF that] by (simp add: RespBuildVersion_def wp_simps)
  have quiet: "wpE (respAddOut (zoomE (RespBuildCapabilities b cap))) (\<lambda>_. P) (\<lambda>_. P) r"
    "wpE (respAddOut (zoomE (RespBuildAlgorithms cap))) (\<lambda>_. P) (\<lambda>_. P) r"
    "wpE (zoomE (RespBuildErrorClear x y cap)) (\<lambda>_. P) (\<lambda>_. P) r" for b x y
    by (intro wp_addOut wp_zoom_keeps_id keeps_intros idle tr; assumption)+
  show ?thesis
    unfolding respSwitch_def wpE_if wpE_bind [of "getE usePsk"] wpE_get
    using vd2 quiet psk kex wp_addOut [OF tr ver2] by simp
qed

lemma wp_Admit:
  assumes tr: "\<And>s t. P s \<Longrightarrow> length t \<le> WOLFSPDM_MAX_TRANSCRIPT \<Longrightarrow> P (s\<lparr>rctx := (rctx s)\<lparr>transcript := t\<rparr>\<rparr>)"
    and idle: "P r"
    and sw: "\<And>t. (isExchange code \<Longrightarrow> isIdle r) \<Longrightarrow> P (r\<lparr>rctx := (rctx r)\<lparr>transcript := t\<rparr>\<rparr>) \<Longrightarrow>
        wpE (respSwitch K code inb cap) (\<lambda>_. P) (\<lambda>_. P) (r\<lparr>rctx := (rctx r)\<lparr>transcript := t\<rparr>\<rparr>)"
  shows "wpE (respAdmit K code inb cap) (\<lambda>_. P) (\<lambda>_. P) r"
proof -
  have err: "wpE (zoomE (RespBuildErrorClear a b cap)) (\<lambda>_. P) (\<lambda>_. P) r" for a b
    by (intro wp_zoom_keeps_id keeps_intros idle)
  have sw0: "(isExchange code \<Longrightarrow> isIdle r) \<Longrightarrow> wpE (respSwitch K code inb cap) (\<lambda>_. P) (\<lambda>_. P) r"
    using sw [of "transcript (rctx r)"] idle by simp
  have go: "wpE (bindE (if code \<noteq> SPDM_VENDOR_DEFINED_REQUEST then zoomE (wolfSPDM_TranscriptAdd inb) else retE ())
       (\<lambda>_. respSwitch K code inb cap)) (\<lambda>_. P) (\<lambda>_. P) r" if "isExchange code \<Longrightarrow> isIdle r"
    using idle tr [OF idle] sw [OF that] sw0 [OF that]
    by (auto simp: wolfSPDM_TranscriptAdd_def wp_simps)
  show ?thesis
    unfolding respAdmit_def wpE_bind [of "getE _"] wpE_get wpE_if
    using err go by (cases "isExchange code \<and> \<not> isIdle r") (auto simp: isExchange_def isIdle_def)
qed

lemma wp_DispatchClear:
  assumes tr: "\<And>s t. P s \<Longrightarrow> length t \<le> WOLFSPDM_MAX_TRANSCRIPT \<Longrightarrow> P (s\<lparr>rctx := (rctx s)\<lparr>transcript := t\<rparr>\<rparr>)"
    and idle: "P r"
    and sel: "\<And>v. state (rctx r) = WOLFSPDM_STATE_VERSION \<Longrightarrow> v = SPDM_VERSION_12 \<or> v = SPDM_VERSION_13 \<Longrightarrow>
        P (r\<lparr>rctx := (rctx r)\<lparr>spdmVersion := v\<rparr>\<rparr>)"
    and reset: "P (respRestart r)"
      "\<And>t. P ((respRestart r)\<lparr>rctx := (rctx (respRestart r))\<lparr>transcript := t\<rparr>\<rparr>) \<Longrightarrow>
         P ((respRestart r)\<lparr>rctx := (rctx (respRestart r))\<lparr>transcript := t, spdmVersion := 0, state := WOLFSPDM_STATE_VERSION\<rparr>\<rparr>)"
    and psk: "\<And>s. P s \<Longrightarrow> entered r s \<Longrightarrow> isIdle r \<Longrightarrow> spdmVersion (rctx s) \<noteq> 0 \<Longrightarrow>
        wpE (RespBuildPskExchangeRsp K inb cap) (\<lambda>_. P) (\<lambda>_. P) s"
    and kex: "\<And>s. P s \<Longrightarrow> entered r s \<Longrightarrow> isIdle r \<Longrightarrow> spdmVersion (rctx s) \<noteq> 0 \<Longrightarrow>
        wpE (RespBuildKeyExchangeRsp K inb cap) (\<lambda>_. P) (\<lambda>_. P) s"
    and vd: "\<And>s. P s \<Longrightarrow> entered r s \<or> entered (respRestart r) s \<Longrightarrow>
        wpE (RespHandleVendorDefined K inb cap False) (\<lambda>_. P) (\<lambda>_. P) s"
  shows "wpE (RespDispatchClear K inb cap) (\<lambda>_. P) (\<lambda>_. P) r"
proof -
  have ver: "v < 0x12 \<or> 0x13 < v \<or> v = 0x12 \<or> v = 0x13" for v :: byte by unat_arith
  have adm: "wpE (respAdmit K code inb cap) (\<lambda>_. P) (\<lambda>_. P) s"
    if "P s" "entered r s" "code \<noteq> SPDM_GET_VERSION" "isExchange code \<Longrightarrow> spdmVersion (rctx s) \<noteq> 0" for code s
  proof (rule wp_Admit [where P = P, OF tr that(1)]; assumption?)
    fix t assume a: "isExchange code \<Longrightarrow> isIdle s" "P (s\<lparr>rctx := (rctx s)\<lparr>transcript := t\<rparr>\<rparr>)"
    let ?s = "s\<lparr>rctx := (rctx s)\<lparr>transcript := t\<rparr>\<rparr>"
    note e = entered_transcript [OF that(2), of t] and i = entered_idle [OF that(2)]
    show "wpE (respSwitch K code inb cap) (\<lambda>_. P) (\<lambda>_. P) ?s"
      using that(3,4) a i e by (intro wp_Switch [where P = P, OF tr a(2)] psk kex vd) (auto simp: isExchange_def)
  qed
  have rst: "wpE (respAdmit K SPDM_GET_VERSION inb cap) (\<lambda>_. P) (\<lambda>_. P) (respRestart r)"
  proof (rule wp_Admit [where P = P, OF tr reset(1)]; assumption?)
    fix t assume a: "P ((respRestart r)\<lparr>rctx := (rctx (respRestart r))\<lparr>transcript := t\<rparr>\<rparr>)"
    show "wpE (respSwitch K SPDM_GET_VERSION inb cap) (\<lambda>_. P) (\<lambda>_. P)
        ((respRestart r)\<lparr>rctx := (rctx (respRestart r))\<lparr>transcript := t\<rparr>\<rparr>)"
      using reset(2) [OF a] 
      by (intro wp_Switch [where P = P, OF tr a] vd a) (simp_all add: entered_transcript entered_refl)
  qed
  have err: "wpE (zoomE (RespBuildErrorClear a b cap)) (\<lambda>_. P) (\<lambda>_. P) r" for a b
    by (intro wp_zoom_keeps_id keeps_intros idle)
  have sel2: "wpE (RespSelectVersion v isVd)
      (\<lambda>_ c. P (r\<lparr>rctx := c\<rparr>) \<and> entered r (r\<lparr>rctx := c\<rparr>) \<and> (isVd \<or> spdmVersion c \<noteq> 0)) (\<lambda>_ c. c = rctx r) (rctx r)" for v isVd
    using idle sel [of v] ver [of v] 
    by (auto simp: RespSelectVersion_def wp_simps entered_refl entered_version)
  show ?thesis
    unfolding RespDispatchClear_def Let_def wpE_bind [of "guardE _ _"] wpE_guard wpE_if wpE_bind [of "modE _"] wpE_mod
      wpE_bind [of "tryE _"] wpE_try wpE_zoom
    using idle rst
    by (auto simp del: One_nat_def simp: isExchange_def wpE_zoom [symmetric] intro!: wpE_mono [OF sel2] adm err)
qed

lemma wp_SecuredSwitch:
  assumes "P r"
    and fin: "\<And>isAsym c. code = (if isAsym then SPDM_FINISH else SPDM_PSK_FINISH) \<Longrightarrow>
        state (rctx r) = WOLFSPDM_STATE_KEY_EX \<Longrightarrow> pendingAsym r = isAsym \<Longrightarrow>
        wpE (respFinish K c isAsym plain WOLFSPDM_MAX_MSG_SIZE) (\<lambda>_. P) (\<lambda>_. P) r"
    and vd: "wpE (RespHandleVendorDefined K plain WOLFSPDM_MAX_MSG_SIZE True) (\<lambda>_. P) (\<lambda>_. P) r"
  shows "wpE (respSecuredSwitch K code plain) (\<lambda>_. P) (\<lambda>_. P) r"
proof -
  have quiet: "wpE (zoomE (RespBuildEndSessionAck n)) (\<lambda>_. P) (\<lambda>_. P) r"
    "wpE (zoomE (RespBuildErrorClear x y n)) (\<lambda>_. P) (\<lambda>_. P) r" for x y n
    by (intro wp_zoom_keeps_id keeps_intros assms(1))+
  note steps = wpE_then [OF fin] wpE_then [OF vd] wpE_then [OF quiet(1)] wpE_then [OF quiet(2)]
  show ?thesis
    unfolding respSecuredSwitch_def RespHandlePskFinish_def RespHandleFinish_def wpE_bind [of "getE _"] wpE_get wpE_if
      wpE_bind [of "guardE _ _"] wpE_guard
    using assms(1) by (auto intro!: steps holds_intros split: if_splits)
qed

end
