(* ===== verification/Spdm_Handshake.thy ===== *)
theory Spdm_Handshake
  imports Spdm_RespRules
begin

text \<open>
  Requester and responder together: the responder of \<open>Spdm_Responder\<close> behind the requester's
  I/O callback, for any wolfCrypt that does its job. Here is what both kinds of connection
  share: the version exchange, records in both directions, and the finish that leaves the two
  sides with the same keys and sequence numbers.
\<close>

section \<open>A wolfCrypt that works\<close>

text \<open>Documented behaviour: on inputs of the sizes used here no call fails, and outputs have the size asked for.\<close>

definition wc_works :: "wc_env \<Rightarrow> bool" where
  "wc_works K \<longleftrightarrow> wc_InitSha384 K \<and> (\<forall>a d. wc_Sha384Update K a d) \<and>
     (\<forall>d. \<exists>h. wc_Sha384Final K d = Some h \<and> length h = WOLFSPDM_HASH_SIZE) \<and>
     (\<forall>k d. \<exists>h. wc_Hmac K k d = Some h \<and> length h = WOLFSPDM_HASH_SIZE) \<and>
     (\<forall>s k. \<exists>h. wc_HKDF_Extract K s k = Some h \<and> length h = WOLFSPDM_HASH_SIZE) \<and>
     (\<forall>k i n. n \<le> WOLFSPDM_HASH_SIZE \<longrightarrow> (\<exists>h. wc_HKDF_Expand K k i n = Some h \<and> length h = n)) \<and>
     (\<forall>k. length k = WOLFSPDM_AEAD_KEY_SIZE \<longrightarrow> wc_AesGcmSetKey K k) \<and>
     (\<forall>k iv p a. length k = WOLFSPDM_AEAD_KEY_SIZE \<longrightarrow> length iv = WOLFSPDM_AEAD_IV_SIZE \<longrightarrow> length p \<le> 0xFFFF \<longrightarrow>
        wc_AesGcmEncrypt K k iv p a \<noteq> None) \<and>
     (\<forall>r n. n \<le> WOLFSPDM_HASH_SIZE \<longrightarrow> (\<exists>out r'. wc_RNG_GenerateBlock K r n = (Some out, r'))) \<and>
     wc_rng_ok K \<and> wc_gcm_ok K"

definition shaOf :: "wc_env \<Rightarrow> bytes \<Rightarrow> bytes" where
  "shaOf K d = the (wc_Sha384Final K d)"

definition hmacOf :: "wc_env \<Rightarrow> bytes \<Rightarrow> bytes \<Rightarrow> bytes" where
  "hmacOf K k d = the (wc_Hmac K k d)"

definition extractOf :: "wc_env \<Rightarrow> bytes \<Rightarrow> bytes \<Rightarrow> bytes" where
  "extractOf K s k = the (wc_HKDF_Extract K s k)"

definition labelOf :: "wc_env \<Rightarrow> byte \<Rightarrow> bytes \<Rightarrow> bytes \<Rightarrow> bytes \<Rightarrow> nat \<Rightarrow> bytes" where
  "labelOf K ver secret label context n =
     the (wc_HKDF_Expand K secret (SPDM_Set16LE (of_nat n) @ SPDM_BIN_CONCAT_PREFIX ver @ label @ context) n)"

lemma works_hash:
  assumes "wc_works K"
  shows "wolfSPDM_TranscriptHash K c = (Inr (shaOf K (transcript c)), c)" "length (shaOf K d) = WOLFSPDM_HASH_SIZE"
    "wolfSPDM_ComputeVerifyData K k d s = (Inr (hmacOf K k d), s)" "length (hmacOf K k d) = WOLFSPDM_HASH_SIZE"
    "wc_HKDF_Extract K x k = Some (extractOf K x k)" "length (extractOf K x k) = WOLFSPDM_HASH_SIZE"
proof -
  obtain h where "wc_Sha384Final K d = Some h" "length h = WOLFSPDM_HASH_SIZE" using assms unfolding wc_works_def by blast
  then show "length (shaOf K d) = WOLFSPDM_HASH_SIZE" by (simp add: shaOf_def)
  obtain h where h: "wc_Sha384Final K (transcript c) = Some h" using assms unfolding wc_works_def by blast
  have "wc_InitSha384 K" "\<And>a d. wc_Sha384Update K a d" using assms by (simp_all add: wc_works_def)
  with h show "wolfSPDM_TranscriptHash K c = (Inr (shaOf K (transcript c)), c)"
    by (cases "transcript c = []") (simp_all add: wolfSPDM_TranscriptHash_def wolfSPDM_Sha384Hash_def sha384Feed_def shaOf_def opE_defs)
  obtain h where "wc_Hmac K k d = Some h" "length h = WOLFSPDM_HASH_SIZE" using assms unfolding wc_works_def by blast
  then show "wolfSPDM_ComputeVerifyData K k d s = (Inr (hmacOf K k d), s)" "length (hmacOf K k d) = WOLFSPDM_HASH_SIZE"
    by (simp_all add: wolfSPDM_ComputeVerifyData_def hmacOf_def opE_defs)
  obtain h where "wc_HKDF_Extract K x k = Some h" "length h = WOLFSPDM_HASH_SIZE" using assms unfolding wc_works_def by blast
  then show "wc_HKDF_Extract K x k = Some (extractOf K x k)" "length (extractOf K x k) = WOLFSPDM_HASH_SIZE"
    by (simp_all add: extractOf_def)
qed

lemma works_label:
  assumes "wc_works K" "n \<le> WOLFSPDM_HASH_SIZE" "length label + length context \<le> 118"
  shows "wolfSPDM_HkdfExpandLabel K ver secret label context n s = (Inr (labelOf K ver secret label context n), s)"
    "length (labelOf K ver secret label context n) = n"
proof -
  obtain h where "wc_HKDF_Expand K secret (SPDM_Set16LE (of_nat n) @ SPDM_BIN_CONCAT_PREFIX ver @ label @ context) n = Some h"
    "length h = n" using assms(1,2) unfolding wc_works_def by meson
  then show "wolfSPDM_HkdfExpandLabel K ver secret label context n s = (Inr (labelOf K ver secret label context n), s)"
    "length (labelOf K ver secret label context n) = n"
    using assms(3) by (simp_all add: wolfSPDM_HkdfExpandLabel_def labelOf_def opE_defs)
qed

lemma works_random:
  assumes "wc_works K" "n \<noteq> 0" "n \<le> WOLFSPDM_HASH_SIZE" "rngInitialized (flags c)"
  shows "\<exists>out r. wolfSPDM_GetRandom K n c = (Inr out, c\<lparr>rng := r\<rparr>) \<and> length out = n"
proof -
  obtain out r' where "wc_RNG_GenerateBlock K (rng c) n = (Some out, r')"
    using assms(1,3) unfolding wc_works_def by blast
  moreover from this have "length out = n" using assms(1) unfolding wc_works_def wc_rng_ok_def by blast
  ultimately show ?thesis using assms(2,4) by (auto simp: wolfSPDM_GetRandom_def opE_defs intro!: exI [of _ r'])
qed

lemma works_add:
  "length (transcript c) + length d \<le> WOLFSPDM_MAX_TRANSCRIPT \<Longrightarrow>
   wolfSPDM_TranscriptAdd d c = (Inr (), c\<lparr>transcript := transcript c @ d\<rparr>)"
  by (simp add: wolfSPDM_TranscriptAdd_def opE_defs)

section \<open>The key schedule as a function\<close>

record hs_keys =
  ksReqHs :: bytes
  ksRspHs :: bytes
  ksReqFin :: bytes
  ksRspFin :: bytes
  ksReqKey :: bytes
  ksReqIv :: bytes
  ksRspKey :: bytes
  ksRspIv :: bytes

definition hsKeys :: "wc_env \<Rightarrow> byte \<Rightarrow> bytes \<Rightarrow> bytes \<Rightarrow> hs_keys" where
  "hsKeys K ver hs th = (let rq = labelOf K ver hs (cstr ''req hs data'') th WOLFSPDM_HASH_SIZE;
       rs = labelOf K ver hs (cstr ''rsp hs data'') th WOLFSPDM_HASH_SIZE in
     \<lparr>ksReqHs = rq, ksRspHs = rs,
      ksReqFin = labelOf K ver rq (cstr ''finished'') [] WOLFSPDM_HASH_SIZE,
      ksRspFin = labelOf K ver rs (cstr ''finished'') [] WOLFSPDM_HASH_SIZE,
      ksReqKey = labelOf K ver rq (cstr ''key'') [] WOLFSPDM_AEAD_KEY_SIZE,
      ksReqIv = labelOf K ver rq (cstr ''iv'') [] WOLFSPDM_AEAD_IV_SIZE,
      ksRspKey = labelOf K ver rs (cstr ''key'') [] WOLFSPDM_AEAD_KEY_SIZE,
      ksRspIv = labelOf K ver rs (cstr ''iv'') [] WOLFSPDM_AEAD_IV_SIZE\<rparr>)"

definition loadHs :: "bytes \<Rightarrow> hs_keys \<Rightarrow> 'w WOLFSPDM_CTX \<Rightarrow> 'w WOLFSPDM_CTX" where
  "loadHs hs k c = c\<lparr>handshakeSecret := hs, reqHsSecret := ksReqHs k, rspHsSecret := ksRspHs k,
     reqFinishedKey := ksReqFin k, rspFinishedKey := ksRspFin k, reqDataKey := ksReqKey k,
     reqDataIv := ksReqIv k, rspDataKey := ksRspKey k, rspDataIv := ksRspIv k\<rparr>"

definition pskSecret :: "wc_env \<Rightarrow> bytes \<Rightarrow> bytes" where
  "pskSecret K key = extractOf K (replicate WOLFSPDM_HASH_SIZE 0xFF) key"

lemma cstr_lengths [simp]:
  "length (cstr ''req hs data'') = 11" "length (cstr ''rsp hs data'') = 11" "length (cstr ''finished'') = 8"
  "length (cstr ''key'') = 3" "length (cstr ''iv'') = 2" "length (cstr ''derived'') = 7"
  "length (cstr ''req app data'') = 12" "length (cstr ''rsp app data'') = 12"
  by (simp_all add: cstr_def)

lemma derive_psk:
  assumes "wc_works K" "psk c \<noteq> []" "length th = WOLFSPDM_HASH_SIZE"
  shows "wolfSPDM_DeriveHandshakeKeysPsk K th c =
     (Inr (), (loadHs (pskSecret K (psk c)) (hsKeys K (spdmVersion c) (pskSecret K (psk c)) th) c)\<lparr>psk := []\<rparr>)"
  using assms(2,3)
  by (simp add: wolfSPDM_DeriveHandshakeKeysPsk_def wolfSPDM_DeriveFromHandshakeSecret_def wolfSPDM_DeriveKeyIvPair_def
      works_hash [OF assms(1)] works_label [OF assms(1)] opE_defs loadHs_def hsKeys_def pskSecret_def Let_def)

text \<open>The application keys, from the handshake secret and the finished transcript.\<close>

definition loadApp :: "wc_env \<Rightarrow> byte \<Rightarrow> bytes \<Rightarrow> bytes \<Rightarrow> 'w WOLFSPDM_CTX \<Rightarrow> 'w WOLFSPDM_CTX" where
  "loadApp K ver hs th c = (let
       master = extractOf K (labelOf K ver hs (cstr ''derived'') [] WOLFSPDM_HASH_SIZE) (zeros WOLFSPDM_HASH_SIZE);
       rq = labelOf K ver master (cstr ''req app data'') th WOLFSPDM_HASH_SIZE;
       rs = labelOf K ver master (cstr ''rsp app data'') th WOLFSPDM_HASH_SIZE in
     c\<lparr>reqDataKey := labelOf K ver rq (cstr ''key'') [] WOLFSPDM_AEAD_KEY_SIZE,
       reqDataIv := labelOf K ver rq (cstr ''iv'') [] WOLFSPDM_AEAD_IV_SIZE,
       rspDataKey := labelOf K ver rs (cstr ''key'') [] WOLFSPDM_AEAD_KEY_SIZE,
       rspDataIv := labelOf K ver rs (cstr ''iv'') [] WOLFSPDM_AEAD_IV_SIZE,
       reqAppSecret := rq, rspAppSecret := rs, reqSeqNum := 0, rspSeqNum := 0\<rparr>)"

lemma derive_app:
  assumes "wc_works K"
  shows "wolfSPDM_DeriveAppDataKeys K c =
     (Inr (), loadApp K (spdmVersion c) (handshakeSecret c) (shaOf K (transcript c)) c)"
  by (simp add: wolfSPDM_DeriveAppDataKeys_def wolfSPDM_DeriveKeyIvPair_def
      works_hash [OF assms] works_label [OF assms] opE_defs loadApp_def Let_def)

section \<open>The responder behind the I/O callback\<close>

definition respIo :: "wc_env \<Rightarrow> ('w, 't) WOLFSPDM_RESP_CTX WOLFSPDM_IO_CB" where
  "respIo K sid tx rx r = (case tx of None \<Rightarrow> ((-1, []), r)
     | Some m \<Rightarrow> (case wolfSPDM_RespHandleMessage K m (case rx of None \<Rightarrow> 0 | Some cap \<Rightarrow> cap) r of
         (Inl _, r') \<Rightarrow> ((-1, []), r') | (Inr out, r') \<Rightarrow> ((0, out), r')))"

text \<open>What one exchange of a requester with the responder as its peer does.\<close>

lemma exchange_with_responder:
  fixes c :: "('w, 't) WOLFSPDM_RESP_CTX WOLFSPDM_CTX" and tx :: bytes
  defines "clr \<equiv> tx ! 0 \<ge> 0x10 \<and> tx ! 0 \<le> 0x1F"
  assumes io: "ioCb c = Some (respIo K)" and tcg: "wolfSPDM_IsTcgMode c"
    and r: "ioUserCtx c = r" "respInitialized r" "useTcg r \<or> usePsk r"
    and tx: "tx \<noteq> []" "length tx \<le> 8000"
    and d: "(if clr then RespDispatchClear K tx 8272 (respHdr (connectionHandle c) (fipsIndicator c) r)
             else RespDispatchSecured K tx 8272 (respHdr (connectionHandle c) (fipsIndicator c) r)) = (Inr rx, r')"
    and rx: "length rx \<le> cap" "length rx \<le> 8272"
  shows "\<exists>f. wolfSPDM_SendReceive tx cap c = (Inr rx, c\<lparr>ioUserCtx := r', fipsIndicator := f\<rparr>)"
proof -
  let ?tag = "if clr then WOLFSPDM_TCG_TAG_CLEAR else WOLFSPDM_TCG_TAG_SECURED"
  let ?frame = "wolfSPDM_WriteTcgHeader ?tag (of_nat (16 + length tx)) (connectionHandle c) (fipsIndicator c) @ tx"
  let ?rsp = "wolfSPDM_WriteTcgHeader ?tag (of_nat (16 + length rx)) (connectionHandle (rctx r')) (fipsIndicator (rctx r')) @ rx"
  have u: "unat (of_nat (16 + n) :: word32) = 16 + n" if "n \<le> 8272" for n
    using that by (intro unat_of_nat_small) simp
  have ut: "unat (16 + word_of_nat (length tx) :: word32) = 16 + length tx"
    "unat (16 + word_of_nat (length rx) :: word32) = 16 + length rx"
    using u [of "length tx"] u [of "length rx"] tx rx by simp_all
  have f: "tcgFrame tx c = (Inr ?frame, c)"
    using tx ut by (auto simp: tcgFrame_def clr_def wolfSPDM_BuildTcgClearMessage_def opE_defs Let_def)
  have h: "wolfSPDM_RespHandleMessage K ?frame 8288 r = (Inr ?rsp, r')"
    using r tx d ut
    by (auto simp: wolfSPDM_RespHandleMessage_def opE_defs Let_def codec_simps zoomE_def respHdr_def split: if_splits)
  show ?thesis
    using io tcg f h r(1) rx ut
    by (intro exI [of _ "if fipsIndicator (rctx r') = 0 then fipsIndicator c else fipsIndicator (rctx r')"])
       (auto simp: wolfSPDM_SendReceive_def wolfSPDM_TcgSendReceive_def callIo_def respIo_def opE_defs Let_def codec_simps)
qed

section \<open>GET_VERSION\<close>

definition versionReq :: bytes where
  "versionReq = [SPDM_VERSION_10, SPDM_GET_VERSION, 0, 0]"

definition versionRsp :: bytes where
  "versionRsp = [SPDM_VERSION_10, SPDM_VERSION, 0, 0, 0, 2, 0, SPDM_VERSION_12, 0, SPDM_VERSION_13]"

definition afterVersion :: "('w, 't) WOLFSPDM_RESP_CTX \<Rightarrow> ('w, 't) WOLFSPDM_RESP_CTX" where
  "afterVersion r = (let s = respRestart r in
     s\<lparr>rctx := (rctx s)\<lparr>transcript := versionReq @ versionRsp, spdmVersion := 0, state := WOLFSPDM_STATE_VERSION\<rparr>\<rparr>)"

lemma respVersionEntries_all: "respVersionEntries 0x12 = [0, 0x12, 0, 0x13]"
  by (simp add: respVersionEntries.simps)

lemma responder_version: "RespDispatchClear K versionReq 8272 r = (Inr versionRsp, afterVersion r)"
  by (simp add: RespDispatchClear_def respAdmit_def respSwitch_def respAddOut_def RespBuildVersion_def versionReq_def
      versionRsp_def afterVersion_def respVersionEntries_all wolfSPDM_TranscriptAdd_def zoomE_def opE_defs Let_def
      wolfSPDM_RespReset_def wolfSPDM_TranscriptReset_def)

text \<open>The version the requester settles on: 1.3 unless it is configured for 1.2.\<close>

definition chosenVersion :: "'w WOLFSPDM_CTX \<Rightarrow> byte" where
  "chosenVersion c = (if maxVersion c = SPDM_VERSION_12 then SPDM_VERSION_12 else SPDM_VERSION_13)"

lemma version_fields:
  "length versionReq = 4" "versionReq ! 0 = 0x10" "versionReq \<noteq> []" "length versionRsp = 10"
  "versionRsp ! 1 = SPDM_VERSION" "versionRsp ! 5 = 2" "versionRsp ! 7 = 0x12" "versionRsp ! 9 = 0x13"
  by (simp_all add: versionReq_def versionRsp_def)

lemma version_choice:
  assumes "m \<ge> SPDM_VERSION_12"
  shows "highestMutual m versionRsp 2 = (if m = SPDM_VERSION_12 then SPDM_VERSION_12 else SPDM_VERSION_13)"
proof -
  have "m = 0x12 \<or> 0x13 \<le> m" using assms by unat_arith
  moreover have "highestMutual m versionRsp 0 = 0" by (simp add: highestMutual_def)
  then have "highestMutual m versionRsp 1 = 0x12"
    using highestMutual_Suc [of m versionRsp 0] assms by (simp add: version_fields Let_def)
  then have "highestMutual m versionRsp (Suc 1) = (if 0x13 \<le> m then 0x13 else 0x12)"
    using highestMutual_Suc [of m versionRsp 1] by (simp add: version_fields Let_def)
  then have "highestMutual m versionRsp 2 = (if 0x13 \<le> m then 0x13 else 0x12)"
    unfolding numeral_2_eq_2 One_nat_def .
  ultimately show ?thesis by auto
qed

lemma parse_version:
  assumes "maxVersion c = 0 \<or> maxVersion c \<ge> SPDM_VERSION_12"
  shows "wolfSPDM_ParseVersion versionRsp c = (Inr (), c\<lparr>spdmVersion := chosenVersion c, state := WOLFSPDM_STATE_VERSION\<rparr>)"
proof -
  let ?m = "if maxVersion c \<noteq> 0 then maxVersion c else WOLFSPDM_MAX_SPDM_VERSION"
  have "?m \<ge> SPDM_VERSION_12" "?m = SPDM_VERSION_12 \<longleftrightarrow> maxVersion c = SPDM_VERSION_12" using assms by auto
  then have h: "highestMutual ?m versionRsp 2 = chosenVersion c"
    by (simp only: version_choice chosenVersion_def)
  have n: "chosenVersion c \<noteq> 0" by (simp add: chosenVersion_def)
  have e: "(if versionRsp ! 5 = 0 then unat (versionRsp ! 4) else unat (versionRsp ! 5)) = 2"
    by (simp add: version_fields)
  show ?thesis
    unfolding wolfSPDM_ParseVersion_def SPDM_CHECK_PARSE_OR_ERROR_ARGS_def SPDM_CHECK_RESPONSE_def Let_def e
    using h n by (simp del: One_nat_def add: version_fields opE_defs)
qed

lemma requester_version:
  fixes c :: "('w, 't) WOLFSPDM_RESP_CTX WOLFSPDM_CTX"
  assumes c: "ioCb c = Some (respIo K)" "wolfSPDM_IsTcgMode c" "ioUserCtx c = r" "respInitialized r" "useTcg r \<or> usePsk r"
    and t: "transcript c = []" "maxVersion c = 0 \<or> maxVersion c \<ge> SPDM_VERSION_12"
  shows "\<exists>f. wolfSPDM_GetVersion K c = (Inr (), c\<lparr>transcript := versionReq @ versionRsp,
       ioUserCtx := afterVersion (respHdr (connectionHandle c) (fipsIndicator c) r),
       fipsIndicator := f, spdmVersion := chosenVersion c, state := WOLFSPDM_STATE_VERSION\<rparr>)"
proof -
  let ?c = "c\<lparr>transcript := versionReq\<rparr>" and ?r = "afterVersion (respHdr (connectionHandle c) (fipsIndicator c) r)"
  note l = version_fields
  obtain f where x: "wolfSPDM_SendReceive versionReq 32 ?c = (Inr versionRsp, ?c\<lparr>ioUserCtx := ?r, fipsIndicator := f\<rparr>)"
    using exchange_with_responder [of ?c K r versionReq versionRsp ?r 32]
      c l responder_version [of K "respHdr (connectionHandle c) (fipsIndicator c) r"] by auto
  have b: "wolfSPDM_BuildGetVersion 8 c = (Inr versionReq, c)"
    by (simp add: wolfSPDM_BuildGetVersion_def versionReq_def opE_defs)
  have on: "\<not> wolfSPDM_ChunkOn ?c" using c(2) by (simp add: wolfSPDM_ChunkOn_def)
  have p: "chosenVersion (?c\<lparr>ioUserCtx := ?r, fipsIndicator := f, transcript := versionReq @ versionRsp\<rparr>) = chosenVersion c"
    by (simp add: chosenVersion_def)
  note p = parse_version [of "?c\<lparr>ioUserCtx := ?r, fipsIndicator := f, transcript := versionReq @ versionRsp\<rparr>", unfolded p]
  show ?thesis
    using b x on c(2) t l p
    by (intro exI [of _ f]) (simp add: wolfSPDM_GetVersion_def wolfSPDM_ExchangeMsg_def wolfSPDM_ClearExchange_def
        works_add opE_defs)
qed

section \<open>Contexts that share a session\<close>

text \<open>A requester of a TCG mode whose peer is a responder.\<close>

definition peered :: "wc_env \<Rightarrow> ('w, 't) WOLFSPDM_RESP_CTX WOLFSPDM_CTX \<Rightarrow> bool" where
  "peered K c \<longleftrightarrow> (let r = ioUserCtx c in
     ioCb c = Some (respIo K) \<and> wolfSPDM_IsTcgMode c \<and> wolfSPDM_IsTcgMode (rctx r) \<and>
     respInitialized r \<and> (useTcg r \<or> usePsk r) \<and> rngInitialized (flags c) \<and> rngInitialized (flags (rctx r)))"

text \<open>What the two sides have to share, and the contexts once they do: \<open>linked\<close> under any keys, \<open>keyed\<close> under
  the handshake keys of a pending finish (of the kind \<open>isAsym\<close>), \<open>live\<close> under the application keys.\<close>

definition hsView :: "'w WOLFSPDM_CTX \<Rightarrow> (byte \<times> word32 \<times> word64 \<times> word64) \<times> bytes list" where
  "hsView c = ((spdmVersion c, sessionId c, reqSeqNum c, rspSeqNum c),
     [transcript c, handshakeSecret c, reqFinishedKey c, rspFinishedKey c,
      reqDataKey c, reqDataIv c, rspDataKey c, rspDataIv c])"

definition linked :: "wc_env \<Rightarrow> ('w, 't) WOLFSPDM_RESP_CTX WOLFSPDM_CTX \<Rightarrow> bool" where
  "linked K c \<longleftrightarrow> peered K c \<and> hsView (rctx (ioUserCtx c)) = hsView c \<and> sessionId c \<noteq> 0 \<and>
     \<not> (0x10 \<le> (ucast (sessionId c AND 0xFF) :: byte) \<and> (ucast (sessionId c AND 0xFF) :: byte) \<le> 0x1F) \<and>
     length (reqDataKey c) = WOLFSPDM_AEAD_KEY_SIZE \<and> length (reqDataIv c) = WOLFSPDM_AEAD_IV_SIZE \<and>
     length (rspDataKey c) = WOLFSPDM_AEAD_KEY_SIZE \<and> length (rspDataIv c) = WOLFSPDM_AEAD_IV_SIZE"

definition keyed :: "wc_env \<Rightarrow> bool \<Rightarrow> ('w, 't) WOLFSPDM_RESP_CTX WOLFSPDM_CTX \<Rightarrow> bool" where
  "keyed K isAsym c \<longleftrightarrow> linked K c \<and> state (rctx (ioUserCtx c)) = WOLFSPDM_STATE_KEY_EX \<and>
     pendingAsym (ioUserCtx c) = isAsym \<and> length (transcript c) \<le> 1000"

definition live :: "wc_env \<Rightarrow> ('w, 't) WOLFSPDM_RESP_CTX WOLFSPDM_CTX \<Rightarrow> bool" where
  "live K c \<longleftrightarrow> linked K c \<and> state c = WOLFSPDM_STATE_CONNECTED \<and>
     state (rctx (ioUserCtx c)) = WOLFSPDM_STATE_CONNECTED \<and>
     reqAppSecret (rctx (ioUserCtx c)) = reqAppSecret c \<and> rspAppSecret (rctx (ioUserCtx c)) = rspAppSecret c"

lemmas link_defs = linked_def peered_def hsView_def Let_def

lemma linkedD:
  assumes "linked K c"
  shows "peered K c" "hsView (rctx (ioUserCtx c)) = hsView c" "sessionId c \<noteq> 0"
    "\<not> (0x10 \<le> (ucast (sessionId c AND 0xFF) :: byte) \<and> (ucast (sessionId c AND 0xFF) :: byte) \<le> 0x1F)"
    "length (reqDataKey c) = WOLFSPDM_AEAD_KEY_SIZE" "length (reqDataIv c) = WOLFSPDM_AEAD_IV_SIZE"
    "length (rspDataKey c) = WOLFSPDM_AEAD_KEY_SIZE" "length (rspDataIv c) = WOLFSPDM_AEAD_IV_SIZE"
  using assms by (simp_all add: linked_def)

lemma session_first_byte:
  "(ucast ((ucast (sid :: word16) OR push_bit 16 (ucast (w :: word16)) :: word32) AND 0xFF) :: byte) = ucast sid"
  by (rule bit_word_eqI) (auto simp: bit_simps)

lemma session_nonzero: "(ucast (sid :: word16) OR push_bit 16 (ucast (0xFFFE :: word16)) :: word32) \<noteq> 0"
  by simp

lemma hsKeys_lengths:
  assumes "wc_works K" "length th = WOLFSPDM_HASH_SIZE"
  shows "length (ksReqKey (hsKeys K v hs th)) = WOLFSPDM_AEAD_KEY_SIZE" "length (ksReqIv (hsKeys K v hs th)) = WOLFSPDM_AEAD_IV_SIZE"
    "length (ksRspKey (hsKeys K v hs th)) = WOLFSPDM_AEAD_KEY_SIZE" "length (ksRspIv (hsKeys K v hs th)) = WOLFSPDM_AEAD_IV_SIZE"
  using works_label(2) [OF assms(1)] by (simp_all add: hsKeys_def Let_def)

text \<open>What a handshake leaves alone at the responder.\<close>

definition peerView :: "('w, 't) WOLFSPDM_RESP_CTX \<Rightarrow>
    (bool \<times> bytes) \<times> ('t WOLFSPDM_RESP_TPM_CB option \<times> 't) \<times> (bytes \<times> bytes \<times> bool)" where
  "peerView r = ((hasIdKey r, idPubKey r), (tpmCb r, tpmCbUserCtx r), (pskStore r, clearAuthDigest r, pskProvisioned r))"

text \<open>What the reset before a connection leaves at the requester.\<close>

lemma reset_fields:
  fixes c :: "'w WOLFSPDM_CTX"
  defines "d \<equiv> wolfSPDM_ResetSession c"
  shows "ioCb d = ioCb c" "ioUserCtx d = ioUserCtx c" "mode d = mode c" "rspPubKey d = rspPubKey c" "maxVersion d = maxVersion c"
    "psk d = psk c" "pskHint d = pskHint c" "spdmVersion d = spdmVersion c" "state d = WOLFSPDM_STATE_INIT"
    "reqPubKeyTPMT d = reqPubKeyTPMT c" "reqSessionId d = reqSessionId c" "hasRspPubKey (flags d) = hasRspPubKey (flags c)"
    "rngInitialized (flags d) = rngInitialized (flags c)" "initialized (flags d) = initialized (flags c)"
    "reqSeqNum d = 0" "rspSeqNum d = 0" "m1State d = WOLFSPDM_RUN_NONE" "\<not> ephemeralIsKem (flags c) \<Longrightarrow> \<not> ephemeralIsKem (flags d)"
  by (simp_all add: d_def wolfSPDM_ResetSession_def wolfSPDM_AttestFree_def wolfSPDM_FreeEphemeralKey_def Let_def)

section \<open>Records between the two\<close>

lemma works_encrypt:
  assumes K: "wc_works K" and c: "wolfSPDM_IsTcgMode c" "rngInitialized (flags c)"
      "length (reqDataKey c) = WOLFSPDM_AEAD_KEY_SIZE" "length (reqDataIv c) = WOLFSPDM_AEAD_IV_SIZE"
    and n: "length plain \<le> 7000" "length plain + 100 \<le> cap"
  shows "\<exists>enc g. wolfSPDM_EncryptInternal K plain cap c = (Inr enc, c\<lparr>rng := g, reqSeqNum := reqSeqNum c + 1\<rparr>) \<and>
     length enc \<le> length plain + 100 \<and> enc \<noteq> [] \<and> enc ! 0 = ucast (sessionId c AND 0xFF)"
proof -
  let ?pad = "tcgPadLen (2 + length plain)"
  have pad: "?pad \<le> 15" by (rule tcgPadLen_le)
  obtain pb g where pb: "tcgPlainBuf K plain c = (Inr pb, c\<lparr>rng := g\<rparr>)" "length pb = 2 + length plain + ?pad"
  proof (cases "?pad = 0")
    case True
    then show ?thesis using that [of _ "rng c"] by (simp add: tcgPlainBuf_def opE_defs)
  next
    case False
    then obtain out g where "wolfSPDM_GetRandom K ?pad c = (Inr out, c\<lparr>rng := g\<rparr>)" "length out = ?pad"
      using works_random [OF K False _ c(2)] pad by fastforce
    with False show ?thesis using that by (simp add: tcgPlainBuf_def opE_defs Let_def)
  qed
  have l: "length pb \<le> 0xFFFF" using pb(2) pad n(1) by simp
  let ?h = "tcgRecordHdr (sessionId c) (reqSeqNum c) (2 + length plain + ?pad + 16)"
  obtain ct tag where e: "wc_AesGcmEncrypt K (reqDataKey c) (wolfSPDM_BuildIV (reqDataIv c) (reqSeqNum c)) pb ?h = Some (ct, tag)"
    "wc_AesGcmSetKey K (reqDataKey c)"
    using K c(3,4) length_BuildIV [OF c(4)] l unfolding wc_works_def by fastforce
  have len: "length ct = length pb" "length tag = 16" using e(1) K by (auto simp: wc_works_def wc_gcm_ok_def)
  have "wolfSPDM_EncryptInternal K plain cap c = (Inr (?h @ ct @ tag), c\<lparr>rng := g, reqSeqNum := reqSeqNum c + 1\<rparr>)"
    using pb e c(1) n pad
    by (simp add: wolfSPDM_EncryptInternal_def wolfSPDM_EncryptRecord_def sealRecord_def opE_defs Let_def)
  moreover have "(?h @ ct @ tag) ! 0 = ucast (sessionId c AND 0xFF)"
    by (simp add: tcgRecordHdr_def SPDM_Set32LE_def)
  ultimately show ?thesis using len pb(2) pad n(1) by (intro exI) auto
qed

lemma works_rng: "wc_works K \<Longrightarrow> wc_rng_ok K \<and> wc_gcm_ok K"
  by (simp add: wc_works_def)

lemma record_opens:
  assumes K: "wc_works K" and m: "mirrored c d" "wolfSPDM_EncryptInternal K plain cap c = (Inr enc, c')"
    and n: "plain \<noteq> []" "length plain \<le> cap'"
  shows "wolfSPDM_DecryptInternal K enc cap' d = (Inr plain, nextRsp d)"
proof -
  obtain d' where d: "wolfSPDM_DecryptRecord K False enc cap' d = (Inr plain, d')"
    using EncryptRecord_opens [OF _ _ m(1) m(2) [unfolded wolfSPDM_EncryptInternal_def] n(2,1)] works_rng [OF K] by blast
  with wpE_Inr [OF DecryptRecord_authentic d] show ?thesis by (simp add: wolfSPDM_DecryptInternal_def)
qed

lemma swap_twice: "RespSwapDataDir (RespSwapDataDir c) = c"
  by (simp add: RespSwapDataDir_def)

lemma resp_decrypts:
  assumes "wc_works K" "mirrored c (RespSwapDataDir d)" "wolfSPDM_EncryptInternal K plain cap c = (Inr enc, c')"
    "plain \<noteq> []" "length plain \<le> cap'"
  shows "RespDecrypt K enc cap' d = (Inr plain, d\<lparr>reqSeqNum := reqSeqNum d + 1\<rparr>)"
  using record_opens [OF assms] by (simp add: RespDecrypt_def opE_defs) (simp add: RespSwapDataDir_def)

lemma resp_encrypts:
  assumes K: "wc_works K" and d: "wolfSPDM_IsTcgMode d" "rngInitialized (flags d)"
      "length (rspDataKey d) = WOLFSPDM_AEAD_KEY_SIZE" "length (rspDataIv d) = WOLFSPDM_AEAD_IV_SIZE"
    and n: "length plain \<le> 7000" "length plain + 100 \<le> cap" "plain \<noteq> []" "length plain \<le> cap'"
  shows "\<exists>enc g. RespEncrypt K plain cap d = (Inr enc, d\<lparr>rng := g, rspSeqNum := rspSeqNum d + 1\<rparr>) \<and>
     length enc \<le> length plain + 100 \<and> enc ! 0 = ucast (sessionId d AND 0xFF) \<and>
     (\<forall>c :: 'v WOLFSPDM_CTX. mirrored (RespSwapDataDir d) c \<longrightarrow> wolfSPDM_DecryptInternal K enc cap' c = (Inr plain, nextRsp c))"
proof -
  have s: "wolfSPDM_IsTcgMode (RespSwapDataDir d)" "rngInitialized (flags (RespSwapDataDir d))"
    "length (reqDataKey (RespSwapDataDir d)) = WOLFSPDM_AEAD_KEY_SIZE" "length (reqDataIv (RespSwapDataDir d)) = WOLFSPDM_AEAD_IV_SIZE"
    "sessionId (RespSwapDataDir d) = sessionId d"
    using d by (simp_all add: RespSwapDataDir_def wolfSPDM_IsTcgMode_def)
  obtain enc g where e: "wolfSPDM_EncryptInternal K plain cap (RespSwapDataDir d) =
      (Inr enc, (RespSwapDataDir d)\<lparr>rng := g, reqSeqNum := reqSeqNum (RespSwapDataDir d) + 1\<rparr>)" "length enc \<le> length plain + 100"
      "enc ! 0 = ucast (sessionId d AND 0xFF)"
    using works_encrypt [OF K s(1-4) n(1,2)] unfolding s(5) by blast
  have "RespEncrypt K plain cap d = (Inr enc, d\<lparr>rng := g, rspSeqNum := rspSeqNum d + 1\<rparr>)"
    using e(1) by (simp add: RespEncrypt_def opE_defs) (simp add: RespSwapDataDir_def)
  with e(2,3) record_opens [OF K _ e(1) n(3,4)] show ?thesis by blast
qed

section \<open>Finishing a handshake\<close>

text \<open>The finish messages of the two kinds of handshake, and the contexts they leave.\<close>

definition finHdr :: "bool \<Rightarrow> byte \<Rightarrow> bytes" where
  "finHdr isAsym v = [v, if isAsym then SPDM_FINISH else SPDM_PSK_FINISH, 0, 0]"

definition finAck :: "bool \<Rightarrow> byte \<Rightarrow> bytes" where
  "finAck isAsym v = [v, if isAsym then SPDM_FINISH_RSP else SPDM_PSK_FINISH_RSP, 0, 0]"

definition finTag :: "wc_env \<Rightarrow> bool \<Rightarrow> 'w WOLFSPDM_CTX \<Rightarrow> bytes" where
  "finTag K isAsym c = hmacOf K (reqFinishedKey c) (shaOf K (transcript c @ finHdr isAsym (spdmVersion c)))"

definition finMsg :: "wc_env \<Rightarrow> bool \<Rightarrow> 'w WOLFSPDM_CTX \<Rightarrow> bytes" where
  "finMsg K isAsym c = finHdr isAsym (spdmVersion c) @ finTag K isAsym c"

definition finDone :: "wc_env \<Rightarrow> bool \<Rightarrow> 'w WOLFSPDM_CTX \<Rightarrow> 'w WOLFSPDM_CTX" where
  "finDone K isAsym c = c\<lparr>th2 := shaOf K (transcript c @ finHdr isAsym (spdmVersion c)), transcript := transcript c @ finMsg K isAsym c\<rparr>"

lemma fin_sizes:
  "length (finHdr isAsym v) = 4" "length (finAck isAsym v) = 4" "finAck isAsym v \<noteq> []"
  "wc_works K \<Longrightarrow> length (finTag K isAsym c) = WOLFSPDM_HASH_SIZE" "wc_works K \<Longrightarrow> length (finMsg K isAsym c) = 52"
  using works_hash [of K] by (simp_all add: finHdr_def finAck_def finTag_def finMsg_def)

lemma responder_finish:
  assumes K: "wc_works K" and l: "length (transcript (rctx r)) \<le> 1000"
    and same: "transcript c = transcript (rctx r)" "spdmVersion c = spdmVersion (rctx r)" "reqFinishedKey c = reqFinishedKey (rctx r)"
  shows "respFinish K (if isAsym then SPDM_FINISH_RSP else SPDM_PSK_FINISH_RSP) isAsym (finMsg K isAsym c) WOLFSPDM_MAX_MSG_SIZE r =
     (let d = finDone K isAsym (rctx r); out = finAck isAsym (spdmVersion c) in
      (Inr out, r\<lparr>rctx := d\<lparr>transcript := transcript d @ out, state := WOLFSPDM_STATE_CONNECTED\<rparr>, sessionAsym := isAsym\<rparr>))"
proof -
  have t: "length (finTag K isAsym c) = 48" "finTag K isAsym (rctx r) = finTag K isAsym c"
    using fin_sizes(4) [OF K] same by (simp_all add: finTag_def)
  have cmp: "wolfSPDM_ConstCompare (finTag K isAsym c) (finTag K isAsym c) 48 = 0" using t(1) by (simp add: wolfSPDM_ConstCompare_full)
  have h: "hmacOf K (reqFinishedKey (rctx r)) (shaOf K (transcript (rctx r) @ finHdr isAsym (spdmVersion (rctx r)))) = finTag K isAsym c"
    using same by (simp add: finTag_def)
  have m: "length (finMsg K isAsym c) = 52" "take 4 (finMsg K isAsym c) = finHdr isAsym (spdmVersion (rctx r))"
      "take 48 (drop 4 (finMsg K isAsym c)) = finTag K isAsym c" "finMsg K isAsym (rctx r) = finMsg K isAsym c"
    using fin_sizes(1) [of isAsym "spdmVersion (rctx r)"] t same by (simp_all add: finMsg_def)
  show ?thesis
    using l t cmp h same(2) m fin_sizes(1,2)
    by (simp add: respFinish_def zoomE_def opE_defs Let_def works_add works_hash [OF K] finDone_def finMsg_def finAck_def)
qed

text \<open>The responder's side, from the sealed request to the sealed answer and the application keys.\<close>

lemma responder_finish_switch:
  fixes r :: "('w, 't) WOLFSPDM_RESP_CTX"
  assumes K: "wc_works K" and r: "state (rctx r) = WOLFSPDM_STATE_KEY_EX" "pendingAsym r = isAsym" "length (transcript (rctx r)) \<le> 1000"
    and c: "transcript c = transcript (rctx r)" "spdmVersion c = spdmVersion (rctx r)" "reqFinishedKey c = reqFinishedKey (rctx r)"
    and e: "mirrored (finDone K isAsym c) (RespSwapDataDir (rctx r))"
      "wolfSPDM_EncryptInternal K (finMsg K isAsym c) n (finDone K isAsym c) = (Inr enc, c')"
  defines "fin \<equiv> finMsg K isAsym c" and "out \<equiv> finAck isAsym (spdmVersion c)" and "d \<equiv> (rctx r)\<lparr>reqSeqNum := reqSeqNum (rctx r) + 1\<rparr>"
  shows "RespDecrypt K enc WOLFSPDM_MAX_MSG_SIZE (rctx r) = (Inr fin, d)"
    "respSecuredSwitch K (fin ! 1) fin (r\<lparr>rctx := d, secureInPlain := fin\<rparr>) = (Inr (out, True, False),
       r\<lparr>rctx := (finDone K isAsym d)\<lparr>transcript := transcript (finDone K isAsym c) @ out, state := WOLFSPDM_STATE_CONNECTED\<rparr>,
         secureInPlain := fin, sessionAsym := isAsym\<rparr>)"
proof -
  have l: "length fin = 52" "fin \<noteq> []" using fin_sizes(5) [OF K, of isAsym c] unfolding fin_def by auto
  have tr: "transcript (finDone K isAsym d) = transcript (finDone K isAsym c)"
    using c by (simp add: finDone_def finMsg_def finTag_def d_def)
  show "RespDecrypt K enc WOLFSPDM_MAX_MSG_SIZE (rctx r) = (Inr fin, d)"
    unfolding d_def using l e(2) [folded fin_def] by (intro resp_decrypts [OF K e(1)]) simp_all
  have "respFinish K (if isAsym then SPDM_FINISH_RSP else SPDM_PSK_FINISH_RSP) isAsym fin WOLFSPDM_MAX_MSG_SIZE (r\<lparr>rctx := d, secureInPlain := fin\<rparr>) =
      (Inr out, r\<lparr>rctx := (finDone K isAsym d)\<lparr>transcript := transcript (finDone K isAsym c) @ out, state := WOLFSPDM_STATE_CONNECTED\<rparr>,
         secureInPlain := fin, sessionAsym := isAsym\<rparr>)"
    using responder_finish [OF K, of "r\<lparr>rctx := d, secureInPlain := fin\<rparr>" c isAsym] r(3) c tr by (simp add: out_def fin_def d_def Let_def)
  moreover have "fin ! 1 = (if isAsym then SPDM_FINISH else SPDM_PSK_FINISH)" by (simp add: fin_def finMsg_def finHdr_def)
  ultimately show "respSecuredSwitch K (fin ! 1) fin (r\<lparr>rctx := d, secureInPlain := fin\<rparr>) = (Inr (out, True, False),
       r\<lparr>rctx := (finDone K isAsym d)\<lparr>transcript := transcript (finDone K isAsym c) @ out, state := WOLFSPDM_STATE_CONNECTED\<rparr>,
         secureInPlain := fin, sessionAsym := isAsym\<rparr>)"
    using r(1,2) by (cases isAsym) (simp_all del: One_nat_def add: respSecuredSwitch_def RespHandlePskFinish_def RespHandleFinish_def opE_defs d_def)
qed

lemma responder_finish_record:
  fixes r :: "('w, 't) WOLFSPDM_RESP_CTX"
  assumes K: "wc_works K" and r: "state (rctx r) = WOLFSPDM_STATE_KEY_EX" "pendingAsym r = isAsym" "sessionId (rctx r) \<noteq> 0"
      "wolfSPDM_IsTcgMode (rctx r)" "rngInitialized (flags (rctx r))"
      "length (rspDataKey (rctx r)) = WOLFSPDM_AEAD_KEY_SIZE" "length (rspDataIv (rctx r)) = WOLFSPDM_AEAD_IV_SIZE"
      "length (transcript (rctx r)) \<le> 1000"
    and c: "transcript c = transcript (rctx r)" "spdmVersion c = spdmVersion (rctx r)" "reqFinishedKey c = reqFinishedKey (rctx r)"
    and e: "mirrored (finDone K isAsym c) (RespSwapDataDir (rctx r))"
      "wolfSPDM_EncryptInternal K (finMsg K isAsym c) n (finDone K isAsym c) = (Inr enc, c')"
  defines "out \<equiv> finAck isAsym (spdmVersion c)"
  shows "\<exists>rx g. RespDispatchSecured K enc 8272 r = (Inr rx,
     r\<lparr>rctx := loadApp K (spdmVersion c) (handshakeSecret (rctx r)) (shaOf K (transcript (finDone K isAsym c) @ out))
        ((finDone K isAsym (rctx r))\<lparr>transcript := transcript (finDone K isAsym c) @ out, state := WOLFSPDM_STATE_CONNECTED, rng := g\<rparr>),
        sessionAsym := isAsym, secureInPlain := [], secureOutPlain := []\<rparr>) \<and>
     length rx \<le> 200 \<and> rx ! 0 = ucast (sessionId (rctx r) AND 0xFF) \<and>
     (\<forall>d :: 'v WOLFSPDM_CTX. \<forall>cap \<ge> 4. mirrored (RespSwapDataDir (rctx r)) d \<longrightarrow> wolfSPDM_DecryptInternal K rx cap d = (Inr out, nextRsp d))"
proof -
  let ?rc = "(rctx r)\<lparr>reqSeqNum := reqSeqNum (rctx r) + 1\<rparr>" and ?tr = "transcript (finDone K isAsym c) @ out"
  let ?d = "(finDone K isAsym ?rc)\<lparr>transcript := ?tr, state := WOLFSPDM_STATE_CONNECTED\<rparr>"
  note sw = responder_finish_switch [OF K r(1,2,8) c e, folded out_def]
  have l: "length (finMsg K isAsym c) = 52" by (rule fin_sizes(5) [OF K])
  have d: "wolfSPDM_IsTcgMode ?d" "rngInitialized (flags ?d)" "length (rspDataKey ?d) = WOLFSPDM_AEAD_KEY_SIZE"
    "length (rspDataIv ?d) = WOLFSPDM_AEAD_IV_SIZE"
    using r by (simp_all add: finDone_def wolfSPDM_IsTcgMode_def)
  have o: "length out = 4" "out \<noteq> []" using fin_sizes(2,3) by (simp_all add: out_def)
  then have o': "length out \<le> 7000" "length out + 100 \<le> 8272" by simp_all
  obtain rx g where x: "RespEncrypt K out 8272 ?d = (Inr rx, ?d\<lparr>rng := g, rspSeqNum := rspSeqNum ?d + 1\<rparr>)" "length rx \<le> length out + 100"
      "rx ! 0 = ucast (sessionId ?d AND 0xFF)"
    using resp_encrypts [OF K d o' o(2) order_refl] by blast
  obtain z where z: "wolfSPDM_EncryptInternal K out 8272 (RespSwapDataDir ?d) = (Inr rx, z)"
    using x(1) by (auto simp: RespEncrypt_def opE_defs split: prod.splits sum.splits)
  have m: "mirrored (RespSwapDataDir ?d) y \<longleftrightarrow> mirrored (RespSwapDataDir (rctx r)) y" for y :: "'v WOLFSPDM_CTX"
    by (simp add: mirrored_def RespSwapDataDir_def finDone_def wolfSPDM_IsTcgMode_def)
  have app: "wolfSPDM_DeriveAppDataKeys K (?d\<lparr>rng := g, rspSeqNum := rspSeqNum ?d + 1\<rparr>) =
      (Inr (), loadApp K (spdmVersion c) (handshakeSecret (rctx r)) (shaOf K ?tr)
        ((finDone K isAsym (rctx r))\<lparr>transcript := ?tr, state := WOLFSPDM_STATE_CONNECTED, rng := g\<rparr>))"
    unfolding derive_app [OF K] using c by (simp add: loadApp_def finDone_def finTag_def finMsg_def Let_def)
  have "RespDispatchSecured K enc 8272 r = (Inr rx,
      r\<lparr>rctx := loadApp K (spdmVersion c) (handshakeSecret (rctx r)) (shaOf K ?tr)
        ((finDone K isAsym (rctx r))\<lparr>transcript := ?tr, state := WOLFSPDM_STATE_CONNECTED, rng := g\<rparr>),
        sessionAsym := isAsym, secureInPlain := [], secureOutPlain := []\<rparr>)"
    using r(1,3) sw x(1) app l
    by (simp del: One_nat_def add: RespDispatchSecured_def RespDispatchSecuredInner_def zoomE_def opE_defs)
  moreover have "length rx \<le> 200" "rx ! 0 = ucast (sessionId (rctx r) AND 0xFF)" using x(2,3) o by (simp_all add: finDone_def)
  moreover have "wolfSPDM_DecryptInternal K rx cap y = (Inr out, nextRsp y)" if "4 \<le> cap" "mirrored (RespSwapDataDir (rctx r)) y"
      for y :: "'v WOLFSPDM_CTX" and cap
    using record_opens [OF K m [THEN iffD2, OF that(2)] z o(2)] that(1) o(1) by simp
  ultimately show ?thesis by blast
qed

text \<open>What the finish needs of two contexts that share the handshake keys, and the sealed request.\<close>

lemma keyedD:
  fixes c :: "('w, 't) WOLFSPDM_RESP_CTX WOLFSPDM_CTX" and K x y isAsym
  assumes k: "keyed K isAsym c"
  defines "r \<equiv> respHdr x y (ioUserCtx c)"
  shows "state (rctx r) = WOLFSPDM_STATE_KEY_EX" "pendingAsym r = isAsym" "sessionId (rctx r) \<noteq> 0"
    "wolfSPDM_IsTcgMode (rctx r)" "rngInitialized (flags (rctx r))"
    "length (rspDataKey (rctx r)) = WOLFSPDM_AEAD_KEY_SIZE" "length (rspDataIv (rctx r)) = WOLFSPDM_AEAD_IV_SIZE"
    "length (transcript (rctx r)) \<le> 1000"
    "transcript c = transcript (rctx r)" "spdmVersion c = spdmVersion (rctx r)" "reqFinishedKey c = reqFinishedKey (rctx r)"
    "mirrored (finDone K isAsym c) (RespSwapDataDir (rctx r))"
  using k
  by (auto simp: keyed_def link_defs r_def respHdr_def wolfSPDM_IsTcgMode_def mirrored_def RespSwapDataDir_def finDone_def)

lemma keyed_seals:
  assumes K: "wc_works K" and k: "keyed K isAsym c" and n: "152 \<le> cap"
  shows "\<exists>enc g. wolfSPDM_EncryptInternal K (finMsg K isAsym c) cap (finDone K isAsym c) =
       (Inr enc, (finDone K isAsym c)\<lparr>rng := g, reqSeqNum := reqSeqNum (finDone K isAsym c) + 1\<rparr>) \<and>
     length enc \<le> 152 \<and> enc \<noteq> [] \<and> enc ! 0 = ucast (sessionId c AND 0xFF)"
proof -
  let ?c = "finDone K isAsym c" and ?fin = "finMsg K isAsym c"
  have l: "length ?fin = 52" by (rule fin_sizes(5) [OF K])
  have c: "wolfSPDM_IsTcgMode ?c" "rngInitialized (flags ?c)" "length (reqDataKey ?c) = WOLFSPDM_AEAD_KEY_SIZE"
    "length (reqDataIv ?c) = WOLFSPDM_AEAD_IV_SIZE" "sessionId ?c = sessionId c"
    using k by (simp_all add: keyed_def link_defs finDone_def wolfSPDM_IsTcgMode_def)
  have n': "length ?fin \<le> 7000" "length ?fin + 100 \<le> cap" using l n by simp_all
  from works_encrypt [OF K c(1-4) n'] show ?thesis unfolding c(5) l by simp
qed

text \<open>
  The exchange of the finish, up to the opened answer. The requester's context is then \<open>d\<close>; once
  it has added the answer to its transcript and derived the application keys the session is live.
\<close>

lemma finish_exchange:
  fixes c :: "('w, 't) WOLFSPDM_RESP_CTX WOLFSPDM_CTX"
  assumes K: "wc_works K" and k: "keyed K isAsym c" and n: "152 \<le> txSz" "200 \<le> rxSz" "4 \<le> cap"
  defines "ack \<equiv> finAck isAsym (spdmVersion c)"
  shows "\<exists>enc c2 rx c3 d. wolfSPDM_EncryptInternal K (finMsg K isAsym c) txSz (finDone K isAsym c) = (Inr enc, c2) \<and>
     wolfSPDM_SendReceive enc rxSz c2 = (Inr rx, c3) \<and> \<not> (rx ! 0 \<ge> 0x10 \<and> rx ! 0 \<le> 0x1F) \<and>
     wolfSPDM_DecryptInternal K rx cap c3 = (Inr ack, d) \<and>
     spdmVersion d = spdmVersion c \<and> handshakeSecret d = handshakeSecret c \<and> length (transcript d) \<le> 1100 \<and> mode d = mode c \<and>
     sessionAsym (ioUserCtx d) = isAsym \<and> peerView (ioUserCtx d) = peerView (ioUserCtx c) \<and>
     (\<forall>st. live K ((loadApp K (spdmVersion c) (handshakeSecret c) (shaOf K (transcript d @ ack))
        (d\<lparr>transcript := transcript d @ ack, state := st\<rparr>))\<lparr>state := WOLFSPDM_STATE_CONNECTED\<rparr>))"
proof -
  let ?r = "respHdr (connectionHandle c) (fipsIndicator c) (ioUserCtx c)" and ?c1 = "finDone K isAsym c"
  have lk: "linked K c" "length (transcript c) \<le> 1000" using k by (simp_all add: keyed_def)
  note kd = lk(1) [unfolded link_defs]
  have l: "length (finMsg K isAsym c) = 52" by (rule fin_sizes(5) [OF K])
  obtain enc g where e: "wolfSPDM_EncryptInternal K (finMsg K isAsym c) txSz ?c1 = (Inr enc, ?c1\<lparr>rng := g, reqSeqNum := reqSeqNum ?c1 + 1\<rparr>)"
    "length enc \<le> 152" "enc \<noteq> []" "enc ! 0 = ucast (sessionId c AND 0xFF)"
    using keyed_seals [OF K k n(1)] by blast
  let ?c2 = "?c1\<lparr>rng := g, reqSeqNum := reqSeqNum ?c1 + 1\<rparr>"
  have first: "\<not> (0x10 \<le> enc ! 0 \<and> enc ! 0 \<le> 0x1F)" using linkedD(4) [OF lk(1)] unfolding e(4) .
  note r = keyedD [OF k, of "connectionHandle c" "fipsIndicator c"]
  obtain rx h where x: "RespDispatchSecured K enc 8272 ?r = (Inr rx,
      ?r\<lparr>rctx := loadApp K (spdmVersion c) (handshakeSecret (rctx ?r)) (shaOf K (transcript ?c1 @ ack))
        ((finDone K isAsym (rctx ?r))\<lparr>transcript := transcript ?c1 @ ack, state := WOLFSPDM_STATE_CONNECTED, rng := h\<rparr>),
        sessionAsym := isAsym, secureInPlain := [], secureOutPlain := []\<rparr>)" (is "_ = (_, ?s)")
      "length rx \<le> 200" "rx ! 0 = ucast (sessionId (rctx ?r) AND 0xFF)"
      "\<And>d :: ('w, 't) WOLFSPDM_RESP_CTX WOLFSPDM_CTX. mirrored (RespSwapDataDir (rctx ?r)) d \<Longrightarrow>
         wolfSPDM_DecryptInternal K rx cap d = (Inr ack, nextRsp d)"
    using responder_finish_record [OF K r e(1)] n(3) unfolding ack_def by blast
  have sid: "sessionId (rctx ?r) = sessionId c" using kd by (simp add: respHdr_def)
  have c2: "ioCb ?c2 = Some (respIo K)" "wolfSPDM_IsTcgMode ?c2" "ioUserCtx ?c2 = ioUserCtx c"
      "connectionHandle ?c2 = connectionHandle c" "fipsIndicator ?c2 = fipsIndicator c"
    using kd by (simp_all add: finDone_def wolfSPDM_IsTcgMode_def)
  have disp: "(if 0x10 \<le> enc ! 0 \<and> enc ! 0 \<le> 0x1F then RespDispatchClear K enc 8272 ?r else RespDispatchSecured K enc 8272 ?r) = (Inr rx, ?s)"
    unfolding if_not_P [OF first] by (rule x(1))
  have "respInitialized (ioUserCtx c)" "useTcg (ioUserCtx c) \<or> usePsk (ioUserCtx c)" using kd by simp_all
  then have "\<exists>y. wolfSPDM_SendReceive enc rxSz ?c2 = (Inr rx, ?c2\<lparr>ioUserCtx := ?s, fipsIndicator := y\<rparr>)"
    using e(2) x(2) n
    by (intro exchange_with_responder [of ?c2 K "ioUserCtx c" enc rx ?s rxSz, unfolded c2(4,5), OF c2(1,2,3) _ _ e(3) _ disp]) simp_all
  then obtain y where y: "wolfSPDM_SendReceive enc rxSz ?c2 = (Inr rx, ?c2\<lparr>ioUserCtx := ?s, fipsIndicator := y\<rparr>)" by blast
  let ?c3 = "?c2\<lparr>ioUserCtx := ?s, fipsIndicator := y\<rparr>"
  have "mirrored (RespSwapDataDir (rctx ?r)) ?c3"
    using kd by (simp add: mirrored_def RespSwapDataDir_def respHdr_def finDone_def wolfSPDM_IsTcgMode_def)
  note z = x(4) [OF this]
  have lv: "live K ((loadApp K (spdmVersion c) (handshakeSecret c) (shaOf K (transcript (nextRsp ?c3) @ ack))
      ((nextRsp ?c3)\<lparr>transcript := transcript (nextRsp ?c3) @ ack, state := st\<rparr>))\<lparr>state := WOLFSPDM_STATE_CONNECTED\<rparr>)" for st
    using kd works_label(2) [OF K]
    by (simp add: live_def link_defs loadApp_def finDone_def finMsg_def finTag_def respHdr_def wolfSPDM_IsTcgMode_def)
  have first': "\<not> (0x10 \<le> rx ! 0 \<and> rx ! 0 \<le> 0x1F)" using linkedD(4) [OF lk(1)] unfolding x(3) sid .
  have t: "transcript (nextRsp ?c3) = transcript ?c1" "spdmVersion (nextRsp ?c3) = spdmVersion c" "mode (nextRsp ?c3) = mode c"
      "handshakeSecret (nextRsp ?c3) = handshakeSecret c" "length (transcript ?c1) \<le> 1100"
      "sessionAsym (ioUserCtx (nextRsp ?c3)) = isAsym" "peerView (ioUserCtx (nextRsp ?c3)) = peerView (ioUserCtx c)"
    using lk(2) l by (simp_all add: finDone_def peerView_def respHdr_def)
  then have t': "length (transcript (nextRsp ?c3)) \<le> 1100" by simp
  show ?thesis by (intro exI conjI allI) (rule e(1) y first' z t(2,4) t' t(3,6,7) lv)+
qed

end
