(* ===== verification/Spdm_PskConnect.thy ===== *)
theory Spdm_PskConnect
  imports Spdm_Handshake
begin

text \<open>
  The pre-shared key connection (\<open>wolfSPDM_ConnectPsk\<close> against the responder): the exchange that gives both
  sides the handshake keys, the finish, and \<open>wolfSPDM_Connect\<close> as a whole.
\<close>

section \<open>PSK_EXCHANGE\<close>

definition pskReq :: "byte \<Rightarrow> word16 \<Rightarrow> bytes \<Rightarrow> bytes \<Rightarrow> bytes" where
  "pskReq v sid hint rnd = [v, SPDM_PSK_EXCHANGE, 0, 0] @ SPDM_Set16LE sid @ SPDM_Set16LE (of_nat (length hint)) @
     SPDM_Set16LE 32 @ SPDM_Set16LE 0 @ hint @ rnd"

definition pskRspHead :: "byte \<Rightarrow> bytes \<Rightarrow> bytes" where
  "pskRspHead v rnd = [v, SPDM_PSK_EXCHANGE_RSP, 0, 0] @ SPDM_Set16LE 0xFFFE @ [0, 0] @ SPDM_Set16LE 32 @ SPDM_Set16LE 0 @ rnd"

text \<open>Both sides after the exchange: the keys of the transcript \<open>tr\<close> under the secret of \<open>key\<close>.\<close>

definition pskLoaded :: "wc_env \<Rightarrow> byte \<Rightarrow> bytes \<Rightarrow> bytes \<Rightarrow> 'w WOLFSPDM_CTX \<Rightarrow> 'w WOLFSPDM_CTX" where
  "pskLoaded K v key tr c = (let th = shaOf K tr; hs = pskSecret K key; ks = hsKeys K v hs th in
     (loadHs hs ks c)\<lparr>spdmVersion := v, th1 := th, psk := [],
       transcript := tr @ hmacOf K (ksRspFin ks) th, state := WOLFSPDM_STATE_KEY_EX\<rparr>)"

abbreviation pskTag :: "wc_env \<Rightarrow> byte \<Rightarrow> bytes \<Rightarrow> bytes \<Rightarrow> bytes" where
  "pskTag K v key tr \<equiv> hmacOf K (ksRspFin (hsKeys K v (pskSecret K key) (shaOf K tr))) (shaOf K tr)"

lemma pskReq_fields:
  assumes "length hint \<le> 64" "length rnd = 32"
  shows "length (pskReq v sid hint rnd) = 44 + length hint" "pskReq v sid hint rnd ! 0 = v"
    "pskReq v sid hint rnd ! 1 = SPDM_PSK_EXCHANGE" "SPDM_Get16LE (pskReq v sid hint rnd) 4 = sid"
    "SPDM_Get16LE (pskReq v sid hint rnd) 6 = of_nat (length hint)" "SPDM_Get16LE (pskReq v sid hint rnd) 8 = 32"
    "SPDM_Get16LE (pskReq v sid hint rnd) 10 = 0" "unat (of_nat (length hint) :: word16) = length hint"
    "pskReq v sid hint rnd \<noteq> []"
  using assms by (simp_all add: pskReq_def codec_simps unat_of_nat_small)

lemma psk_reply:
  fixes r :: "('w, 't) WOLFSPDM_RESP_CTX"
  assumes K: "wc_works K" and r: "rspSessionId (rctx r) = 0xFFFE" "psk (rctx r) \<noteq> []"
      "rngInitialized (flags (rctx r))" "length (transcript (rctx r)) \<le> 300"
  shows "\<exists>rnd g. length rnd = 32 \<and>
     (let v = spdmVersion (rctx r); tr = transcript (rctx r) @ pskRspHead v rnd in
      respPskReply K r = (Inr (pskRspHead v rnd @ pskTag K v (psk (rctx r)) tr),
        r\<lparr>rctx := pskLoaded K v (psk (rctx r)) tr ((rctx r)\<lparr>rng := g\<rparr>), pendingAsym := False\<rparr>))"
proof -
  obtain rnd g where g: "wolfSPDM_GetRandom K 32 (rctx r) = (Inr rnd, (rctx r)\<lparr>rng := g\<rparr>)" "length rnd = 32"
    using works_random [OF K _ _ r(3), of 32] by auto
  have l: "length (pskRspHead v rnd) = 44" for v using g(2) by (simp add: pskRspHead_def)
  have h: "[v, SPDM_PSK_EXCHANGE_RSP, 0, 0] @ SPDM_Set16LE 0xFFFE @ [0, 0] @ SPDM_Set16LE 32 @ SPDM_Set16LE 0 @ rnd = pskRspHead v rnd" for v
    by (simp add: pskRspHead_def)
  show ?thesis
    unfolding Let_def
    using g r l K h
    by (intro exI [of _ rnd] exI [of _ g])
       (simp add: respPskReply_def zoomE_def opE_defs works_add works_hash [OF K] derive_psk [OF K] loadHs_def pskLoaded_def Let_def)
qed

lemma responder_psk:
  fixes r :: "('w, 't) WOLFSPDM_RESP_CTX"
  assumes K: "wc_works K" and r: "state (rctx r) = WOLFSPDM_STATE_VERSION" "spdmVersion (rctx r) = 0" "usePsk r"
      "pskStore r \<noteq> []" "rngInitialized (flags (rctx r))" "length (transcript (rctx r)) \<le> 100"
    and v: "v = SPDM_VERSION_12 \<or> v = SPDM_VERSION_13" and q: "length hint \<le> 64" "length rnd = 32"
  shows "\<exists>rnd' g. length rnd' = 32 \<and>
     (let tx = pskReq v sid hint rnd; tr = transcript (rctx r) @ tx @ pskRspHead v rnd' in
      RespDispatchClear K tx 8272 r = (Inr (pskRspHead v rnd' @ pskTag K v (pskStore r) tr),
        r\<lparr>rctx := pskLoaded K v (pskStore r) tr ((respSessionIds tx (respPskLoad r (rctx r)))\<lparr>rng := g\<rparr>),
          pendingAsym := False\<rparr>))"
proof -
  let ?tx = "pskReq v sid hint rnd"
  let ?d = "(rctx r)\<lparr>spdmVersion := v, transcript := transcript (rctx r) @ ?tx\<rparr>"
  let ?c = "respSessionIds ?tx (respPskLoad r ?d)"
  note f = pskReq_fields [OF q]
  obtain rnd' g where g: "length rnd' = 32"
    "respPskReply K (r\<lparr>rctx := ?c\<rparr>) = (Inr (pskRspHead v rnd' @ pskTag K v (pskStore r) (transcript (rctx r) @ ?tx @ pskRspHead v rnd')),
        r\<lparr>rctx := pskLoaded K v (pskStore r) (transcript (rctx r) @ ?tx @ pskRspHead v rnd') (?c\<lparr>rng := g\<rparr>), pendingAsym := False\<rparr>)"
    using psk_reply [OF K, of "r\<lparr>rctx := ?c\<rparr>"] r q f(1) by (auto simp: respSessionIds_def respPskLoad_def Let_def)
  have x: "pskLoaded K v (pskStore r) tr (?c\<lparr>rng := g\<rparr>) =
      pskLoaded K v (pskStore r) tr ((respSessionIds ?tx (respPskLoad r (rctx r)))\<lparr>rng := g\<rparr>)" for tr
    by (simp add: pskLoaded_def loadHs_def respSessionIds_def respPskLoad_def Let_def)
  have v': "\<not> (v < 0x12 \<or> 0x13 < v)" "v \<noteq> 0" using v by auto
  have sel: "RespSelectVersion v b (rctx r) = (Inr (), (rctx r)\<lparr>spdmVersion := v\<rparr>)" for b
    using r v' by (simp add: RespSelectVersion_def opE_defs)
  have ex: "RespBuildPskExchangeRsp K ?tx 8272 (r\<lparr>rctx := ?d\<rparr>) =
      respPskReply K (r\<lparr>rctx := ?c\<rparr>)"
    using r f q by (simp add: RespBuildPskExchangeRsp_def opE_defs respSessionIds_def respPskLoad_def)
  show ?thesis
    unfolding Let_def
    using g(1) f(1,2,3) sel r q ex g(2) [unfolded x]
    by (intro exI [of _ rnd'] exI [of _ g])
       (simp del: One_nat_def add: RespDispatchClear_def respAdmit_def respSwitch_def zoomE_def opE_defs works_add Let_def)
qed

lemma parse_psk_rsp:
  assumes K: "wc_works K" and c: "spdmVersion c = v" "psk c \<noteq> []" "length (transcript c) \<le> 300" "length rnd = 32"
  shows "wolfSPDM_ParsePskExchangeRsp K (pskRspHead v rnd @ pskTag K v (psk c) (transcript c @ pskRspHead v rnd)) c =
     (Inr (), (pskLoaded K v (psk c) (transcript c @ pskRspHead v rnd) c)\<lparr>rspSessionId := 0xFFFE,
        sessionId := ucast (reqSessionId c) OR push_bit 16 (ucast (0xFFFE :: word16))\<rparr>)"
proof -
  let ?hm = "pskTag K v (psk c) (transcript c @ pskRspHead v rnd)"
  let ?rx = "pskRspHead v rnd @ ?hm"
  have l: "length (pskRspHead v rnd) = 44" "length ?hm = 48" using c(4) works_hash [OF K] by (simp_all add: pskRspHead_def)
  have f: "?rx ! 1 = SPDM_PSK_EXCHANGE_RSP" "SPDM_Get16LE ?rx 4 = 0xFFFE" "SPDM_Get16LE ?rx 8 = 32" "SPDM_Get16LE ?rx 10 = 0"
    using c(4) by (simp_all add: pskRspHead_def codec_simps)
  have off: "12 + unat (SPDM_Get16LE ?rx 8) + unat (SPDM_Get16LE ?rx 10) = 44" unfolding f by simp
  have t: "take 44 ?rx = pskRspHead v rnd" "take 48 (drop 44 ?rx) = ?hm" using l by simp_all
  have cmp: "wolfSPDM_ConstCompare ?hm ?hm 48 = 0" using l(2) by (simp add: wolfSPDM_ConstCompare_full)
  have chk: "SPDM_CHECK_PARSE_OR_ERROR_ARGS ?rx 59 d = (Inr (), d)" "SPDM_CHECK_RESPONSE ?rx SPDM_PSK_EXCHANGE_RSP E_KEY_EXCHANGE d = (Inr (), d)"
    for d :: "'a WOLFSPDM_CTX"
    using l f(1) by (simp_all add: SPDM_CHECK_PARSE_OR_ERROR_ARGS_def SPDM_CHECK_RESPONSE_def opE_defs)
  show ?thesis
    unfolding wolfSPDM_ParsePskExchangeRsp_def off t Let_def f(2)
    using l c cmp
    by (simp add: opE_defs chk works_add works_hash [OF K] derive_psk [OF K] pskLoaded_def loadHs_def Let_def)
qed

section \<open>The two steps of the requester\<close>

definition pskExchangeStep :: "wc_env \<Rightarrow> ('w, unit) cop" where
  "pskExchangeStep K = bindE (wolfSPDM_BuildPskExchange K 128) (\<lambda>tx.
     thenE (wolfSPDM_TranscriptAdd tx)
     (bindE (wolfSPDM_SendReceive tx pskBufSz) (\<lambda>rx. wolfSPDM_ParsePskExchangeRsp K rx)))"

lemma requester_psk:
  fixes c :: "('w, 't) WOLFSPDM_RESP_CTX WOLFSPDM_CTX"
  assumes K: "wc_works K" and p: "peered K c" "usePsk (ioUserCtx c)"
    and r: "state (rctx (ioUserCtx c)) = WOLFSPDM_STATE_VERSION" "spdmVersion (rctx (ioUserCtx c)) = 0"
      "transcript (rctx (ioUserCtx c)) = transcript c" "pskStore (ioUserCtx c) = psk c"
      "reqSeqNum (rctx (ioUserCtx c)) = 0" "rspSeqNum (rctx (ioUserCtx c)) = 0"
    and c: "psk c \<noteq> []" "length (pskHint c) \<le> WOLFSPDM_PSK_HINT_MAX" "length (transcript c) \<le> 100"
      "spdmVersion c = SPDM_VERSION_12 \<or> spdmVersion c = SPDM_VERSION_13" "reqSeqNum c = 0" "rspSeqNum c = 0"
      "\<not> (0x10 \<le> (ucast (reqSessionId c) :: byte) \<and> (ucast (reqSessionId c) :: byte) \<le> 0x1F)"
  shows "\<exists>d. pskExchangeStep K c = (Inr (), d) \<and> keyed K False d \<and> spdmVersion d = spdmVersion c \<and> peerView (ioUserCtx d) = peerView (ioUserCtx c)"
proof -
  let ?r = "respHdr (connectionHandle c) (fipsIndicator c) (ioUserCtx c)" and ?v = "spdmVersion c"
  obtain rnd g where g: "wolfSPDM_GetRandom K 32 c = (Inr rnd, c\<lparr>rng := g\<rparr>)" "length rnd = 32"
    using works_random [OF K, of 32 c] p by (auto simp: peered_def Let_def)
  let ?tx = "pskReq ?v (reqSessionId c) (pskHint c) rnd"
  let ?c1 = "c\<lparr>rng := g, transcript := transcript c @ ?tx\<rparr>"
  have h: "length (pskHint c) \<le> 64" using c(2) by simp
  note f = pskReq_fields [OF h g(2)]
  have b: "wolfSPDM_BuildPskExchange K 128 c = (Inr ?tx, c\<lparr>rng := g\<rparr>)"
    using c(1,2) g by (simp add: wolfSPDM_BuildPskExchange_def opE_defs pskReq_def)
  have rh: "state (rctx ?r) = WOLFSPDM_STATE_VERSION" "spdmVersion (rctx ?r) = 0" "usePsk ?r" "pskStore ?r \<noteq> []"
      "rngInitialized (flags (rctx ?r))" "length (transcript (rctx ?r)) \<le> 100"
    using p r c by (simp_all add: respHdr_def peered_def Let_def)
  obtain rnd' g' where d: "length rnd' = 32"
    "RespDispatchClear K ?tx 8272 ?r = (Inr (pskRspHead ?v rnd' @ pskTag K ?v (psk c) (transcript c @ ?tx @ pskRspHead ?v rnd')),
        ?r\<lparr>rctx := pskLoaded K ?v (psk c) (transcript c @ ?tx @ pskRspHead ?v rnd') ((respSessionIds ?tx (respPskLoad ?r (rctx ?r)))\<lparr>rng := g'\<rparr>),
          pendingAsym := False\<rparr>)" (is "_ = (Inr ?rx, ?r2)")
    using responder_psk [OF K rh c(4) h g(2), of "reqSessionId c"] r(3,4) by (auto simp: respHdr_def Let_def)
  have l: "length ?rx = 92" using d(1) works_hash [OF K] by (simp add: pskRspHead_def)
  have v: "0x10 \<le> ?v \<and> ?v \<le> 0x1F" using c(4) by auto
  have "\<exists>y. wolfSPDM_SendReceive ?tx 8272 ?c1 = (Inr ?rx, ?c1\<lparr>ioUserCtx := ?r2, fipsIndicator := y\<rparr>)"
    by (rule exchange_with_responder [of ?c1 K "ioUserCtx c" ?tx ?rx ?r2 8272])
       (use p v f d(2) l h in \<open>simp_all add: peered_def Let_def wolfSPDM_IsTcgMode_def\<close>)
  then obtain y where x: "wolfSPDM_SendReceive ?tx 8272 ?c1 = (Inr ?rx, ?c1\<lparr>ioUserCtx := ?r2, fipsIndicator := y\<rparr>)" by blast
  let ?c2 = "?c1\<lparr>ioUserCtx := ?r2, fipsIndicator := y\<rparr>" and ?tr = "transcript c @ ?tx @ pskRspHead ?v rnd'"
  let ?d = "(pskLoaded K ?v (psk c) ?tr ?c2)\<lparr>rspSessionId := 0xFFFE,
        sessionId := ucast (reqSessionId c) OR push_bit 16 (ucast (0xFFFE :: word16))\<rparr>"
  have z: "wolfSPDM_ParsePskExchangeRsp K ?rx ?c2 = (Inr (), ?d)"
    using parse_psk_rsp [OF K, of ?c2 ?v rnd'] c f(1) d(1) h by simp
  have "pskExchangeStep K c = (Inr (), ?d)"
    using b x z c(3) f(1) h by (simp add: pskExchangeStep_def opE_defs works_add)
  moreover have sid: "sessionId ?d = ucast (reqSessionId c) OR push_bit 16 (ucast (0xFFFE :: word16))" by simp
  have "linked K ?d"
    unfolding linked_def sid session_first_byte
    using p r c f d(1) h hsKeys_lengths [OF K] works_hash [OF K] session_nonzero [of "reqSessionId c"]
    by (simp add: peered_def hsView_def Let_def pskLoaded_def loadHs_def respSessionIds_def respPskLoad_def respHdr_def wolfSPDM_IsTcgMode_def)
  then have "keyed K False ?d"
    using c(3) f(1) h d(1) works_hash [OF K] by (simp add: keyed_def pskLoaded_def loadHs_def Let_def pskRspHead_def)
  moreover have "spdmVersion ?d = ?v" "peerView (ioUserCtx ?d) = peerView (ioUserCtx c)"
    by (simp_all add: pskLoaded_def loadHs_def peerView_def respHdr_def Let_def)
  ultimately show ?thesis by blast
qed

definition pskFinishStep :: "wc_env \<Rightarrow> ('w, unit) cop" where
  "pskFinishStep K = bindE (wolfSPDM_BuildPskFinish K 64) (\<lambda>fin.
     bindE (wolfSPDM_EncryptInternal K fin pskBufSz) (\<lambda>enc.
     bindE (wolfSPDM_SendReceive enc pskBufSz) (\<lambda>rx2.
     bindE (wolfSPDM_DecryptInternal K rx2 64) (\<lambda>dec.
     thenE (wolfSPDM_ParsePskFinishRsp dec)
     (wolfSPDM_DeriveAppDataKeys K)))))"

lemma build_psk_finish:
  assumes "wc_works K" "length (transcript c) \<le> 1000"
  shows "wolfSPDM_BuildPskFinish K 64 c = (Inr (finMsg K False c), finDone K False c)"
  using assms fin_sizes(1) [of False "spdmVersion c"]
  by (simp add: wolfSPDM_BuildPskFinish_def opE_defs Let_def works_add works_hash [OF assms(1)] finHdr_def finTag_def finMsg_def finDone_def)

lemma parse_psk_finish_rsp:
  assumes "length (transcript c) \<le> 2000"
  shows "wolfSPDM_ParsePskFinishRsp (finAck False v) c =
     (Inr (), c\<lparr>transcript := transcript c @ finAck False v, state := WOLFSPDM_STATE_FINISH\<rparr>)"
  using assms by (simp add: wolfSPDM_ParsePskFinishRsp_def SPDM_CHECK_PARSE_ARGS_def opE_defs works_add finAck_def)

lemma requester_psk_finish:
  fixes c :: "('w, 't) WOLFSPDM_RESP_CTX WOLFSPDM_CTX"
  assumes K: "wc_works K" and k: "keyed K False c"
  shows "\<exists>d. pskFinishStep K c = (Inr (), d) \<and> live K (d\<lparr>state := WOLFSPDM_STATE_CONNECTED\<rparr>) \<and>
     spdmVersion d = spdmVersion c \<and> peerView (ioUserCtx d) = peerView (ioUserCtx c)"
proof -
  let ?ack = "finAck False (spdmVersion c)"
  obtain enc c2 rx c3 d where x: "wolfSPDM_EncryptInternal K (finMsg K False c) pskBufSz (finDone K False c) = (Inr enc, c2)"
      "wolfSPDM_SendReceive enc pskBufSz c2 = (Inr rx, c3)" "wolfSPDM_DecryptInternal K rx 64 c3 = (Inr ?ack, d)"
      "spdmVersion d = spdmVersion c" "handshakeSecret d = handshakeSecret c" "length (transcript d) \<le> 1100"
      "peerView (ioUserCtx d) = peerView (ioUserCtx c)"
    and lv: "\<And>st. live K ((loadApp K (spdmVersion c) (handshakeSecret c) (shaOf K (transcript d @ ?ack))
        (d\<lparr>transcript := transcript d @ ?ack, state := st\<rparr>))\<lparr>state := WOLFSPDM_STATE_CONNECTED\<rparr>)"
    using finish_exchange [OF K k, of pskBufSz pskBufSz 64] by auto
  have b: "wolfSPDM_BuildPskFinish K 64 c = (Inr (finMsg K False c), finDone K False c)"
    using k by (intro build_psk_finish [OF K]) (simp add: keyed_def)
  let ?d = "loadApp K (spdmVersion c) (handshakeSecret c) (shaOf K (transcript d @ ?ack))
      (d\<lparr>transcript := transcript d @ ?ack, state := WOLFSPDM_STATE_FINISH\<rparr>)"
  have "pskFinishStep K c = (Inr (), loadApp K (spdmVersion c) (handshakeSecret c) (shaOf K (transcript d @ ?ack))
      (d\<lparr>transcript := transcript d @ ?ack, state := WOLFSPDM_STATE_FINISH\<rparr>))"
    using b x parse_psk_finish_rsp [of d "spdmVersion c"] by (simp add: pskFinishStep_def opE_defs derive_app [OF K])
  moreover have "spdmVersion ?d = spdmVersion c" "ioUserCtx ?d = ioUserCtx d" using x(4) by (simp_all add: loadApp_def Let_def)
  ultimately show ?thesis using lv x(7) by (intro exI [of _ ?d]) simp
qed

section \<open>The whole connection\<close>

text \<open>A configured requester in front of a configured responder that holds the same key.\<close>

definition pskReady :: "wc_env \<Rightarrow> ('w, 't) WOLFSPDM_RESP_CTX WOLFSPDM_CTX \<Rightarrow> bool" where
  "pskReady K c \<longleftrightarrow> peered K c \<and> mode c = MODE_NATIONS_PSK \<and> usePsk (ioUserCtx c) \<and> initialized (flags c) \<and> psk c \<noteq> [] \<and> pskStore (ioUserCtx c) = psk c \<and>
     length (pskHint c) \<le> WOLFSPDM_PSK_HINT_MAX \<and> (maxVersion c = 0 \<or> maxVersion c \<ge> SPDM_VERSION_12) \<and>
     \<not> (0x10 \<le> (ucast (reqSessionId c) :: byte) \<and> (ucast (reqSessionId c) :: byte) \<le> 0x1F)"

lemma pskHandshake_steps:
  "pskHandshake K = thenE (wolfSPDM_GetVersion K) (thenE (pskExchangeStep K) (pskFinishStep K))"
  unfolding pskHandshake_def pskExchangeStep_def pskFinishStep_def bindE_assoc ..

lemma psk_handshake_agrees:
  fixes c :: "('w, 't) WOLFSPDM_RESP_CTX WOLFSPDM_CTX"
  assumes K: "wc_works K" and c: "pskReady K c" "transcript c = []" "reqSeqNum c = 0" "rspSeqNum c = 0"
  shows "\<exists>d. pskHandshake K c = (Inr (), d) \<and> live K (d\<lparr>state := WOLFSPDM_STATE_CONNECTED\<rparr>) \<and>
     (spdmVersion d = SPDM_VERSION_12 \<or> spdmVersion d = SPDM_VERSION_13) \<and> peerView (ioUserCtx d) = peerView (ioUserCtx c)"
proof -
  let ?r = "ioUserCtx c"
  have "wolfSPDM_IsTcgMode c" "respInitialized ?r" "useTcg ?r \<or> usePsk ?r" "ioCb c = Some (respIo K)"
      "maxVersion c = 0 \<or> maxVersion c \<ge> SPDM_VERSION_12"
    using c(1) by (simp_all add: pskReady_def peered_def Let_def wolfSPDM_IsTcgMode_def)
  then obtain f where v: "wolfSPDM_GetVersion K c = (Inr (), c\<lparr>transcript := versionReq @ versionRsp,
       ioUserCtx := afterVersion (respHdr (connectionHandle c) (fipsIndicator c) ?r),
       fipsIndicator := f, spdmVersion := chosenVersion c, state := WOLFSPDM_STATE_VERSION\<rparr>)" (is "_ = (_, ?c1)")
    using requester_version [of c K ?r] c(2) by blast
  have "peered K ?c1" "usePsk (ioUserCtx ?c1)" "state (rctx (ioUserCtx ?c1)) = WOLFSPDM_STATE_VERSION" "spdmVersion (rctx (ioUserCtx ?c1)) = 0"
      "transcript (rctx (ioUserCtx ?c1)) = transcript ?c1" "pskStore (ioUserCtx ?c1) = psk ?c1"
      "reqSeqNum (rctx (ioUserCtx ?c1)) = 0" "rspSeqNum (rctx (ioUserCtx ?c1)) = 0"
      "psk ?c1 \<noteq> []" "length (pskHint ?c1) \<le> WOLFSPDM_PSK_HINT_MAX" "length (transcript ?c1) \<le> 100"
      "spdmVersion ?c1 = SPDM_VERSION_12 \<or> spdmVersion ?c1 = SPDM_VERSION_13" "reqSeqNum ?c1 = 0" "rspSeqNum ?c1 = 0"
      "\<not> (0x10 \<le> (ucast (reqSessionId ?c1) :: byte) \<and> (ucast (reqSessionId ?c1) :: byte) \<le> 0x1F)"
    using c by (simp_all add: pskReady_def peered_def Let_def afterVersion_def respHdr_def wolfSPDM_FreeEphemeralKey_def
        wolfSPDM_RespReset_def wolfSPDM_TranscriptReset_def version_fields chosenVersion_def wolfSPDM_IsTcgMode_def)
  then obtain c2 where e: "pskExchangeStep K ?c1 = (Inr (), c2)" "keyed K False c2" "spdmVersion c2 = chosenVersion c"
      "peerView (ioUserCtx c2) = peerView (ioUserCtx ?c1)"
    using requester_psk [OF K, of ?c1] by auto
  obtain d where d: "pskFinishStep K c2 = (Inr (), d)" "live K (d\<lparr>state := WOLFSPDM_STATE_CONNECTED\<rparr>)" "spdmVersion d = spdmVersion c2"
      "peerView (ioUserCtx d) = peerView (ioUserCtx c2)"
    using requester_psk_finish [OF K e(2)] by blast
  have "peerView (ioUserCtx ?c1) = peerView (ioUserCtx c)"
    by (simp add: peerView_def afterVersion_def respHdr_def wolfSPDM_RespReset_def Let_def)
  with d(2-4) e(3,4) have "live K (d\<lparr>state := WOLFSPDM_STATE_CONNECTED\<rparr>)" "spdmVersion d = SPDM_VERSION_12 \<or> spdmVersion d = SPDM_VERSION_13"
      "peerView (ioUserCtx d) = peerView (ioUserCtx c)"
    by (simp_all add: chosenVersion_def)
  moreover have "pskHandshake K c = (Inr (), d)" using v e(1) d(1) by (simp add: pskHandshake_steps bindE_def)
  ultimately show ?thesis by blast
qed

lemma psk_connect_agrees:
  fixes c :: "('w, 't) WOLFSPDM_RESP_CTX WOLFSPDM_CTX"
  assumes K: "wc_works K" and c: "pskReady K c"
  shows "\<exists>d. wolfSPDM_Connect K c = (Inr (), d) \<and> live K d \<and> psk d = [] \<and>
     (spdmVersion d = SPDM_VERSION_12 \<or> spdmVersion d = SPDM_VERSION_13) \<and> peerView (ioUserCtx d) = peerView (ioUserCtx c)"
proof -
  let ?c = "wolfSPDM_TranscriptReset ((wolfSPDM_ResetSession c)\<lparr>state := WOLFSPDM_STATE_INIT\<rparr>)"
  have "pskReady K ?c" "transcript ?c = []" "reqSeqNum ?c = 0" "rspSeqNum ?c = 0" "ioUserCtx ?c = ioUserCtx c"
    using c reset_fields [of c] by (simp_all add: pskReady_def peered_def Let_def wolfSPDM_IsTcgMode_def wolfSPDM_TranscriptReset_def)
  then obtain d where d: "pskHandshake K ?c = (Inr (), d)" "live K (d\<lparr>state := WOLFSPDM_STATE_CONNECTED\<rparr>)"
      "spdmVersion d = SPDM_VERSION_12 \<or> spdmVersion d = SPDM_VERSION_13" "peerView (ioUserCtx d) = peerView (ioUserCtx c)"
    using psk_handshake_agrees [OF K] by metis
  have m: "mode c = MODE_NATIONS_PSK" "initialized (flags c)" "ioCb c = Some (respIo K)"
    using c by (simp_all add: pskReady_def peered_def Let_def)
  have r: "psk (wolfSPDM_ResetSession c) = psk c" "ioCb (wolfSPDM_ResetSession c) = ioCb c"
      "initialized (flags (wolfSPDM_ResetSession c))" "psk c \<noteq> []"
    using c reset_fields [of c] by (simp_all add: pskReady_def)
  have "wolfSPDM_Connect K c = (Inr (), d\<lparr>state := WOLFSPDM_STATE_CONNECTED\<rparr>)"
    using m r d(1) by (simp add: wolfSPDM_Connect_def wolfSPDM_ConnectPsk_def opE_defs)
  with d(2-4) pskHandshake_success(1) [OF d(1)] show ?thesis by (intro exI [of _ "d\<lparr>state := WOLFSPDM_STATE_CONNECTED\<rparr>"]) simp
qed

end
