(* ===== verification/Spdm_Tunnel.thy ===== *)
theory Spdm_Tunnel
  imports Spdm_Handshake
begin

text \<open>
  An open session at work: what a secured exchange with the responder does, a TPM command
  through the tunnel and back, and the end of the session on both sides.
\<close>

section \<open>One secured exchange\<close>

text \<open>The responder when it has opened the record of \<open>tx\<close>, and when it has sealed \<open>out\<close>.\<close>

definition respOpened :: "('w, 't) WOLFSPDM_RESP_CTX WOLFSPDM_CTX \<Rightarrow> bytes \<Rightarrow> ('w, 't) WOLFSPDM_RESP_CTX" where
  "respOpened c tx = (let r = respHdr (connectionHandle c) (fipsIndicator c) (ioUserCtx c) in
     r\<lparr>rctx := (rctx r)\<lparr>reqSeqNum := reqSeqNum (rctx r) + 1\<rparr>, secureInPlain := tx\<rparr>)"

definition respSealed :: "bool \<Rightarrow> bytes \<Rightarrow> ('w, 't) WOLFSPDM_RESP_CTX \<Rightarrow> ('w, 't) WOLFSPDM_RESP_CTX" where
  "respSealed ended g r = (let s = r\<lparr>rctx := (rctx r)\<lparr>rng := g, rspSeqNum := rspSeqNum (rctx r) + 1\<rparr>\<rparr> in
     (if ended then wolfSPDM_RespReset s else s)\<lparr>secureInPlain := [], secureOutPlain := []\<rparr>)"

text \<open>Contexts that may exchange records: under the handshake keys or connected.\<close>

definition talking :: "wc_env \<Rightarrow> ('w, 't) WOLFSPDM_RESP_CTX WOLFSPDM_CTX \<Rightarrow> bool" where
  "talking K c \<longleftrightarrow> linked K c \<and> (state c = WOLFSPDM_STATE_KEY_EX \<or> state c = WOLFSPDM_STATE_CONNECTED) \<and>
     (state (rctx (ioUserCtx c)) = WOLFSPDM_STATE_KEY_EX \<or> state (rctx (ioUserCtx c)) = WOLFSPDM_STATE_CONNECTED)"

lemma talkingD:
  assumes "talking K c"
  shows "linked K c" "\<not> (state c < WOLFSPDM_STATE_KEY_EX \<or> state c = WOLFSPDM_STATE_ERROR)"
    "\<not> (state (rctx (ioUserCtx c)) \<noteq> WOLFSPDM_STATE_KEY_EX \<and> state (rctx (ioUserCtx c)) \<noteq> WOLFSPDM_STATE_CONNECTED)"
  using assms by (auto simp: talking_def)

lemma liveD:
  assumes "live K c"
  shows "talking K c" "state c = WOLFSPDM_STATE_CONNECTED" "state (rctx (ioUserCtx c)) = WOLFSPDM_STATE_CONNECTED"
    "spdmVersion (rctx (ioUserCtx c)) = spdmVersion c"
    "reqAppSecret (rctx (ioUserCtx c)) = reqAppSecret c" "rspAppSecret (rctx (ioUserCtx c)) = rspAppSecret c"
  using assms by (simp_all add: live_def talking_def linked_def hsView_def)

lemma RespReset_scratch:
  "wolfSPDM_RespReset (r\<lparr>secureOutPlain := x, rctx := d\<rparr>) = wolfSPDM_RespReset (r\<lparr>rctx := d\<rparr>)"
  by (simp add: wolfSPDM_RespReset_def)

lemma responder_answers:
  fixes c :: "('w, 't) WOLFSPDM_RESP_CTX WOLFSPDM_CTX"
  assumes K: "wc_works K" and c: "talking K c"
    and e: "wolfSPDM_EncryptInternal K tx n c = (Inr enc, c')" "2 \<le> length tx" "length tx \<le> 7000"
    and sw: "respSecuredSwitch K (tx ! 1) tx (respOpened c tx) = (Inr (out, False, ended), r2)"
    and r2: "rctx r2 = (rctx (respOpened c tx))\<lparr>reqPubKeyTPMT := t\<rparr>"
    and o: "out \<noteq> []" "length out \<le> 7000"
  shows "\<exists>rx g. RespDispatchSecured K enc 8272 (respHdr (connectionHandle c) (fipsIndicator c) (ioUserCtx c)) =
       (Inr rx, respSealed ended g r2) \<and> length rx \<le> length out + 100 \<and>
     (\<forall>cap. \<forall>d :: 'v WOLFSPDM_CTX. length out \<le> cap \<longrightarrow> mirrored (RespSwapDataDir (rctx (ioUserCtx c))) d \<longrightarrow>
        wolfSPDM_DecryptInternal K rx cap d = (Inr out, nextRsp d))"
proof -
  let ?r = "respHdr (connectionHandle c) (fipsIndicator c) (ioUserCtx c)"
  note l = talkingD [OF c]
  note kd = l(1) [unfolded link_defs] l(2,3)
  have m: "mirrored c (RespSwapDataDir (rctx ?r))"
    using kd by (simp add: mirrored_def RespSwapDataDir_def respHdr_def wolfSPDM_IsTcgMode_def)
  have dec: "RespDecrypt K enc WOLFSPDM_MAX_MSG_SIZE (rctx ?r) = (Inr tx, (rctx ?r)\<lparr>reqSeqNum := reqSeqNum (rctx ?r) + 1\<rparr>)"
    using e(2,3) by (intro resp_decrypts [OF K m e(1)]) auto
  have d: "wolfSPDM_IsTcgMode (rctx r2)" "rngInitialized (flags (rctx r2))"
      "length (rspDataKey (rctx r2)) = WOLFSPDM_AEAD_KEY_SIZE" "length (rspDataIv (rctx r2)) = WOLFSPDM_AEAD_IV_SIZE"
    using kd unfolding r2 by (simp_all add: respOpened_def respHdr_def wolfSPDM_IsTcgMode_def Let_def)
  have n: "length out + 100 \<le> 8272" using o(2) by simp
  obtain rx g where x: "RespEncrypt K out 8272 (rctx r2) = (Inr rx, (rctx r2)\<lparr>rng := g, rspSeqNum := rspSeqNum (rctx r2) + 1\<rparr>)"
      "length rx \<le> length out + 100"
    using resp_encrypts [OF K d o(2) n o(1) order_refl] by blast
  obtain x' where s: "wolfSPDM_EncryptInternal K out 8272 (RespSwapDataDir (rctx r2)) = (Inr rx, x')"
    using x(1) by (auto simp: RespEncrypt_def opE_defs split: prod.splits sum.splits)
  have m2: "mirrored (RespSwapDataDir (rctx r2)) y \<longleftrightarrow> mirrored (RespSwapDataDir (rctx (ioUserCtx c))) y" for y :: "'v WOLFSPDM_CTX"
    unfolding r2 by (simp add: mirrored_def RespSwapDataDir_def respOpened_def respHdr_def Let_def wolfSPDM_IsTcgMode_def)
  have "RespDispatchSecured K enc 8272 ?r = (Inr rx, respSealed ended g r2)"
    using kd dec sw x(1) e(2)
    by (simp add: RespDispatchSecured_def RespDispatchSecuredInner_def respOpened_def respSealed_def zoomE_def opE_defs Let_def
        respHdr_def RespReset_scratch)
  with x(2) record_opens [OF K _ s o(1)] m2 show ?thesis by blast
qed

lemma link_exchange:
  fixes c :: "('w, 't) WOLFSPDM_RESP_CTX WOLFSPDM_CTX"
  assumes K: "wc_works K" and c: "talking K c" and tx: "2 \<le> length tx" "length tx \<le> 7000"
    and sw: "respSecuredSwitch K (tx ! 1) tx (respOpened c tx) = (Inr (out, False, ended), r2)"
    and r2: "rctx r2 = (rctx (respOpened c tx))\<lparr>reqPubKeyTPMT := t\<rparr>"
    and o: "out \<noteq> []" "length out \<le> 7000" "length out \<le> cap"
  shows "\<exists>l g g' f. wolfSPDM_SecuredExchange K tx cap c = (Inr out, c\<lparr>l1l2State := l, rng := g,
     reqSeqNum := reqSeqNum c + 1, ioUserCtx := respSealed ended g' r2, fipsIndicator := f, rspSeqNum := rspSeqNum c + 1\<rparr>)"
proof -
  note l = talkingD [OF c]
  note kd = l(1) [unfolded link_defs] l(2,3)
  obtain c0 s where c0: "c0 = c\<lparr>l1l2State := s\<rparr>" "(if l1l2State c = WOLFSPDM_RUN_OPEN
      then modE (\<lambda>d. d\<lparr>l1l2State := WOLFSPDM_RUN_LIVE\<rparr>) else retE ()) c = (Inr (), c0)"
    using that [of "if l1l2State c = WOLFSPDM_RUN_OPEN then c\<lparr>l1l2State := WOLFSPDM_RUN_LIVE\<rparr> else c\<lparr>l1l2State := l1l2State c\<rparr>"
        "if l1l2State c = WOLFSPDM_RUN_OPEN then WOLFSPDM_RUN_LIVE else l1l2State c"] by (simp add: opE_defs)
  have live: "talking K c0"
    using c by (simp add: talking_def link_defs c0(1) wolfSPDM_IsTcgMode_def)
  have op: "respOpened c0 tx = respOpened c tx" by (simp add: c0(1) respOpened_def Let_def)
  have q: "wolfSPDM_IsTcgMode c0" "rngInitialized (flags c0)" "length (reqDataKey c0) = WOLFSPDM_AEAD_KEY_SIZE"
      "length (reqDataIv c0) = WOLFSPDM_AEAD_IV_SIZE" "sessionId c0 = sessionId c"
    using kd by (simp_all add: c0(1) wolfSPDM_IsTcgMode_def)
  have n: "length tx + 100 \<le> 8272" using tx by simp
  obtain enc g where e: "wolfSPDM_EncryptInternal K tx 8272 c0 = (Inr enc, c0\<lparr>rng := g, reqSeqNum := reqSeqNum c0 + 1\<rparr>)"
      "length enc \<le> length tx + 100" "enc \<noteq> []" "enc ! 0 = ucast (sessionId c AND 0xFF)"
    using works_encrypt [OF K q(1-4) tx(2) n] unfolding q(5) by blast
  have first: "\<not> (0x10 \<le> enc ! 0 \<and> enc ! 0 \<le> 0x1F)" using linkedD(4) [OF l(1)] unfolding e(4) .
  obtain rx g' where x: "RespDispatchSecured K enc 8272 (respHdr (connectionHandle c0) (fipsIndicator c0) (ioUserCtx c0)) =
       (Inr rx, respSealed ended g' r2)" "length rx \<le> length out + 100"
      "\<And>cap d. length out \<le> cap \<Longrightarrow> mirrored (RespSwapDataDir (rctx (ioUserCtx c0))) (d :: ('w, 't) WOLFSPDM_RESP_CTX WOLFSPDM_CTX) \<Longrightarrow>
        wolfSPDM_DecryptInternal K rx cap d = (Inr out, nextRsp d)"
    using responder_answers [OF K live e(1) tx sw [folded op] r2 [folded op] o(1,2)] by blast
  let ?c2 = "c0\<lparr>rng := g, reqSeqNum := reqSeqNum c0 + 1\<rparr>"
  have "ioCb ?c2 = Some (respIo K)" "wolfSPDM_IsTcgMode ?c2" "ioUserCtx ?c2 = ioUserCtx c0" "respInitialized (ioUserCtx c0)"
      "useTcg (ioUserCtx c0) \<or> usePsk (ioUserCtx c0)" "length enc \<le> 8000" "length rx \<le> 8272"
    using kd e(2) x(2) tx o by (simp_all add: c0(1) wolfSPDM_IsTcgMode_def)
  moreover have "(if 0x10 \<le> enc ! 0 \<and> enc ! 0 \<le> 0x1F then RespDispatchClear K enc 8272 (respHdr (connectionHandle ?c2) (fipsIndicator ?c2) (ioUserCtx c0))
      else RespDispatchSecured K enc 8272 (respHdr (connectionHandle ?c2) (fipsIndicator ?c2) (ioUserCtx c0))) = (Inr rx, respSealed ended g' r2)"
    unfolding if_not_P [OF first] using x(1) by simp
  ultimately obtain y where y: "wolfSPDM_SendReceive enc 8272 ?c2 = (Inr rx, ?c2\<lparr>ioUserCtx := respSealed ended g' r2, fipsIndicator := y\<rparr>)"
    using exchange_with_responder [of ?c2 K "ioUserCtx c0" enc rx "respSealed ended g' r2" 8272] e(3) by blast
  let ?c3 = "?c2\<lparr>ioUserCtx := respSealed ended g' r2, fipsIndicator := y\<rparr>"
  have "mirrored (RespSwapDataDir (rctx (ioUserCtx c0))) ?c3"
    using kd by (simp add: c0(1) mirrored_def RespSwapDataDir_def wolfSPDM_IsTcgMode_def)
  note z = x(3) [OF o(3) this]
  have "wolfSPDM_SecuredExchange K tx cap c = (Inr out, nextRsp ?c3)"
    using kd c0(2) e(1) y z
    by (simp add: wolfSPDM_SecuredExchange_def wolfSPDM_SecuredXfer_def wolfSPDM_ChunkOn_def wolfSPDM_IsTcgMode_def opE_defs)
  then show ?thesis unfolding c0(1) by (intro exI) simp
qed

section \<open>The TPM tunnel\<close>

text \<open>What the responder answers a vendor command.\<close>

definition vendorRsp :: "byte \<Rightarrow> bytes \<Rightarrow> bytes \<Rightarrow> bytes" where
  "vendorRsp ver code resp = [ver, WOLFSPDM_VENDOR_DEFINED_RSP, 0x00, 0x00] @ SPDM_Set16LE 0x0001 @ [0x00] @
     SPDM_Set16LE (of_nat (WOLFSPDM_VDCODE_LEN + length resp)) @ code @ resp"

lemma tpm2_code: "length WOLFSPDM_VDCODE_TPM2_CMD = WOLFSPDM_VDCODE_LEN" "0 \<notin> set WOLFSPDM_VDCODE_TPM2_CMD"
  by (simp_all add: WOLFSPDM_VDCODE_TPM2_CMD_def cstr_def)

lemma vendorRsp_parses:
  assumes "length code = WOLFSPDM_VDCODE_LEN" "length resp \<le> 7000" "length resp \<le> cap"
  shows "length (vendorRsp v code resp) = 17 + length resp"
    "wolfSPDM_ParseVendorDefined (vendorRsp v code resp) cap s = (Inr (code, resp), s)"
proof -
  have u: "unat (8 + of_nat (length resp) :: word16) = 8 + length resp"
    using unat_of_nat_small [of "8 + length resp", where 'a = 16] assms(2) by simp
  show "length (vendorRsp v code resp) = 17 + length resp" using assms by (simp add: vendorRsp_def)
  show "wolfSPDM_ParseVendorDefined (vendorRsp v code resp) cap s = (Inr (code, resp), s)"
    using assms u by (simp add: vendorRsp_def wolfSPDM_ParseVendorDefined_def opE_defs Let_def codec_simps nth_append)
qed

lemma responder_tunnels:
  fixes r :: "('w, 't) WOLFSPDM_RESP_CTX"
  assumes r: "state (rctx r) = WOLFSPDM_STATE_CONNECTED" "tpmCb r = Some cb"
    and p: "wolfSPDM_ParseVendorDefined tx WOLFSPDM_MAX_TPM_MSG_SIZE (r) = (Inr (WOLFSPDM_VDCODE_TPM2_CMD, cmd), r)"
    and cb: "cb cmd (WOLFSPDM_MAX_TPM_MSG_SIZE - 17) (tpmCbUserCtx r) = ((0, resp), w)" "length resp \<le> 6983"
  shows "respSecuredSwitch K SPDM_VENDOR_DEFINED_REQUEST tx r =
     (Inr (vendorRsp (spdmVersion (rctx r)) WOLFSPDM_VDCODE_TPM2_CMD resp, False, False),
      r\<lparr>tpmCbUserCtx := w, vdInPayload := [], vdOutPayload := []\<rparr>)"
  using assms
  by (simp add: respSecuredSwitch_def RespHandleVendorDefined_def RespHandleVendorDefinedInner_def respVendorCmd_def
      respTpmCmd_def putOut_def opE_defs zoomE_def vendorRsp_def Let_def)

lemma tpm_command_tunnelled:
  fixes c :: "('w, 't) WOLFSPDM_RESP_CTX WOLFSPDM_CTX"
  assumes K: "wc_works K" and c: "live K c" "tpmCb (ioUserCtx c) = Some cb"
    and cb: "cb cmd (WOLFSPDM_MAX_TPM_MSG_SIZE - 17) (tpmCbUserCtx (ioUserCtx c)) = ((0, resp), w)"
    and n: "length cmd \<le> 6983" "length resp \<le> 6983" "17 + length cmd \<le> txSz" "17 + length resp \<le> rxSz" "length resp \<le> cap"
  shows "\<exists>tx rx d. wolfSPDM_BuildVendorDefined (spdmVersion c) WOLFSPDM_VDCODE_TPM2_CMD cmd txSz c = (Inr tx, c) \<and>
     wolfSPDM_SecuredExchange K tx rxSz c = (Inr rx, d) \<and>
     wolfSPDM_ParseVendorDefined rx cap d = (Inr (WOLFSPDM_VDCODE_TPM2_CMD, resp), d) \<and>
     live K d \<and> tpmCbUserCtx (ioUserCtx d) = w \<and> reqSeqNum d = reqSeqNum c + 1 \<and> rspSeqNum d = rspSeqNum c + 1"
proof -
  note l = liveD [OF c(1)]
  obtain tx where tx: "wolfSPDM_BuildVendorDefined (spdmVersion c) WOLFSPDM_VDCODE_TPM2_CMD cmd txSz c = (Inr tx, c)"
      "length tx = 17 + length cmd"
    using vendor_defined_roundtrip [OF tpm2_code, of cmd "length cmd" txSz "spdmVersion c" c c] n by auto
  have p: "wolfSPDM_ParseVendorDefined tx WOLFSPDM_MAX_TPM_MSG_SIZE t = (Inr (WOLFSPDM_VDCODE_TPM2_CMD, cmd), t)" for t :: "('w, 't) WOLFSPDM_RESP_CTX"
    using vendor_defined_roundtrip [OF tpm2_code, of cmd 8192 txSz "spdmVersion c" c t] n tx(1) by auto
  have code: "tx ! 1 = SPDM_VENDOR_DEFINED_REQUEST"
    using tx(1) by (auto simp: wolfSPDM_BuildVendorDefined_def opE_defs split: if_splits)
  let ?r = "respOpened c tx" and ?out = "vendorRsp (spdmVersion c) WOLFSPDM_VDCODE_TPM2_CMD resp"
  have "state (rctx ?r) = WOLFSPDM_STATE_CONNECTED" "tpmCb ?r = Some cb" "tpmCbUserCtx ?r = tpmCbUserCtx (ioUserCtx c)"
      "spdmVersion (rctx ?r) = spdmVersion c"
    using l(3,4) c(2) by (simp_all add: respOpened_def respHdr_def hsView_def Let_def)
  then have sw: "respSecuredSwitch K (tx ! 1) tx ?r = (Inr (?out, False, False), ?r\<lparr>tpmCbUserCtx := w, vdInPayload := [], vdOutPayload := []\<rparr>)"
    using responder_tunnels [of ?r cb tx cmd resp w K] p cb n(2) code by simp
  have v: "length ?out = 17 + length resp" "wolfSPDM_ParseVendorDefined ?out cap t = (Inr (WOLFSPDM_VDCODE_TPM2_CMD, resp), t)"
      for t :: "('w, 't) WOLFSPDM_RESP_CTX WOLFSPDM_CTX"
    using vendorRsp_parses [OF tpm2_code(1), of resp cap] n by auto
  have o: "?out \<noteq> []" "length ?out \<le> 7000" "length ?out \<le> rxSz" "2 \<le> length tx" "length tx \<le> 7000"
    using v(1) n tx(2) by (auto simp: vendorRsp_def)
  obtain s g g' f where x: "wolfSPDM_SecuredExchange K tx rxSz c = (Inr ?out, c\<lparr>l1l2State := s, rng := g,
     reqSeqNum := reqSeqNum c + 1, ioUserCtx := respSealed False g' (?r\<lparr>tpmCbUserCtx := w, vdInPayload := [], vdOutPayload := []\<rparr>),
     fipsIndicator := f, rspSeqNum := rspSeqNum c + 1\<rparr>)" (is "_ = (_, ?d)")
    using link_exchange [where t = "reqPubKeyTPMT (rctx ?r)", OF K l(1) o(4,5) sw _ o(1-3)] by auto
  have "live K ?d"
    using c(1) by (simp add: live_def link_defs respSealed_def respOpened_def respHdr_def wolfSPDM_IsTcgMode_def)
  moreover have "tpmCbUserCtx (ioUserCtx ?d) = w" by (simp add: respSealed_def Let_def)
  ultimately show ?thesis using tx(1) x v(2) by auto
qed

section \<open>The end of the session\<close>

lemma session_ends:
  fixes c :: "('w, 't) WOLFSPDM_RESP_CTX WOLFSPDM_CTX"
  assumes K: "wc_works K" and c: "live K c"
  shows "\<exists>d. wolfSPDM_Disconnect K c = (Inr (), d) \<and> state d = WOLFSPDM_STATE_INIT \<and>
     state (rctx (ioUserCtx d)) = WOLFSPDM_STATE_INIT \<and> sessionId (rctx (ioUserCtx d)) = 0 \<and>
     set (concat (session_keys (rctx (ioUserCtx d)))) \<subseteq> {0} \<and> peered K d \<and> spdmVersion d = spdmVersion c \<and>
     spdmVersion (rctx (ioUserCtx d)) = spdmVersion c \<and> peerView (ioUserCtx d) = peerView (ioUserCtx c)"
proof -
  let ?tx = "[spdmVersion c, SPDM_END_SESSION, 0x00, 0x00]" and ?out = "[spdmVersion c, SPDM_END_SESSION_ACK, 0x00, 0x00]"
  let ?r = "respOpened c ?tx"
  note l = liveD [OF c]
  have v: "spdmVersion (rctx ?r) = spdmVersion c" using l(4) by (simp add: respOpened_def respHdr_def Let_def)
  have sw: "respSecuredSwitch K (?tx ! 1) ?tx ?r = (Inr (?out, False, True), ?r)"
    using v by (simp add: respSecuredSwitch_def RespBuildEndSessionAck_def zoomE_def opE_defs)
  obtain s g g' f where x: "wolfSPDM_SecuredExchange K ?tx 16 c = (Inr ?out, c\<lparr>l1l2State := s, rng := g,
     reqSeqNum := reqSeqNum c + 1, ioUserCtx := respSealed True g' ?r, fipsIndicator := f, rspSeqNum := rspSeqNum c + 1\<rparr>)" (is "_ = (_, ?d)")
    using link_exchange [where t = "reqPubKeyTPMT (rctx ?r)" and cap = 16, OF K l(1) _ _ sw] by auto
  have "wolfSPDM_Disconnect K c = (Inr (), wolfSPDM_ResetSession ?d)"
    using x l(2)
    by (simp add: wolfSPDM_Disconnect_def endSession_def wolfSPDM_BuildEndSession_def wolfSPDM_BuildSimpleMsg_def
        wolfSPDM_CheckError_def opE_defs)
  moreover have "ioUserCtx (wolfSPDM_ResetSession ?d) = respSealed True g' ?r" "state (wolfSPDM_ResetSession ?d) = WOLFSPDM_STATE_INIT"
    using ResetSession_keeps_identity [of ?d] ResetSession_wipes [of ?d] by (simp_all add: Let_def)
  moreover have "state (rctx (respSealed True g' ?r)) = WOLFSPDM_STATE_INIT" "sessionId (rctx (respSealed True g' ?r)) = 0"
      "set (concat (session_keys (rctx (respSealed True g' ?r)))) \<subseteq> {0}"
    by (auto simp: respSealed_def wolfSPDM_RespReset_def wolfSPDM_TranscriptReset_def wolfSPDM_FreeEphemeralKey_def session_keys_def
        zeros_def Let_def)
  moreover have "peered K (wolfSPDM_ResetSession ?d)" "spdmVersion (wolfSPDM_ResetSession ?d) = spdmVersion c"
    using c reset_fields [of ?d] by (simp_all add: live_def link_defs respSealed_def respOpened_def respHdr_def wolfSPDM_IsTcgMode_def
        wolfSPDM_RespReset_def wolfSPDM_TranscriptReset_def wolfSPDM_FreeEphemeralKey_def)
  moreover have "spdmVersion (rctx (respSealed True g' ?r)) = spdmVersion c" "peerView (respSealed True g' ?r) = peerView (ioUserCtx c)"
    using v by (simp_all add: respSealed_def respOpened_def respHdr_def peerView_def wolfSPDM_RespReset_def wolfSPDM_TranscriptReset_def
        wolfSPDM_FreeEphemeralKey_def Let_def)
  ultimately show ?thesis by auto
qed

end
