(* ===== verification/Spdm_IdClear.thy ===== *)
theory Spdm_IdClear
  imports Spdm_Tunnel
begin

text \<open>
  The identity-key connection up to its key exchange: what elliptic curve functions have to do,
  and the messages in the clear that \<open>wolfSPDM_ConnectTCG\<close> and the responder exchange.
\<close>

section \<open>Elliptic curves that work\<close>

text \<open>
  Documented behaviour of the P-384 functions: keys can be made, exported and imported, and two
  generated keys agree on a secret; a key pair signs what its public half verifies.
\<close>

definition eccKey :: "wc_env \<Rightarrow> bytes \<Rightarrow> bool" where
  "eccKey K k \<longleftrightarrow> (\<exists>g g'. wc_ecc_make_key K g = (Some k, g'))"

definition eccPub :: "wc_env \<Rightarrow> bytes \<Rightarrow> bytes \<times> bytes" where
  "eccPub K k = (case wc_ecc_export_public_raw K k of None \<Rightarrow> ([], [])
     | Some (x, y) \<Rightarrow> (wolfSPDM_LeftPadToSize x WOLFSPDM_ECC_KEY_SIZE, wolfSPDM_LeftPadToSize y WOLFSPDM_ECC_KEY_SIZE))"

definition eccPeer :: "wc_env \<Rightarrow> bytes \<Rightarrow> bytes" where
  "eccPeer K k = the (wc_ecc_import_unsigned K (fst (eccPub K k)) (snd (eccPub K k)) None)"

definition wc_ecc_works :: "wc_env \<Rightarrow> bool" where
  "wc_ecc_works K \<longleftrightarrow> (\<forall>g. \<exists>k g'. wc_ecc_make_key K g = (Some k, g')) \<and>
     (\<forall>k. eccKey K k \<longrightarrow> (\<exists>x y. wc_ecc_export_public_raw K k = Some (x, y) \<and>
        length x \<le> WOLFSPDM_ECC_KEY_SIZE \<and> length y \<le> WOLFSPDM_ECC_KEY_SIZE) \<and>
        wc_ecc_import_unsigned K (fst (eccPub K k)) (snd (eccPub K k)) None \<noteq> None \<and> wc_ecc_check_key K (eccPeer K k)) \<and>
     (\<forall>a b. eccKey K a \<longrightarrow> eccKey K b \<longrightarrow> (\<exists>z. \<forall>g. fst (wc_ecc_shared_secret K a (eccPeer K b) g) = Some z \<and>
        fst (wc_ecc_shared_secret K b (eccPeer K a) g) = Some z))"

definition eccPair :: "wc_env \<Rightarrow> bytes \<Rightarrow> bytes \<Rightarrow> bool" where
  "eccPair K priv pub \<longleftrightarrow> (\<exists>sk pk. wc_ecc_import_unsigned K (take WOLFSPDM_ECC_KEY_SIZE pub) (drop WOLFSPDM_ECC_KEY_SIZE pub) (Some priv) = Some sk \<and>
     wc_ecc_import_unsigned K (take WOLFSPDM_ECC_KEY_SIZE pub) (drop WOLFSPDM_ECC_KEY_SIZE pub) None = Some pk \<and> wc_ecc_check_key K pk \<and>
     (\<forall>h g. length h = WOLFSPDM_HASH_SIZE \<longrightarrow> (\<exists>der r s g' der'. wc_ecc_sign_hash K h g sk = (Some der, g') \<and>
        wc_ecc_sig_to_rs K der = Some (r, s) \<and> length r \<le> WOLFSPDM_ECC_KEY_SIZE \<and> length s \<le> WOLFSPDM_ECC_KEY_SIZE \<and>
        wc_ecc_rs_raw_to_sig K (wolfSPDM_LeftPadToSize r WOLFSPDM_ECC_KEY_SIZE) (wolfSPDM_LeftPadToSize s WOLFSPDM_ECC_KEY_SIZE) = Some der' \<and>
        wc_ecc_verify_hash K der' h pk = Some True)))"

lemma length_LeftPad: "length b \<le> n \<Longrightarrow> length (wolfSPDM_LeftPadToSize b n) = n"
  by (simp add: wolfSPDM_LeftPadToSize_def zeros_def)

text \<open>The secret two generated keys share, as both sides compute it.\<close>

definition dhOf :: "wc_env \<Rightarrow> bytes \<Rightarrow> bytes \<Rightarrow> bytes" where
  "dhOf K a b = wolfSPDM_LeftPadToSize (the (fst (wc_ecc_shared_secret K a (eccPeer K b) []))) WOLFSPDM_ECC_KEY_SIZE"

lemma ecc_points:
  assumes "wc_ecc_works K" "eccKey K k"
  shows "length (fst (eccPub K k)) = WOLFSPDM_ECC_KEY_SIZE" "length (snd (eccPub K k)) = WOLFSPDM_ECC_KEY_SIZE"
    "wc_ecc_import_unsigned K (fst (eccPub K k)) (snd (eccPub K k)) None = Some (eccPeer K k)" "wc_ecc_check_key K (eccPeer K k)"
    "\<exists>x y. wc_ecc_export_public_raw K k = Some (x, y) \<and> eccPub K k =
       (wolfSPDM_LeftPadToSize x WOLFSPDM_ECC_KEY_SIZE, wolfSPDM_LeftPadToSize y WOLFSPDM_ECC_KEY_SIZE)"
proof -
  obtain x y where e: "wc_ecc_export_public_raw K k = Some (x, y)" "length x \<le> WOLFSPDM_ECC_KEY_SIZE" "length y \<le> WOLFSPDM_ECC_KEY_SIZE"
      "wc_ecc_import_unsigned K (fst (eccPub K k)) (snd (eccPub K k)) None \<noteq> None" "wc_ecc_check_key K (eccPeer K k)"
    using assms unfolding wc_ecc_works_def by blast
  then show "length (fst (eccPub K k)) = WOLFSPDM_ECC_KEY_SIZE" "length (snd (eccPub K k)) = WOLFSPDM_ECC_KEY_SIZE"
    by (simp_all add: eccPub_def length_LeftPad)
  show "wc_ecc_import_unsigned K (fst (eccPub K k)) (snd (eccPub K k)) None = Some (eccPeer K k)"
    using e(4) by (auto simp: eccPeer_def)
  show "\<exists>x y. wc_ecc_export_public_raw K k = Some (x, y) \<and> eccPub K k =
       (wolfSPDM_LeftPadToSize x WOLFSPDM_ECC_KEY_SIZE, wolfSPDM_LeftPadToSize y WOLFSPDM_ECC_KEY_SIZE)"
    using e(1) by (simp add: eccPub_def)
qed (use assms in \<open>simp add: wc_ecc_works_def\<close>)

lemma dh_agrees:
  assumes "wc_ecc_works K" "eccKey K a" "eccKey K b"
  shows "\<exists>z g'. wc_ecc_shared_secret K a (eccPeer K b) g = (Some z, g') \<and> wolfSPDM_LeftPadToSize z WOLFSPDM_ECC_KEY_SIZE = dhOf K a b"
    "dhOf K a b = dhOf K b a"
proof -
  obtain z where z: "\<And>g. fst (wc_ecc_shared_secret K a (eccPeer K b) g) = Some z \<and> fst (wc_ecc_shared_secret K b (eccPeer K a) g) = Some z"
    using assms unfolding wc_ecc_works_def by blast
  then show "\<exists>z g'. wc_ecc_shared_secret K a (eccPeer K b) g = (Some z, g') \<and> wolfSPDM_LeftPadToSize z WOLFSPDM_ECC_KEY_SIZE = dhOf K a b"
    by (intro exI [of _ z] exI [of _ "snd (wc_ecc_shared_secret K a (eccPeer K b) g)"]) (simp add: dhOf_def prod_eq_iff)
  show "dhOf K a b = dhOf K b a" using z by (simp add: dhOf_def)
qed

lemma works_ephemeral:
  assumes K: "wc_ecc_works K" and c: "rngInitialized (flags c)" "\<not> ephemeralIsKem (flags c)"
  shows "\<exists>k g. eccKey K k \<and> wolfSPDM_GenerateEphemeralKey K c =
       (Inr (), c\<lparr>rng := g, ephemeral := k, flags := (flags c)\<lparr>ephemeralKeyInit := True\<rparr>\<rparr>) \<and>
     wolfSPDM_ExportEphemeralPubKey K (c\<lparr>rng := g, ephemeral := k, flags := (flags c)\<lparr>ephemeralKeyInit := True\<rparr>\<rparr>) =
       (Inr (eccPub K k), c\<lparr>rng := g, ephemeral := k, flags := (flags c)\<lparr>ephemeralKeyInit := True\<rparr>\<rparr>)"
proof -
  obtain k g where g: "wc_ecc_make_key K (rng c) = (Some k, g)" using K unfolding wc_ecc_works_def by blast
  then have k: "eccKey K k" by (auto simp: eccKey_def)
  obtain x y where x: "wc_ecc_export_public_raw K k = Some (x, y)" "eccPub K k =
       (wolfSPDM_LeftPadToSize x WOLFSPDM_ECC_KEY_SIZE, wolfSPDM_LeftPadToSize y WOLFSPDM_ECC_KEY_SIZE)"
    using ecc_points(5) [OF K k] by blast
  have f: "(flags c)\<lparr>ephemeralIsKem := False, ephemeralKeyInit := b\<rparr> = (flags c)\<lparr>ephemeralKeyInit := b\<rparr>" for b
    using c(2) by (cases "flags c") simp
  have "rng (wolfSPDM_FreeEphemeralKey c) = rng c" by (simp add: wolfSPDM_FreeEphemeralKey_def)
  then have "wolfSPDM_GenerateEphemeralKey K c = (Inr (), c\<lparr>rng := g, ephemeral := k, flags := (flags c)\<lparr>ephemeralKeyInit := True\<rparr>\<rparr>)"
    using g c f by (simp add: wolfSPDM_GenerateEphemeralKey_def opE_defs) (simp add: wolfSPDM_FreeEphemeralKey_def)
  moreover have "wolfSPDM_ExportEphemeralPubKey K (c\<lparr>rng := g, ephemeral := k, flags := (flags c)\<lparr>ephemeralKeyInit := True\<rparr>\<rparr>) =
       (Inr (eccPub K k), c\<lparr>rng := g, ephemeral := k, flags := (flags c)\<lparr>ephemeralKeyInit := True\<rparr>\<rparr>)"
    using x c(2) by (simp add: wolfSPDM_ExportEphemeralPubKey_def opE_defs)
  ultimately show ?thesis using k by blast
qed

lemma works_shared:
  assumes "wc_ecc_works K" "eccKey K (ephemeral c)" "eccKey K b" "ephemeralKeyInit (flags c)" "\<not> ephemeralIsKem (flags c)"
  shows "\<exists>g. wolfSPDM_ComputeSharedSecret K (fst (eccPub K b)) (snd (eccPub K b)) c =
     (Inr (), c\<lparr>rng := g, sharedSecret := dhOf K (ephemeral c) b\<rparr>)"
proof -
  obtain z g where "wc_ecc_shared_secret K (ephemeral c) (eccPeer K b) (rng c) = (Some z, g)"
      "wolfSPDM_LeftPadToSize z WOLFSPDM_ECC_KEY_SIZE = dhOf K (ephemeral c) b"
    using dh_agrees(1) [OF assms(1-3)] by blast
  with ecc_points(3,4) [OF assms(1,3)] assms(4,5) show ?thesis
    by (intro exI [of _ g]) (simp add: wolfSPDM_ComputeSharedSecret_def opE_defs)
qed

section \<open>The messages in the clear\<close>

text \<open>
  The two sides between the version and the key exchange: the same transcript, a responder that
  holds the key the requester has pinned, and no session.
\<close>

definition idPhase :: "wc_env \<Rightarrow> bytes \<Rightarrow> bytes \<Rightarrow> ('w, 't) WOLFSPDM_RESP_CTX WOLFSPDM_CTX \<Rightarrow> bool" where
  "idPhase K priv pub c \<longleftrightarrow> (let r = ioUserCtx c; rc = rctx r in
     peered K c \<and> useTcg r \<and> hasIdKey r \<and> idPrivKey r = priv \<and> idPubKey r = pub \<and>
     hasRspPubKey (flags c) \<and> rspPubKey c = pub \<and> length pub = WOLFSPDM_ECC_POINT_SIZE \<and> length priv = WOLFSPDM_ECC_KEY_SIZE \<and>
     state rc = WOLFSPDM_STATE_VERSION \<and> state c \<noteq> WOLFSPDM_STATE_INIT \<and> transcript rc = transcript c \<and>
     (spdmVersion c = SPDM_VERSION_12 \<or> spdmVersion c = SPDM_VERSION_13) \<and> (spdmVersion rc = 0 \<or> spdmVersion rc = spdmVersion c) \<and>
     reqSeqNum c = 0 \<and> rspSeqNum c = 0 \<and> reqSeqNum rc = 0 \<and> rspSeqNum rc = 0 \<and> m1State c = WOLFSPDM_RUN_NONE \<and>
     \<not> ephemeralIsKem (flags c) \<and> \<not> ephemeralIsKem (flags rc) \<and> length (reqPubKeyTPMT c) \<le> WOLFSPDM_PUBKEY_BUF_SZ div 2 \<and>
     \<not> (0x10 \<le> (ucast (reqSessionId c) :: byte) \<and> (ucast (reqSessionId c) :: byte) \<le> 0x1F))"

text \<open>The responder with the version settled and \<open>x\<close> added to the transcript.\<close>

definition respAdvance :: "bytes \<Rightarrow> ('w, 't) WOLFSPDM_RESP_CTX WOLFSPDM_CTX \<Rightarrow> ('w, 't) WOLFSPDM_RESP_CTX" where
  "respAdvance x c = (let r = respHdr (connectionHandle c) (fipsIndicator c) (ioUserCtx c) in
     r\<lparr>rctx := (rctx r)\<lparr>spdmVersion := spdmVersion c, transcript := transcript c @ x\<rparr>\<rparr>)"

lemma idPhase_advance:
  assumes "idPhase K priv pub c"
  shows "idPhase K priv pub (c\<lparr>transcript := transcript c @ x, ioUserCtx := respAdvance x c, fipsIndicator := f\<rparr>)"
    "idPhase K priv pub (c\<lparr>transcript := transcript c @ x, ioUserCtx := (respAdvance x c)\<lparr>vdInPayload := a, vdOutPayload := b\<rparr>,
       fipsIndicator := f, certChainHash := h, state := WOLFSPDM_STATE_CERT\<rparr>)"
    "peerView (respAdvance x c) = peerView (ioUserCtx c)" "peerView ((respAdvance x c)\<lparr>vdInPayload := a, vdOutPayload := b\<rparr>) = peerView (ioUserCtx c)"
  using assms by (simp_all add: idPhase_def peered_def respAdvance_def respHdr_def peerView_def wolfSPDM_IsTcgMode_def Let_def)

text \<open>A message of the settled version is admitted, and one exchange of it.\<close>

lemma clear_admitted:
  fixes c :: "('w, 't) WOLFSPDM_RESP_CTX WOLFSPDM_CTX"
  assumes p: "idPhase K priv pub c" and tx: "2 \<le> length tx" "tx ! 0 = spdmVersion c" "tx ! 1 \<noteq> SPDM_GET_VERSION"
  shows "RespDispatchClear K tx cap (respHdr (connectionHandle c) (fipsIndicator c) (ioUserCtx c)) = respAdmit K (tx ! 1) tx cap (respAdvance [] c)"
proof -
  let ?r = "respHdr (connectionHandle c) (fipsIndicator c) (ioUserCtx c)"
  have v: "\<not> (spdmVersion c < 0x12 \<or> 0x13 < spdmVersion c)" "spdmVersion c \<noteq> 0" using p by (auto simp: idPhase_def Let_def)
  have "RespSelectVersion (tx ! 0) b (rctx ?r) = (Inr (), (rctx ?r)\<lparr>spdmVersion := spdmVersion c\<rparr>)" for b
  proof (cases "spdmVersion (rctx ?r) = 0")
    case True
    then show ?thesis using p tx v by (simp add: idPhase_def RespSelectVersion_def respHdr_def opE_defs Let_def)
  next
    case False
    then have "spdmVersion (rctx ?r) = spdmVersion c" using p by (auto simp: idPhase_def respHdr_def Let_def)
    then show ?thesis using v tx by (simp add: RespSelectVersion_def opE_defs)
  qed
  moreover have "?r\<lparr>rctx := (rctx ?r)\<lparr>spdmVersion := spdmVersion c\<rparr>\<rparr> = respAdvance [] c"
    using p by (simp add: respAdvance_def idPhase_def respHdr_def Let_def)
  ultimately show ?thesis
    using tx by (simp del: One_nat_def add: RespDispatchClear_def zoomE_def opE_defs Let_def)
qed

lemma clear_exchange:
  fixes c :: "('w, 't) WOLFSPDM_RESP_CTX WOLFSPDM_CTX"
  assumes p: "idPhase K priv pub c" and tx: "2 \<le> length tx" "length tx \<le> 8000" "tx ! 0 = spdmVersion c" "tx ! 1 \<noteq> SPDM_GET_VERSION"
    and d: "respAdmit K (tx ! 1) tx 8272 (respAdvance [] c) = (Inr rx, r')" "length rx \<le> cap" "length rx \<le> 8272"
  shows "\<exists>f. wolfSPDM_SendReceive tx cap (c\<lparr>rng := g, ephemeral := k, flags := fl, transcript := tr\<rparr>) =
     (Inr rx, c\<lparr>rng := g, ephemeral := k, flags := fl, transcript := tr, ioUserCtx := r', fipsIndicator := f\<rparr>)"
proof -
  let ?c = "c\<lparr>rng := g, ephemeral := k, flags := fl, transcript := tr\<rparr>"
  have v: "0x10 \<le> tx ! 0 \<and> tx ! 0 \<le> 0x1F" using p tx(3) by (auto simp: idPhase_def Let_def)
  have "ioCb ?c = Some (respIo K)" "wolfSPDM_IsTcgMode ?c" "ioUserCtx ?c = ioUserCtx c" "respInitialized (ioUserCtx c)"
      "useTcg (ioUserCtx c) \<or> usePsk (ioUserCtx c)"
    using p by (auto simp: idPhase_def peered_def wolfSPDM_IsTcgMode_def Let_def)
  moreover have "(if 0x10 \<le> tx ! 0 \<and> tx ! 0 \<le> 0x1F then RespDispatchClear K tx 8272 (respHdr (connectionHandle ?c) (fipsIndicator ?c) (ioUserCtx c))
      else RespDispatchSecured K tx 8272 (respHdr (connectionHandle ?c) (fipsIndicator ?c) (ioUserCtx c))) = (Inr rx, r')"
    using clear_admitted [OF p tx(1,3,4), of 8272] d(1) v by simp
  moreover have "tx \<noteq> []" using tx(1) by auto
  ultimately have "\<exists>f. wolfSPDM_SendReceive tx cap ?c = (Inr rx, ?c\<lparr>ioUserCtx := r', fipsIndicator := f\<rparr>)"
    using tx(2) d(2,3) by (intro exchange_with_responder)
  then show ?thesis by simp
qed

subsection \<open>Capabilities and algorithms\<close>

text \<open>A request and an answer that both sides add to their transcripts.\<close>

lemma clear_recorded:
  fixes c :: "('w, 't) WOLFSPDM_RESP_CTX WOLFSPDM_CTX"
  assumes p: "idPhase K priv pub c" and tx: "2 \<le> length tx" "length tx \<le> 100" "tx ! 0 = spdmVersion c" "tx ! 1 \<noteq> SPDM_GET_VERSION"
    and a: "respAdmit K (tx ! 1) tx 8272 (respAdvance [] c) = (Inr rx, respAdvance (tx @ rx) c)"
    and rx: "length rx \<le> cap" "length rx \<le> 100" "\<And>d. spdmVersion d = spdmVersion c \<Longrightarrow> check rx d = (Inr (), d)"
    and n: "length (transcript c) \<le> 1000"
  shows "\<exists>d. SPDM_CONNECT_STEP (thenE (wolfSPDM_TranscriptAdd tx) (bindE (wolfSPDM_SendReceive tx cap) (\<lambda>rsp.
       thenE (check rsp) (wolfSPDM_TranscriptAdd rsp)))) c = (Inr (), d) \<and> idPhase K priv pub d \<and>
     length (transcript d) = length (transcript c) + length tx + length rx \<and> mode d = mode c \<and> peerView (ioUserCtx d) = peerView (ioUserCtx c)"
proof -
  have "\<exists>f. wolfSPDM_SendReceive tx cap (c\<lparr>rng := rng c, ephemeral := ephemeral c, flags := flags c, transcript := transcript c @ tx\<rparr>) =
      (Inr rx, c\<lparr>rng := rng c, ephemeral := ephemeral c, flags := flags c, transcript := transcript c @ tx,
        ioUserCtx := respAdvance (tx @ rx) c, fipsIndicator := f\<rparr>)"
    using tx(2) rx(1,2) by (intro clear_exchange [OF p tx(1) _ tx(3,4) a]) simp_all
  then obtain f where x: "wolfSPDM_SendReceive tx cap (c\<lparr>transcript := transcript c @ tx\<rparr>) = (Inr rx, c\<lparr>transcript := transcript c @ tx,
        ioUserCtx := respAdvance (tx @ rx) c, fipsIndicator := f\<rparr>)" by auto
  let ?d = "c\<lparr>transcript := transcript c @ (tx @ rx), ioUserCtx := respAdvance (tx @ rx) c, fipsIndicator := f\<rparr>"
  have "SPDM_CONNECT_STEP (thenE (wolfSPDM_TranscriptAdd tx) (bindE (wolfSPDM_SendReceive tx cap) (\<lambda>rsp.
       thenE (check rsp) (wolfSPDM_TranscriptAdd rsp)))) c = (Inr (), ?d)"
    using n x tx(2) rx by (simp add: SPDM_CONNECT_STEP_def opE_defs works_add)
  with idPhase_advance(1,3) [OF p, where x = "tx @ rx"] show ?thesis by (intro exI [of _ ?d]) simp
qed

definition capsReq :: "byte \<Rightarrow> bytes" where
  "capsReq v = [v, 0xE1, 0x00, 0x00, 0x00, 0x1F, 0x00, 0x00] @ SPDM_Set32LE WOLFSPDM_TCG_CAPS_FLAGS_DEFAULT @
     [0xC0, 0x07, 0x00, 0x00, 0xC0, 0x07, 0x00, 0x00]"

definition capsRsp :: "byte \<Rightarrow> bool \<Rightarrow> bytes" where
  "capsRsp v pskOn = [v, WOLFSPDM_CAPABILITIES, 0x00, 0x00, 0x00, 0x1F, 0x00, 0x00] @
     SPDM_Set32LE (if pskOn then 0x000193C0 OR 0x00000400 else 0x000193C0) @ [0xC0, 0x07, 0x00, 0x00] @ [0xC0, 0x07, 0x00, 0x00]"

definition algReq :: "byte \<Rightarrow> bytes" where
  "algReq v = [v, 0xE3, 0x04, 0x00, 0x30, 0x00, 0x00, 0x02, 0x80, 0x00, 0x00, 0x00, 0x02, 0x00, 0x00, 0x00] @ zeros 16 @ tcgAlgStructs"

definition algRsp :: "byte \<Rightarrow> bytes" where
  "algRsp v = [v, WOLFSPDM_ALGORITHMS, 0x04, 0x00, 0x34, 0x00, 0x00, 0x02] @ zeros 4 @ [0x80, 0x00, 0x00, 0x00] @ [0x02, 0x00, 0x00, 0x00] @
     zeros 12 @ [0x00, 0x00, 0x00, 0x00] @ [0x02, 0x20, 0x10, 0x00] @ [0x03, 0x20, 0x02, 0x00] @ [0x04, 0x20, 0x80, 0x00] @ [0x05, 0x20, 0x01, 0x00]"

lemma negotiation_fields:
  "length (capsReq v) = 20" "capsReq v ! 0 = v" "capsReq v ! 1 = WOLFSPDM_GET_CAPABILITIES" "length (capsRsp v b) = 20"
  "length (algReq v) = 48" "algReq v ! 0 = v" "algReq v ! 1 = WOLFSPDM_NEGOTIATE_ALGORITHMS" "length (algRsp v) = 52"
  by (simp_all add: capsReq_def capsRsp_def algReq_def algRsp_def zeros_def tcgAlgStructs_def)

lemma transfer_size: "SPDM_Get32LE [0xC0, 0x07, 0x00, 0x00] 0 = 0x7C0" "SPDM_Get32LE [0xC0, 0x07, 0x00, 0x00, 0xC0, 0x07, 0x00, 0x00] 0 = 0x7C0"
  by (simp_all add: SPDM_Get32LE_def)

lemma capabilities_checked:
  "spdmVersion d = v \<Longrightarrow> wolfSPDM_TCG_CheckCapabilities (capsRsp v b) WOLFSPDM_TCG_CAPS_FLAGS_DEFAULT d = (Inr (), d)"
  by (cases b) (simp_all add: wolfSPDM_TCG_CheckCapabilities_def wolfSPDM_TCG_CheckResponse_def wolfSPDM_CheckError_def
      capsRsp_def codec_simps transfer_size opE_defs Let_def)

lemma zero_fields: "zeros 4 = [0, 0, 0, 0]" "zeros 12 = [0, 0, 0, 0, 0, 0, 0, 0, 0, 0, 0, 0]"
  by (simp_all add: zeros_def eval_nat_numeral)

lemma algorithms_checked: "spdmVersion d = v \<Longrightarrow> wolfSPDM_TCG_CheckAlgorithms (algRsp v) d = (Inr (), d)"
  by (simp add: wolfSPDM_TCG_CheckAlgorithms_def wolfSPDM_TCG_CheckResponse_def wolfSPDM_CheckError_def algRsp_def
      tcgAlgStructs_def zero_fields SPDM_Get32LE_def SPDM_Get16LE_def opE_defs)

lemma requester_capabilities:
  fixes c :: "('w, 't) WOLFSPDM_RESP_CTX WOLFSPDM_CTX"
  assumes p: "idPhase K priv pub c" and n: "length (transcript c) \<le> 1000"
  shows "\<exists>d. wolfSPDM_TCG_GetCapabilities WOLFSPDM_TCG_CAPS_FLAGS_DEFAULT c = (Inr (), d) \<and> idPhase K priv pub d \<and>
     length (transcript d) = length (transcript c) + 40 \<and> mode d = mode c \<and> peerView (ioUserCtx d) = peerView (ioUserCtx c)"
proof -
  let ?tx = "capsReq (spdmVersion c)" and ?rx = "capsRsp (spdmVersion c) (usePsk (ioUserCtx c))"
  note l = negotiation_fields
  have "RespBuildCapabilities (usePsk (ioUserCtx c)) 8272 d = (Inr (capsRsp (spdmVersion d) (usePsk (ioUserCtx c))), d)" for d :: "'w WOLFSPDM_CTX"
    by (simp add: RespBuildCapabilities_def capsRsp_def opE_defs)
  then have a: "respAdmit K (?tx ! 1) ?tx 8272 (respAdvance [] c) = (Inr ?rx, respAdvance (?tx @ ?rx) c)"
    unfolding l(3) using n l
    by (simp add: respAdmit_def respSwitch_def respAddOut_def zoomE_def opE_defs works_add respAdvance_def respHdr_def Let_def)
  have "wolfSPDM_TCG_GetCapabilities WOLFSPDM_TCG_CAPS_FLAGS_DEFAULT c = SPDM_CONNECT_STEP (thenE (wolfSPDM_TranscriptAdd ?tx)
      (bindE (wolfSPDM_SendReceive ?tx 64) (\<lambda>rsp. thenE (wolfSPDM_TCG_CheckCapabilities rsp WOLFSPDM_TCG_CAPS_FLAGS_DEFAULT) (wolfSPDM_TranscriptAdd rsp)))) c"
    by (simp add: wolfSPDM_TCG_GetCapabilities_def capsReq_def SPDM_CONNECT_STEP_def opE_defs Let_def)
  then show ?thesis
    using clear_recorded [where check = "\<lambda>rsp. wolfSPDM_TCG_CheckCapabilities rsp WOLFSPDM_TCG_CAPS_FLAGS_DEFAULT" and cap = 64,
        OF p _ _ l(2) _ a _ _ capabilities_checked n] l by (simp add: add.assoc)
qed

lemma requester_algorithms:
  fixes c :: "('w, 't) WOLFSPDM_RESP_CTX WOLFSPDM_CTX"
  assumes p: "idPhase K priv pub c" and n: "length (transcript c) \<le> 1000"
  shows "\<exists>d. wolfSPDM_TCG_NegotiateAlgorithms c = (Inr (), d) \<and> idPhase K priv pub d \<and>
     length (transcript d) = length (transcript c) + 100 \<and> mode d = mode c \<and> peerView (ioUserCtx d) = peerView (ioUserCtx c)"
proof -
  let ?tx = "algReq (spdmVersion c)" and ?rx = "algRsp (spdmVersion c)"
  note l = negotiation_fields
  have "RespBuildAlgorithms 8272 d = (Inr (algRsp (spdmVersion d)), d)" for d :: "'w WOLFSPDM_CTX"
    by (simp add: RespBuildAlgorithms_def algRsp_def opE_defs)
  then have a: "respAdmit K (?tx ! 1) ?tx 8272 (respAdvance [] c) = (Inr ?rx, respAdvance (?tx @ ?rx) c)"
    unfolding l(7) using n l
    by (simp add: respAdmit_def respSwitch_def respAddOut_def zoomE_def opE_defs works_add respAdvance_def respHdr_def Let_def)
  have "wolfSPDM_TCG_NegotiateAlgorithms c = SPDM_CONNECT_STEP (thenE (wolfSPDM_TranscriptAdd ?tx)
      (bindE (wolfSPDM_SendReceive ?tx 128) (\<lambda>rsp. thenE (wolfSPDM_TCG_CheckAlgorithms rsp) (wolfSPDM_TranscriptAdd rsp)))) c"
    by (simp add: wolfSPDM_TCG_NegotiateAlgorithms_def algReq_def SPDM_CONNECT_STEP_def opE_defs Let_def)
  then show ?thesis
    using clear_recorded [where check = wolfSPDM_TCG_CheckAlgorithms and cap = 128, OF p _ _ l(6) _ a _ _ algorithms_checked n] l by (simp add: add.assoc)
qed

subsection \<open>The responder's key\<close>

lemma works_sha: "wc_works K \<Longrightarrow> wolfSPDM_Sha384Hash K d [] [] s = (Inr (shaOf K d), s)"
proof -
  assume "wc_works K"
  then have "wc_InitSha384 K" "\<And>a d. wc_Sha384Update K a d" "wc_Sha384Final K d \<noteq> None" unfolding wc_works_def by (blast, blast, force)
  then show ?thesis
    by (cases "d = []") (auto simp: wolfSPDM_Sha384Hash_def sha384Feed_def shaOf_def opE_defs)
qed

lemma key_codes:
  "length WOLFSPDM_VDCODE_GET_PUBK = WOLFSPDM_VDCODE_LEN" "0 \<notin> set WOLFSPDM_VDCODE_GET_PUBK"
  "length WOLFSPDM_VDCODE_GIVE_PUB = WOLFSPDM_VDCODE_LEN" "0 \<notin> set WOLFSPDM_VDCODE_GIVE_PUB"
  "WOLFSPDM_VDCODE_GET_PUBK \<noteq> WOLFSPDM_VDCODE_TPM2_CMD" "WOLFSPDM_VDCODE_GIVE_PUB \<noteq> WOLFSPDM_VDCODE_TPM2_CMD"
  "WOLFSPDM_VDCODE_GIVE_PUB \<noteq> WOLFSPDM_VDCODE_GET_PUBK" "WOLFSPDM_VDCODE_GET_PUBK \<noteq> WOLFSPDM_VDCODE_SPDMONLY"
  by (simp_all add: WOLFSPDM_VDCODE_GET_PUBK_def WOLFSPDM_VDCODE_GIVE_PUB_def WOLFSPDM_VDCODE_TPM2_CMD_def WOLFSPDM_VDCODE_SPDMONLY_def cstr_def)

lemma vendor_request:
  assumes "length code = WOLFSPDM_VDCODE_LEN" "0 \<notin> set code" "length p \<le> 128"
  shows "\<exists>tx. length tx = 17 + length p \<and> tx ! 0 = v \<and> tx ! 1 = SPDM_VENDOR_DEFINED_REQUEST \<and>
     (\<forall>s :: 'a. wolfSPDM_BuildVendorDefined v code p WOLFSPDM_VENDOR_BUF_SZ s = (Inr tx, s)) \<and>
     (\<forall>t :: 'b. wolfSPDM_ParseVendorDefined tx WOLFSPDM_MAX_TPM_MSG_SIZE t = (Inr (code, p), t))"
proof -
  have n: "length p \<le> 8192" "17 + length p \<le> 256" "length p \<le> 65527" using assms(3) by simp_all
  define tx where "tx = [v, SPDM_VENDOR_DEFINED_REQUEST, 0x00, 0x00] @ SPDM_Set16LE 0x0001 @ [0x00] @
    SPDM_Set16LE (of_nat (WOLFSPDM_VDCODE_LEN + length p)) @ code @ p"
  have "\<forall>i \<in> {0..<8}. i < length code \<and> code ! i \<noteq> 0" using assms(1,2) by (metis atLeastLessThan_iff nth_mem)
  then have tx: "length tx = 17 + length p" "tx ! 0 = v" "tx ! 1 = SPDM_VENDOR_DEFINED_REQUEST"
      "\<And>s. wolfSPDM_BuildVendorDefined v code p WOLFSPDM_VENDOR_BUF_SZ (s :: 'a) = (Inr tx, s)"
    using assms n by (simp_all add: tx_def wolfSPDM_BuildVendorDefined_def opE_defs Let_def)
  have "wolfSPDM_ParseVendorDefined tx WOLFSPDM_MAX_TPM_MSG_SIZE t = (Inr (code, p), t)" for t :: 'b
    using vendor_defined_roundtrip [OF assms(1,2), of p 8192 256 v "undefined :: 'a" t] tx(4) n by auto
  with tx show ?thesis by blast
qed

lemma requester_pubkey:
  fixes c :: "('w, 't) WOLFSPDM_RESP_CTX WOLFSPDM_CTX"
  assumes K: "wc_works K" and p: "idPhase K priv pub c" and n: "length (transcript c) \<le> 1000"
  shows "\<exists>f. wolfSPDM_TCG_GetPubKey K WOLFSPDM_PUBKEY_BUF_SZ c = (Inr pub, c\<lparr>
     ioUserCtx := (respAdvance (shaOf K pub) c)\<lparr>vdInPayload := [], vdOutPayload := []\<rparr>, fipsIndicator := f\<rparr>)"
proof -
  have q: "hasIdKey (ioUserCtx c)" "idPubKey (ioUserCtx c) = pub" "length pub = 96" "hasRspPubKey (flags c)" "rspPubKey c = pub"
      "state c \<noteq> WOLFSPDM_STATE_INIT" "spdmVersion c \<noteq> 0"
    using p by (auto simp: idPhase_def Let_def)
  obtain tx where tx: "length tx = 17" "tx ! 0 = spdmVersion c" "tx ! 1 = SPDM_VENDOR_DEFINED_REQUEST"
      "\<And>s :: ('w, 't) WOLFSPDM_RESP_CTX WOLFSPDM_CTX. wolfSPDM_BuildVendorDefined (spdmVersion c) WOLFSPDM_VDCODE_GET_PUBK [] WOLFSPDM_VENDOR_BUF_SZ s = (Inr tx, s)"
      "\<And>t :: ('w, 't) WOLFSPDM_RESP_CTX. wolfSPDM_ParseVendorDefined tx WOLFSPDM_MAX_TPM_MSG_SIZE t = (Inr (WOLFSPDM_VDCODE_GET_PUBK, []), t)"
    using vendor_request [OF key_codes(1,2), of "[]" "spdmVersion c"] by auto
  let ?rx = "vendorRsp (spdmVersion c) WOLFSPDM_VDCODE_GET_PUBK pub"
  let ?r = "(respAdvance (shaOf K pub) c)\<lparr>vdInPayload := [], vdOutPayload := []\<rparr>"
  have l: "length ?rx = 113" "wolfSPDM_ParseVendorDefined ?rx WOLFSPDM_VENDOR_BUF_SZ s = (Inr (WOLFSPDM_VDCODE_GET_PUBK, pub), s)"
      for s :: "('w, 't) WOLFSPDM_RESP_CTX WOLFSPDM_CTX"
    using vendorRsp_parses [OF key_codes(1), of pub 256] q(3) by simp_all
  have "\<not> vendorSecuredOnly WOLFSPDM_VDCODE_GET_PUBK" using key_codes by (simp add: vendorSecuredOnly_def)
  then have "respAdmit K (tx ! 1) tx 8272 (respAdvance [] c) = (Inr ?rx, ?r)"
    unfolding tx(3) using tx(5) q n works_hash(2) [OF K, of pub] key_codes(5)
    by (simp add: respAdmit_def respSwitch_def RespHandleVendorDefined_def RespHandleVendorDefinedInner_def respVendorCmd_def
        putOut_def works_sha [OF K] works_add zoomE_def opE_defs respAdvance_def respHdr_def vendorRsp_def Let_def)
  then have "\<exists>f. wolfSPDM_SendReceive tx 512 (c\<lparr>rng := rng c, ephemeral := ephemeral c, flags := flags c, transcript := transcript c\<rparr>) =
      (Inr ?rx, c\<lparr>rng := rng c, ephemeral := ephemeral c, flags := flags c, transcript := transcript c, ioUserCtx := ?r, fipsIndicator := f\<rparr>)"
    using tx(1,2,3) l(1) by (intro clear_exchange [OF p]) simp_all
  then obtain f where x: "wolfSPDM_SendReceive tx 512 c = (Inr ?rx, c\<lparr>ioUserCtx := ?r, fipsIndicator := f\<rparr>)" by auto
  have e: "?rx ! 1 \<noteq> SPDM_ERROR" by (simp add: vendorRsp_def)
  have "wolfSPDM_TCG_CheckPubKey pub d = (Inr (), d)" if "rspPubKey d = pub" for d :: "('w, 't) WOLFSPDM_RESP_CTX WOLFSPDM_CTX"
    using that q(3) by (simp add: wolfSPDM_TCG_CheckPubKey_def wolfSPDM_ExtractEccPoint_def asE_def opE_defs)
  then show ?thesis
    using x e q tx(4) l key_codes(1)
    by (intro exI [of _ f]) (simp del: One_nat_def add: wolfSPDM_TCG_GetPubKey_def wolfSPDM_TCG_VendorCmdClear_def vendorVersion_def opE_defs)
qed

end
