(* ===== verification/Spdm_IdConnect.thy ===== *)
theory Spdm_IdConnect
  imports Spdm_IdClear
begin

text \<open>
  The identity-key connection from its key exchange on: the signed exchange that gives both sides
  the handshake keys, the requester's own key under them, the finish, and \<open>wolfSPDM_Connect\<close> as
  a whole.
\<close>

section \<open>KEY_EXCHANGE\<close>

definition kexReq :: "byte \<Rightarrow> word16 \<Rightarrow> bytes \<Rightarrow> bytes \<times> bytes \<Rightarrow> bytes \<Rightarrow> bytes" where
  "kexReq v sid rnd xy opaque = [v, SPDM_KEY_EXCHANGE, 0x00, 0xFF] @ SPDM_Set16LE sid @ [0x00, 0x00] @ rnd @ (fst xy @ snd xy) @ opaque"

definition kexRspHead :: "byte \<Rightarrow> bytes \<Rightarrow> bytes \<times> bytes \<Rightarrow> bytes" where
  "kexRspHead v rnd xy = [v, SPDM_KEY_EXCHANGE_RSP, 0x00, 0x00] @ SPDM_Set16LE 0xFFFE @ [0x00, 0x00] @ rnd @ fst xy @ snd xy @ SPDM_Set16LE 0"

text \<open>What the responder signs, and a signature that verifies under its public key.\<close>

definition signHash :: "wc_env \<Rightarrow> byte \<Rightarrow> bytes \<Rightarrow> bytes" where
  "signHash K v d = (case fst (wolfSPDM_BuildSignedMsg v kexSigContext d ()) of Inl _ \<Rightarrow> [] | Inr m \<Rightarrow> shaOf K m)"

definition goodSig :: "wc_env \<Rightarrow> bytes \<Rightarrow> bytes \<Rightarrow> bytes \<Rightarrow> bool" where
  "goodSig K pub h sig \<longleftrightarrow> length sig = WOLFSPDM_ECC_SIG_SIZE \<and>
     (\<exists>pk der. wc_ecc_import_unsigned K (take WOLFSPDM_ECC_KEY_SIZE pub) (drop WOLFSPDM_ECC_KEY_SIZE pub) None = Some pk \<and>
        wc_ecc_check_key K pk \<and> wc_ecc_rs_raw_to_sig K (take WOLFSPDM_ECC_KEY_SIZE sig) (drop WOLFSPDM_ECC_KEY_SIZE sig) = Some der \<and>
        wc_ecc_verify_hash K der h pk = Some True)"

lemma works_sign_hash:
  assumes "wc_works K"
  shows "wolfSPDM_BuildSignedHash K v kexSigContext d s = (Inr (signHash K v d), s)" "length (signHash K v d) = WOLFSPDM_HASH_SIZE"
  using works_sha [OF assms] works_hash(2) [OF assms]
  by (simp_all add: wolfSPDM_BuildSignedHash_def wolfSPDM_BuildSignedMsg_def signHash_def cstr_def opE_defs Let_def)

lemma resp_signs:
  fixes r :: "('w, 't) WOLFSPDM_RESP_CTX"
  assumes e: "eccPair K (idPrivKey r) (idPubKey r)" "length (idPrivKey r) = WOLFSPDM_ECC_KEY_SIZE" and h: "length h = WOLFSPDM_HASH_SIZE"
  shows "\<exists>sig g. respSign K h r = (Inr sig, r\<lparr>rctx := (rctx r)\<lparr>rng := g\<rparr>\<rparr>) \<and> goodSig K (idPubKey r) h sig"
proof -
  let ?x = "take WOLFSPDM_ECC_KEY_SIZE (idPubKey r)" and ?y = "drop WOLFSPDM_ECC_KEY_SIZE (idPubKey r)"
  obtain sk pk where k: "wc_ecc_import_unsigned K ?x ?y (Some (idPrivKey r)) = Some sk" "wc_ecc_import_unsigned K ?x ?y None = Some pk"
      "wc_ecc_check_key K pk"
    and s: "\<And>g. \<exists>der r s g' der'. wc_ecc_sign_hash K h g sk = (Some der, g') \<and>
        wc_ecc_sig_to_rs K der = Some (r, s) \<and> length r \<le> WOLFSPDM_ECC_KEY_SIZE \<and> length s \<le> WOLFSPDM_ECC_KEY_SIZE \<and>
        wc_ecc_rs_raw_to_sig K (wolfSPDM_LeftPadToSize r WOLFSPDM_ECC_KEY_SIZE) (wolfSPDM_LeftPadToSize s WOLFSPDM_ECC_KEY_SIZE) = Some der' \<and>
        wc_ecc_verify_hash K der' h pk = Some True"
    using e(1) h unfolding eccPair_def by blast
  obtain der a b g' der' where g: "wc_ecc_sign_hash K h (rng (rctx r)) sk = (Some der, g')" "wc_ecc_sig_to_rs K der = Some (a, b)"
      "length a \<le> WOLFSPDM_ECC_KEY_SIZE" "length b \<le> WOLFSPDM_ECC_KEY_SIZE"
      "wc_ecc_rs_raw_to_sig K (wolfSPDM_LeftPadToSize a WOLFSPDM_ECC_KEY_SIZE) (wolfSPDM_LeftPadToSize b WOLFSPDM_ECC_KEY_SIZE) = Some der'"
      "wc_ecc_verify_hash K der' h pk = Some True"
    using s [of "rng (rctx r)"] by blast
  let ?sig = "wolfSPDM_LeftPadToSize a WOLFSPDM_ECC_KEY_SIZE @ wolfSPDM_LeftPadToSize b WOLFSPDM_ECC_KEY_SIZE"
  have "idPrivKey r \<noteq> []" using e(2) by auto
  then have "respSign K h r = (Inr ?sig, r\<lparr>rctx := (rctx r)\<lparr>rng := g'\<rparr>\<rparr>)"
    using k(1) g(1,2) by (simp add: respSign_def wolfSPDM_SignHash_def zoomE_def opE_defs Let_def)
  moreover have "goodSig K (idPubKey r) h ?sig"
    using k(2,3) g(3-6) length_LeftPad [of a 48] length_LeftPad [of b 48] by (auto simp: goodSig_def)
  ultimately show ?thesis by blast
qed

lemma sig_verifies:
  assumes "wc_works K" "goodSig K (rspPubKey c) (signHash K (spdmVersion c) d) sig"
    "hasRspPubKey (flags c)" "length (rspPubKey c) = WOLFSPDM_ECC_POINT_SIZE" "wolfSPDM_IsTcgMode c"
  shows "wolfSPDM_VerifyRspSig K kexSigContext d sig c = (Inr (), c)"
  using assms(2-)
  by (auto simp: works_sign_hash(1) [OF assms(1)] wolfSPDM_VerifyRspSig_def wolfSPDM_SigSize_def wolfSPDM_RspMlDsaLevel_def wolfSPDM_VerifySignature_def
      wolfSPDM_ExtractEccPoint_def goodSig_def opE_defs)

text \<open>Both sides after the exchange: the handshake keys of the transcript \<open>tr\<close> under the secret \<open>hs\<close>.\<close>

definition kexLoaded :: "wc_env \<Rightarrow> byte \<Rightarrow> bytes \<Rightarrow> bytes \<Rightarrow> 'w WOLFSPDM_CTX \<Rightarrow> 'w WOLFSPDM_CTX" where
  "kexLoaded K v hs tr c = (let th = shaOf K tr; ks = hsKeys K v hs th in
     (loadHs hs ks c)\<lparr>spdmVersion := v, th1 := th, transcript := tr @ hmacOf K (ksRspFin ks) th, state := WOLFSPDM_STATE_KEY_EX\<rparr>)"

abbreviation kexTag :: "wc_env \<Rightarrow> byte \<Rightarrow> bytes \<Rightarrow> bytes \<Rightarrow> bytes" where
  "kexTag K v hs tr \<equiv> hmacOf K (ksRspFin (hsKeys K v hs (shaOf K tr))) (shaOf K tr)"

abbreviation kexSecret :: "wc_env \<Rightarrow> bytes \<Rightarrow> bytes" where
  "kexSecret K ss \<equiv> extractOf K (zeros WOLFSPDM_HASH_SIZE) ss"

lemma derive_ecdh:
  assumes "wc_works K" "length th = WOLFSPDM_HASH_SIZE"
  shows "wolfSPDM_DeriveHandshakeKeys K th c =
     (Inr (), loadHs (kexSecret K (sharedSecret c)) (hsKeys K (spdmVersion c) (kexSecret K (sharedSecret c)) th) c)"
  using assms(2)
  by (simp add: wolfSPDM_DeriveHandshakeKeys_def wolfSPDM_DeriveFromHandshakeSecret_def wolfSPDM_DeriveKeyIvPair_def
      works_hash [OF assms(1)] works_label [OF assms(1)] opE_defs loadHs_def hsKeys_def Let_def)

subsection \<open>The responder\<close>

lemma kex_reply:
  fixes r :: "('w, 't) WOLFSPDM_RESP_CTX"
  assumes K: "wc_works K" "wc_ecc_works K" and e: "eccPair K (idPrivKey r) (idPubKey r)" "length (idPrivKey r) = WOLFSPDM_ECC_KEY_SIZE"
    and r: "rspSessionId (rctx r) = 0xFFFE" "rngInitialized (flags (rctx r))" "\<not> ephemeralIsKem (flags (rctx r))" "length (transcript (rctx r)) \<le> 1000"
    and a: "eccKey K a" "take WOLFSPDM_ECC_KEY_SIZE (drop 40 inb) = fst (eccPub K a)" "take WOLFSPDM_ECC_KEY_SIZE (drop 88 inb) = snd (eccPub K a)"
  shows "\<exists>rnd b sig g. length rnd = 32 \<and> eccKey K b \<and>
     (let v = spdmVersion (rctx r); head = kexRspHead v rnd (eccPub K b); tr = transcript (rctx r) @ head @ sig; ss = dhOf K b a in
      goodSig K (idPubKey r) (signHash K v (shaOf K (transcript (rctx r) @ head))) sig \<and>
      respKexReply K inb r = (Inr (head @ sig @ kexTag K v (kexSecret K ss) tr),
        r\<lparr>rctx := kexLoaded K v (kexSecret K ss) tr ((rctx r)\<lparr>rng := g, ephemeral := b,
           flags := (flags (rctx r))\<lparr>ephemeralKeyInit := True\<rparr>, sharedSecret := ss\<rparr>), pendingAsym := True\<rparr>))"
proof -
  let ?c = "rctx r" and ?v = "spdmVersion (rctx r)"
  obtain rnd g1 where x1: "wolfSPDM_GetRandom K 32 ?c = (Inr rnd, ?c\<lparr>rng := g1\<rparr>)" "length rnd = 32"
    using works_random [OF K(1) _ _ r(2), of 32] by auto
  obtain b g2 where b: "eccKey K b" and x2: "wolfSPDM_GenerateEphemeralKey K (?c\<lparr>rng := g1\<rparr>) =
       (Inr (), ?c\<lparr>rng := g2, ephemeral := b, flags := (flags ?c)\<lparr>ephemeralKeyInit := True\<rparr>\<rparr>)"
    and x3: "wolfSPDM_ExportEphemeralPubKey K (?c\<lparr>rng := g2, ephemeral := b, flags := (flags ?c)\<lparr>ephemeralKeyInit := True\<rparr>\<rparr>) =
       (Inr (eccPub K b), ?c\<lparr>rng := g2, ephemeral := b, flags := (flags ?c)\<lparr>ephemeralKeyInit := True\<rparr>\<rparr>)"
    using works_ephemeral [OF K(2), of "?c\<lparr>rng := g1\<rparr>"] r(2,3) by auto
  define head where "head = kexRspHead ?v rnd (eccPub K b)"
  have lh: "length head = 138" using ecc_points(1,2) [OF K(2) b] x1(2) by (simp add: head_def kexRspHead_def)
  let ?c3 = "?c\<lparr>rng := g2, ephemeral := b, flags := (flags ?c)\<lparr>ephemeralKeyInit := True\<rparr>, transcript := transcript ?c @ head\<rparr>"
  let ?h = "signHash K ?v (shaOf K (transcript ?c @ head))"
  obtain sig g3 where x4: "respSign K ?h (r\<lparr>rctx := ?c3\<rparr>) = (Inr sig, r\<lparr>rctx := ?c3\<lparr>rng := g3\<rparr>\<rparr>)" "goodSig K (idPubKey r) ?h sig"
    using resp_signs [of K "r\<lparr>rctx := ?c3\<rparr>" ?h] e works_sign_hash(2) [OF K(1)] by auto
  have ls: "length sig = 96" using x4(2) by (simp add: goodSig_def)
  let ?tr = "transcript ?c @ head @ sig"
  let ?c4 = "?c3\<lparr>rng := g3, transcript := ?tr\<rparr>"
  obtain g4 where x5: "wolfSPDM_ComputeSharedSecret K (fst (eccPub K a)) (snd (eccPub K a)) ?c4 = (Inr (), ?c4\<lparr>rng := g4, sharedSecret := dhOf K b a\<rparr>)"
    using works_shared [OF K(2) _ a(1), of ?c4] b r(3) by auto
  have hd: "[?v, SPDM_KEY_EXCHANGE_RSP, 0, 0] @ SPDM_Set16LE 0xFFFE @ [0, 0] @ rnd @ fst (eccPub K b) @ snd (eccPub K b) @ SPDM_Set16LE 0 = head"
    by (simp add: head_def kexRspHead_def)
  have hd': "?v # SPDM_KEY_EXCHANGE_RSP # 0 # 0 # SPDM_Set16LE 0xFFFE @ 0 # 0 # rnd @ fst (eccPub K b) @ snd (eccPub K b) @ SPDM_Set16LE 0 @ z = head @ z" for z
    by (simp add: head_def kexRspHead_def)
  have "respKexReply K inb r = (Inr (head @ sig @ kexTag K ?v (kexSecret K (dhOf K b a)) ?tr),
        r\<lparr>rctx := kexLoaded K ?v (kexSecret K (dhOf K b a)) ?tr (?c\<lparr>rng := g4, ephemeral := b,
           flags := (flags ?c)\<lparr>ephemeralKeyInit := True\<rparr>, sharedSecret := dhOf K b a\<rparr>), pendingAsym := True\<rparr>)"
    unfolding respKexReply_def a(2,3)
    using x1 x2 x3 x4(1) x5 r hd hd' lh ls
    by (simp add: zoomE_def opE_defs case_prod_beta works_add works_hash [OF K(1)] works_sign_hash(1) [OF K(1)] derive_ecdh [OF K(1)] loadHs_def kexLoaded_def Let_def)
  with x1(2) b x4(2) show ?thesis unfolding head_def Let_def by blast
qed

lemma kexReq_fields:
  assumes "length rnd = 32" "length (fst xy) = WOLFSPDM_ECC_KEY_SIZE" "length (snd xy) = WOLFSPDM_ECC_KEY_SIZE"
  shows "length (kexReq v sid rnd xy opaque) = 136 + length opaque" "kexReq v sid rnd xy opaque ! 0 = v"
    "kexReq v sid rnd xy opaque ! 1 = SPDM_KEY_EXCHANGE" "SPDM_Get16LE (kexReq v sid rnd xy opaque) 4 = sid"
    "take WOLFSPDM_ECC_KEY_SIZE (drop 40 (kexReq v sid rnd xy opaque)) = fst xy"
    "take WOLFSPDM_ECC_KEY_SIZE (drop 88 (kexReq v sid rnd xy opaque)) = snd xy"
  using assms by (simp_all add: kexReq_def codec_simps drop_Cons')

lemma kexRsp_fields:
  assumes "length rnd = 32" "length (fst xy) = WOLFSPDM_ECC_KEY_SIZE" "length (snd xy) = WOLFSPDM_ECC_KEY_SIZE"
  shows "length (kexRspHead v rnd xy) = 138" "(kexRspHead v rnd xy @ z) ! 1 = SPDM_KEY_EXCHANGE_RSP"
    "SPDM_Get16LE (kexRspHead v rnd xy @ z) 4 = 0xFFFE" "(kexRspHead v rnd xy @ z) ! 6 = 0" "(kexRspHead v rnd xy @ z) ! 7 = 0"
    "SPDM_Get16LE (kexRspHead v rnd xy @ z) 136 = 0"
    "take WOLFSPDM_ECC_KEY_SIZE (drop 40 (kexRspHead v rnd xy @ z)) = fst xy"
    "take WOLFSPDM_ECC_KEY_SIZE (drop (40 + WOLFSPDM_ECC_KEY_SIZE) (kexRspHead v rnd xy @ z)) = snd xy"
proof -
  show "(kexRspHead v rnd xy @ z) ! 6 = 0" "(kexRspHead v rnd xy @ z) ! 7 = 0" by (simp_all add: kexRspHead_def nth_append)
qed (use assms in \<open>simp_all add: kexRspHead_def codec_simps drop_Cons'\<close>)

lemma responder_kex:
  fixes c :: "('w, 't) WOLFSPDM_RESP_CTX WOLFSPDM_CTX"
  assumes K: "wc_works K" "wc_ecc_works K" and e: "eccPair K priv pub" and p: "idPhase K priv pub c" and n: "length (transcript c) \<le> 500"
    and a: "eccKey K a" and q: "length rnd = 32" "length opaque \<le> 30"
  defines "v \<equiv> spdmVersion c" and "tx \<equiv> kexReq (spdmVersion c) (reqSessionId c) rnd (eccPub K a) opaque"
  shows "\<exists>rnd' b sig g. length rnd' = 32 \<and> eccKey K b \<and>
     (let head = kexRspHead v rnd' (eccPub K b); tr = transcript c @ tx @ head @ sig; ss = dhOf K b a in
      goodSig K pub (signHash K v (shaOf K (transcript c @ tx @ head))) sig \<and>
      respAdmit K (tx ! 1) tx 8272 (respAdvance [] c) = (Inr (head @ sig @ kexTag K v (kexSecret K ss) tr),
        (respAdvance tx c)\<lparr>rctx := kexLoaded K v (kexSecret K ss) tr ((respSessionIds tx (rctx (respAdvance tx c)))\<lparr>rng := g, ephemeral := b,
           flags := (flags (rctx (ioUserCtx c)))\<lparr>ephemeralKeyInit := True\<rparr>, sharedSecret := ss\<rparr>), pendingAsym := True\<rparr>))"
proof -
  let ?s = "respAdvance tx c"
  let ?r = "?s\<lparr>rctx := respSessionIds tx (rctx ?s)\<rparr>"
  note f = kexReq_fields [OF q(1) ecc_points(1,2) [OF K(2) a], of "spdmVersion c" "reqSessionId c" opaque, folded tx_def]
  have r: "eccPair K (idPrivKey ?r) (idPubKey ?r)" "length (idPrivKey ?r) = WOLFSPDM_ECC_KEY_SIZE" "rspSessionId (rctx ?r) = 0xFFFE"
      "rngInitialized (flags (rctx ?r))" "\<not> ephemeralIsKem (flags (rctx ?r))" "length (transcript (rctx ?r)) \<le> 1000"
    using p e n f(1) q(2) by (simp_all add: idPhase_def peered_def respAdvance_def respHdr_def respSessionIds_def Let_def)
  have s: "idPubKey ?r = pub" "spdmVersion (rctx ?r) = v" "transcript (rctx ?r) = transcript c @ tx" "flags (rctx ?r) = flags (rctx (ioUserCtx c))"
    using p by (simp_all add: idPhase_def respAdvance_def respHdr_def respSessionIds_def v_def Let_def)
  have u: "useTcg (respAdvance [] c)" "hasIdKey ?s" "state (rctx (respAdvance [] c)) = WOLFSPDM_STATE_VERSION"
    using p by (simp_all add: idPhase_def respAdvance_def respHdr_def Let_def)
  have "zoomE (wolfSPDM_TranscriptAdd tx) (respAdvance [] c) = (Inr (), ?s)"
    using n f(1) q(2) by (simp add: zoomE_def works_add respAdvance_def Let_def)
  then have "respAdmit K (tx ! 1) tx 8272 (respAdvance [] c) = respKexReply K tx ?r"
    unfolding f(3) using u f(1) by (simp add: respAdmit_def respSwitch_def RespBuildKeyExchangeRsp_def zoomE_def opE_defs)
  with kex_reply [OF K r a f(5,6), unfolded s append_assoc] show ?thesis unfolding Let_def by simp
qed

subsection \<open>The requester\<close>

lemma build_kex:
  assumes K: "wc_works K" "wc_ecc_works K" and c: "rngInitialized (flags c)" "\<not> ephemeralIsKem (flags c)" "wolfSPDM_IsTcgMode c"
  shows "\<exists>rnd a g. length rnd = 32 \<and> eccKey K a \<and> wolfSPDM_BuildKeyExchange K WOLFSPDM_KEY_EX_TX_SZ c =
     (Inr (kexReq (spdmVersion c) (reqSessionId c) rnd (eccPub K a) (wolfSPDM_KeyExOpaque c)),
      c\<lparr>rng := g, ephemeral := a, flags := (flags c)\<lparr>ephemeralKeyInit := True\<rparr>\<rparr>)"
    "length (wolfSPDM_KeyExOpaque c) \<le> 22"
proof -
  show o: "length (wolfSPDM_KeyExOpaque c) \<le> 22"
    by (simp add: wolfSPDM_KeyExOpaque_def kexOpaqueStd_def kexOpaqueNuvoton_def kexOpaqueNations_def kexOpaqueTcg_def split: WOLFSPDM_MODE.splits)
  obtain rnd g1 where x1: "wolfSPDM_GetRandom K 32 c = (Inr rnd, c\<lparr>rng := g1\<rparr>)" "length rnd = 32"
    using works_random [OF K(1) _ _ c(1), of 32] by auto
  obtain a g where a: "eccKey K a" "wolfSPDM_GenerateEphemeralKey K (c\<lparr>rng := g1\<rparr>) =
       (Inr (), c\<lparr>rng := g, ephemeral := a, flags := (flags c)\<lparr>ephemeralKeyInit := True\<rparr>\<rparr>)"
      "wolfSPDM_ExportEphemeralPubKey K (c\<lparr>rng := g, ephemeral := a, flags := (flags c)\<lparr>ephemeralKeyInit := True\<rparr>\<rparr>) =
       (Inr (eccPub K a), c\<lparr>rng := g, ephemeral := a, flags := (flags c)\<lparr>ephemeralKeyInit := True\<rparr>\<rparr>)"
    using works_ephemeral [OF K(2), of "c\<lparr>rng := g1\<rparr>"] c(1,2) by auto
  have "wolfSPDM_BuildKeyExchange K WOLFSPDM_KEY_EX_TX_SZ c =
     (Inr (kexReq (spdmVersion c) (reqSessionId c) rnd (eccPub K a) (wolfSPDM_KeyExOpaque c)),
      c\<lparr>rng := g, ephemeral := a, flags := (flags c)\<lparr>ephemeralKeyInit := True\<rparr>\<rparr>)"
    using x1(1) a(2,3) c(3) o by (simp add: wolfSPDM_BuildKeyExchange_def kexReq_def case_prod_beta opE_defs Let_def)
  with x1(2) a(1) show "\<exists>rnd a g. length rnd = 32 \<and> eccKey K a \<and> wolfSPDM_BuildKeyExchange K WOLFSPDM_KEY_EX_TX_SZ c =
     (Inr (kexReq (spdmVersion c) (reqSessionId c) rnd (eccPub K a) (wolfSPDM_KeyExOpaque c)),
      c\<lparr>rng := g, ephemeral := a, flags := (flags c)\<lparr>ephemeralKeyInit := True\<rparr>\<rparr>)" by blast
qed

lemma parse_kex:
  assumes K: "wc_works K" "wc_ecc_works K"
    and c: "eccKey K (ephemeral c)" "ephemeralKeyInit (flags c)" "\<not> ephemeralIsKem (flags c)" "wolfSPDM_IsTcgMode c"
      "hasRspPubKey (flags c)" "length (rspPubKey c) = WOLFSPDM_ECC_POINT_SIZE" "length (transcript c) \<le> 1000"
    and b: "length rnd = 32" "eccKey K b"
  defines "v \<equiv> spdmVersion c" and "head \<equiv> kexRspHead (spdmVersion c) rnd (eccPub K b)" and "ss \<equiv> dhOf K (ephemeral c) b"
  assumes sig: "goodSig K (rspPubKey c) (signHash K v (shaOf K (transcript c @ head))) sig"
  shows "\<exists>g. wolfSPDM_ParseKeyExchangeRsp K (head @ sig @ kexTag K v (kexSecret K ss) (transcript c @ head @ sig)) c =
     (Inr (), (kexLoaded K v (kexSecret K ss) (transcript c @ head @ sig) (c\<lparr>rng := g, sharedSecret := ss\<rparr>))\<lparr>rspSessionId := 0xFFFE,
        sessionId := ucast (reqSessionId c) OR push_bit 16 (ucast (0xFFFE :: word16)), mutAuthRequested := 0, reqSlotIdParam := 0\<rparr>)"
proof -
  let ?tr = "transcript c @ head @ sig"
  let ?tag = "kexTag K v (kexSecret K ss) ?tr"
  let ?rx = "head @ sig @ ?tag"
  note f = kexRsp_fields [OF b(1) ecc_points(1,2) [OF K(2) b(2)], of "spdmVersion c", folded head_def]
  have l: "length head = 138" "length sig = 96" "length ?tag = 48"
    using f(1) sig works_hash [OF K(1)] by (simp_all add: goodSig_def)
  obtain g where g: "wolfSPDM_ComputeSharedSecret K (fst (eccPub K b)) (snd (eccPub K b)) (c\<lparr>transcript := ?tr\<rparr>) =
      (Inr (), c\<lparr>transcript := ?tr, rng := g, sharedSecret := ss\<rparr>)"
    using works_shared [OF K(2) _ b(2), of "c\<lparr>transcript := ?tr\<rparr>"] c(1-3) by (auto simp: ss_def)
  have vs: "wolfSPDM_VerifyRspSig K kexSigContext (shaOf K (transcript c @ head)) sig (c\<lparr>transcript := transcript c @ head\<rparr>) =
      (Inr (), c\<lparr>transcript := transcript c @ head\<rparr>)"
    using sig c(4-6) by (intro sig_verifies [OF K(1)]) (simp_all add: v_def wolfSPDM_IsTcgMode_def)
  have chk: "SPDM_CHECK_PARSE_OR_ERROR_ARGS ?rx 140 c = (Inr (), c)" "SPDM_CHECK_RESPONSE ?rx SPDM_KEY_EXCHANGE_RSP E_KEY_EXCHANGE c = (Inr (), c)"
    using l f(2) by (simp_all add: SPDM_CHECK_PARSE_OR_ERROR_ARGS_def SPDM_CHECK_RESPONSE_def opE_defs)
  have off: "kexSigOffset ?rx 136 = 138" "take 138 ?rx = head" "take 96 (drop 138 ?rx) = sig" "take 48 (drop 234 ?rx) = ?tag"
    using l f(6) [of "sig @ ?tag"] by (simp_all add: kexSigOffset_def)
  have cmp: "wolfSPDM_ConstCompare ?tag ?tag 48 = 0" using l(3) by (simp add: wolfSPDM_ConstCompare_full)
  have sz: "wolfSPDM_SigSize c = 96" "kexExchangeSz K c = retE 96" using c(3,4)
    by (simp_all add: wolfSPDM_SigSize_def wolfSPDM_RspMlDsaLevel_def kexExchangeSz_def)
  have sh: "kexSharedSecret K (ephemeralIsKem (flags c)) 96 ?rx (c\<lparr>transcript := ?tr\<rparr>) = (Inr (), c\<lparr>transcript := ?tr, rng := g, sharedSecret := ss\<rparr>)"
    unfolding kexSharedSecret_def f(7,8) using g c(3) by simp
  have "wolfSPDM_ParseKeyExchangeRsp K ?rx c = (Inr (), (kexLoaded K v (kexSecret K ss) ?tr (c\<lparr>rng := g, sharedSecret := ss\<rparr>))\<lparr>rspSessionId := 0xFFFE,
        sessionId := ucast (reqSessionId c) OR push_bit 16 (ucast (0xFFFE :: word16)), mutAuthRequested := 0, reqSlotIdParam := 0\<rparr>)"
    unfolding wolfSPDM_ParseKeyExchangeRsp_def
    using chk c(4,7) sz off vs sh cmp l f(3-5)
    by (simp add: opE_defs Let_def works_add works_hash [OF K(1)] derive_ecdh [OF K(1)] loadHs_def kexLoaded_def v_def)
  then show ?thesis by blast
qed

text \<open>The two sides under the handshake keys of an identity-key session.\<close>

definition idKeyed :: "wc_env \<Rightarrow> ('w, 't) WOLFSPDM_RESP_CTX WOLFSPDM_CTX \<Rightarrow> bool" where
  "idKeyed K c \<longleftrightarrow> keyed K True c \<and> state c = WOLFSPDM_STATE_KEY_EX \<and> mutAuthRequested c = 0 \<and>
     (spdmVersion c = SPDM_VERSION_12 \<or> spdmVersion c = SPDM_VERSION_13) \<and> length (reqPubKeyTPMT c) \<le> WOLFSPDM_PUBKEY_BUF_SZ div 2"

text \<open>The contexts of the two sides after an exchange of \<open>tx\<close> that left the transcript \<open>tr\<close> and the secret \<open>ss\<close>.\<close>

definition kexResp :: "wc_env \<Rightarrow> bytes \<Rightarrow> bytes \<Rightarrow> bytes \<Rightarrow> bytes \<Rightarrow> bytes \<Rightarrow> ('w, 't) WOLFSPDM_RESP_CTX WOLFSPDM_CTX \<Rightarrow> ('w, 't) WOLFSPDM_RESP_CTX" where
  "kexResp K tx ss tr g b c = (respAdvance tx c)\<lparr>rctx := kexLoaded K (spdmVersion c) (kexSecret K ss) tr
     ((respSessionIds tx (rctx (respAdvance tx c)))\<lparr>rng := g, ephemeral := b,
       flags := (flags (rctx (ioUserCtx c)))\<lparr>ephemeralKeyInit := True\<rparr>, sharedSecret := ss\<rparr>), pendingAsym := True\<rparr>"

definition kexSent :: "bytes \<Rightarrow> bytes \<Rightarrow> bytes \<Rightarrow> 'w WOLFSPDM_CTX \<Rightarrow> 'w WOLFSPDM_CTX" where
  "kexSent tx g a c = c\<lparr>rng := g, ephemeral := a, flags := (flags c)\<lparr>ephemeralKeyInit := True\<rparr>, transcript := transcript c @ tx\<rparr>"

lemma kex_keyed:
  fixes c :: "('w, 't) WOLFSPDM_RESP_CTX WOLFSPDM_CTX" and ss g g' g2 a b y
  assumes K: "wc_works K" and p: "idPhase K priv pub c" and n: "length tr \<le> 900" and sid: "SPDM_Get16LE tx 4 = reqSessionId c"
  defines "d \<equiv> (kexLoaded K (spdmVersion c) (kexSecret K ss) tr ((kexSent tx g a c)\<lparr>ioUserCtx := kexResp K tx ss tr g' b c, fipsIndicator := y,
      rng := g2, sharedSecret := ss\<rparr>))\<lparr>rspSessionId := 0xFFFE,
      sessionId := ucast (reqSessionId c) OR push_bit 16 (ucast (0xFFFE :: word16)), mutAuthRequested := 0, reqSlotIdParam := 0\<rparr>"
  shows "idKeyed K d" "peerView (ioUserCtx d) = peerView (ioUserCtx c)"
proof -
  have s: "sessionId d = ucast (reqSessionId c) OR push_bit 16 (ucast (0xFFFE :: word16))" by (simp add: d_def)
  note defs = d_def kexSent_def kexResp_def kexLoaded_def loadHs_def respSessionIds_def respAdvance_def respHdr_def
  have "peered K d" "hsView (rctx (ioUserCtx d)) = hsView d"
    using p sid by (simp_all add: idPhase_def peered_def hsView_def defs wolfSPDM_IsTcgMode_def Let_def)
  moreover have "\<not> (0x10 \<le> (ucast (sessionId d AND 0xFF) :: byte) \<and> (ucast (sessionId d AND 0xFF) :: byte) \<le> 0x1F)" "sessionId d \<noteq> 0"
    unfolding s session_first_byte using p session_nonzero [of "reqSessionId c"] by (simp_all add: idPhase_def Let_def)
  moreover have "length (reqDataKey d) = WOLFSPDM_AEAD_KEY_SIZE" "length (reqDataIv d) = WOLFSPDM_AEAD_IV_SIZE"
      "length (rspDataKey d) = WOLFSPDM_AEAD_KEY_SIZE" "length (rspDataIv d) = WOLFSPDM_AEAD_IV_SIZE"
    using hsKeys_lengths [OF K] works_hash [OF K] by (simp_all add: defs Let_def)
  ultimately have "linked K d" unfolding linked_def by blast
  then show "idKeyed K d"
    using p n works_hash [OF K] by (simp add: idKeyed_def keyed_def idPhase_def defs Let_def)
  show "peerView (ioUserCtx d) = peerView (ioUserCtx c)" by (simp add: peerView_def defs Let_def)
qed

lemma responder_kex_exchange:
  fixes c :: "('w, 't) WOLFSPDM_RESP_CTX WOLFSPDM_CTX"
  assumes K: "wc_works K" "wc_ecc_works K" and e: "eccPair K priv pub" and p: "idPhase K priv pub c" and n: "length (transcript c) \<le> 500"
    and a: "eccKey K a" and q: "length rnd = 32" "length opaque \<le> 30"
  defines "tx \<equiv> kexReq (spdmVersion c) (reqSessionId c) rnd (eccPub K a) opaque"
  shows "\<exists>rnd' b sig g' y. length rnd' = 32 \<and> eccKey K b \<and>
     (let head = kexRspHead (spdmVersion c) rnd' (eccPub K b); tr = (transcript c @ tx) @ head @ sig; ss = dhOf K a b in
      length tr \<le> 900 \<and> goodSig K pub (signHash K (spdmVersion c) (shaOf K ((transcript c @ tx) @ head))) sig \<and>
      wolfSPDM_SendReceive tx WOLFSPDM_KEY_EX_RX_SZ (kexSent tx g a c) =
        (Inr (head @ sig @ kexTag K (spdmVersion c) (kexSecret K ss) tr),
         (kexSent tx g a c)\<lparr>ioUserCtx := kexResp K tx ss tr g' b c, fipsIndicator := y\<rparr>))"
proof -
  note f = kexReq_fields [OF q(1) ecc_points(1,2) [OF K(2) a], of "spdmVersion c" "reqSessionId c" opaque, folded tx_def]
  obtain rnd' b sig g' where r: "length rnd' = 32" "eccKey K b"
    and sg: "goodSig K pub (signHash K (spdmVersion c) (shaOf K (transcript c @ tx @ kexRspHead (spdmVersion c) rnd' (eccPub K b)))) sig"
    and ad: "respAdmit K (tx ! 1) tx 8272 (respAdvance [] c) = (Inr (kexRspHead (spdmVersion c) rnd' (eccPub K b) @ sig @
          kexTag K (spdmVersion c) (kexSecret K (dhOf K b a)) (transcript c @ tx @ kexRspHead (spdmVersion c) rnd' (eccPub K b) @ sig)),
        kexResp K tx (dhOf K b a) (transcript c @ tx @ kexRspHead (spdmVersion c) rnd' (eccPub K b) @ sig) g' b c)"
    using responder_kex [OF K e p n a q] unfolding tx_def [symmetric] Let_def kexResp_def [symmetric] by blast
  define head where "head = kexRspHead (spdmVersion c) rnd' (eccPub K b)"
  note sg = sg [folded head_def] and ad = ad [folded head_def, unfolded dh_agrees(2) [OF K(2) r(2) a]]
  note hf = kexRsp_fields(1) [OF r(1) ecc_points(1,2) [OF K(2) r(2)], of "spdmVersion c", folded head_def]
  let ?ss = "dhOf K a b" and ?tr = "(transcript c @ tx) @ head @ sig"
  let ?rx = "head @ sig @ kexTag K (spdmVersion c) (kexSecret K ?ss) ?tr"
  have ls: "length ?rx = 282" "length ?tr \<le> 900"
    using sg hf works_hash [OF K(1)] f(1) q(2) n by (simp_all add: goodSig_def)
  have "\<exists>y. wolfSPDM_SendReceive tx WOLFSPDM_KEY_EX_RX_SZ (kexSent tx g a c) =
      (Inr ?rx, (kexSent tx g a c)\<lparr>ioUserCtx := kexResp K tx ?ss ?tr g' b c, fipsIndicator := y\<rparr>)"
    unfolding kexSent_def using ad f(1-3) q(2) ls(1) by (intro clear_exchange [OF p]) simp_all
  with r sg ls(2) show ?thesis unfolding Let_def head_def [symmetric] append_assoc by (metis head_def)
qed

lemma requester_kex:
  fixes c :: "('w, 't) WOLFSPDM_RESP_CTX WOLFSPDM_CTX"
  assumes K: "wc_works K" "wc_ecc_works K" and e: "eccPair K priv pub" and p: "idPhase K priv pub c" and n: "length (transcript c) \<le> 500"
  shows "\<exists>d. wolfSPDM_KeyExchange K c = (Inr (), d) \<and> idKeyed K d \<and> peerView (ioUserCtx d) = peerView (ioUserCtx c)"
proof -
  have q: "rngInitialized (flags c)" "\<not> ephemeralIsKem (flags c)" "wolfSPDM_IsTcgMode c" "hasRspPubKey (flags c)" "rspPubKey c = pub"
      "length pub = WOLFSPDM_ECC_POINT_SIZE" "m1State c = WOLFSPDM_RUN_NONE"
    using p by (simp_all add: idPhase_def peered_def Let_def)
  let ?tx = "\<lambda>rnd a. kexReq (spdmVersion c) (reqSessionId c) rnd (eccPub K a) (wolfSPDM_KeyExOpaque c)"
  obtain rnd a g where b: "length rnd = 32" "eccKey K a" and bk: "wolfSPDM_BuildKeyExchange K WOLFSPDM_KEY_EX_TX_SZ c =
     (Inr (?tx rnd a), c\<lparr>rng := g, ephemeral := a, flags := (flags c)\<lparr>ephemeralKeyInit := True\<rparr>\<rparr>)"
    using build_kex(1) [OF K q(1-3)] by blast
  define tx where "tx = ?tx rnd a"
  have o: "length (wolfSPDM_KeyExOpaque c) \<le> 30" using build_kex(2) [OF K q(1-3)] by simp
  note f = kexReq_fields [OF b(1) ecc_points(1,2) [OF K(2) b(2)], of "spdmVersion c" "reqSessionId c" "wolfSPDM_KeyExOpaque c", folded tx_def]
  obtain rnd' b' sig g' y where r: "length rnd' = 32" "eccKey K b'"
    and x: "length ((transcript c @ tx) @ kexRspHead (spdmVersion c) rnd' (eccPub K b') @ sig) \<le> 900"
      "goodSig K pub (signHash K (spdmVersion c) (shaOf K ((transcript c @ tx) @ kexRspHead (spdmVersion c) rnd' (eccPub K b')))) sig"
      "wolfSPDM_SendReceive tx WOLFSPDM_KEY_EX_RX_SZ (kexSent tx g a c) =
        (Inr (kexRspHead (spdmVersion c) rnd' (eccPub K b') @ sig @ kexTag K (spdmVersion c) (kexSecret K (dhOf K a b'))
              ((transcript c @ tx) @ kexRspHead (spdmVersion c) rnd' (eccPub K b') @ sig)),
         (kexSent tx g a c)\<lparr>ioUserCtx := kexResp K tx (dhOf K a b') ((transcript c @ tx) @ kexRspHead (spdmVersion c) rnd' (eccPub K b') @ sig) g' b' c,
           fipsIndicator := y\<rparr>)" (is "_ = (Inr ?rx, ?c)")
    using responder_kex_exchange [OF K e p n b(2,1) o, of g] unfolding tx_def [symmetric] Let_def by blast
  have "eccKey K (ephemeral ?c)" "ephemeralKeyInit (flags ?c)" "\<not> ephemeralIsKem (flags ?c)" "wolfSPDM_IsTcgMode ?c"
      "hasRspPubKey (flags ?c)" "length (rspPubKey ?c) = WOLFSPDM_ECC_POINT_SIZE" "length (transcript ?c) \<le> 1000"
    using b q n f(1) o by (simp_all add: kexSent_def wolfSPDM_IsTcgMode_def)
  note pk = parse_kex [OF K this r, of sig]
  have fl: "spdmVersion ?c = spdmVersion c" "reqSessionId ?c = reqSessionId c" "rspPubKey ?c = pub" "transcript ?c = transcript c @ tx" "ephemeral ?c = a"
    using q(5) by (simp_all add: kexSent_def)
  obtain d where d: "wolfSPDM_ParseKeyExchangeRsp K ?rx ?c = (Inr (), d)" "idKeyed K d" "peerView (ioUserCtx d) = peerView (ioUserCtx c)"
    using pk [unfolded fl, OF x(2)] kex_keyed [OF K(1) p x(1) f(4)] by blast
  have on: "\<not> wolfSPDM_ChunkOn (kexSent tx g a c)" "wolfSPDM_IsTcgMode (kexSent tx g a c)"
    using q(3) by (simp_all add: kexSent_def wolfSPDM_ChunkOn_def wolfSPDM_IsTcgMode_def)
  have t: "wolfSPDM_TranscriptAdd tx (c\<lparr>rng := g, ephemeral := a, flags := (flags c)\<lparr>ephemeralKeyInit := True\<rparr>\<rparr>) = (Inr (), kexSent tx g a c)"
    using n f(1) o by (simp add: works_add kexSent_def)
  have "wolfSPDM_KeyExchange K c = (Inr (), d)"
    using q bk [folded tx_def] x(3) d(1) on t by (simp add: wolfSPDM_KeyExchange_def wolfSPDM_ClearExchange_def opE_defs)
  with d(2,3) show ?thesis by blast
qed

section \<open>The requester's key\<close>

lemma idKeyed_talking: "idKeyed K c \<Longrightarrow> talking K c"
  by (simp add: idKeyed_def keyed_def talking_def)

lemma requester_gives_key:
  fixes c :: "('w, 't) WOLFSPDM_RESP_CTX WOLFSPDM_CTX"
  assumes K: "wc_works K" and c: "idKeyed K c"
  shows "\<exists>d. wolfSPDM_TCG_GivePubKey K (reqPubKeyTPMT c) c = (Inr (), d) \<and> idKeyed K d \<and> peerView (ioUserCtx d) = peerView (ioUserCtx c)"
proof -
  let ?key = "reqPubKeyTPMT c" and ?v = "spdmVersion c"
  have n: "length ?key \<le> 128" "?v \<noteq> 0" using c by (auto simp: idKeyed_def)
  obtain tx where tx: "length tx = 17 + length ?key" "tx ! 1 = SPDM_VENDOR_DEFINED_REQUEST"
      "\<And>s :: ('w, 't) WOLFSPDM_RESP_CTX WOLFSPDM_CTX. wolfSPDM_BuildVendorDefined ?v WOLFSPDM_VDCODE_GIVE_PUB ?key WOLFSPDM_VENDOR_BUF_SZ s = (Inr tx, s)"
      "\<And>t :: ('w, 't) WOLFSPDM_RESP_CTX. wolfSPDM_ParseVendorDefined tx WOLFSPDM_MAX_TPM_MSG_SIZE t = (Inr (WOLFSPDM_VDCODE_GIVE_PUB, ?key), t)"
    using vendor_request [OF key_codes(3,4) n(1), of ?v] by blast
  let ?r = "respOpened c tx" and ?out = "vendorRsp ?v WOLFSPDM_VDCODE_GIVE_PUB []"
  let ?r2 = "?r\<lparr>rctx := (rctx ?r)\<lparr>reqPubKeyTPMT := ?key\<rparr>, vdInPayload := [], vdOutPayload := []\<rparr>"
  have "spdmVersion (rctx ?r) = ?v" using c by (simp add: idKeyed_def keyed_def link_defs respOpened_def respHdr_def)
  then have sw: "respSecuredSwitch K (tx ! 1) tx ?r = (Inr (?out, False, False), ?r2)"
    unfolding tx(2) using tx(4) n(1) key_codes(6,7)
    by (simp add: respSecuredSwitch_def RespHandleVendorDefined_def RespHandleVendorDefinedInner_def respVendorCmd_def
        putOut_def vendorRsp_def zoomE_def opE_defs Let_def)
  have l: "length ?out = 17" "?out \<noteq> []" "?out ! 1 \<noteq> SPDM_ERROR" using key_codes(3) by (simp_all add: vendorRsp_def)
  have "\<exists>l g g' f. wolfSPDM_SecuredExchange K tx WOLFSPDM_VENDOR_BUF_SZ c = (Inr ?out, c\<lparr>l1l2State := l, rng := g,
     reqSeqNum := reqSeqNum c + 1, ioUserCtx := respSealed False g' ?r2, fipsIndicator := f, rspSeqNum := rspSeqNum c + 1\<rparr>)"
    using l tx(1) n(1) by (intro link_exchange [OF K idKeyed_talking [OF c] _ _ sw]) simp_all
  then obtain s g g' f where x: "wolfSPDM_SecuredExchange K tx WOLFSPDM_VENDOR_BUF_SZ c = (Inr ?out, c\<lparr>l1l2State := s, rng := g,
     reqSeqNum := reqSeqNum c + 1, ioUserCtx := respSealed False g' ?r2, fipsIndicator := f, rspSeqNum := rspSeqNum c + 1\<rparr>)" (is "_ = (_, ?d)")
    by blast
  have "state c = WOLFSPDM_STATE_KEY_EX" using c by (simp add: idKeyed_def)
  then have "wolfSPDM_TCG_GivePubKey K ?key c = (Inr (), ?d)"
    using x tx(3) n(2) l(3)
    by (simp del: One_nat_def add: wolfSPDM_TCG_GivePubKey_def wolfSPDM_TCG_VendorCmdSecured_def vendorVersion_def opE_defs)
  moreover have "idKeyed K ?d"
    using c by (simp add: idKeyed_def keyed_def link_defs respSealed_def respOpened_def respHdr_def wolfSPDM_IsTcgMode_def)
  moreover have "peerView (ioUserCtx ?d) = peerView (ioUserCtx c)" by (simp add: peerView_def respSealed_def respOpened_def respHdr_def Let_def)
  ultimately show ?thesis by blast
qed

section \<open>FINISH\<close>

lemma build_id_finish:
  assumes "wc_works K" "mutAuthRequested c = 0" "spdmVersion c = SPDM_VERSION_12 \<or> spdmVersion c = SPDM_VERSION_13" "length (transcript c) \<le> 1000"
  shows "wolfSPDM_BuildFinish K WOLFSPDM_FINISH_BUF_SZ c = (Inr (finMsg K True c), finDone K True c)"
proof -
  have "\<not> SPDM_VERSION_14 \<le> spdmVersion c" using assms(3) by auto
  then show ?thesis
    using assms(2,4) fin_sizes(1) [of True "spdmVersion c"]
    by (simp add: wolfSPDM_BuildFinish_def opE_defs Let_def works_add works_hash [OF assms(1)] finHdr_def finTag_def finMsg_def finDone_def)
qed

lemma parse_id_finish_rsp:
  assumes "spdmVersion c = SPDM_VERSION_12 \<or> spdmVersion c = SPDM_VERSION_13" "length (transcript c) \<le> 2000"
  shows "wolfSPDM_ParseFinishRsp (finAck True (spdmVersion c)) c =
     (Inr (), c\<lparr>transcript := transcript c @ finAck True (spdmVersion c), state := WOLFSPDM_STATE_FINISH\<rparr>)"
proof -
  have "\<not> SPDM_VERSION_14 \<le> spdmVersion c" using assms(1) by auto
  then show ?thesis
    using assms(2) by (simp add: wolfSPDM_ParseFinishRsp_def SPDM_CHECK_PARSE_ARGS_def opE_defs works_add finAck_def)
qed

lemma requester_id_finish:
  fixes c :: "('w, 't) WOLFSPDM_RESP_CTX WOLFSPDM_CTX"
  assumes K: "wc_works K" and c: "idKeyed K c"
  shows "\<exists>d. wolfSPDM_Finish K c = (Inr (), d) \<and> live K (d\<lparr>state := WOLFSPDM_STATE_CONNECTED\<rparr>) \<and>
     sessionAsym (ioUserCtx d) \<and> peerView (ioUserCtx d) = peerView (ioUserCtx c)"
proof -
  let ?ack = "finAck True (spdmVersion c)"
  have k: "keyed K True c" "state c = WOLFSPDM_STATE_KEY_EX" "mutAuthRequested c = 0" "spdmVersion c = SPDM_VERSION_12 \<or> spdmVersion c = SPDM_VERSION_13"
      "length (transcript c) \<le> 1000" "wolfSPDM_IsTcgMode c"
    using c by (auto simp: idKeyed_def keyed_def link_defs)
  obtain enc c2 rx c3 d where x: "wolfSPDM_EncryptInternal K (finMsg K True c) WOLFSPDM_VENDOR_BUF_SZ (finDone K True c) = (Inr enc, c2)"
      "wolfSPDM_SendReceive enc (WOLFSPDM_FINISH_RSP_MAX + 128) c2 = (Inr rx, c3)" "\<not> (0x10 \<le> rx ! 0 \<and> rx ! 0 \<le> 0x1F)"
      "wolfSPDM_DecryptInternal K rx WOLFSPDM_FINISH_RSP_MAX c3 = (Inr ?ack, d)"
      "spdmVersion d = spdmVersion c" "handshakeSecret d = handshakeSecret c" "length (transcript d) \<le> 1100"
      "sessionAsym (ioUserCtx d)" "peerView (ioUserCtx d) = peerView (ioUserCtx c)"
    and lv: "\<And>st. live K ((loadApp K (spdmVersion c) (handshakeSecret c) (shaOf K (transcript d @ ?ack))
        (d\<lparr>transcript := transcript d @ ?ack, state := st\<rparr>))\<lparr>state := WOLFSPDM_STATE_CONNECTED\<rparr>)"
    using finish_exchange [OF K k(1), of WOLFSPDM_VENDOR_BUF_SZ "WOLFSPDM_FINISH_RSP_MAX + 128" WOLFSPDM_FINISH_RSP_MAX] by auto
  have on: "\<not> wolfSPDM_ChunkOn (finDone K True c)" using k(6) by (simp add: wolfSPDM_ChunkOn_def finDone_def wolfSPDM_IsTcgMode_def)
  have xf: "wolfSPDM_FinishXfer K (finMsg K True c) WOLFSPDM_FINISH_RSP_MAX (finDone K True c) = (Inr ?ack, d)"
    using on x(1,2,3,4) by (simp add: wolfSPDM_FinishXfer_def opE_defs)
  let ?d = "loadApp K (spdmVersion c) (handshakeSecret c) (shaOf K (transcript d @ ?ack)) (d\<lparr>transcript := transcript d @ ?ack, state := WOLFSPDM_STATE_FINISH\<rparr>)"
  have pr: "wolfSPDM_ParseFinishRsp ?ack d = (Inr (), d\<lparr>transcript := transcript d @ ?ack, state := WOLFSPDM_STATE_FINISH\<rparr>)"
    using parse_id_finish_rsp [of d] k(4) x(5,7) by simp
  have "wolfSPDM_Finish K c = (Inr (), ?d)"
    using k(2) build_id_finish [OF K k(3-5)] xf pr x(5,6) by (simp add: wolfSPDM_Finish_def opE_defs derive_app [OF K])
  moreover have "ioUserCtx ?d = ioUserCtx d" by (simp add: loadApp_def Let_def)
  ultimately show ?thesis using lv x(8,9) by (intro exI [of _ ?d]) simp
qed

section \<open>The whole connection\<close>

text \<open>A configured requester in front of a configured responder whose identity key it has pinned.\<close>

definition idReady :: "wc_env \<Rightarrow> bytes \<Rightarrow> bytes \<Rightarrow> ('w, 't) WOLFSPDM_RESP_CTX WOLFSPDM_CTX \<Rightarrow> bool" where
  "idReady K priv pub c \<longleftrightarrow> (let r = ioUserCtx c in
     peered K c \<and> initialized (flags c) \<and> (mode c = MODE_TCG \<or> mode c = MODE_NUVOTON \<or> mode c = MODE_NATIONS) \<and>
     useTcg r \<and> hasIdKey r \<and> idPrivKey r = priv \<and> idPubKey r = pub \<and>
     hasRspPubKey (flags c) \<and> rspPubKey c = pub \<and> length pub = WOLFSPDM_ECC_POINT_SIZE \<and> length priv = WOLFSPDM_ECC_KEY_SIZE \<and>
     (maxVersion c = 0 \<or> maxVersion c \<ge> SPDM_VERSION_12) \<and> \<not> ephemeralIsKem (flags c) \<and> \<not> ephemeralIsKem (flags (rctx r)) \<and>
     length (reqPubKeyTPMT c) \<le> WOLFSPDM_PUBKEY_BUF_SZ div 2 \<and>
     \<not> (0x10 \<le> (ucast (reqSessionId c) :: byte) \<and> (ucast (reqSessionId c) :: byte) \<le> 0x1F))"

lemma id_version:
  fixes c :: "('w, 't) WOLFSPDM_RESP_CTX WOLFSPDM_CTX"
  assumes c: "idReady K priv pub c" "transcript c = []" "reqSeqNum c = 0" "rspSeqNum c = 0" "m1State c = WOLFSPDM_RUN_NONE"
  shows "\<exists>d. wolfSPDM_GetVersion K c = (Inr (), d) \<and> idPhase K priv pub d \<and> length (transcript d) = 14 \<and> peerView (ioUserCtx d) = peerView (ioUserCtx c)"
proof -
  let ?r = "ioUserCtx c"
  have "ioCb c = Some (respIo K)" "wolfSPDM_IsTcgMode c" "respInitialized ?r" "useTcg ?r \<or> usePsk ?r"
      "maxVersion c = 0 \<or> maxVersion c \<ge> SPDM_VERSION_12"
    using c(1) by (simp_all add: idReady_def peered_def Let_def)
  then obtain f where v: "wolfSPDM_GetVersion K c = (Inr (), c\<lparr>transcript := versionReq @ versionRsp,
       ioUserCtx := afterVersion (respHdr (connectionHandle c) (fipsIndicator c) ?r),
       fipsIndicator := f, spdmVersion := chosenVersion c, state := WOLFSPDM_STATE_VERSION\<rparr>)" (is "_ = (_, ?d)")
    using requester_version [of c K ?r] c(2) by blast
  have "idPhase K priv pub ?d"
    using c by (simp add: idReady_def idPhase_def peered_def Let_def afterVersion_def respHdr_def wolfSPDM_FreeEphemeralKey_def
        wolfSPDM_RespReset_def wolfSPDM_TranscriptReset_def version_fields chosenVersion_def wolfSPDM_IsTcgMode_def)
  moreover have "peerView (ioUserCtx ?d) = peerView ?r"
    by (simp add: peerView_def afterVersion_def respHdr_def wolfSPDM_RespReset_def Let_def)
  ultimately show ?thesis using v version_fields by (intro exI [of _ ?d]) simp
qed

definition tcgNegotiate :: "WOLFSPDM_MODE \<Rightarrow> ('w, unit) cop" where
  "tcgNegotiate md = (if md \<noteq> MODE_NUVOTON
     then thenE (SPDM_CONNECT_STEP (wolfSPDM_TCG_GetCapabilities WOLFSPDM_TCG_CAPS_FLAGS_DEFAULT)) (SPDM_CONNECT_STEP wolfSPDM_TCG_NegotiateAlgorithms)
     else retE ())"

lemma id_negotiate:
  fixes c :: "('w, 't) WOLFSPDM_RESP_CTX WOLFSPDM_CTX"
  assumes p: "idPhase K priv pub c" and n: "length (transcript c) \<le> 100"
  shows "\<exists>d. tcgNegotiate md c = (Inr (), d) \<and> idPhase K priv pub d \<and> length (transcript d) \<le> 240 \<and> peerView (ioUserCtx d) = peerView (ioUserCtx c)"
proof (cases "md = MODE_NUVOTON")
  case True
  then show ?thesis using p n by (simp add: tcgNegotiate_def opE_defs)
next
  case False
  obtain c1 where c1: "wolfSPDM_TCG_GetCapabilities WOLFSPDM_TCG_CAPS_FLAGS_DEFAULT c = (Inr (), c1)" "idPhase K priv pub c1"
      "length (transcript c1) = length (transcript c) + 40" "peerView (ioUserCtx c1) = peerView (ioUserCtx c)"
    using requester_capabilities [OF p] n by auto
  obtain d where d: "wolfSPDM_TCG_NegotiateAlgorithms c1 = (Inr (), d)" "idPhase K priv pub d"
      "length (transcript d) = length (transcript c1) + 100" "peerView (ioUserCtx d) = peerView (ioUserCtx c1)"
    using requester_algorithms [OF c1(2)] n c1(3) by auto
  have "tcgNegotiate md c = (Inr (), d)"
    using False c1(1) d(1) by (simp add: tcgNegotiate_def SPDM_CONNECT_STEP_def opE_defs)
  then show ?thesis using c1 d n by auto
qed

lemma id_pubkey:
  fixes c :: "('w, 't) WOLFSPDM_RESP_CTX WOLFSPDM_CTX"
  assumes K: "wc_works K" and p: "idPhase K priv pub c" and n: "length (transcript c) \<le> 240"
  shows "\<exists>c1 d. wolfSPDM_TCG_GetPubKey K WOLFSPDM_PUBKEY_BUF_SZ c = (Inr pub, c1) \<and>
     wolfSPDM_TranscriptAdd (shaOf K pub) (c1\<lparr>state := WOLFSPDM_STATE_CERT, certChainHash := shaOf K pub\<rparr>) = (Inr (), d) \<and>
     idPhase K priv pub d \<and> length (transcript d) \<le> 288 \<and> peerView (ioUserCtx d) = peerView (ioUserCtx c)"
proof -
  have l: "length (shaOf K pub) = 48" by (rule works_hash(2) [OF K])
  obtain f where x: "wolfSPDM_TCG_GetPubKey K WOLFSPDM_PUBKEY_BUF_SZ c = (Inr pub, c\<lparr>
     ioUserCtx := (respAdvance (shaOf K pub) c)\<lparr>vdInPayload := [], vdOutPayload := []\<rparr>, fipsIndicator := f\<rparr>)" (is "_ = (_, ?c1)")
    using requester_pubkey [OF K p] n by auto
  let ?d = "c\<lparr>transcript := transcript c @ shaOf K pub, ioUserCtx := (respAdvance (shaOf K pub) c)\<lparr>vdInPayload := [], vdOutPayload := []\<rparr>,
       fipsIndicator := f, certChainHash := shaOf K pub, state := WOLFSPDM_STATE_CERT\<rparr>"
  have "wolfSPDM_TranscriptAdd (shaOf K pub) (?c1\<lparr>state := WOLFSPDM_STATE_CERT, certChainHash := shaOf K pub\<rparr>) = (Inr (), ?d)"
    using n l by (simp add: works_add)
  with x l n idPhase_advance(2,4) [OF p] show ?thesis by (intro exI [of _ ?c1] exI [of _ ?d]) simp
qed

lemma id_handshake_agrees:
  fixes c :: "('w, 't) WOLFSPDM_RESP_CTX WOLFSPDM_CTX"
  assumes K: "wc_works K" "wc_ecc_works K" and e: "eccPair K priv pub"
    and c: "idReady K priv pub c" "transcript c = []" "reqSeqNum c = 0" "rspSeqNum c = 0" "m1State c = WOLFSPDM_RUN_NONE"
  shows "\<exists>d. tcgHandshake K c = (Inr (), d) \<and> live K d \<and> sessionAsym (ioUserCtx d) \<and> peerView (ioUserCtx d) = peerView (ioUserCtx c)"
proof -
  obtain c1 where c1: "wolfSPDM_GetVersion K c = (Inr (), c1)" "idPhase K priv pub c1" "length (transcript c1) = 14" "peerView (ioUserCtx c1) = peerView (ioUserCtx c)"
    using id_version [OF c] by blast
  obtain c2 where c2: "tcgNegotiate (mode c1) c1 = (Inr (), c2)" "idPhase K priv pub c2" "length (transcript c2) \<le> 240" "peerView (ioUserCtx c2) = peerView (ioUserCtx c1)"
    using id_negotiate [OF c1(2)] c1(3) by auto
  obtain c3 c4 where c4: "wolfSPDM_TCG_GetPubKey K WOLFSPDM_PUBKEY_BUF_SZ c2 = (Inr pub, c3)"
      "wolfSPDM_TranscriptAdd (shaOf K pub) (c3\<lparr>state := WOLFSPDM_STATE_CERT, certChainHash := shaOf K pub\<rparr>) = (Inr (), c4)"
      "idPhase K priv pub c4" "length (transcript c4) \<le> 288" "peerView (ioUserCtx c4) = peerView (ioUserCtx c2)"
    using id_pubkey [OF K(1) c2(2,3)] by blast
  obtain c5 where c5: "wolfSPDM_KeyExchange K c4 = (Inr (), c5)" "idKeyed K c5" "peerView (ioUserCtx c5) = peerView (ioUserCtx c4)"
    using requester_kex [OF K e c4(3)] c4(4) by auto
  obtain c6 where c6: "(if hasReqKeyPair (flags c5) \<and> reqPubKeyTPMT c5 \<noteq> []
      then SPDM_CONNECT_STEP (wolfSPDM_TCG_GivePubKey K (reqPubKeyTPMT c5)) else retE ()) c5 = (Inr (), c6)" "idKeyed K c6"
      "peerView (ioUserCtx c6) = peerView (ioUserCtx c5)"
    using requester_gives_key [OF K(1) c5(2)] c5(2)
    by (cases "hasReqKeyPair (flags c5) \<and> reqPubKeyTPMT c5 \<noteq> []") (auto simp: SPDM_CONNECT_STEP_def opE_defs)
  obtain d where d: "wolfSPDM_Finish K c6 = (Inr (), d)" "live K (d\<lparr>state := WOLFSPDM_STATE_CONNECTED\<rparr>)" "sessionAsym (ioUserCtx d)"
      "peerView (ioUserCtx d) = peerView (ioUserCtx c6)"
    using requester_id_finish [OF K(1) c6(2)] by blast
  have "tcgHandshake K c = (Inr (), d\<lparr>state := WOLFSPDM_STATE_CONNECTED\<rparr>)"
    unfolding tcgHandshake_def tcgNegotiate_def [symmetric]
    using c1(1) c2(1) c4(1,2) c5(1) c6(1) d(1) by (simp add: SPDM_CONNECT_STEP_def works_sha [OF K(1)] opE_defs)
  with c1(4) c2(4) c4(5) c5(3) c6(3) d(2-4) show ?thesis by auto
qed

lemma id_connect_agrees:
  fixes c :: "('w, 't) WOLFSPDM_RESP_CTX WOLFSPDM_CTX"
  assumes K: "wc_works K" "wc_ecc_works K" and e: "eccPair K priv pub" and c: "idReady K priv pub c"
  shows "\<exists>d. wolfSPDM_Connect K c = (Inr (), d) \<and> live K d \<and> sessionAsym (ioUserCtx d) \<and> peerView (ioUserCtx d) = peerView (ioUserCtx c)"
proof -
  let ?c = "wolfSPDM_TranscriptReset ((wolfSPDM_ResetSession c)\<lparr>state := WOLFSPDM_STATE_INIT\<rparr>)"
  note rf = reset_fields [of c]
  have "idReady K priv pub ?c" "m1State ?c = WOLFSPDM_RUN_NONE"
    using c rf by (simp_all add: idReady_def peered_def Let_def wolfSPDM_IsTcgMode_def wolfSPDM_TranscriptReset_def)
  moreover have "transcript ?c = []" "reqSeqNum ?c = 0" "rspSeqNum ?c = 0" "ioUserCtx ?c = ioUserCtx c"
    using rf by (simp_all add: wolfSPDM_TranscriptReset_def)
  ultimately obtain d where d: "tcgHandshake K ?c = (Inr (), d)" "live K d" "sessionAsym (ioUserCtx d)" "peerView (ioUserCtx d) = peerView (ioUserCtx c)"
    using id_handshake_agrees [OF K e] by metis
  have m: "mode c = MODE_TCG \<or> mode c = MODE_NUVOTON \<or> mode c = MODE_NATIONS" "initialized (flags c)" "ioCb c = Some (respIo K)"
      "initialized (flags (wolfSPDM_ResetSession c))" "ioCb (wolfSPDM_ResetSession c) = ioCb c"
      "hasRspPubKey (flags (wolfSPDM_ResetSession c))" "length (rspPubKey (wolfSPDM_ResetSession c)) = WOLFSPDM_ECC_POINT_SIZE"
    using c rf by (simp_all add: idReady_def peered_def Let_def)
  have "wolfSPDM_ConnectTCG K (wolfSPDM_ResetSession c) = (Inr (), d)"
    using m(3-) d(1) by (simp add: wolfSPDM_ConnectTCG_def opE_defs)
  then have "wolfSPDM_Connect K c = (Inr (), d)"
    using m(1-3) by (elim disjE) (simp_all add: wolfSPDM_Connect_def opE_defs)
  with d(2-) show ?thesis by blast
qed

end
