(* ===== verification/Spdm_EndToEnd.thy ===== *)
theory Spdm_EndToEnd
  imports Spdm_PskConnect Spdm_IdConnect
begin

text \<open>
  Both sides from their configuration calls, and a finish that is not answered.
\<close>

section \<open>Both sides from their configuration calls\<close>

definition configResponder :: "wc_env \<Rightarrow> 'w \<Rightarrow> 't \<Rightarrow> bytes \<Rightarrow> bytes option \<Rightarrow> 't WOLFSPDM_RESP_TPM_CB option \<Rightarrow> 't \<Rightarrow> ('w, 't, unit) rop" where
  "configResponder K nul tnul key hint cb tpm =
     thenE (wolfSPDM_RespInit K nul tnul) (thenE (wolfSPDM_RespSetMode True True)
     (thenE (wolfSPDM_RespSetPSK key hint) (wolfSPDM_RespSetTpmCallback cb tpm)))"

definition configRequester :: "wc_env \<Rightarrow> 'w \<Rightarrow> 'w WOLFSPDM_IO_CB \<Rightarrow> 'w \<Rightarrow> bytes \<Rightarrow> bytes option \<Rightarrow> ('w, unit) cop" where
  "configRequester K nul io peer key hint =
     thenE (wolfSPDM_Init K nul) (thenE (wolfSPDM_SetIO (Some io) peer)
     (thenE (wolfSPDM_SetMode MODE_NATIONS_PSK) (wolfSPDM_SetPSK key hint)))"

lemma configured_ready:
  assumes "configResponder K nul tnul key hint cb tpm r0 = (Inr (), r)"
    "configRequester K rnul (respIo K) r key hint' c0 = (Inr (), c)"
  shows "pskReady K c" "tpmCb (ioUserCtx c) = cb" "tpmCbUserCtx (ioUserCtx c) = tpm"
proof -
  have r: "mode (rctx r) = MODE_NATIONS_PSK" "respInitialized r" "usePsk r" "rngInitialized (flags (rctx r))" "pskStore r = key"
      "tpmCb r = cb" "tpmCbUserCtx r = tpm"
    using assms(1)
    by (auto simp: configResponder_def wolfSPDM_RespInit_def wolfSPDM_Init_def wolfSPDM_RespSetMode_def wolfSPDM_RespSetPSK_def
        wolfSPDM_SetPSK_def wolfSPDM_RespSetTpmCallback_def zoomE_def opE_defs split: option.splits if_splits)
  have "\<not> (16 :: byte) \<le> 1" by (simp add: word_le_nat_alt)
  then show "pskReady K c" "tpmCb (ioUserCtx c) = cb" "tpmCbUserCtx (ioUserCtx c) = tpm"
    using assms(2) r
    by (auto simp: configRequester_def wolfSPDM_Init_def wolfSPDM_SetIO_def wolfSPDM_SetMode_def wolfSPDM_SetPSK_def
        pskReady_def peered_def wolfSPDM_IsTcgMode_def zero_ctx_def zero_flags_def opE_defs Let_def split: option.splits if_splits)
qed

text \<open>The same for an identity key. \<open>own\<close> is the requester's key pair and its TPMT_PUBLIC, when it has one.\<close>

definition configIdResponder :: "wc_env \<Rightarrow> 'w \<Rightarrow> 't \<Rightarrow> bool \<Rightarrow> bytes \<Rightarrow> bytes \<Rightarrow> 't WOLFSPDM_RESP_TPM_CB option \<Rightarrow> 't \<Rightarrow> ('w, 't, unit) rop" where
  "configIdResponder K nul tnul pskOn priv pub cb tpm =
     thenE (wolfSPDM_RespInit K nul tnul) (thenE (wolfSPDM_RespSetMode True pskOn)
     (thenE (wolfSPDM_RespSetIdentityKey priv pub) (wolfSPDM_RespSetTpmCallback cb tpm)))"

definition configIdRequester ::
  "wc_env \<Rightarrow> 'w \<Rightarrow> 'w WOLFSPDM_IO_CB \<Rightarrow> 'w \<Rightarrow> WOLFSPDM_MODE \<Rightarrow> bytes \<Rightarrow> (bytes \<times> bytes \<times> bytes) option \<Rightarrow> ('w, unit) cop" where
  "configIdRequester K nul io peer md pub own =
     thenE (wolfSPDM_Init K nul) (thenE (wolfSPDM_SetIO (Some io) peer)
     (thenE (wolfSPDM_SetMode md) (thenE (wolfSPDM_SetResponderPubKey pub)
     (case own of None \<Rightarrow> retE ()
      | Some (sk, pk, tpmt) \<Rightarrow> thenE (wolfSPDM_SetRequesterKeyPair sk pk) (wolfSPDM_SetRequesterKeyTPMT tpmt)))))"

lemma configured_id_ready:
  assumes "configIdResponder K nul tnul pskOn priv pub cb tpm r0 = (Inr (), r)"
    "configIdRequester K rnul (respIo K) r md pub own c0 = (Inr (), c)" "md = MODE_TCG \<or> md = MODE_NUVOTON \<or> md = MODE_NATIONS"
  shows "idReady K priv pub c" "hasIdKey (ioUserCtx c)" "idPubKey (ioUserCtx c) = pub" "tpmCb (ioUserCtx c) = cb" "tpmCbUserCtx (ioUserCtx c) = tpm"
proof -
  have r: "mode (rctx r) = MODE_NATIONS_PSK \<or> mode (rctx r) = MODE_NUVOTON" "respInitialized r" "useTcg r" "rngInitialized (flags (rctx r))" "hasIdKey r"
      "idPrivKey r = priv" "idPubKey r = pub" "tpmCb r = cb" "tpmCbUserCtx r = tpm" "\<not> ephemeralIsKem (flags (rctx r))"
      "length priv = WOLFSPDM_ECC_KEY_SIZE" "length pub = WOLFSPDM_ECC_POINT_SIZE"
    using assms(1)
    by (auto simp: configIdResponder_def wolfSPDM_RespInit_def wolfSPDM_Init_def wolfSPDM_RespSetMode_def wolfSPDM_RespSetIdentityKey_def
        wolfSPDM_RespSetTpmCallback_def zero_ctx_def zero_flags_def zoomE_def opE_defs split: option.splits if_splits)
  have m: "wolfSPDM_SetMode md d = (Inr (), d\<lparr>mode := md, connectionHandle := 0, fipsIndicator := 0\<rparr>)" for d :: "('a, 'b) WOLFSPDM_RESP_CTX WOLFSPDM_CTX"
    using assms(3) by (auto simp: wolfSPDM_SetMode_def opE_defs)
  have q: "ioCb c = Some (respIo K)" "ioUserCtx c = r" "mode c = md" "initialized (flags c)" "rngInitialized (flags c)"
      "hasRspPubKey (flags c)" "rspPubKey c = pub" "maxVersion c = 0" "\<not> ephemeralIsKem (flags c)" "length (reqPubKeyTPMT c) \<le> 128" "reqSessionId c = 1"
    using assms(2) r(12)
    by (auto simp: configIdRequester_def wolfSPDM_Init_def wolfSPDM_SetIO_def m wolfSPDM_SetResponderPubKey_def
        wolfSPDM_SetRequesterKeyPair_def wolfSPDM_SetRequesterKeyTPMT_def zero_ctx_def zero_flags_def opE_defs split: option.splits if_splits)
  have tcg: "wolfSPDM_IsTcgMode c" "wolfSPDM_IsTcgMode (rctx r)" using q(3) assms(3) r(1) by (auto simp: wolfSPDM_IsTcgMode_def)
  have "\<not> (16 :: byte) \<le> 1" by (simp add: word_le_nat_alt)
  then show "idReady K priv pub c" using q tcg r assms(3) by (simp add: idReady_def peered_def Let_def)
  show "hasIdKey (ioUserCtx c)" "idPubKey (ioUserCtx c) = pub" "tpmCb (ioUserCtx c) = cb" "tpmCbUserCtx (ioUserCtx c) = tpm"
    using q(2) r by simp_all
qed

text \<open>The connection reports the key it was made with, and leaves the TPM as it was.\<close>

lemma configured_id_connects:
  assumes "wc_works K" "wc_ecc_works K" "eccPair K priv pub"
    "configIdResponder K nul tnul pskOn priv pub cb tpm r0 = (Inr (), r)"
    "configIdRequester K rnul (respIo K) r md pub own c0 = (Inr (), c)" "md = MODE_TCG \<or> md = MODE_NUVOTON \<or> md = MODE_NATIONS"
  shows "\<exists>d. wolfSPDM_Connect K c = (Inr (), d) \<and> live K d \<and> wolfSPDM_RespGetIdentityKey (ioUserCtx d) = Some pub \<and>
     tpmCb (ioUserCtx d) = cb \<and> tpmCbUserCtx (ioUserCtx d) = tpm"
proof -
  note ready = configured_id_ready [OF assms(4-6)]
  from id_connect_agrees [OF assms(1-3) ready(1)] show ?thesis
    using ready(2-) by (auto simp: peerView_def wolfSPDM_RespGetIdentityKey_def)
qed

section \<open>A finish that is not answered\<close>

text \<open>
  A verified finish whose answer does not fit: the responder reports the error, but it is
  connected, and still under the handshake keys.
\<close>

lemma finish_answer_unsealed:
  fixes c :: "('w, 't) WOLFSPDM_RESP_CTX WOLFSPDM_CTX"
  assumes K: "wc_works K" and k: "keyed K False c" and n: "cap < 30"
  shows "\<exists>fin c1 enc c2 s. wolfSPDM_BuildPskFinish K 64 c = (Inr fin, c1) \<and> wolfSPDM_EncryptInternal K fin 8272 c1 = (Inr enc, c2) \<and>
     RespDispatchSecured K enc cap (ioUserCtx c) = (Inl E_BUFFER_SMALL, s) \<and> state (rctx s) = WOLFSPDM_STATE_CONNECTED \<and>
     reqDataKey (rctx s) = reqDataKey c \<and> rspDataKey (rctx s) = rspDataKey c \<and>
     reqSeqNum (rctx s) = reqSeqNum c + 1 \<and> rspSeqNum (rctx s) = rspSeqNum c"
proof -
  let ?r = "ioUserCtx c" and ?ack = "finAck False (spdmVersion c)"
  have h: "respHdr (connectionHandle (rctx ?r)) (fipsIndicator (rctx ?r)) ?r = ?r" by (simp add: respHdr_def)
  note r = keyedD [OF k, of "connectionHandle (rctx ?r)" "fipsIndicator (rctx ?r)", unfolded h]
  obtain enc g where e: "wolfSPDM_EncryptInternal K (finMsg K False c) 8272 (finDone K False c) =
      (Inr enc, (finDone K False c)\<lparr>rng := g, reqSeqNum := reqSeqNum (finDone K False c) + 1\<rparr>)"
    using keyed_seals [OF K k, of 8272] by auto
  note sw = responder_finish_switch [OF K r(1,2,8-12) e]
  let ?d = "(finDone K False ((rctx ?r)\<lparr>reqSeqNum := reqSeqNum (rctx ?r) + 1\<rparr>))\<lparr>transcript := transcript (finDone K False c) @
     ?ack, state := WOLFSPDM_STATE_CONNECTED\<rparr>"
  have tcg: "wolfSPDM_IsTcgMode (RespSwapDataDir ?d)" using r(4) by (simp add: RespSwapDataDir_def finDone_def wolfSPDM_IsTcgMode_def)
  have "RespEncrypt K ?ack cap ?d = (Inl E_BUFFER_SMALL, ?d)"
    using n tcg swap_twice [of ?d] fin_sizes(2) [of False "spdmVersion c"]
    by (simp add: RespEncrypt_def wolfSPDM_EncryptInternal_def wolfSPDM_EncryptRecord_def opE_defs Let_def)
  then have "RespDispatchSecured K enc cap ?r = (Inl E_BUFFER_SMALL, ?r\<lparr>rctx := ?d, secureInPlain := [], sessionAsym := False, secureOutPlain := []\<rparr>)"
    using r(1,3) sw fin_sizes(5) [OF K, of False c]
    by (simp del: One_nat_def add: RespDispatchSecured_def RespDispatchSecuredInner_def zoomE_def opE_defs)
  moreover have "wolfSPDM_BuildPskFinish K 64 c = (Inr (finMsg K False c), finDone K False c)"
    using build_psk_finish [OF K, of c] r(8,9) by simp
  moreover have "reqDataKey (rctx ?r) = reqDataKey c" "rspDataKey (rctx ?r) = rspDataKey c" "reqSeqNum (rctx ?r) = reqSeqNum c"
      "rspSeqNum (rctx ?r) = rspSeqNum c"
    using k by (auto simp: keyed_def linked_def hsView_def)
  ultimately show ?thesis using e by (auto simp: finDone_def)
qed

end
