(* ===== verification/Spdm_Provision.thy ===== *)
theory Spdm_Provision
  imports Spdm_EndToEnd
begin

text \<open>
  The vendor adapters against the responder: the SPDM-only lock set in a session and read back in
  the clear, and a pre-shared key from its provisioning to its removal.
\<close>

section \<open>A vendor command in the clear\<close>

text \<open>The responder takes the version of the request: the one it settled on, or any before GET_VERSION.\<close>

definition sameVersion :: "('w, 't) WOLFSPDM_RESP_CTX WOLFSPDM_CTX \<Rightarrow> bool" where
  "sameVersion c \<longleftrightarrow> 0x10 \<le> vendorVersion c \<and> vendorVersion c \<le> 0x1F \<and>
     (let rc = rctx (ioUserCtx c) in if spdmVersion rc = 0 then state rc \<noteq> WOLFSPDM_STATE_VERSION else spdmVersion rc = vendorVersion c)"

definition vendorDone :: "('w, 't) WOLFSPDM_RESP_CTX \<Rightarrow> ('w, 't) WOLFSPDM_RESP_CTX" where
  "vendorDone r = r\<lparr>vdInPayload := [], vdOutPayload := []\<rparr>"

lemma responder_vendor_clear:
  fixes c :: "('w, 't) WOLFSPDM_RESP_CTX WOLFSPDM_CTX"
  defines "r \<equiv> respHdr (connectionHandle c) (fipsIndicator c) (ioUserCtx c)"
  assumes v: "sameVersion c" and tx: "2 \<le> length tx" "tx ! 0 = vendorVersion c" "tx ! 1 = SPDM_VENDOR_DEFINED_REQUEST"
      "\<And>t :: ('w, 't) WOLFSPDM_RESP_CTX. wolfSPDM_ParseVendorDefined tx WOLFSPDM_MAX_TPM_MSG_SIZE t = (Inr (code, p), t)"
    and k: "\<not> vendorSecuredOnly code" "code \<noteq> WOLFSPDM_VDCODE_GET_PUBK"
    and d: "respVendorCmd K code p (r\<lparr>vdInPayload := p\<rparr>) = (Inr resp, r2)" "length resp \<le> 128"
  shows "RespDispatchClear K tx 8272 r = (Inr (vendorRsp (spdmVersion (rctx r2)) code resp), vendorDone r2)"
proof -
  have "RespSelectVersion (tx ! 0) True (rctx r) = (Inr (), rctx r)"
    using v tx(2) by (auto simp: sameVersion_def RespSelectVersion_def r_def respHdr_def opE_defs Let_def split: if_splits)
  then have "RespDispatchClear K tx 8272 r = respAdmit K SPDM_VENDOR_DEFINED_REQUEST tx 8272 r"
    using tx(1,3) by (simp del: One_nat_def add: RespDispatchClear_def zoomE_def opE_defs Let_def)
  also have "\<dots> = (Inr (vendorRsp (spdmVersion (rctx r2)) code resp), vendorDone r2)"
    using tx(4) k d
    by (simp add: respAdmit_def respSwitch_def RespHandleVendorDefined_def RespHandleVendorDefinedInner_def vendorRsp_def vendorDone_def
        zoomE_def opE_defs Let_def)
  finally show ?thesis .
qed

lemma vendor_command_clear:
  fixes c :: "('w, 't) WOLFSPDM_RESP_CTX WOLFSPDM_CTX"
  defines "r \<equiv> respHdr (connectionHandle c) (fipsIndicator c) (ioUserCtx c)"
  assumes c: "peered K c" "sameVersion c"
    and k: "length code = WOLFSPDM_VDCODE_LEN" "0 \<notin> set code" "\<not> vendorSecuredOnly code" "code \<noteq> WOLFSPDM_VDCODE_GET_PUBK"
    and p: "length p \<le> 128" and d: "respVendorCmd K code p (r\<lparr>vdInPayload := p\<rparr>) = (Inr resp, r2)" "length resp \<le> 128"
  shows "\<exists>f. wolfSPDM_TCG_VendorCmdClear code p want c = (Inr (if want then (code, resp) else ([], [])),
     c\<lparr>ioUserCtx := vendorDone r2, fipsIndicator := f\<rparr>)"
proof -
  obtain tx where tx: "length tx = 17 + length p" "tx ! 0 = vendorVersion c" "tx ! 1 = SPDM_VENDOR_DEFINED_REQUEST"
      "\<And>s :: ('w, 't) WOLFSPDM_RESP_CTX WOLFSPDM_CTX. wolfSPDM_BuildVendorDefined (vendorVersion c) code p WOLFSPDM_VENDOR_BUF_SZ s = (Inr tx, s)"
      "\<And>t :: ('w, 't) WOLFSPDM_RESP_CTX. wolfSPDM_ParseVendorDefined tx WOLFSPDM_MAX_TPM_MSG_SIZE t = (Inr (code, p), t)"
    using vendor_request [OF k(1,2) p, of "vendorVersion c"] by blast
  let ?rx = "vendorRsp (spdmVersion (rctx r2)) code resp"
  have rx: "length ?rx = 17 + length resp" "?rx ! 1 \<noteq> SPDM_ERROR" using k(1) by (simp_all add: vendorRsp_def)
  have parse: "wolfSPDM_ParseVendorDefined ?rx WOLFSPDM_VENDOR_BUF_SZ s = (Inr (code, resp), s)" for s :: "('w, 't) WOLFSPDM_RESP_CTX WOLFSPDM_CTX"
    using vendorRsp_parses(2) [OF k(1), of resp 256] d(2) by simp
  have "RespDispatchClear K tx 8272 r = (Inr ?rx, vendorDone r2)"
    unfolding r_def using tx(1) by (intro responder_vendor_clear [OF c(2) _ tx(2,3,5) k(3,4) d [unfolded r_def]]) simp
  moreover have "0x10 \<le> tx ! 0 \<and> tx ! 0 \<le> 0x1F" using c(2) tx(2) by (simp add: sameVersion_def)
  ultimately have "\<exists>f. wolfSPDM_SendReceive tx 512 c = (Inr ?rx, c\<lparr>ioUserCtx := vendorDone r2, fipsIndicator := f\<rparr>)"
    using c(1) tx(1) p rx(1) d(2) by (intro exchange_with_responder [of c K "ioUserCtx c"]) (auto simp: peered_def r_def Let_def)
  then obtain f where x: "wolfSPDM_SendReceive tx 512 c = (Inr ?rx, c\<lparr>ioUserCtx := vendorDone r2, fipsIndicator := f\<rparr>)" by blast
  show ?thesis
    using x rx parse tx(4) k(1) by (intro exI [of _ f]) (simp del: One_nat_def add: wolfSPDM_TCG_VendorCmdClear_def opE_defs)
qed

lemmas vdcode_defs = WOLFSPDM_VDCODE_TPM2_CMD_def WOLFSPDM_VDCODE_GET_PUBK_def WOLFSPDM_VDCODE_GIVE_PUB_def WOLFSPDM_VDCODE_GET_STS_def
  WOLFSPDM_VDCODE_SPDMONLY_def WOLFSPDM_NATIONS_VDCODE_PSK_SET_def WOLFSPDM_NATIONS_VDCODE_PSK_CLEAR_def cstr_def

lemma vendor_codes:
  "length WOLFSPDM_VDCODE_GET_STS = WOLFSPDM_VDCODE_LEN" "0 \<notin> set WOLFSPDM_VDCODE_GET_STS"
  "length WOLFSPDM_NATIONS_VDCODE_PSK_SET = WOLFSPDM_VDCODE_LEN" "0 \<notin> set WOLFSPDM_NATIONS_VDCODE_PSK_SET"
  "length WOLFSPDM_NATIONS_VDCODE_PSK_CLEAR = WOLFSPDM_VDCODE_LEN" "0 \<notin> set WOLFSPDM_NATIONS_VDCODE_PSK_CLEAR"
  "length WOLFSPDM_VDCODE_SPDMONLY = WOLFSPDM_VDCODE_LEN" "0 \<notin> set WOLFSPDM_VDCODE_SPDMONLY"
  by (simp_all add: vdcode_defs)

lemma vendor_codes_clear:
  "\<not> vendorSecuredOnly WOLFSPDM_VDCODE_GET_STS" "WOLFSPDM_VDCODE_GET_STS \<noteq> WOLFSPDM_VDCODE_GET_PUBK"
  "\<not> vendorSecuredOnly WOLFSPDM_NATIONS_VDCODE_PSK_SET" "WOLFSPDM_NATIONS_VDCODE_PSK_SET \<noteq> WOLFSPDM_VDCODE_GET_PUBK"
  "\<not> vendorSecuredOnly WOLFSPDM_NATIONS_VDCODE_PSK_CLEAR" "WOLFSPDM_NATIONS_VDCODE_PSK_CLEAR \<noteq> WOLFSPDM_VDCODE_GET_PUBK"
  by (simp_all add: vendorSecuredOnly_def vdcode_defs)

text \<open>The codes are distinct, so that each reaches its own handler.\<close>

lemma vendor_dispatch:
  "respVendorCmd K WOLFSPDM_VDCODE_GET_STS p r =
     putOut [0x00, 0x04, if pskProvisioned r then 0x01 else 0x00, if spdmOnlyLock r then 0x01 else 0x00] r"
  "respVendorCmd K WOLFSPDM_VDCODE_SPDMONLY [if lock then 0x01 else 0x00] r = putOut [] (r\<lparr>spdmOnlyLock := lock\<rparr>)"
  "respVendorCmd K WOLFSPDM_NATIONS_VDCODE_PSK_SET p r = thenE (respPskSet p) (putOut []) r"
  "respVendorCmd K WOLFSPDM_NATIONS_VDCODE_PSK_CLEAR p r = thenE (respPskClear K p) (putOut []) r"
  by (simp_all add: respVendorCmd_def vdcode_defs opE_defs)

section \<open>The lock\<close>

lemma requester_locks:
  fixes c :: "('w, 't) WOLFSPDM_RESP_CTX WOLFSPDM_CTX"
  assumes K: "wc_works K" and c: "live K c"
  shows "\<exists>d. spdmOnlyCmd K lock c = (Inr (), d) \<and> live K d \<and> wolfSPDM_RespIsLocked (ioUserCtx d) = lock \<and> spdmVersion d = spdmVersion c"
proof -
  let ?p = "[if lock then 0x01 else 0x00 :: byte]" and ?v = "vendorVersion c"
  note l = liveD [OF c]
  obtain tx where tx: "length tx = 18" "tx ! 1 = SPDM_VENDOR_DEFINED_REQUEST"
      "\<And>s :: ('w, 't) WOLFSPDM_RESP_CTX WOLFSPDM_CTX. wolfSPDM_BuildVendorDefined ?v WOLFSPDM_VDCODE_SPDMONLY ?p WOLFSPDM_VENDOR_BUF_SZ s = (Inr tx, s)"
      "\<And>t :: ('w, 't) WOLFSPDM_RESP_CTX. wolfSPDM_ParseVendorDefined tx WOLFSPDM_MAX_TPM_MSG_SIZE t = (Inr (WOLFSPDM_VDCODE_SPDMONLY, ?p), t)"
    using vendor_request [OF vendor_codes(7,8), of ?p ?v] by auto
  let ?r = "respOpened c tx"
  let ?out = "vendorRsp (spdmVersion (rctx ?r)) WOLFSPDM_VDCODE_SPDMONLY []"
  let ?r2 = "?r\<lparr>spdmOnlyLock := lock, vdInPayload := [], vdOutPayload := []\<rparr>"
  have "state (rctx ?r) = WOLFSPDM_STATE_CONNECTED" using l(3) by (simp add: respOpened_def respHdr_def Let_def)
  then have sw: "respSecuredSwitch K (tx ! 1) tx ?r = (Inr (?out, False, False), ?r2)"
    unfolding tx(2) using tx(4)
    by (simp add: respSecuredSwitch_def RespHandleVendorDefined_def RespHandleVendorDefinedInner_def vendor_dispatch
        putOut_def vendorRsp_def zoomE_def opE_defs Let_def)
  have o: "length ?out = 17" "?out \<noteq> []" "?out ! 1 \<noteq> SPDM_ERROR" using vendor_codes(7) by (simp_all add: vendorRsp_def)
  have "\<exists>l g g' f. wolfSPDM_SecuredExchange K tx WOLFSPDM_VENDOR_BUF_SZ c = (Inr ?out, c\<lparr>l1l2State := l, rng := g,
     reqSeqNum := reqSeqNum c + 1, ioUserCtx := respSealed False g' ?r2, fipsIndicator := f, rspSeqNum := rspSeqNum c + 1\<rparr>)"
    using o tx(1) by (intro link_exchange [where t = "reqPubKeyTPMT (rctx ?r)", OF K l(1) _ _ sw]) simp_all
  then obtain s g g' f where x: "wolfSPDM_SecuredExchange K tx WOLFSPDM_VENDOR_BUF_SZ c = (Inr ?out, c\<lparr>l1l2State := s, rng := g,
     reqSeqNum := reqSeqNum c + 1, ioUserCtx := respSealed False g' ?r2, fipsIndicator := f, rspSeqNum := rspSeqNum c + 1\<rparr>)" (is "_ = (_, ?d)")
    by blast
  have "spdmOnlyCmd K lock c = (Inr (), ?d)"
    using x tx(3) l(2) o(3) by (simp del: One_nat_def add: spdmOnlyCmd_def wolfSPDM_TCG_VendorCmdSecured_def opE_defs)
  moreover have "live K ?d"
    using c by (simp add: live_def link_defs respSealed_def respOpened_def respHdr_def wolfSPDM_IsTcgMode_def)
  moreover have "wolfSPDM_RespIsLocked (ioUserCtx ?d) = lock" by (simp add: wolfSPDM_RespIsLocked_def respSealed_def Let_def)
  ultimately show ?thesis by (intro exI [of _ ?d]) simp
qed

text \<open>The three status commands report the lock, and leave a session alone.\<close>

lemma responder_status:
  fixes c :: "('w, 't) WOLFSPDM_RESP_CTX WOLFSPDM_CTX"
  assumes c: "live K c" "0x10 \<le> spdmVersion c" "spdmVersion c \<le> 0x1F" and p: "length p \<le> 128"
  shows "\<exists>d. wolfSPDM_TCG_VendorCmdClear WOLFSPDM_VDCODE_GET_STS p True c = (Inr (WOLFSPDM_VDCODE_GET_STS,
       [0x00, 0x04, if pskProvisioned (ioUserCtx c) then 0x01 else 0x00, if wolfSPDM_RespIsLocked (ioUserCtx c) then 0x01 else 0x00]), d) \<and> live K d"
proof -
  let ?r = "respHdr (connectionHandle c) (fipsIndicator c) (ioUserCtx c)"
  let ?resp = "[0x00, 0x04, if pskProvisioned (ioUserCtx c) then 0x01 else 0x00, if spdmOnlyLock (ioUserCtx c) then 0x01 else 0x00] :: bytes"
  have nz: "spdmVersion c \<noteq> 0" using c(2) by auto
  then have "sameVersion c" using c liveD(4) [OF c(1)] by (simp add: sameVersion_def vendorVersion_def)
  moreover have "peered K c" using c(1) by (simp add: live_def linked_def)
  moreover have "respVendorCmd K WOLFSPDM_VDCODE_GET_STS p (?r\<lparr>vdInPayload := p\<rparr>) = (Inr ?resp, ?r\<lparr>vdInPayload := p, vdOutPayload := ?resp\<rparr>)"
    by (simp add: vendor_dispatch putOut_def respHdr_def opE_defs)
  ultimately have "\<exists>f. wolfSPDM_TCG_VendorCmdClear WOLFSPDM_VDCODE_GET_STS p True c =
      (Inr (if True then (WOLFSPDM_VDCODE_GET_STS, ?resp) else ([], [])),
       c\<lparr>ioUserCtx := vendorDone (?r\<lparr>vdInPayload := p, vdOutPayload := ?resp\<rparr>), fipsIndicator := f\<rparr>)"
    using vendor_codes(1,2) vendor_codes_clear(1,2) p by (intro vendor_command_clear) simp_all
  moreover have "live K (c\<lparr>ioUserCtx := vendorDone (?r\<lparr>vdInPayload := p, vdOutPayload := ?resp\<rparr>), fipsIndicator := f\<rparr>)" for f
    using c(1) by (simp add: live_def link_defs vendorDone_def respHdr_def wolfSPDM_IsTcgMode_def)
  ultimately show ?thesis by (auto simp: wolfSPDM_RespIsLocked_def)
qed

lemma lock_reported:
  fixes c :: "('w, 't) WOLFSPDM_RESP_CTX WOLFSPDM_CTX"
  assumes c: "live K c" "0x10 \<le> spdmVersion c" "spdmVersion c \<le> 0x1F"
  shows "\<exists>st d. wolfSPDM_Nuvoton_GetStatus c = (Inr st, d) \<and> nuvSpdmOnlyLocked st = wolfSPDM_RespIsLocked (ioUserCtx c) \<and> live K d"
    "\<exists>st d. wolfSPDM_Nations_GetStatus c = (Inr st, d) \<and> natSpdmOnlyLocked st = wolfSPDM_RespIsLocked (ioUserCtx c) \<and> live K d"
    "\<exists>st d. wolfSPDM_Infineon_GetStatus c = (Inr st, d) \<and> ifxSpdmOnlyLocked st = wolfSPDM_RespIsLocked (ioUserCtx c) \<and> live K d"
  using responder_status [OF assms, of "[0, 0, 0, 0]"] responder_status [OF assms, of "[]"]
  by (auto simp: wolfSPDM_Nuvoton_GetStatus_def wolfSPDM_Nations_GetStatus_def wolfSPDM_Infineon_GetStatus_def opE_defs)

section \<open>The life of a pre-shared key\<close>

lemma psk_provisioned:
  fixes c :: "('w, 't) WOLFSPDM_RESP_CTX WOLFSPDM_CTX"
  assumes c: "peered K c" "sameVersion c" and r: "pskStore (ioUserCtx c) = []" "\<not> clearAuthSet (ioUserCtx c)"
    and n: "length key = WOLFSPDM_PSK_MAX_SIZE" "length dg = WOLFSPDM_HASH_SIZE"
  shows "\<exists>r f. wolfSPDM_Nations_PskSet (key @ dg) c = (Inr (), c\<lparr>ioUserCtx := r, fipsIndicator := f\<rparr>) \<and>
     peered K (c\<lparr>ioUserCtx := r, fipsIndicator := f\<rparr>) \<and> usePsk r = usePsk (ioUserCtx c) \<and>
     pskStore r = key \<and> clearAuthDigest r = dg \<and> pskProvisioned r"
proof -
  let ?r = "respHdr (connectionHandle c) (fipsIndicator c) (ioUserCtx c)"
  let ?r2 = "?r\<lparr>pskStore := key, clearAuthDigest := dg, pskProvisioned := True, clearAuthSet := True, rctx := (rctx ?r)\<lparr>psk := key\<rparr>,
     vdInPayload := key @ dg, vdOutPayload := []\<rparr>"
  have ne: "key @ dg \<noteq> []" using n(1) by auto
  have "respVendorCmd K WOLFSPDM_NATIONS_VDCODE_PSK_SET (key @ dg) (?r\<lparr>vdInPayload := key @ dg\<rparr>) = (Inr [], ?r2)"
    using r n by (simp add: vendor_dispatch respPskSet_def putOut_def respHdr_def opE_defs)
  then have "\<exists>f. wolfSPDM_TCG_VendorCmdClear WOLFSPDM_NATIONS_VDCODE_PSK_SET (key @ dg) False c =
      (Inr (if False then (WOLFSPDM_NATIONS_VDCODE_PSK_SET, []) else ([], [])), c\<lparr>ioUserCtx := vendorDone ?r2, fipsIndicator := f\<rparr>)"
    using c n vendor_codes(3,4) vendor_codes_clear(3,4) by (intro vendor_command_clear) simp_all
  then obtain f where "wolfSPDM_Nations_PskSet (key @ dg) c = (Inr (), c\<lparr>ioUserCtx := vendorDone ?r2, fipsIndicator := f\<rparr>)"
    using ne by (auto simp: wolfSPDM_Nations_PskSet_def opE_defs)
  moreover have "peered K (c\<lparr>ioUserCtx := vendorDone ?r2, fipsIndicator := f\<rparr>)"
    using c(1) by (simp add: peered_def Let_def vendorDone_def respHdr_def wolfSPDM_IsTcgMode_def)
  ultimately show ?thesis by (intro exI [of _ "vendorDone ?r2"] exI [of _ f]) (simp add: vendorDone_def respHdr_def)
qed

lemma psk_removed:
  fixes c :: "('w, 't) WOLFSPDM_RESP_CTX WOLFSPDM_CTX"
  assumes K: "wc_works K" and c: "peered K c" "sameVersion c"
    and r: "pskProvisioned (ioUserCtx c)" "clearAuthDigest (ioUserCtx c) = shaOf K auth" and n: "length auth = 32"
  shows "\<exists>d. wolfSPDM_Nations_PskClear auth c = (Inr (), d) \<and> pskStore (ioUserCtx d) = [] \<and> psk (rctx (ioUserCtx d)) = [] \<and>
     clearAuthDigest (ioUserCtx d) = zeros WOLFSPDM_HASH_SIZE \<and> \<not> pskProvisioned (ioUserCtx d) \<and> \<not> clearAuthSet (ioUserCtx d)"
proof -
  let ?r = "respHdr (connectionHandle c) (fipsIndicator c) (ioUserCtx c)"
  let ?r2 = "?r\<lparr>pskStore := [], clearAuthDigest := zeros WOLFSPDM_HASH_SIZE, pskProvisioned := False, clearAuthSet := False,
     rctx := (rctx ?r)\<lparr>psk := []\<rparr>, vdInPayload := auth, vdOutPayload := []\<rparr>"
  have ne: "auth \<noteq> []" using n by auto
  have "wolfSPDM_ConstCompare (shaOf K auth) (shaOf K auth) WOLFSPDM_HASH_SIZE = 0"
    by (simp add: wolfSPDM_ConstCompare_full works_hash(2) [OF K])
  then have "respVendorCmd K WOLFSPDM_NATIONS_VDCODE_PSK_CLEAR auth (?r\<lparr>vdInPayload := auth\<rparr>) = (Inr [], ?r2)"
    using r n by (simp add: vendor_dispatch respPskClear_def putOut_def respHdr_def works_sha [OF K] opE_defs)
  then have "\<exists>f. wolfSPDM_TCG_VendorCmdClear WOLFSPDM_NATIONS_VDCODE_PSK_CLEAR auth False c =
      (Inr (if False then (WOLFSPDM_NATIONS_VDCODE_PSK_CLEAR, []) else ([], [])), c\<lparr>ioUserCtx := vendorDone ?r2, fipsIndicator := f\<rparr>)"
    using c n vendor_codes(5,6) vendor_codes_clear(5,6) by (intro vendor_command_clear) simp_all
  then obtain f where "wolfSPDM_Nations_PskClear auth c = (Inr (), c\<lparr>ioUserCtx := vendorDone ?r2, fipsIndicator := f\<rparr>)"
    using ne by (auto simp: wolfSPDM_Nations_PskClear_def opE_defs)
  then show ?thesis by (simp add: vendorDone_def respHdr_def)
qed

text \<open>A pair with no key on either side.\<close>

definition blankResponder :: "wc_env \<Rightarrow> 'w \<Rightarrow> 't \<Rightarrow> ('w, 't, unit) rop" where
  "blankResponder K nul tnul = thenE (wolfSPDM_RespInit K nul tnul) (wolfSPDM_RespSetMode True True)"

definition blankRequester :: "wc_env \<Rightarrow> 'w \<Rightarrow> 'w WOLFSPDM_IO_CB \<Rightarrow> 'w \<Rightarrow> ('w, unit) cop" where
  "blankRequester K nul io peer = thenE (wolfSPDM_Init K nul) (thenE (wolfSPDM_SetIO (Some io) peer) (wolfSPDM_SetMode MODE_NATIONS_PSK))"

lemma blank_ready:
  assumes "blankResponder K nul tnul r0 = (Inr (), r)" "blankRequester K rnul (respIo K) r c0 = (Inr (), c)"
  shows "peered K c" "sameVersion c" "pskStore (ioUserCtx c) = []" "\<not> clearAuthSet (ioUserCtx c)" "usePsk (ioUserCtx c)" "mode c = MODE_NATIONS_PSK"
    "initialized (flags c)" "maxVersion c = 0" "reqSessionId c = 1"
proof -
  have r: "mode (rctx r) = MODE_NATIONS_PSK" "respInitialized r" "usePsk r" "rngInitialized (flags (rctx r))" "pskStore r = []"
      "\<not> clearAuthSet r" "spdmVersion (rctx r) = 0" "state (rctx r) \<noteq> WOLFSPDM_STATE_VERSION"
    using assms(1)
    by (auto simp: blankResponder_def wolfSPDM_RespInit_def wolfSPDM_Init_def wolfSPDM_RespSetMode_def zero_resp_def zero_ctx_def
        zoomE_def opE_defs split: option.splits if_splits)
  have c: "ioCb c = Some (respIo K)" "ioUserCtx c = r" "mode c = MODE_NATIONS_PSK" "initialized (flags c)" "rngInitialized (flags c)"
      "maxVersion c = 0" "reqSessionId c = 1" "spdmVersion c = 0"
    using assms(2)
    by (auto simp: blankRequester_def wolfSPDM_Init_def wolfSPDM_SetIO_def wolfSPDM_SetMode_def zero_ctx_def zero_flags_def
        opE_defs split: option.splits if_splits)
  show "peered K c" using r c by (simp add: peered_def wolfSPDM_IsTcgMode_def Let_def)
  show "sameVersion c" using r c by (simp add: sameVersion_def vendorVersion_def word_le_nat_alt Let_def)
  show "pskStore (ioUserCtx c) = []" "\<not> clearAuthSet (ioUserCtx c)" "usePsk (ioUserCtx c)" "mode c = MODE_NATIONS_PSK"
    "initialized (flags c)" "maxVersion c = 0" "reqSessionId c = 1"
    using r c by simp_all
qed

lemma psk_life:
  fixes c0 :: "('w, 't) WOLFSPDM_RESP_CTX WOLFSPDM_CTX"
  assumes K: "wc_works K" and cfg: "blankResponder K nul tnul r0 = (Inr (), r)" "blankRequester K rnul (respIo K) r c0 = (Inr (), c)"
    and n: "length key = WOLFSPDM_PSK_MAX_SIZE" "length auth = 32" "length hint \<le> WOLFSPDM_PSK_HINT_MAX"
  shows "\<exists>c1 c2 c3 c4. wolfSPDM_Nations_PskSet (key @ shaOf K auth) c = (Inr (), c1) \<and> pskStore (ioUserCtx c1) = key \<and>
     thenE (wolfSPDM_SetPSK key (Some hint)) (wolfSPDM_Connect K) c1 = (Inr (), c2) \<and> live K c2 \<and> psk c2 = [] \<and>
     wolfSPDM_Disconnect K c2 = (Inr (), c3) \<and> wolfSPDM_Nations_PskClear auth c3 = (Inr (), c4) \<and>
     pskStore (ioUserCtx c4) = [] \<and> psk (rctx (ioUserCtx c4)) = [] \<and> \<not> pskProvisioned (ioUserCtx c4)"
proof -
  note b = blank_ready [OF cfg]
  obtain s f where s: "wolfSPDM_Nations_PskSet (key @ shaOf K auth) c = (Inr (), c\<lparr>ioUserCtx := s, fipsIndicator := f\<rparr>)"
      "peered K (c\<lparr>ioUserCtx := s, fipsIndicator := f\<rparr>)" "usePsk s" "pskStore s = key" "clearAuthDigest s = shaOf K auth" "pskProvisioned s"
    using psk_provisioned [OF b(1-4) n(1) works_hash(2) [OF K]] b(5) by blast
  let ?c1 = "c\<lparr>ioUserCtx := s, fipsIndicator := f\<rparr>"
  let ?p = "?c1\<lparr>psk := key, pskHint := hint\<rparr>"
  have "peered K ?p" using s(2) by (simp add: peered_def wolfSPDM_IsTcgMode_def)
  moreover have "key \<noteq> []" "\<not> (16 :: byte) \<le> 1" using n(1) by (auto simp: word_le_nat_alt)
  ultimately have ready: "pskReady K ?p" and set: "wolfSPDM_SetPSK key (Some hint) ?c1 = (Inr (), ?p)"
    using b(6-9) n(1,3) s(3,4) by (simp_all add: pskReady_def wolfSPDM_SetPSK_def opE_defs)
  obtain c2 where d: "wolfSPDM_Connect K ?p = (Inr (), c2)" "live K c2" "psk c2 = []"
      "spdmVersion c2 = SPDM_VERSION_12 \<or> spdmVersion c2 = SPDM_VERSION_13" "peerView (ioUserCtx c2) = peerView s"
    using psk_connect_agrees [OF K ready] by auto
  obtain c3 where e: "wolfSPDM_Disconnect K c2 = (Inr (), c3)" "peered K c3" "spdmVersion c3 = spdmVersion c2"
      "spdmVersion (rctx (ioUserCtx c3)) = spdmVersion c2" "peerView (ioUserCtx c3) = peerView s"
    using session_ends [OF K d(2)] d(5) by auto
  have "sameVersion c3" using d(4) e(3,4) by (auto simp: sameVersion_def vendorVersion_def word_le_nat_alt Let_def)
  moreover have "pskProvisioned (ioUserCtx c3)" "clearAuthDigest (ioUserCtx c3) = shaOf K auth" using e(5) s(5,6) by (simp_all add: peerView_def)
  ultimately obtain c4 where "wolfSPDM_Nations_PskClear auth c3 = (Inr (), c4)" "pskStore (ioUserCtx c4) = []" "psk (rctx (ioUserCtx c4)) = []"
      "\<not> pskProvisioned (ioUserCtx c4)"
    using psk_removed [OF K e(2) _ _ _ n(2)] by blast
  moreover have "thenE (wolfSPDM_SetPSK key (Some hint)) (wolfSPDM_Connect K) ?c1 = (Inr (), c2)" using set d(1) by (simp add: opE_defs)
  ultimately show ?thesis using s(1,4) d(2,3) e(1) by (intro exI conjI) simp_all
qed

end
