(* ===== verification/Spdm_Api.thy ===== *)
theory Spdm_Api
  imports Spdm_RespRules
begin

text \<open>
  The public API of the requester as one state machine: the small accessors of
  \<^verbatim>\<open>src/spdm_context.c\<close>, the error codes and their texts, and the invariant that every
  sequence of API calls keeps, whatever the peer answers.
\<close>

section \<open>Accessors\<close>

definition wolfSPDM_GetMode :: "'w WOLFSPDM_CTX option \<Rightarrow> WOLFSPDM_MODE" where
  "wolfSPDM_GetMode ctx = (case ctx of None \<Rightarrow> MODE_AUTO | Some c \<Rightarrow> mode c)"

definition wolfSPDM_GetVersion_Negotiated :: "'w WOLFSPDM_CTX \<Rightarrow> byte" where
  "wolfSPDM_GetVersion_Negotiated c = wolfSPDM_GetNegotiatedVersion c"

definition wolfSPDM_GetConnectionHandle :: "'w WOLFSPDM_CTX option \<Rightarrow> word32" where
  "wolfSPDM_GetConnectionHandle ctx = (case ctx of None \<Rightarrow> 0 | Some c \<Rightarrow> connectionHandle c)"

definition wolfSPDM_GetFipsIndicator :: "'w WOLFSPDM_CTX option \<Rightarrow> word16" where
  "wolfSPDM_GetFipsIndicator ctx = (case ctx of None \<Rightarrow> 0 | Some c \<Rightarrow> fipsIndicator c)"

text \<open>\<^verbatim>\<open>wolfSPDM_New\<close>: \<open>mem\<close> is what \<^verbatim>\<open>XMALLOC\<close> returned, \<open>None\<close> for NULL.\<close>

definition wolfSPDM_New :: "wc_env \<Rightarrow> 'w \<Rightarrow> 'w WOLFSPDM_CTX option \<Rightarrow> 'w WOLFSPDM_CTX option" where
  "wolfSPDM_New K nul mem = (case mem of None \<Rightarrow> None
     | Some c \<Rightarrow> (case wolfSPDM_Init K nul c of
         (Inl _, _) \<Rightarrow> None
       | (Inr _, d) \<Rightarrow> Some (d\<lparr>flags := (flags d)\<lparr>isDynamic := True\<rparr>\<rparr>)))"

section \<open>Error codes\<close>

text \<open>The numbers of \<^verbatim>\<open>enum WOLFSPDM_ERROR\<close>; \<^verbatim>\<open>WOLFSPDM_SUCCESS\<close> is 0.\<close>

definition errorCode :: "WOLFSPDM_ERROR \<Rightarrow> int" where
  "errorCode e = (case e of
      E_INVALID_ARG \<Rightarrow> -1 | E_BUFFER_SMALL \<Rightarrow> -2 | E_BAD_STATE \<Rightarrow> -3 | E_VERSION_MISMATCH \<Rightarrow> -4
    | E_CRYPTO_FAIL \<Rightarrow> -5 | E_BAD_SIGNATURE \<Rightarrow> -6 | E_BAD_HMAC \<Rightarrow> -7 | E_IO_FAIL \<Rightarrow> -8 | E_TIMEOUT \<Rightarrow> -9
    | E_PEER_ERROR \<Rightarrow> -10 | E_DECRYPT_FAIL \<Rightarrow> -11 | E_SEQUENCE \<Rightarrow> -12 | E_NOT_CONNECTED \<Rightarrow> -13
    | E_ALREADY_INIT \<Rightarrow> -14 | E_NO_MEMORY \<Rightarrow> -15 | E_SESSION_INVALID \<Rightarrow> -16 | E_KEY_EXCHANGE \<Rightarrow> -17
    | E_NOT_AVAILABLE \<Rightarrow> -18 | E_FRAMING \<Rightarrow> -19 | E_NOT_IMPL \<Rightarrow> -20 | E_CERT_FAIL \<Rightarrow> -21
    | E_CAPS_MISMATCH \<Rightarrow> -22 | E_ALGO_MISMATCH \<Rightarrow> -23 | E_CERT_PARSE \<Rightarrow> -24 | E_KEY_UPDATE \<Rightarrow> -25
    | E_MEASUREMENT \<Rightarrow> -26 | E_CHALLENGE \<Rightarrow> -27 | E_CHUNK \<Rightarrow> -28)"

definition wolfSPDM_GetErrorString :: "int \<Rightarrow> string" where
  "wolfSPDM_GetErrorString error =
     (if error = 0 then ''Success''
      else if error = -1 then ''Invalid argument''
      else if error = -2 then ''Buffer too small''
      else if error = -3 then ''Invalid state''
      else if error = -4 then ''Version mismatch''
      else if error = -5 then ''Crypto operation failed''
      else if error = -6 then ''Bad signature''
      else if error = -7 then ''HMAC verification failed''
      else if error = -8 then ''I/O failure''
      else if error = -9 then ''Timeout''
      else if error = -10 then ''Peer error response''
      else if error = -11 then ''Decryption failed''
      else if error = -12 then ''Sequence number error''
      else if error = -13 then ''Not connected''
      else if error = -14 then ''Already initialized''
      else if error = -15 then ''Memory allocation failed''
      else if error = -16 then ''Invalid session''
      else if error = -17 then ''Key exchange failed''
      else if error = -18 then ''Feature not compiled in''
      else if error = -19 then ''Framing violation''
      else if error = -20 then ''Not implemented''
      else if error = -21 then ''Certificate check failed''
      else if error = -22 then ''Capability mismatch''
      else if error = -23 then ''Algorithm mismatch''
      else if error = -24 then ''Certificate parse failed''
      else if error = -25 then ''Key update failed''
      else if error = -26 then ''Measurement response invalid''
      else if error = -27 then ''Challenge response invalid''
      else if error = -28 then ''Chunked transfer failed''
      else if error = -1000 then ''Measurements not verified (legacy, never returned)''
      else ''Unknown error'')"

lemma errorCode_range: "-28 \<le> errorCode e \<and> errorCode e \<le> -1"
  by (cases e) (simp_all add: errorCode_def)

lemma errorCode_inj: "errorCode a = errorCode b \<longleftrightarrow> a = b"
  by (cases a; cases b) (simp_all add: errorCode_def)

text \<open>The codes the switch knows have texts of their own; every other one is the default.\<close>

definition knownCodes :: "int list" where
  "knownCodes = map (\<lambda>n. - int n) [0..<29] @ [-1000]"

lemma knownCodes_eq: "knownCodes = [0, -1, -2, -3, -4, -5, -6, -7, -8, -9, -10, -11, -12, -13, -14, -15, -16, -17, -18, -19, -20,
    -21, -22, -23, -24, -25, -26, -27, -28, -1000]"
  by (simp add: knownCodes_def upt_rec)

lemma errorCode_known: "errorCode e \<in> set knownCodes"
  by (cases e) (simp_all add: errorCode_def knownCodes_eq)

lemma errorCode_nonzero: "errorCode e \<noteq> 0" "0 \<noteq> errorCode e"
  using errorCode_range [of e] by auto

lemma GetErrorString_distinct: "distinct (map wolfSPDM_GetErrorString knownCodes)"
  unfolding knownCodes_eq by (simp add: wolfSPDM_GetErrorString_def)

lemma GetErrorString_default: "wolfSPDM_GetErrorString n = ''Unknown error'' \<longleftrightarrow> n \<notin> set knownCodes"
  unfolding knownCodes_eq by (simp add: wolfSPDM_GetErrorString_def)

section \<open>The invariant of a requester context\<close>

text \<open>
  What fits its buffer, session ids that cannot be mistaken for the start of a clear message, a
  measurement record of whole blocks.
\<close>

definition sidOk :: "word16 \<Rightarrow> bool" where
  "sidOk sid \<longleftrightarrow> sid \<noteq> 0 \<and> sid \<noteq> 0xFFFF \<and> \<not> (sid AND 0xFF \<ge> 0x10 \<and> sid AND 0xFF \<le> 0x1F)"

definition ctxFits :: "'w WOLFSPDM_CTX \<Rightarrow> bool" where
  "ctxFits c \<longleftrightarrow> state c \<le> WOLFSPDM_STATE_ERROR \<and> sidOk (reqSessionId c) \<and> (sessionId c = 0 \<or> sidOk (ucast (sessionId c))) \<and>
     length (transcript c) \<le> WOLFSPDM_MAX_TRANSCRIPT \<and> length (certChain c) \<le> WOLFSPDM_MAX_CERT_CHAIN \<and>
     length (trustedCA c) \<le> WOLFSPDM_MAX_TRUSTED_CA \<and> length (psk c) \<le> WOLFSPDM_PSK_MAX_SIZE \<and>
     length (pskHint c) \<le> WOLFSPDM_PSK_HINT_MAX \<and> length (reqPubKeyTPMT c) \<le> WOLFSPDM_PUBKEY_BUF_SZ div 2 \<and>
     length (reqPrivKey c) \<le> WOLFSPDM_ECC_KEY_SIZE"

definition ctxWf :: "'w WOLFSPDM_CTX \<Rightarrow> bool" where
  "ctxWf c \<longleftrightarrow> ctxFits c \<and> length (measRecord c) \<le> WOLFSPDM_MAX_MEAS_RECORD \<and> measRecordWf (measRecord c) (unat (measBlockCount c))"

lemma measRecordWf_none [simp]: "measRecordWf [] 0" by (simp add: measRecordWf_def)

lemma session_id_low [simp]: "ucast (ucast a OR push_bit 16 b :: word32) = (a :: word16)"
  by (rule bit_word_eqI) (auto simp: bit_simps)

lemmas ctx_defs = ctxWf_def ctxFits_def
lemmas ctx_frame = ctx_defs frame_simps

lemma wf_Init: "wolfSPDM_Init K nul c = (Inr (), d) \<Longrightarrow> ctxWf d"
  by (auto simp: wolfSPDM_Init_def opE_defs zero_ctx_def ctx_defs sidOk_def word_le_nat_alt split: option.splits)

text \<open>The building blocks that write into a buffer.\<close>

lemma holds_TranscriptAdd [holds_intros]: "holdsE ctxWf (wolfSPDM_TranscriptAdd d)"
  by (auto simp: holdsE_def wolfSPDM_TranscriptAdd_def opE_defs ctx_defs)

lemma holds_ParseCertificate: "holdsE ctxWf (wolfSPDM_ParseCertificate rx)"
  unfolding holdsE_def wolfSPDM_ParseCertificate_def SPDM_CHECK_PARSE_ARGS_def SPDM_CHECK_RESPONSE_def
  by (auto simp: opE_defs Let_def ctx_defs split: option.splits)

lemma wf_resets:
  "ctxWf c \<Longrightarrow> ctxWf (wolfSPDM_ResetSession c)" "ctxWf c \<Longrightarrow> ctxWf (wolfSPDM_TranscriptReset c)"
  "ctxWf c \<Longrightarrow> ctxWf (wolfSPDM_AttestFree c)" "ctxWf c \<Longrightarrow> ctxWf (dropCertKey c)" "ctxWf c \<Longrightarrow> ctxWf (rollback n c)"
  by (simp_all add: ctx_defs wolfSPDM_ResetSession_def wolfSPDM_TranscriptReset_def wolfSPDM_AttestFree_def
      wolfSPDM_FreeEphemeralKey_def dropCertKey_def rollback_def Let_def)

lemma wf_updates [simp]:
  "ctxWf (c\<lparr>lastPeerErrorCode := a\<rparr>) = ctxWf c" "ctxWf (c\<lparr>rng := b\<rparr>) = ctxWf c" "ctxWf (c\<lparr>reqSeqNum := n\<rparr>) = ctxWf c"
  "ctxWf (c\<lparr>rspSeqNum := n\<rparr>) = ctxWf c" "ctxWf (c\<lparr>ioUserCtx := w\<rparr>) = ctxWf c" "ctxWf (c\<lparr>fipsIndicator := f\<rparr>) = ctxWf c"
  "ctxWf (c\<lparr>chunkHandle := h\<rparr>) = ctxWf c" "ctxWf (c\<lparr>l1l2State := s\<rparr>) = ctxWf c" "ctxWf (c\<lparr>l1l2Hash := b\<rparr>) = ctxWf c"
  "ctxWf (c\<lparr>m1Hash := b\<rparr>) = ctxWf c" "ctxWf (c\<lparr>m1State := s\<rparr>) = ctxWf c" "ctxWf (c\<lparr>th1 := b\<rparr>) = ctxWf c"
  "ctxWf (c\<lparr>th2 := b\<rparr>) = ctxWf c" "ctxWf (c\<lparr>certChainHash := b\<rparr>) = ctxWf c" "ctxWf (c\<lparr>vcaLen := m\<rparr>) = ctxWf c"
  "ctxWf (c\<lparr>flags := x\<rparr>) = ctxWf c"
  by (simp_all add: ctx_defs)

text \<open>Operations that leave the invariant's fields alone.\<close>

lemma holds_exchanges [holds_intros]:
  "holdsE ctxWf (wolfSPDM_SendReceive tx cap)" "holdsE ctxWf (wolfSPDM_ClearExchange K tx cap)"
  "holdsE ctxWf (wolfSPDM_SecuredExchange K tx cap)" "holdsE ctxWf (wolfSPDM_ChunkExchange K sec tx cap)"
  "holdsE ctxWf (wolfSPDM_EncryptInternal K tx cap)" "holdsE ctxWf (wolfSPDM_DecryptInternal K tx cap)"
  "holdsE ctxWf (wolfSPDM_EncryptRecord K b tx cap)" "holdsE ctxWf (wolfSPDM_DecryptRecord K b tx cap)"
  "holdsE ctxWf (callIo x room)"
  by (intro keeps_holds keeps_intros; simp)+

lemma holds_crypto [holds_intros]:
  "holdsE ctxWf (wolfSPDM_Sha384Hash K a b d)" "holdsE ctxWf (wolfSPDM_M1Start K)" "holdsE ctxWf (wolfSPDM_M1Add K a b)"
  "holdsE ctxWf (wolfSPDM_RunVerify K m1Run l a b n)" "holdsE ctxWf (wolfSPDM_RunStart K l1l2Run)" "holdsE ctxWf (wolfSPDM_RunAdd K l1l2Run a b)"
  "holdsE ctxWf (wolfSPDM_RunVerify K l1l2Run l a b n)" "holdsE ctxWf (wolfSPDM_DeriveAppDataKeys K)" "holdsE ctxWf (wolfSPDM_DeriveUpdatedKeys K u)"
  by (intro keeps_holds keeps_intros; simp add: ctx_frame m1Run_def)+

section \<open>The invariant through the protocol\<close>

text \<open>Message builders and parsers.\<close>

lemma holds_builders [holds_intros]:
  "holdsE ctxWf (wolfSPDM_BuildGetVersion n)" "holdsE ctxWf (wolfSPDM_BuildGetCapabilities K n)" "holdsE ctxWf (wolfSPDM_BuildNegotiateAlgorithms n)"
  "holdsE ctxWf (wolfSPDM_BuildKeyExchange K n)" "holdsE ctxWf (wolfSPDM_BuildPskExchange K n)" "holdsE ctxWf (wolfSPDM_BuildChallenge K n i h)"
  "holdsE ctxWf (wolfSPDM_BuildGetMeasurements K n op sig)" "holdsE ctxWf (wolfSPDM_BuildHeartbeat n)" "holdsE ctxWf (wolfSPDM_BuildKeyUpdate K n op')"
  "holdsE ctxWf (wolfSPDM_BuildEndSession n)" "holdsE ctxWf (wolfSPDM_BuildVendorDefined v code payload n)"
  unfolding wolfSPDM_BuildHeartbeat_def wolfSPDM_BuildEndSession_def wolfSPDM_BuildSimpleMsg_def
  by (intro keeps_holds keeps_intros; simp add: ctx_frame)+

lemma holds_parsers [holds_intros]:
  "holdsE ctxWf (wolfSPDM_ParseCapabilities rx)" "holdsE ctxWf (wolfSPDM_ParseAlgorithms rx)" "holdsE ctxWf (wolfSPDM_ParseDigests rx)"
  "holdsE ctxWf (wolfSPDM_ParseChallengeAuth tx rx)" "holdsE ctxWf (wolfSPDM_ParseMeasurements tx rx)" "holdsE ctxWf (wolfSPDM_ParseHeartbeatAck rx)"
  "holdsE ctxWf (wolfSPDM_ParseKeyUpdateAck rx op tag)" "holdsE ctxWf (wolfSPDM_ParseVendorDefined rx n)" "holdsE ctxWf (wolfSPDM_CheckSessionCap x)"
  unfolding wolfSPDM_ParseDigests_def by (intro keeps_holds keeps_intros; simp add: ctx_frame)+

lemma holds_checks [holds_intros]:
  "holdsE ctxWf (SPDM_CHECK_PARSE_ARGS rx n)" "holdsE ctxWf (SPDM_CHECK_PARSE_OR_ERROR_ARGS rx n)" "holdsE ctxWf (SPDM_CHECK_RESPONSE rx code e)"
  "holdsE ctxWf (wolfSPDM_TranscriptHash K)" "holdsE ctxWf (wolfSPDM_ComputeVerifyData K fk h)" "holdsE ctxWf (wolfSPDM_BuildSignedHash K v l h)"
  "holdsE ctxWf (wolfSPDM_SignHash K h)" "holdsE ctxWf (wolfSPDM_GetRandom K n)"
  by (intro keeps_holds keeps_intros; simp add: ctx_frame)+

lemma holds_ParseVersion [holds_intros]: "holdsE ctxWf (wolfSPDM_ParseVersion rx)"
  unfolding wolfSPDM_ParseVersion_def by (intro holds_intros; simp add: ctx_defs)

lemma holds_ParseFinishRsp [holds_intros]: "holdsE ctxWf (wolfSPDM_ParseFinishRsp rx)"
  unfolding wolfSPDM_ParseFinishRsp_def by (intro holds_intros; simp add: ctx_defs)

lemma holds_BuildFinish [holds_intros]: "holdsE ctxWf (wolfSPDM_BuildFinish K n)"
  unfolding wolfSPDM_BuildFinish_def by (intro holds_intros; simp add: ctx_defs)

lemma holds_ParseKeyExchangeRsp [holds_intros]: "holdsE ctxWf (wolfSPDM_ParseKeyExchangeRsp K rx)"
  unfolding wolfSPDM_ParseKeyExchangeRsp_def
  by (intro holds_intros; (intro keeps_holds keeps_intros)?; simp add: ctx_frame)

lemma holds_DerivePsk [holds_intros]: "holdsE ctxWf (wolfSPDM_DeriveHandshakeKeysPsk K th)"
  unfolding wolfSPDM_DeriveHandshakeKeysPsk_def
  by (intro holds_intros; (intro keeps_holds keeps_intros)?; simp add: ctx_frame)

lemma holds_ParsePskExchangeRsp [holds_intros]: "holdsE ctxWf (wolfSPDM_ParsePskExchangeRsp K rx)"
  unfolding wolfSPDM_ParsePskExchangeRsp_def by (intro holds_intros; simp add: ctx_defs)

lemma holds_PskFinish [holds_intros]:
  "holdsE ctxWf (wolfSPDM_BuildPskFinish K n)" "holdsE ctxWf (wolfSPDM_ParsePskFinishRsp rx)"
  unfolding wolfSPDM_BuildPskFinish_def wolfSPDM_ParsePskFinishRsp_def
  by (intro holds_intros; simp add: ctx_defs)+

lemma holds_ValidateCertChain [holds_intros]: "holdsE ctxWf (wolfSPDM_ValidateCertChain K)"
  by (intro keeps_holds keeps_intros; simp add: ctx_defs dropCertKey_def)

text \<open>Exchanges and flows.\<close>

lemma holds_ExchangeMsg:
  "holdsE ctxWf (build n) \<Longrightarrow> (\<And>rx. holdsE ctxWf (parse rx)) \<Longrightarrow> holdsE ctxWf (wolfSPDM_ExchangeMsg K build parse n m)"
  unfolding wolfSPDM_ExchangeMsg_def by (intro holds_intros wf_resets)

lemma holds_STEP [holds_intros]: "holdsE ctxWf m \<Longrightarrow> holdsE ctxWf (SPDM_CONNECT_STEP m)"
  unfolding SPDM_CONNECT_STEP_def by (intro holds_intros) (simp_all add: ctx_defs)

lemma holds_getCertLoop [holds_intros]: "holdsE ctxWf (getCertLoop K slot reqLen off)"
proof -
  have "ctxWf c \<longrightarrow> ctxWf (snd (getCertLoop K slot reqLen off c))" for c :: "'a WOLFSPDM_CTX"
  proof (induction K slot reqLen off c rule: getCertLoop.induct)
    case (1 K slot reqLen off c)
    have p: "holdsE ctxWf (getCertPortion K slot reqLen off)"
      unfolding getCertPortion_def by (intro holds_intros holds_ParseCertificate)
    obtain r d where d: "getCertPortion K slot reqLen off c = (r, d)" by (cases "getCertPortion K slot reqLen off c")
    show ?case using 1 [OF d [symmetric]] holdsE_D [OF p _ d]
      by (subst getCertLoop.simps) (auto simp: d split: sum.split)
  qed
  then show ?thesis by (simp add: holdsE_def)
qed

lemma holds_standard [holds_intros]:
  "holdsE ctxWf (wolfSPDM_GetVersion K)" "holdsE ctxWf (wolfSPDM_GetCapabilities K)" "holdsE ctxWf (wolfSPDM_NegotiateAlgorithms K)"
  "holdsE ctxWf (wolfSPDM_GetDigests K)" "holdsE ctxWf (wolfSPDM_GetCertificate K slot)" "holdsE ctxWf (wolfSPDM_KeyExchange K)"
  "holdsE ctxWf (wolfSPDM_Finish K)"
  unfolding wolfSPDM_GetVersion_def wolfSPDM_GetCapabilities_def wolfSPDM_NegotiateAlgorithms_def wolfSPDM_GetDigests_def
    wolfSPDM_GetCertificate_def wolfSPDM_KeyExchange_def wolfSPDM_Finish_def wolfSPDM_FinishXfer_def
  by (intro holds_intros holds_ExchangeMsg wf_resets; simp add: ctx_defs)+

lemma holds_tcg [holds_intros]:
  "holdsE ctxWf (wolfSPDM_TCG_VendorCmdClear code payload want)" "holdsE ctxWf (wolfSPDM_TCG_VendorCmdSecured K code payload)"
  "holdsE ctxWf (wolfSPDM_TCG_CheckPubKey k)"  "holdsE ctxWf (wolfSPDM_TCG_CheckCapabilities rx fl)" "holdsE ctxWf (wolfSPDM_TCG_CheckAlgorithms rx)"
  by (intro keeps_holds keeps_intros; simp)+

lemma holds_tcg_steps [holds_intros]:
  "holdsE ctxWf (wolfSPDM_TCG_GetPubKey K n)" "holdsE ctxWf (wolfSPDM_TCG_GivePubKey K key)" "holdsE ctxWf (wolfSPDM_TCG_GetCapabilities fl)"
  "holdsE ctxWf wolfSPDM_TCG_NegotiateAlgorithms"
  unfolding wolfSPDM_TCG_GetPubKey_def wolfSPDM_TCG_GivePubKey_def wolfSPDM_TCG_GetCapabilities_def wolfSPDM_TCG_NegotiateAlgorithms_def
  by (intro holds_intros wf_resets; assumption)+

lemma holds_connects [holds_intros]:
  "holdsE ctxWf (wolfSPDM_ConnectStandard K)" "holdsE ctxWf (wolfSPDM_ConnectTCG K)" "holdsE ctxWf (wolfSPDM_ConnectPsk K)"
  unfolding wolfSPDM_ConnectStandard_def wolfSPDM_ConnectTCG_def tcgHandshake_def wolfSPDM_ConnectPsk_def pskHandshake_def
  by (intro holds_intros wf_resets; simp add: ctx_defs wolfSPDM_TranscriptReset_def wolfSPDM_AttestFree_def dropCertKey_def Let_def)+

lemma holds_life [holds_intros]:
  "holdsE ctxWf (wolfSPDM_Connect K)" "holdsE ctxWf (wolfSPDM_Disconnect K)" "holdsE ctxWf (wolfSPDM_Heartbeat K)" "holdsE ctxWf (wolfSPDM_Challenge K i h)"
proof -
  show "holdsE ctxWf (wolfSPDM_Connect K)"
    unfolding wolfSPDM_Connect_def by (intro holds_intros wf_resets) (auto split: WOLFSPDM_MODE.split intro: holds_intros)
  show "holdsE ctxWf (wolfSPDM_Disconnect K)" "holdsE ctxWf (wolfSPDM_Heartbeat K)" "holdsE ctxWf (wolfSPDM_Challenge K i h)"
    unfolding wolfSPDM_Disconnect_def endSession_def wolfSPDM_Heartbeat_def wolfSPDM_Challenge_def
    by (intro holds_intros wf_resets; assumption)+
qed

lemma holds_KeyUpdate [holds_intros]: "holdsE ctxWf (wolfSPDM_KeyUpdate K updateAll)"
proof -
  have r: "ctxWf (restoreTrafficKeys snap c) = ctxWf c" for snap and c :: "'a WOLFSPDM_CTX"
    by (simp add: restoreTrafficKeys_def ctx_defs split: prod.split)
  show ?thesis
    unfolding wolfSPDM_KeyUpdate_def keyUpdateOpen_def keyUpdateReqOnly_def by (intro holds_intros; simp add: r)
qed

text \<open>A report is stored whole or not at all.\<close>

lemma holds_GetMeasurements [holds_intros]: "holdsE ctxWf (wolfSPDM_GetMeasurements K op sig)"
proof -
  have k: "keeps ctxFits (wolfSPDM_GetMeasurements K op sig)"
    unfolding wolfSPDM_GetMeasurements_def fetchMeasurements_def by (intro keeps_intros; simp add: ctxFits_def)
  have "ctxWf (snd (wolfSPDM_GetMeasurements K op sig c))" if c: "ctxWf c" for c :: "'a WOLFSPDM_CTX"
  proof -
    have "wpE (wolfSPDM_GetMeasurements K op sig)
        (\<lambda>_ d. length (measRecord d) \<le> WOLFSPDM_MAX_MEAS_RECORD \<and> measRecordWf (measRecord d) (unat (measBlockCount d)))
        (\<lambda>_ d. length (measRecord d) \<le> WOLFSPDM_MAX_MEAS_RECORD \<and> measRecordWf (measRecord d) (unat (measBlockCount d))) c"
      by (rule wpE_mono [OF GetMeasurements_report]) (use c in \<open>auto simp: measReport_def ctxWf_def\<close>)
    moreover have "ctxFits (snd (wolfSPDM_GetMeasurements K op sig c))"
      using k [unfolded keeps_def, rule_format, of c] c by (simp add: ctxWf_def)
    ultimately show ?thesis by (simp add: ctxWf_def wpE_same)
  qed
  then show ?thesis by (simp add: holdsE_def)
qed

lemma holds_data [holds_intros]:
  "holdsE ctxWf (wolfSPDM_EncryptMessage K p n)" "holdsE ctxWf (wolfSPDM_DecryptMessage K e n)" "holdsE ctxWf (wolfSPDM_SendData K d)"
  "holdsE ctxWf (wolfSPDM_ReceiveData K n)"
  unfolding wolfSPDM_EncryptMessage_def wolfSPDM_DecryptMessage_def wolfSPDM_SendData_def wolfSPDM_ReceiveData_def wolfSPDM_AppDataReady_def
  by (intro holds_intros; simp)+

lemma holds_vendors [holds_intros]:
  "holdsE ctxWf wolfSPDM_Nuvoton_GetStatus" "holdsE ctxWf wolfSPDM_Nations_GetStatus" "holdsE ctxWf wolfSPDM_Infineon_GetStatus"
  "holdsE ctxWf (spdmOnlyCmd K lock)" "holdsE ctxWf (wolfSPDM_Nations_PskSet key)" "holdsE ctxWf (wolfSPDM_Nations_PskClear key)"
  "holdsE ctxWf (wolfSPDM_Nations_PskClearWithVCA K key)"
  unfolding wolfSPDM_Nuvoton_GetStatus_def wolfSPDM_Nations_GetStatus_def wolfSPDM_Infineon_GetStatus_def spdmOnlyCmd_def
    wolfSPDM_Nations_PskSet_def wolfSPDM_Nations_PskClearWithVCA_def wolfSPDM_Nations_PskClear_def
  by (intro holds_intros)+

lemma holds_setters [holds_intros]:
  "holdsE ctxWf (wolfSPDM_SetIO cb w)" "holdsE ctxWf (wolfSPDM_SetResponderPubKey k)" "holdsE ctxWf (wolfSPDM_SetRequesterKeyPair k k')"
  "holdsE ctxWf (wolfSPDM_SetRequesterKeyTPMT k)" "holdsE ctxWf (wolfSPDM_SetMaxVersion v)" "holdsE ctxWf (wolfSPDM_SetRequesterSessionId sid)"
  "holdsE ctxWf (wolfSPDM_SetMode m)" "holdsE ctxWf (wolfSPDM_SetPSK k hint)" "holdsE ctxWf (wolfSPDM_SetTrustedCAs k)"
  "holdsE ctxWf (wolfSPDM_AllowUntrustedCerts b)" "holdsE ctxWf (wolfSPDM_SetKeyExchangePref b kems)"
  unfolding holdsE_def wolfSPDM_SetIO_def wolfSPDM_SetResponderPubKey_def wolfSPDM_SetRequesterKeyPair_def wolfSPDM_SetRequesterKeyTPMT_def
    wolfSPDM_SetMaxVersion_def wolfSPDM_SetRequesterSessionId_def wolfSPDM_SetMode_def wolfSPDM_SetPSK_def wolfSPDM_SetTrustedCAs_def
    wolfSPDM_AllowUntrustedCerts_def wolfSPDM_SetKeyExchangePref_def
  by (auto simp: opE_defs ctx_defs sidOk_def split: WOLFSPDM_MODE.splits option.splits)

section \<open>Every sequence of calls\<close>

text \<open>Configuration, the protocol, and the commands of the TCG binding and the vendors.\<close>

datatype 'w req_config =
    CallSetIO "'w WOLFSPDM_IO_CB option" 'w | CallSetResponderPubKey bytes
  | CallSetRequesterKeyPair bytes bytes | CallSetRequesterKeyTPMT bytes | CallSetMaxVersion byte
  | CallSetRequesterSessionId word16 | CallSetReqMode WOLFSPDM_MODE | CallSetReqPSK bytes "bytes option"
  | CallSetTrustedCAs bytes | CallAllowUntrustedCerts bool | CallSetKeyExchangePref bool word16

datatype req_step =
    CallConnect | CallDisconnect | CallGetVersion | CallGetCapabilities | CallNegotiateAlgorithms
  | CallGetDigests | CallGetCertificate int | CallValidateCertChain | CallKeyExchange | CallFinish
  | CallSecuredExchange bytes nat | CallEncryptMessage bytes nat | CallDecryptMessage bytes nat
  | CallSendData bytes | CallReceiveData nat | CallGetMeasurements byte bool | CallChallenge int byte
  | CallHeartbeat | CallKeyUpdate bool

datatype req_vendor =
    CallTcgGetPubKey nat | CallTcgGivePubKey bytes | CallTcgGetCapabilities word32
  | CallTcgNegotiateAlgorithms | CallVendorClear bytes bytes bool | CallVendorSecured bytes bytes
  | CallSetOnlyMode bool | CallPskSet bytes | CallPskClear bytes | CallPskClearWithVCA bytes
  | CallNuvotonGetStatus | CallNationsGetStatus | CallInfineonGetStatus

datatype 'w req_call = CallConfig "'w req_config" | CallStep req_step | CallVendor req_vendor

primrec reqConfig :: "'w req_config \<Rightarrow> 'w WOLFSPDM_CTX \<Rightarrow> 'w WOLFSPDM_CTX" where
  "reqConfig (CallSetIO cb w) c = snd (wolfSPDM_SetIO cb w c)"
| "reqConfig (CallSetResponderPubKey k) c = snd (wolfSPDM_SetResponderPubKey k c)"
| "reqConfig (CallSetRequesterKeyPair k k') c = snd (wolfSPDM_SetRequesterKeyPair k k' c)"
| "reqConfig (CallSetRequesterKeyTPMT k) c = snd (wolfSPDM_SetRequesterKeyTPMT k c)"
| "reqConfig (CallSetMaxVersion v) c = snd (wolfSPDM_SetMaxVersion v c)"
| "reqConfig (CallSetRequesterSessionId sid) c = snd (wolfSPDM_SetRequesterSessionId sid c)"
| "reqConfig (CallSetReqMode m) c = snd (wolfSPDM_SetMode m c)"
| "reqConfig (CallSetReqPSK k h) c = snd (wolfSPDM_SetPSK k h c)"
| "reqConfig (CallSetTrustedCAs d) c = snd (wolfSPDM_SetTrustedCAs d c)"
| "reqConfig (CallAllowUntrustedCerts b) c = snd (wolfSPDM_AllowUntrustedCerts b c)"
| "reqConfig (CallSetKeyExchangePref b m) c = snd (wolfSPDM_SetKeyExchangePref b m c)"

primrec reqStep :: "wc_env \<Rightarrow> req_step \<Rightarrow> 'w WOLFSPDM_CTX \<Rightarrow> 'w WOLFSPDM_CTX" where
  "reqStep K CallConnect c = snd (wolfSPDM_Connect K c)"
| "reqStep K CallDisconnect c = snd (wolfSPDM_Disconnect K c)"
| "reqStep K CallGetVersion c = snd (wolfSPDM_GetVersion K c)"
| "reqStep K CallGetCapabilities c = snd (wolfSPDM_GetCapabilities K c)"
| "reqStep K CallNegotiateAlgorithms c = snd (wolfSPDM_NegotiateAlgorithms K c)"
| "reqStep K CallGetDigests c = snd (wolfSPDM_GetDigests K c)"
| "reqStep K (CallGetCertificate i) c = snd (wolfSPDM_GetCertificate K i c)"
| "reqStep K CallValidateCertChain c = snd (wolfSPDM_ValidateCertChain K c)"
| "reqStep K CallKeyExchange c = snd (wolfSPDM_KeyExchange K c)"
| "reqStep K CallFinish c = snd (wolfSPDM_Finish K c)"
| "reqStep K (CallSecuredExchange b n) c = snd (wolfSPDM_SecuredExchange K b n c)"
| "reqStep K (CallEncryptMessage b n) c = snd (wolfSPDM_EncryptMessage K b n c)"
| "reqStep K (CallDecryptMessage b n) c = snd (wolfSPDM_DecryptMessage K b n c)"
| "reqStep K (CallSendData b) c = snd (wolfSPDM_SendData K b c)"
| "reqStep K (CallReceiveData n) c = snd (wolfSPDM_ReceiveData K n c)"
| "reqStep K (CallGetMeasurements b s) c = snd (wolfSPDM_GetMeasurements K b s c)"
| "reqStep K (CallChallenge i h) c = snd (wolfSPDM_Challenge K i h c)"
| "reqStep K CallHeartbeat c = snd (wolfSPDM_Heartbeat K c)"
| "reqStep K (CallKeyUpdate b) c = snd (wolfSPDM_KeyUpdate K b c)"

primrec reqVendor :: "wc_env \<Rightarrow> req_vendor \<Rightarrow> 'w WOLFSPDM_CTX \<Rightarrow> 'w WOLFSPDM_CTX" where
  "reqVendor K (CallTcgGetPubKey n) c = snd (wolfSPDM_TCG_GetPubKey K n c)"
| "reqVendor K (CallTcgGivePubKey k) c = snd (wolfSPDM_TCG_GivePubKey K k c)"
| "reqVendor K (CallTcgGetCapabilities f) c = snd (wolfSPDM_TCG_GetCapabilities f c)"
| "reqVendor K CallTcgNegotiateAlgorithms c = snd (wolfSPDM_TCG_NegotiateAlgorithms c)"
| "reqVendor K (CallVendorClear v p w) c = snd (wolfSPDM_TCG_VendorCmdClear v p w c)"
| "reqVendor K (CallVendorSecured v p) c = snd (wolfSPDM_TCG_VendorCmdSecured K v p c)"
| "reqVendor K (CallSetOnlyMode b) c = snd (spdmOnlyCmd K b c)"
| "reqVendor K (CallPskSet k) c = snd (wolfSPDM_Nations_PskSet k c)"
| "reqVendor K (CallPskClear k) c = snd (wolfSPDM_Nations_PskClear k c)"
| "reqVendor K (CallPskClearWithVCA k) c = snd (wolfSPDM_Nations_PskClearWithVCA K k c)"
| "reqVendor K CallNuvotonGetStatus c = snd (wolfSPDM_Nuvoton_GetStatus c)"
| "reqVendor K CallNationsGetStatus c = snd (wolfSPDM_Nations_GetStatus c)"
| "reqVendor K CallInfineonGetStatus c = snd (wolfSPDM_Infineon_GetStatus c)"

primrec reqCall :: "wc_env \<Rightarrow> 'w req_call \<Rightarrow> 'w WOLFSPDM_CTX \<Rightarrow> 'w WOLFSPDM_CTX" where
  "reqCall K (CallConfig a) c = reqConfig a c"
| "reqCall K (CallStep a) c = reqStep K a c"
| "reqCall K (CallVendor a) c = reqVendor K a c"

inductive reqReach :: "wc_env \<Rightarrow> 'w \<Rightarrow> 'w WOLFSPDM_CTX \<Rightarrow> bool" for K nul where
  init: "wolfSPDM_Init K nul c = (Inr (), d) \<Longrightarrow> reqReach K nul d"
| call: "reqReach K nul c \<Longrightarrow> reqReach K nul (reqCall K a c)"

lemma holds_call:
  assumes c: "ctxWf c"
  shows "ctxWf (reqCall K a c)"
proof -
  note snd = holdsE_def [of ctxWf, THEN iffD1, rule_format, OF _ c]
  have "ctxWf (reqConfig x c)" for x by (cases x; simp only: reqConfig.simps; rule snd, rule holds_intros)
  moreover have "ctxWf (reqStep K x c)" for x by (cases x; simp only: reqStep.simps; rule snd, rule holds_intros)
  moreover have "ctxWf (reqVendor K x c)" for x by (cases x; simp only: reqVendor.simps; rule snd, rule holds_intros)
  ultimately show ?thesis by (cases a) simp_all
qed

lemma reqReach_wf: "reqReach K nul c \<Longrightarrow> ctxWf c"
  by (induction rule: reqReach.induct) (auto intro: wf_Init holds_call)

end
