(* ===== verification/Spdm_Bounded.thy ===== *)
theory Spdm_Bounded
  imports Spdm_Connect
begin

text \<open>
  How often a requester calls its peer: no answer of the peer keeps a retrieval loop running.
  \<open>cnt\<close> counts the calls in the state of the I/O callback; \<open>spends\<close> bounds what an operation
  adds to it, and the rules add the bounds up along the code.
\<close>

section \<open>Counting the calls of the I/O callback\<close>

definition counts :: "'w WOLFSPDM_IO_CB \<Rightarrow> ('w \<Rightarrow> nat) \<Rightarrow> bool" where
  "counts io cnt \<longleftrightarrow> (\<forall>sid tx cap w. cnt (snd (io sid tx cap w)) \<le> cnt w + 1)"

definition spends :: "'w WOLFSPDM_IO_CB \<Rightarrow> ('w \<Rightarrow> nat) \<Rightarrow> nat \<Rightarrow> ('w, 'a) cop \<Rightarrow> bool" where
  "spends io cnt n m \<longleftrightarrow> (\<forall>c. ioCb c = Some io \<longrightarrow> ioCb (snd (m c)) = Some io \<and>
     cnt (ioUserCtx (snd (m c))) \<le> cnt (ioUserCtx c) + n)"

lemma spendsD:
  assumes "spends io cnt n m" "m c = (r, d)" "ioCb c = Some io"
  shows "ioCb d = Some io" "cnt (ioUserCtx d) \<le> cnt (ioUserCtx c) + n"
  using assms unfolding spends_def by (metis snd_conv)+

lemma spends_mono: "spends io cnt n m \<Longrightarrow> n \<le> n' \<Longrightarrow> spends io cnt n' m"
  unfolding spends_def by (meson add_left_mono le_trans)

abbreviation ioView :: "'w WOLFSPDM_CTX \<Rightarrow> 'w WOLFSPDM_IO_CB option \<times> 'w" where
  "ioView \<equiv> \<lambda>c. (ioCb c, ioUserCtx c)"

text \<open>An operation that does not touch the callback or its state spends nothing.\<close>

lemma spends_keeps: "keeps ioView m \<Longrightarrow> spends io cnt n m"
  by (simp add: keeps_def spends_def)

lemma spends_bind:
  assumes m: "spends io cnt a m" and f: "\<And>x. spends io cnt b (f x)"
  shows "spends io cnt (a + b) (bindE m f)"
  unfolding spends_def
proof (intro allI impI)
  fix c :: "'a WOLFSPDM_CTX" assume c: "ioCb c = Some io"
  obtain r d where d: "m c = (r, d)" by (cases "m c")
  note md = spendsD [OF m d c]
  show "ioCb (snd (bindE m f c)) = Some io \<and> cnt (ioUserCtx (snd (bindE m f c))) \<le> cnt (ioUserCtx c) + (a + b)"
  proof (cases r)
    case (Inl e)
    then show ?thesis using d md by (simp add: bindE_def)
  next
    case (Inr x)
    obtain r' d' where d': "f x d = (r', d')" by (cases "f x d")
    show ?thesis using Inr d d' md spendsD [OF f d' md(1)] by (simp add: bindE_def)
  qed
qed

lemma spends_first: "spends io cnt n m \<Longrightarrow> (\<And>x. keeps ioView (f x)) \<Longrightarrow> spends io cnt n (bindE m f)"
  using spends_bind [of io cnt n m 0 f] by (simp add: spends_keeps)

lemma spends_rest: "keeps ioView m \<Longrightarrow> (\<And>x. spends io cnt n (f x)) \<Longrightarrow> spends io cnt n (bindE m f)"
  using spends_bind [of io cnt 0 m n f] by (simp add: spends_keeps)

lemma spends_first2:
  "spends io cnt n (thenE m m') \<Longrightarrow> (\<And>x. keeps ioView (f x)) \<Longrightarrow> spends io cnt n (thenE m (bindE m' f))"
  using spends_first [of io cnt n "thenE m m'" f] by (simp add: bindE_assoc)

lemma spends_if: "(P \<Longrightarrow> spends io cnt n m) \<Longrightarrow> (\<not> P \<Longrightarrow> spends io cnt n m') \<Longrightarrow> spends io cnt n (if P then m else m')"
  by simp

lemma spends_case_option:
  "spends io cnt n m \<Longrightarrow> (\<And>a. spends io cnt n (f a)) \<Longrightarrow> spends io cnt n (case x of None \<Rightarrow> m | Some a \<Rightarrow> f a)"
  by (simp split: option.split)

text \<open>A read: what was read is known in the rest.\<close>

lemma spends_get: "(\<And>c. spends io cnt n (f (g c))) \<Longrightarrow> spends io cnt n (bindE (getE g) f)"
  by (simp add: spends_def bindE_def getE_def)

lemma spends_callIo: "counts io cnt \<Longrightarrow> spends io cnt 1 (callIo tx cap)"
  by (auto simp: spends_def callIo_def counts_def opE_defs split: prod.splits) (metis snd_conv)

lemma keeps_tcgFrame_io: "keeps ioView (tcgFrame tx)"
  unfolding tcgFrame_def wolfSPDM_BuildTcgClearMessage_def by (intro keeps_intros)

lemma spends_SendReceive:
  assumes "counts io cnt"
  shows "spends io cnt 1 (wolfSPDM_SendReceive tx cap)"
proof -
  have t: "spends io cnt 1 (wolfSPDM_TcgSendReceive tx cap)"
    unfolding wolfSPDM_TcgSendReceive_def
    by (intro spends_rest keeps_tcgFrame_io spends_first spends_callIo assms keeps_intros) simp
  have p: "spends io cnt 1 (bindE (callIo (Some tx) (Some cap)) (\<lambda>(rc, rx). thenE (guardE (rc = 0 \<and> length rx \<le> cap) E_IO_FAIL) (retE rx)))"
    by (intro spends_first spends_callIo assms keeps_intros)
  show ?thesis
    unfolding wolfSPDM_SendReceive_def
    by (rule spends_get, rule spends_rest, intro keeps_intros) (rule spends_if, rule t, rule p)
qed

section \<open>Exchanges\<close>

lemma spends_ChunkXfer:
  assumes "counts io cnt"
  shows "spends io cnt 1 (wolfSPDM_ChunkXfer K secured req cap)"
proof -
  have "spends io cnt 1 (wolfSPDM_SecuredXfer K req cap)"
    unfolding wolfSPDM_SecuredXfer_def wolfSPDM_EncryptInternal_def wolfSPDM_DecryptInternal_def
    by (intro spends_rest spends_first spends_SendReceive assms keeps_intros) simp_all
  then show ?thesis unfolding wolfSPDM_ChunkXfer_def by (rule spends_if) (rule spends_SendReceive [OF assms])
qed

text \<open>A chunk carries at least one byte, the first one excepted.\<close>

lemma spends_ChunkSendLoop:
  assumes "\<And>r n. spends io cnt 1 (xfer r n)"
  shows "spends io cnt (length req - sent + (if sq = 0 then 1 else 0)) (wolfSPDM_ChunkSendLoop K xfer limit h ah req cap sent sq)"
  using assms
proof (induction K xfer limit h ah req cap sent sq rule: wolfSPDM_ChunkSendLoop.induct)
  case (1 K xfer limit h ah req cap sent sq)
  let ?t = "chunkTake limit (if sq = 0 then SPDM_CHUNK_FIRST_HDR_SZ else SPDM_CHUNK_HDR_SZ) (length req - sent)"
  let ?n = "length req - sent + (if sq = 0 then 1 else 0)"
  have le: "?t \<le> length req - sent" by (simp add: chunkTake_def)
  have rec: "spends io cnt (?n - 1) (wolfSPDM_ChunkSendLoop K xfer limit h ah req cap (sent + ?t) (sq + 1))" if "\<not> (?t = 0 \<and> sq \<noteq> 0)"
    by (rule spends_mono [OF 1(1) [OF refl refl that 1(2)]]) (use that le in auto)
  have body: "spends io cnt ?n (bindE (xfer m n) (\<lambda>ack. bindE (chunkSendAck h ah cap al sq ack)
      (\<lambda>r. case r of Some rsp \<Rightarrow> retE rsp | None \<Rightarrow> wolfSPDM_ChunkSendLoop K xfer limit h ah req cap (sent + ?t) (sq + 1))))"
    if "\<not> (?t = 0 \<and> sq \<noteq> 0)" for m n al
  proof -
    have "1 + (?n - 1) \<le> ?n" using that le by auto
    moreover have "spends io cnt (1 + (?n - 1)) (bindE (xfer m n) (\<lambda>ack. bindE (chunkSendAck h ah cap al sq ack)
      (\<lambda>r. case r of Some rsp \<Rightarrow> retE rsp | None \<Rightarrow> wolfSPDM_ChunkSendLoop K xfer limit h ah req cap (sent + ?t) (sq + 1))))"
      by (intro spends_bind 1(2) spends_rest keeps_chunkSendAck spends_case_option rec that) (simp_all add: spends_keeps keeps_intros)
    ultimately show ?thesis by (rule spends_mono [rotated])
  qed
  show ?case
    by (subst wolfSPDM_ChunkSendLoop.simps, unfold Let_def,
        rule spends_get, rule spends_rest [OF keeps_guard], rule spends_if, rule spends_keeps [OF keeps_fail], rule body)
qed

lemma spends_ChunkGetLoop:
  assumes "\<And>r n. spends io cnt 1 (xfer r n)"
  shows "spends io cnt (max 1 (if sq = 0 then cap else tot - length acc)) (wolfSPDM_ChunkGetLoop K xfer h cap tot acc sq)"
  using assms
proof (induction K xfer h cap tot acc sq rule: wolfSPDM_ChunkGetLoop.induct)
  case (1 K xfer h cap tot acc sq)
  let ?n = "max 1 (if sq = 0 then cap else tot - length acc)"
  have rec: "spends io cnt (?n - 1) (wolfSPDM_ChunkGetLoop K xfer h cap t a (sq + 1))"
    if "chunkGetStep c h cap tot acc sq msg = Inr (ChunkMore t a)" for c :: "'a WOLFSPDM_CTX" and msg t a
  proof -
    have "max 1 (t - length a) \<le> ?n - 1" using chunkGetStep_More [OF that] by auto
    then show ?thesis using spends_mono [OF 1(1) [OF that refl 1(2)]] by simp
  qed
  have step: "spends io cnt (?n - 1) (case chunkGetStep c h cap tot acc sq msg of Inl e \<Rightarrow> failE e
      | Inr (ChunkDone rsp) \<Rightarrow> retE rsp | Inr (ChunkMore t a) \<Rightarrow> wolfSPDM_ChunkGetLoop K xfer h cap t a (sq + 1))"
    for c :: "'a WOLFSPDM_CTX" and msg
    using rec [of c msg] by (auto simp only: spends_keeps keeps_fail keeps_ret split: sum.split chunk_next.split)
  have "spends io cnt (1 + (?n - 1)) (wolfSPDM_ChunkGetLoop K xfer h cap tot acc sq)"
    by (subst wolfSPDM_ChunkGetLoop.simps, rule spends_get, rule spends_rest [OF keeps_guard], rule spends_bind [OF 1(2)],
        rule spends_rest [OF keeps_ChunkPeerError], simp, rule spends_rest [OF keeps_guard], rule spends_get, rule step)
  then show ?case by (rule spends_mono) simp
qed

lemma spends_ChunkExchange:
  assumes "counts io cnt"
  shows "spends io cnt (length req + 1 + max 1 (min cap WOLFSPDM_MAX_MSG_SIZE)) (wolfSPDM_ChunkExchange K secured req cap)"
proof -
  note x = spends_ChunkXfer [OF assms]
  have s: "spends io cnt (length req + 1) (wolfSPDM_ChunkSend K (wolfSPDM_ChunkXfer K secured) limit req cap)" for limit
    unfolding wolfSPDM_ChunkSend_def
    using spends_ChunkSendLoop [of io cnt "wolfSPDM_ChunkXfer K secured" req 0 0, OF x]
    by (intro spends_get spends_rest keeps_mod) simp_all
  have g: "spends io cnt (max 1 (min cap WOLFSPDM_MAX_MSG_SIZE)) (wolfSPDM_ChunkGet K (wolfSPDM_ChunkXfer K secured) h cap)" for h
    unfolding wolfSPDM_ChunkGet_def
    using spends_ChunkGetLoop [of io cnt "wolfSPDM_ChunkXfer K secured" 0 "min cap WOLFSPDM_MAX_MSG_SIZE", OF x] by simp
  have o: "spends io cnt (length req + 1) (wolfSPDM_ChunkXfer K secured req cap)" by (rule spends_mono [OF x]) simp
  show ?thesis
    unfolding wolfSPDM_ChunkExchange_def
    by (rule spends_get, rule spends_bind, intro spends_if o s spends_keeps [OF keeps_fail],
        rule spends_get, rule spends_if, rule g, rule spends_keeps [OF keeps_ret])
qed

lemma spends_ClearExchange:
  assumes "counts io cnt"
  shows "spends io cnt (length req + 1 + max 1 (min cap WOLFSPDM_MAX_MSG_SIZE)) (wolfSPDM_ClearExchange K req cap)"
  unfolding wolfSPDM_ClearExchange_def
  by (rule spends_get, intro spends_if spends_ChunkExchange assms spends_keeps [OF keeps_fail]
      spends_mono [OF spends_SendReceive [OF assms]]) simp

lemma spends_SecuredExchange:
  assumes "counts io cnt"
  shows "spends io cnt (length req + 1 + max 1 (min cap WOLFSPDM_MAX_MSG_SIZE)) (wolfSPDM_SecuredExchange K req cap)"
proof -
  have "spends io cnt 1 (wolfSPDM_SecuredXfer K req cap)"
    using spends_ChunkXfer [OF assms, of K True] by (simp add: wolfSPDM_ChunkXfer_def)
  then have x: "spends io cnt (length req + 1 + max 1 (min cap WOLFSPDM_MAX_MSG_SIZE)) (wolfSPDM_SecuredXfer K req cap)"
    by (rule spends_mono) simp
  show ?thesis
    unfolding wolfSPDM_SecuredExchange_def
    by (rule spends_get, rule spends_if, rule spends_keeps [OF keeps_fail], rule spends_rest, intro keeps_intros; simp)
       (simp add: x [simplified] spends_ChunkExchange [OF assms, simplified])
qed

section \<open>Certificate retrieval\<close>

lemma spends_getCertPortion:
  assumes "counts io cnt"
  shows "spends io cnt (9 + WOLFSPDM_MAX_MSG_SIZE) (getCertPortion K slot reqLen off)"
proof -
  have p: "keeps ioView (wolfSPDM_ParseCertificate rx)" for rx
    unfolding wolfSPDM_ParseCertificate_def by (intro keeps_intros) simp_all
  show ?thesis
    unfolding getCertPortion_def
    by (rule spends_get, rule spends_first, rule spends_mono [OF spends_ClearExchange [OF assms]], simp)
       (intro keeps_intros p; simp)
qed

text \<open>Every portion but the last adds at least one byte to the chain buffer.\<close>

lemma getCertLoop_calls:
  assumes io: "counts io cnt" and c: "ioCb c = Some io"
  shows "ioCb (snd (getCertLoop K slot reqLen off c)) = Some io \<and> cnt (ioUserCtx (snd (getCertLoop K slot reqLen off c))) \<le>
     cnt (ioUserCtx c) + (9 + WOLFSPDM_MAX_MSG_SIZE) * (1 + (WOLFSPDM_MAX_CERT_CHAIN - length (certChain c)))"
  using c
proof (induction K slot reqLen off c rule: getCertLoop.induct)
  case (1 K slot reqLen off c)
  obtain r d where d: "getCertPortion K slot reqLen off c = (r, d)" by (cases "getCertPortion K slot reqLen off c")
  note s = spendsD [OF spends_getCertPortion [OF io] d 1(2)]
  consider e where "r = Inl e" | p q where "r = Inr (p, q)" "q = 0" | p q where "r = Inr (p, q)" "0 < q"
    by (cases r) (auto simp: word_gt_0)
  then show ?case
  proof cases
    case 3
    let ?x = "WOLFSPDM_MAX_CERT_CHAIN - length (certChain c)" and ?y = "WOLFSPDM_MAX_CERT_CHAIN - length (certChain d)"
    have g: "?y + 1 \<le> ?x" using getCertPortion_progress [of K slot reqLen off c p q d] d 3 by simp
    have l: "getCertLoop K slot reqLen off c = getCertLoop K slot reqLen (off + p) d"
      by (subst getCertLoop.simps) (simp add: d 3)
    have "(9 + WOLFSPDM_MAX_MSG_SIZE) * (1 + ?y) + (9 + WOLFSPDM_MAX_MSG_SIZE) \<le> (9 + WOLFSPDM_MAX_MSG_SIZE) * (1 + ?x)"
      using g by simp
    then show ?thesis using 1(1) [OF d [symmetric] 3(1) refl 3(2) s(1)] s(2) unfolding l by linarith
  qed (use s in \<open>simp_all add: getCertLoop.simps d\<close>)
qed

lemma spends_GetCertificate:
  assumes io: "counts io cnt"
  shows "spends io cnt ((9 + WOLFSPDM_MAX_MSG_SIZE) * (1 + WOLFSPDM_MAX_CERT_CHAIN)) (wolfSPDM_GetCertificate K slot)"
proof -
  let ?n = "(9 + WOLFSPDM_MAX_MSG_SIZE) * (1 + WOLFSPDM_MAX_CERT_CHAIN)"
  let ?start = "modE (\<lambda>d. dropCertKey (d\<lparr>currentSlotId := of_int slot, certChain := []\<rparr>))"
  have l: "spends io cnt ?n (thenE ?start (getCertLoop K s r off))" for s r off
    unfolding spends_def
  proof (intro allI impI)
    fix d :: "'a WOLFSPDM_CTX" assume d: "ioCb d = Some io"
    let ?d = "dropCertKey (d\<lparr>currentSlotId := of_int slot, certChain := []\<rparr>)"
    have "ioCb ?d = Some io" "certChain ?d = []" "ioUserCtx ?d = ioUserCtx d" using d by (simp_all add: dropCertKey_def)
    then show "ioCb (snd (thenE ?start (getCertLoop K s r off) d)) = Some io \<and>
        cnt (ioUserCtx (snd (thenE ?start (getCertLoop K s r off) d))) \<le> cnt (ioUserCtx d) + ?n"
      using getCertLoop_calls [OF io, of ?d K s r off] by (simp add: bindE_def modE_def)
  qed
  show ?thesis
    unfolding wolfSPDM_GetCertificate_def Let_def
    by (rule spends_rest [OF keeps_guard], rule spends_get, rule spends_first2 [OF l]) (intro keeps_intros; simp)
qed

section \<open>A whole connection\<close>

text \<open>Bindings whose result is known to satisfy \<open>Q\<close>, and the guard of the transcript buffer.\<close>

lemma spends_bindQ:
  assumes m: "spends io cnt a m" "\<And>c. wpE m (\<lambda>x _. Q x) (\<lambda>_ _. True) c" and f: "\<And>x. Q x \<Longrightarrow> spends io cnt b (f x)"
  shows "spends io cnt (a + b) (bindE m f)"
proof -
  let ?f = "\<lambda>x. if Q x then f x else failE E_BAD_STATE"
  have "bindE m f = bindE m ?f"
  proof
    fix c show "bindE m f c = bindE m ?f c" using m(2) [of c] by (auto simp: bindE_def wpE_def split: prod.splits sum.splits)
  qed
  moreover have "spends io cnt (a + b) (bindE m ?f)"
    by (rule spends_bind [OF m(1)]) (simp add: f spends_keeps keeps_fail)
  ultimately show ?thesis by simp
qed

lemma wpE_TranscriptAdd_size: "wpE (wolfSPDM_TranscriptAdd d) (\<lambda>_ _. length d \<le> WOLFSPDM_MAX_TRANSCRIPT) (\<lambda>_ _. True) c"
  by (auto simp: wolfSPDM_TranscriptAdd_def wpE_def opE_defs)

lemma spends_added:
  assumes "length d \<le> WOLFSPDM_MAX_TRANSCRIPT \<Longrightarrow> spends io cnt n m"
  shows "spends io cnt n (thenE (wolfSPDM_TranscriptAdd d) m)"
proof -
  have "spends io cnt 0 (wolfSPDM_TranscriptAdd d)" by (rule spends_keeps [OF keeps_TranscriptAdd]) simp
  from spends_bindQ [OF this wpE_TranscriptAdd_size assms] show ?thesis by simp
qed

lemma spends_onFail:
  "spends io cnt n m \<Longrightarrow> (\<And>c. ioView (h c) = ioView c) \<Longrightarrow> spends io cnt n (onFailE m h)"
  unfolding spends_def onFailE_def by (simp split: prod.splits sum.splits) (metis snd_conv)

lemma spends_STEP: "spends io cnt n m \<Longrightarrow> spends io cnt n (SPDM_CONNECT_STEP m)"
  unfolding SPDM_CONNECT_STEP_def by (rule spends_onFail) simp_all

definition exchangeCalls :: "nat \<Rightarrow> nat" where
  "exchangeCalls n = n + 1 + WOLFSPDM_MAX_MSG_SIZE"

lemma spends_Clear:
  assumes "counts io cnt" "length req \<le> n"
  shows "spends io cnt (exchangeCalls n) (wolfSPDM_ClearExchange K req cap)"
  by (rule spends_mono [OF spends_ClearExchange [OF assms(1)]]) (use assms(2) in \<open>simp add: exchangeCalls_def\<close>)

abbreviation addedCalls :: nat where "addedCalls \<equiv> exchangeCalls WOLFSPDM_MAX_TRANSCRIPT"

lemma spends_ExchangeMsg:
  assumes io: "counts io cnt" and k: "keeps ioView (build n)" "\<And>rx. keeps ioView (parse rx)"
  shows "spends io cnt addedCalls (wolfSPDM_ExchangeMsg K build parse n m)"
  unfolding wolfSPDM_ExchangeMsg_def
  by (rule spends_get, rule spends_onFail, rule spends_rest [OF k(1)], rule spends_added, rule spends_first, erule spends_Clear [OF io],
      rule keeps_bind, rule keeps_TranscriptAdd, simp, rule k(2), simp add: rollback_def)

lemma spends_steps:
  assumes "counts io cnt"
  shows "spends io cnt addedCalls (wolfSPDM_GetVersion K)" "spends io cnt addedCalls (wolfSPDM_GetCapabilities K)"
    "spends io cnt addedCalls (wolfSPDM_NegotiateAlgorithms K)" "spends io cnt (exchangeCalls 4) (wolfSPDM_GetDigests K)"
    "spends io cnt addedCalls (wolfSPDM_KeyExchange K)"
proof -
  show "spends io cnt addedCalls (wolfSPDM_GetVersion K)"
    unfolding wolfSPDM_GetVersion_def by (rule spends_ExchangeMsg [OF assms]; intro keeps_intros; simp)
  show "spends io cnt addedCalls (wolfSPDM_GetCapabilities K)"
    unfolding wolfSPDM_GetCapabilities_def by (rule spends_ExchangeMsg [OF assms]; intro keeps_intros; simp)
  show "spends io cnt addedCalls (wolfSPDM_NegotiateAlgorithms K)"
    unfolding wolfSPDM_NegotiateAlgorithms_def
    by (rule spends_first, rule spends_ExchangeMsg [OF assms]; intro keeps_intros; simp)
  show "spends io cnt (exchangeCalls 4) (wolfSPDM_GetDigests K)"
    unfolding wolfSPDM_GetDigests_def wolfSPDM_ParseDigests_def
    by (rule spends_get, rule spends_first, rule spends_Clear [OF assms], simp) (intro keeps_intros; simp)
  have v: "keeps ioView (if b then wolfSPDM_ValidateCertChain K else retE ())" for b
    by (intro keeps_intros) (simp_all add: dropCertKey_def)
  have p: "keeps ioView (wolfSPDM_ParseKeyExchangeRsp K rx)" for rx
    by (intro keeps_intros) (simp_all add: frame_simps)
  have b: "keeps ioView (wolfSPDM_BuildKeyExchange K n)" "keeps ioView (if b then wolfSPDM_M1Start K else retE ())" for n b
    by (intro keeps_intros; simp add: frame_simps)+
  show "spends io cnt addedCalls (wolfSPDM_KeyExchange K)"
    unfolding wolfSPDM_KeyExchange_def
    by (rule spends_get, rule spends_rest [OF keeps_guard], rule spends_rest [OF v], rule spends_rest [OF b(1)], rule spends_get,
        rule spends_rest [OF b(2)], rule spends_added, rule spends_first [OF _ p], erule spends_Clear [OF assms])
qed

text \<open>FINISH: its header, signature and MAC went into the transcript one by one.\<close>

lemma BuildFinish_size:
  "wpE (wolfSPDM_BuildFinish K n) (\<lambda>tx _. length tx \<le> 6 + 2 * WOLFSPDM_MAX_TRANSCRIPT) (\<lambda>_ _. True) c"
proof -
  have "length tx \<le> 6 + 2 * WOLFSPDM_MAX_TRANSCRIPT" if "wolfSPDM_BuildFinish K n c = (Inr tx, d)" for tx d
    using that unfolding wolfSPDM_BuildFinish_def
    by (auto simp: succ_simps Let_def wolfSPDM_TranscriptAdd_def split: if_splits)
  then show ?thesis by (simp add: wpE_iff)
qed

abbreviation finishCalls :: nat where "finishCalls \<equiv> exchangeCalls (6 + 2 * WOLFSPDM_MAX_TRANSCRIPT)"

lemma spends_Finish:
  assumes "counts io cnt"
  shows "spends io cnt finishCalls (wolfSPDM_Finish K)"
proof -
  have r: "keeps ioView (if P then thenE (if Q then modE (\<lambda>c. c\<lparr>lastPeerErrorCode := x\<rparr>) else retE ()) (failE E_PEER_ERROR)
      else wolfSPDM_DecryptInternal K rx cap)" for P Q x rx cap
    by (intro keeps_intros; simp)
  have x: "spends io cnt finishCalls (wolfSPDM_FinishXfer K tx cap)" if "length tx \<le> 6 + 2 * WOLFSPDM_MAX_TRANSCRIPT" for tx cap
    unfolding wolfSPDM_FinishXfer_def
    by (rule spends_get, rule spends_if, rule spends_mono [OF spends_ChunkExchange [OF assms]], use that in \<open>simp add: exchangeCalls_def\<close>,
        rule spends_rest, intro keeps_intros, simp_all add: spends_mono [OF spends_first [OF spends_SendReceive [OF assms] r]] exchangeCalls_def)
  have b: "spends io cnt 0 (wolfSPDM_BuildFinish K n)" for n by (intro spends_keeps keeps_intros; simp)
  have p: "keeps ioView (thenE (wolfSPDM_ParseFinishRsp rx) (wolfSPDM_DeriveAppDataKeys K))" for rx
    by (intro keeps_intros; simp add: frame_simps)
  have "spends io cnt (0 + finishCalls) (bindE (wolfSPDM_BuildFinish K WOLFSPDM_FINISH_BUF_SZ) (\<lambda>finishBuf.
      bindE (wolfSPDM_FinishXfer K finishBuf WOLFSPDM_FINISH_RSP_MAX) (\<lambda>decBuf.
      thenE (wolfSPDM_ParseFinishRsp decBuf) (wolfSPDM_DeriveAppDataKeys K))))"
    by (rule spends_bindQ [OF b BuildFinish_size], rule spends_first [OF x p])
  then show ?thesis
    unfolding wolfSPDM_Finish_def by (intro spends_get spends_rest [OF keeps_guard]) simp
qed

definition connectCalls :: nat where
  "connectCalls = 5 * addedCalls + exchangeCalls 4 + exchangeCalls 8 * (1 + WOLFSPDM_MAX_CERT_CHAIN) + finishCalls"

lemma spends_ConnectStandard:
  assumes "counts io cnt"
  shows "spends io cnt connectCalls (wolfSPDM_ConnectStandard K)"
proof -
  have cert: "exchangeCalls 8 = 9 + WOLFSPDM_MAX_MSG_SIZE" by (simp add: exchangeCalls_def)
  note s = spends_steps [OF assms, THEN spends_STEP] spends_GetCertificate [OF assms, THEN spends_STEP, folded cert] spends_Finish [OF assms, THEN spends_STEP]
  have i: "keeps ioView (modE (\<lambda>c. wolfSPDM_AttestFree (wolfSPDM_TranscriptReset ((dropCertKey c)\<lparr>state := WOLFSPDM_STATE_INIT, lastPeerErrorCode := 0, rspCaps := 0\<rparr>))))"
    by (rule keeps_mod) (simp add: wolfSPDM_AttestFree_def wolfSPDM_TranscriptReset_def dropCertKey_def Let_def)
  have v: "keeps ioView (SPDM_CONNECT_STEP (wolfSPDM_ValidateCertChain K))"
    by (intro keeps_intros; simp add: dropCertKey_def)
  have e: "keeps ioView (modE (\<lambda>c. c\<lparr>state := WOLFSPDM_STATE_CONNECTED\<rparr>))" by (rule keeps_mod) simp
  have "spends io cnt (addedCalls + (addedCalls + (addedCalls + (exchangeCalls 4 + (exchangeCalls 8 * (1 + WOLFSPDM_MAX_CERT_CHAIN) + (addedCalls + finishCalls))))))
      (wolfSPDM_ConnectStandard K)"
    unfolding wolfSPDM_ConnectStandard_def
    by (rule spends_rest [OF i], rule spends_bind [OF s(1)], rule spends_bind [OF s(2)], rule spends_bind [OF s(3)], rule spends_bind [OF s(4)],
        rule spends_get, rule spends_bind [OF s(6)], rule spends_rest [OF v], rule spends_bind [OF s(5)], rule spends_first [OF s(7) e])
  then show ?thesis by (rule spends_mono) (simp add: connectCalls_def)
qed

text \<open>The connections of the TCG modes.\<close>

lemma spends_vendor:
  assumes "counts io cnt"
  shows "spends io cnt 1 (wolfSPDM_TCG_VendorCmdClear code payload want)"
    "spends io cnt (exchangeCalls WOLFSPDM_VENDOR_BUF_SZ) (wolfSPDM_TCG_VendorCmdSecured K code payload)"
proof -
  have b: "spends io cnt 0 (wolfSPDM_BuildVendorDefined v code payload n)"
      "wpE (wolfSPDM_BuildVendorDefined v code payload n) (\<lambda>tx _. length tx \<le> n) (\<lambda>_ _. True) c" for v n and c :: "'a WOLFSPDM_CTX"
    by (rule spends_keeps [OF keeps_BuildVendorDefined])
       (auto simp: wpE_def wolfSPDM_BuildVendorDefined_def opE_defs)
  show "spends io cnt 1 (wolfSPDM_TCG_VendorCmdClear code payload want)"
    unfolding wolfSPDM_TCG_VendorCmdClear_def
    by (rule spends_get, rule spends_rest [OF keeps_BuildVendorDefined], rule spends_first [OF spends_SendReceive [OF assms]])
       (intro keeps_intros; simp)
  have "spends io cnt (0 + exchangeCalls WOLFSPDM_VENDOR_BUF_SZ) (bindE (wolfSPDM_BuildVendorDefined v code payload WOLFSPDM_VENDOR_BUF_SZ) (\<lambda>spdmMsg.
     bindE (wolfSPDM_SecuredExchange K spdmMsg WOLFSPDM_VENDOR_BUF_SZ) (\<lambda>decBuf.
     guardE (\<not> (length decBuf \<ge> 4 \<and> decBuf ! 1 = SPDM_ERROR)) E_PEER_ERROR)))" for v
    by (rule spends_bindQ [OF b], rule spends_first [OF _ keeps_guard], rule spends_mono [OF spends_SecuredExchange [OF assms]])
       (simp add: exchangeCalls_def)
  then show "spends io cnt (exchangeCalls WOLFSPDM_VENDOR_BUF_SZ) (wolfSPDM_TCG_VendorCmdSecured K code payload)"
    unfolding wolfSPDM_TCG_VendorCmdSecured_def by (intro spends_get) simp
qed

lemma spends_tcg_steps:
  assumes "counts io cnt"
  shows "spends io cnt 1 (wolfSPDM_TCG_GetCapabilities fl)" "spends io cnt 1 wolfSPDM_TCG_NegotiateAlgorithms"
    "spends io cnt (addedCalls + 1) (wolfSPDM_TCG_GetPubKey K n)"
    "spends io cnt (exchangeCalls WOLFSPDM_VENDOR_BUF_SZ) (wolfSPDM_TCG_GivePubKey K key)"
proof -
  have t: "keeps ioView (wolfSPDM_TranscriptAdd d)" for d by (rule keeps_TranscriptAdd) simp
  show "spends io cnt 1 (wolfSPDM_TCG_GetCapabilities fl)"
    unfolding wolfSPDM_TCG_GetCapabilities_def Let_def
    by (rule spends_STEP, rule spends_get, rule spends_rest [OF t], rule spends_first [OF spends_SendReceive [OF assms]])
       (intro keeps_intros; simp)
  show "spends io cnt 1 wolfSPDM_TCG_NegotiateAlgorithms"
    unfolding wolfSPDM_TCG_NegotiateAlgorithms_def Let_def
    by (rule spends_STEP, rule spends_get, rule spends_rest [OF t], rule spends_first [OF spends_SendReceive [OF assms]])
       (intro keeps_intros; simp)
  have v: "spends io cnt addedCalls (if b then thenE (modE wolfSPDM_TranscriptReset) (wolfSPDM_GetVersion K) else retE ())" for b
    by (rule spends_if, rule spends_rest [OF keeps_mod spends_steps(1) [OF assms]])
       (simp_all add: wolfSPDM_TranscriptReset_def spends_keeps keeps_ret)
  have c: "keeps ioView (wolfSPDM_TCG_CheckPubKey k)" for k
    unfolding wolfSPDM_TCG_CheckPubKey_def by (intro keeps_intros)
  show "spends io cnt (addedCalls + 1) (wolfSPDM_TCG_GetPubKey K n)"
    unfolding wolfSPDM_TCG_GetPubKey_def
    by (rule spends_get, rule spends_bind [OF v], rule spends_first [OF spends_vendor(1) [OF assms]]) (intro keeps_intros c)
  show "spends io cnt (exchangeCalls WOLFSPDM_VENDOR_BUF_SZ) (wolfSPDM_TCG_GivePubKey K key)"
    unfolding wolfSPDM_TCG_GivePubKey_def
    by (rule spends_get, rule spends_rest [OF keeps_guard], rule spends_vendor(2) [OF assms])
qed

lemma spends_ConnectTCG:
  assumes "counts io cnt"
  shows "spends io cnt connectCalls (wolfSPDM_ConnectTCG K)"
proof -
  note s = spends_steps(1,5) [OF assms, THEN spends_STEP] spends_tcg_steps [OF assms, THEN spends_STEP] spends_Finish [OF assms, THEN spends_STEP]
  have n: "spends io cnt 2 (if b then thenE (SPDM_CONNECT_STEP (wolfSPDM_TCG_GetCapabilities fl))
      (SPDM_CONNECT_STEP wolfSPDM_TCG_NegotiateAlgorithms) else retE ())" for b fl
    using spends_bind [OF s(3,4)] by (auto simp: numeral_2_eq_2 spends_keeps keeps_ret)
  have g: "spends io cnt (exchangeCalls WOLFSPDM_VENDOR_BUF_SZ) (if b then SPDM_CONNECT_STEP (wolfSPDM_TCG_GivePubKey K key) else retE ())" for b key
    using s(6) by (simp add: spends_keeps keeps_ret)
  have h: "keeps ioView (SPDM_CONNECT_STEP (bindE (wolfSPDM_Sha384Hash K k [] []) (\<lambda>h. thenE (modE (\<lambda>c. c\<lparr>certChainHash := h\<rparr>)) (wolfSPDM_TranscriptAdd h))))" for k
    by (intro keeps_intros; simp)
  have e: "keeps ioView (modE (\<lambda>c. c\<lparr>state := x\<rparr>))" for x by (rule keeps_mod) simp
  have t: "spends io cnt (addedCalls + (2 + ((addedCalls + 1) + (addedCalls + (exchangeCalls WOLFSPDM_VENDOR_BUF_SZ + finishCalls))))) (tcgHandshake K)"
    unfolding tcgHandshake_def
    by (rule spends_bind [OF s(1)], rule spends_get, rule spends_bind [OF n], rule spends_bind [OF s(5)], rule spends_rest [OF e],
        rule spends_rest [OF h], rule spends_bind [OF s(2)], rule spends_get, rule spends_bind [OF g], rule spends_first [OF s(7) e])
  have i: "keeps ioView (modE (\<lambda>d. wolfSPDM_TranscriptReset (d\<lparr>state := WOLFSPDM_STATE_INIT\<rparr>)))"
    by (rule keeps_mod) (simp add: wolfSPDM_TranscriptReset_def)
  show ?thesis
    unfolding wolfSPDM_ConnectTCG_def
    by (rule spends_get, intro spends_rest [OF keeps_guard] spends_rest [OF i] spends_mono [OF t]) (simp add: connectCalls_def exchangeCalls_def)
qed

lemma spends_ConnectPsk:
  assumes "counts io cnt"
  shows "spends io cnt connectCalls (wolfSPDM_ConnectPsk K)"
proof -
  note s = spends_SendReceive [OF assms]
  have b: "keeps ioView (wolfSPDM_BuildPskExchange K n)" "keeps ioView (wolfSPDM_BuildPskFinish K n)" "keeps ioView (wolfSPDM_TranscriptAdd d)"
      "keeps ioView (wolfSPDM_EncryptInternal K d n)" for n d
    by (intro keeps_intros; simp)+
  have p: "keeps ioView (wolfSPDM_ParsePskExchangeRsp K rx)" for rx by (intro keeps_intros) (simp_all add: frame_simps)
  have f: "keeps ioView (bindE (wolfSPDM_DecryptInternal K rx 64) (\<lambda>dec. thenE (wolfSPDM_ParsePskFinishRsp dec) (wolfSPDM_DeriveAppDataKeys K)))" for rx
    by (intro keeps_intros; simp add: frame_simps)
  have t: "spends io cnt (addedCalls + (1 + 1)) (pskHandshake K)"
    unfolding pskHandshake_def
    by (rule spends_bind [OF spends_steps(1) [OF assms]], rule spends_rest [OF b(1)], rule spends_rest [OF b(3)], rule spends_bind [OF s],
        rule spends_rest [OF p], rule spends_rest [OF b(2)], rule spends_rest [OF b(4)], rule spends_first [OF s f])
  have i: "keeps ioView (modE (\<lambda>d. wolfSPDM_TranscriptReset (d\<lparr>state := WOLFSPDM_STATE_INIT\<rparr>)))"
    "keeps ioView (modE (\<lambda>d. d\<lparr>state := WOLFSPDM_STATE_CONNECTED\<rparr>))"
    by (rule keeps_mod, simp add: wolfSPDM_TranscriptReset_def)+
  have "spends io cnt (addedCalls + (1 + 1)) (wolfSPDM_ConnectPsk K)"
    unfolding wolfSPDM_ConnectPsk_def
    by (rule spends_get, intro spends_rest [OF keeps_guard] spends_rest [OF i(1)] spends_first [OF spends_onFail [OF t] i(2)]) simp
  then show ?thesis by (rule spends_mono) (simp add: connectCalls_def exchangeCalls_def)
qed

lemma spends_Connect:
  assumes "counts io cnt"
  shows "spends io cnt connectCalls (wolfSPDM_Connect K)"
proof -
  have r: "keeps ioView (modE wolfSPDM_ResetSession)"
    by (rule keeps_mod) (simp add: wolfSPDM_ResetSession_def wolfSPDM_AttestFree_def wolfSPDM_FreeEphemeralKey_def Let_def)
  have m: "spends io cnt connectCalls (case md of MODE_TCG \<Rightarrow> wolfSPDM_ConnectTCG K | MODE_NUVOTON \<Rightarrow> wolfSPDM_ConnectTCG K
      | MODE_NATIONS \<Rightarrow> wolfSPDM_ConnectTCG K | MODE_NATIONS_PSK \<Rightarrow> wolfSPDM_ConnectPsk K | MODE_AUTO \<Rightarrow> wolfSPDM_ConnectStandard K)" for md
    using spends_ConnectTCG [OF assms] spends_ConnectPsk [OF assms] spends_ConnectStandard [OF assms] by (cases md) simp_all
  show ?thesis
    unfolding wolfSPDM_Connect_def by (rule spends_get, intro spends_rest [OF keeps_guard] spends_rest [OF r] m)
qed

end
