(* ===== verification/Spdm_World.thy ===== *)
theory Spdm_World
  imports Spdm_Api Spdm_Bounded
begin

text \<open>
  What the I/O callback keeps of its own state, the requester keeps: a context reaches that state
  through the callback only. Operations that make a bounded number of calls inherit this from
  \<open>spends\<close>, the others are put together from them.
\<close>

section \<open>Invariants of the callback's state\<close>

definition worldInv :: "'w WOLFSPDM_IO_CB \<Rightarrow> ('w \<Rightarrow> bool) \<Rightarrow> 'w WOLFSPDM_CTX \<Rightarrow> bool" where
  "worldInv io P c \<longleftrightarrow> ioCb c = Some io \<and> P (ioUserCtx c)"

definition ioKeeps :: "'w WOLFSPDM_IO_CB \<Rightarrow> ('w \<Rightarrow> bool) \<Rightarrow> bool" where
  "ioKeeps io P \<longleftrightarrow> (\<forall>sid tx cap w. P w \<longrightarrow> P (snd (io sid tx cap w)))"

text \<open>The count that starts above every bound as soon as \<open>P\<close> fails is a count of calls.\<close>

lemma world_spends:
  assumes io: "ioKeeps io P" and m: "\<And>cnt. counts io cnt \<Longrightarrow> spends io cnt n m"
  shows "holdsE (worldInv io P) m"
proof -
  let ?cnt = "\<lambda>w. if P w then 0 else n + 1"
  have "counts io ?cnt" using io by (auto simp: counts_def ioKeeps_def)
  note s = m [OF this]
  show ?thesis
    unfolding holdsE_def worldInv_def
  proof (intro allI impI)
    fix c :: "'a WOLFSPDM_CTX" assume "ioCb c = Some io \<and> P (ioUserCtx c)"
    then show "ioCb (snd (m c)) = Some io \<and> P (ioUserCtx (snd (m c)))"
      using s [unfolded spends_def, rule_format, of c] by (auto split: if_splits)
  qed
qed

lemma world_keeps: "keeps ioView m \<Longrightarrow> holdsE (worldInv io P) m"
  by (simp add: keeps_def holdsE_def worldInv_def)

section \<open>The operations of a requester\<close>

lemma world_exchanges:
  assumes "ioKeeps io P"
  shows "holdsE (worldInv io P) (wolfSPDM_SendReceive tx cap)" "holdsE (worldInv io P) (wolfSPDM_ClearExchange K tx cap)"
    "holdsE (worldInv io P) (wolfSPDM_SecuredExchange K tx cap)" "holdsE (worldInv io P) (callIo x room)"
  by (rule world_spends [OF assms], erule spends_SendReceive spends_ClearExchange spends_SecuredExchange spends_callIo)+

lemma world_steps:
  assumes "ioKeeps io P"
  shows "holdsE (worldInv io P) (wolfSPDM_GetVersion K)" "holdsE (worldInv io P) (wolfSPDM_GetCapabilities K)"
    "holdsE (worldInv io P) (wolfSPDM_NegotiateAlgorithms K)" "holdsE (worldInv io P) (wolfSPDM_GetDigests K)"
    "holdsE (worldInv io P) (wolfSPDM_GetCertificate K slot)" "holdsE (worldInv io P) (wolfSPDM_Connect K)"
  by (rule world_spends [OF assms], erule spends_steps spends_GetCertificate spends_Connect)+

text \<open>Everything else that an attestation, a key update and application data call leaves the callback alone.\<close>

lemma quiet_builders:
  "keeps ioView (wolfSPDM_BuildChallenge K n i h)" "keeps ioView (wolfSPDM_BuildGetMeasurements K n op sig)"
  "keeps ioView (wolfSPDM_BuildHeartbeat n)" "keeps ioView (wolfSPDM_BuildKeyUpdate K n op')" "keeps ioView (wolfSPDM_BuildEndSession n)"
  "keeps ioView (wolfSPDM_ValidateCertChain K)" "keeps ioView (wolfSPDM_CheckSessionCap x)"
  "keeps ioView (wolfSPDM_EncryptRecord K b tx cap)" "keeps ioView (wolfSPDM_DecryptRecord K b tx cap)"
  unfolding wolfSPDM_BuildHeartbeat_def wolfSPDM_BuildEndSession_def wolfSPDM_BuildSimpleMsg_def
  by (intro keeps_intros; simp add: dropCertKey_def)+

lemma quiet_parsers:
  "keeps ioView (wolfSPDM_ParseChallengeAuth tx rx)" "keeps ioView (wolfSPDM_ParseMeasurements tx rx)" "keeps ioView (wolfSPDM_ParseHeartbeatAck rx)"
  "keeps ioView (wolfSPDM_ParseKeyUpdateAck rx op tag)" "keeps ioView (wolfSPDM_M1Start K)" "keeps ioView (wolfSPDM_RunVerify K m1Run l a b n)"
  "keeps ioView (wolfSPDM_RunStart K l1l2Run)" "keeps ioView (wolfSPDM_RunAdd K l1l2Run a b)" "keeps ioView (wolfSPDM_RunVerify K l1l2Run l a b n)"
  "keeps ioView (wolfSPDM_DeriveUpdatedKeys K u)"
  by (intro keeps_intros; simp add: m1Run_def l1l2Run_def frame_simps)+

lemmas world_quiet = quiet_builders [THEN world_keeps] quiet_parsers [THEN world_keeps]

lemma worldInv_frame [simp]:
  "worldInv io P (wolfSPDM_ResetSession c) = worldInv io P c" "worldInv io P (restoreTrafficKeys snap c) = worldInv io P c"
  "worldInv io P (c\<lparr>measBlockCount := n, measRecord := b\<rparr>) = worldInv io P c" "worldInv io P (c\<lparr>measRecord := b, measBlockCount := n\<rparr>) = worldInv io P c"
  "worldInv io P (c\<lparr>l1l2State := s\<rparr>) = worldInv io P c" "worldInv io P (c\<lparr>reqSeqNum := i\<rparr>) = worldInv io P c"
  "worldInv io P (c\<lparr>reqSeqNum := i, rspSeqNum := j\<rparr>) = worldInv io P c" "worldInv io P (c\<lparr>lastPeerErrorCode := x\<rparr>) = worldInv io P c"
  by (simp_all add: worldInv_def wolfSPDM_ResetSession_def wolfSPDM_AttestFree_def wolfSPDM_FreeEphemeralKey_def Let_def
      restoreTrafficKeys_def split: prod.split)

lemma world_life:
  assumes "ioKeeps io P"
  shows "holdsE (worldInv io P) (wolfSPDM_Challenge K i h)" "holdsE (worldInv io P) (wolfSPDM_Heartbeat K)"
    "holdsE (worldInv io P) (wolfSPDM_Disconnect K)" "holdsE (worldInv io P) (wolfSPDM_GetMeasurements K op sig)"
    "holdsE (worldInv io P) (wolfSPDM_KeyUpdate K updateAll)"
    "holdsE (worldInv io P) (wolfSPDM_SendData K d)" "holdsE (worldInv io P) (wolfSPDM_ReceiveData K n)"
  unfolding wolfSPDM_Challenge_def wolfSPDM_Heartbeat_def wolfSPDM_Disconnect_def endSession_def wolfSPDM_GetMeasurements_def
    fetchMeasurements_def wolfSPDM_KeyUpdate_def keyUpdateOpen_def keyUpdateReqOnly_def wolfSPDM_EncryptInternal_def
    wolfSPDM_DecryptInternal_def wolfSPDM_SendData_def wolfSPDM_ReceiveData_def wolfSPDM_AppDataReady_def Let_def
  by (intro holds_intros world_quiet world_exchanges [OF assms]; simp)+

end
