(* ===== verification/Spdm_Demo.thy ===== *)
theory Spdm_Demo
  imports Spdm_World
begin

text \<open>
  The demo program \<^verbatim>\<open>examples/spdm_demo.c\<close>: the MCTP transport over a TCP socket that it gives the
  library as I/O callback, its scenarios and its \<^verbatim>\<open>main\<close>. The operating system is a parameter, the
  record \<open>sock_os\<close> of the calls the program makes. What is printed is left out.
\<close>

section \<open>The operating system\<close>

text \<open>
  A system call is done, was interrupted (\<^verbatim>\<open>EINTR\<close>) or failed. \<open>'n\<close> is the state of the network; a
  file is whether it can be sought, what \<^verbatim>\<open>ftell\<close> reports at its end, and what can be read of it.
\<close>

datatype 'a sys = Done 'a | EINTR | SysErr

record os_file =
  seekEnd :: bool
  tell :: int
  content :: bytes

record 'n sock_os =
  os_socket :: "'n \<Rightarrow> int \<times> 'n"
  os_setsockopt :: "int \<Rightarrow> 'n \<Rightarrow> 'n"
  os_inet_pton :: "string \<Rightarrow> bool"
  os_connect :: "int \<Rightarrow> string \<Rightarrow> word16 \<Rightarrow> 'n \<Rightarrow> bool \<times> 'n"
  os_close :: "int \<Rightarrow> 'n \<Rightarrow> 'n"
  os_send :: "int \<Rightarrow> bytes \<Rightarrow> 'n \<Rightarrow> nat sys \<times> 'n"
  os_recv :: "int \<Rightarrow> nat \<Rightarrow> 'n \<Rightarrow> bytes sys \<times> 'n"
  os_getenv :: "string \<Rightarrow> string option"
  os_realpath :: "string \<Rightarrow> string option"
  os_fopen :: "string \<Rightarrow> os_file option"
  os_malloc :: "nat \<Rightarrow> bool"

record 'n TCP_CTX =
  sockFd :: int
  net :: 'n

section \<open>Messages on the socket\<close>

definition is_secured_spdm :: "word32 \<Rightarrow> bytes \<Rightarrow> bool" where
  "is_secured_spdm sid buf \<longleftrightarrow>
     (if length buf < 4 then False
      else if sid = 0 then False
      else SPDM_Get32LE buf 0 = sid)"

text \<open>\<^verbatim>\<open>send_all\<close> and \<^verbatim>\<open>recv_all\<close> try again as long as they are interrupted; \<open>None\<close> is a call that never returns.\<close>

partial_function (option) send_all :: "'n sock_os \<Rightarrow> int \<Rightarrow> bytes \<Rightarrow> 'n \<Rightarrow> (int \<times> 'n) option" where
  "send_all os fd p w =
     (if p = [] then Some (0, w)
      else case os_send os fd p w of (n, w') \<Rightarrow>
        (case n of
           EINTR \<Rightarrow> send_all os fd p w'
         | SysErr \<Rightarrow> Some (-1, w')
         | Done k \<Rightarrow> if k = 0 then Some (-1, w') else send_all os fd (drop k p) w'))"

partial_function (option) recv_all :: "'n sock_os \<Rightarrow> int \<Rightarrow> bytes \<Rightarrow> nat \<Rightarrow> 'n \<Rightarrow> (bytes option \<times> 'n) option" where
  "recv_all os fd got left w =
     (if left = 0 then Some (Some got, w)
      else case os_recv os fd left w of (n, w') \<Rightarrow>
        (case n of
           EINTR \<Rightarrow> recv_all os fd got left w'
         | SysErr \<Rightarrow> Some (None, w')
         | Done xs \<Rightarrow> if xs = [] then Some (None, w') else recv_all os fd (got @ xs) (left - length xs) w'))"

definition sendBuf :: "word32 \<Rightarrow> bytes \<Rightarrow> bytes" where
  "sendBuf sid tx =
     [0x00, 0x00, 0x00, 0x01, 0x00, 0x00, 0x00, 0x01] @ SPDM_Set32BE (1 + of_nat (length tx)) @
     [if is_secured_spdm sid tx then 0x06 else 0x05] @ tx"

definition tcpReceive :: "'n sock_os \<Rightarrow> nat \<Rightarrow> 'n TCP_CTX \<Rightarrow> ((int \<times> bytes) \<times> 'n TCP_CTX) option" where
  "tcpReceive os rxSz w =
     (case recv_all os (sockFd w) [] 12 (net w) of
        None \<Rightarrow> None
      | Some (None, n) \<Rightarrow> Some ((-1, []), w\<lparr>net := n\<rparr>)
      | Some (Some recvHdr, n) \<Rightarrow>
          let respSize = SPDM_Get32BE recvHdr 8 in
          if respSize < 1 \<or> unat (respSize - 1) > rxSz then Some ((-1, []), w\<lparr>net := n\<rparr>)
          else case recv_all os (sockFd w) [] 1 n of
            None \<Rightarrow> None
          | Some (None, n) \<Rightarrow> Some ((-1, []), w\<lparr>net := n\<rparr>)
          | Some (Some mctpHdr, n) \<Rightarrow>
              (case recv_all os (sockFd w) [] (unat (respSize - 1)) n of
                 None \<Rightarrow> None
               | Some (None, n) \<Rightarrow> Some ((-1, []), w\<lparr>net := n\<rparr>)
               | Some (Some rxBuf, n) \<Rightarrow> Some ((0, rxBuf), w\<lparr>net := n\<rparr>)))"

definition tcp_io_callback ::
  "'n sock_os \<Rightarrow> word32 \<Rightarrow> bytes option \<Rightarrow> nat option \<Rightarrow> 'n TCP_CTX \<Rightarrow> ((int \<times> bytes) \<times> 'n TCP_CTX) option" where
  "tcp_io_callback os sid txBuf room w =
     (if sockFd w < 0 then Some ((-1, []), w)
      else if (case txBuf of None \<Rightarrow> 0 | Some tx \<Rightarrow> length tx) > 4096 - 13 then Some ((-1, []), w)
      else case (case txBuf of None \<Rightarrow> Some (0, net w) | Some tx \<Rightarrow> send_all os (sockFd w) (sendBuf sid tx) (net w)) of
        None \<Rightarrow> None
      | Some (rc, n) \<Rightarrow>
          if rc \<noteq> 0 then Some ((-1, []), w\<lparr>net := n\<rparr>)
          else case room of
            None \<Rightarrow> Some ((0, []), w\<lparr>net := n\<rparr>)
          | Some rxSz \<Rightarrow> tcpReceive os rxSz (w\<lparr>net := n\<rparr>))"

text \<open>As a callback of the library, whose callbacks return: one that would not counts as failed.\<close>

definition tcpIo :: "'n sock_os \<Rightarrow> 'n TCP_CTX WOLFSPDM_IO_CB" where
  "tcpIo os sid txBuf room w = (case tcp_io_callback os sid txBuf room w of None \<Rightarrow> ((-1, []), w) | Some r \<Rightarrow> r)"

definition tcp_connect :: "'n sock_os \<Rightarrow> string \<Rightarrow> int \<Rightarrow> 'n TCP_CTX \<Rightarrow> int \<times> 'n TCP_CTX" where
  "tcp_connect os host port g =
     (case os_socket os (net g) of (fd, n) \<Rightarrow>
        if fd < 0 then (-1, g\<lparr>net := n\<rparr>)
        else let n = os_setsockopt os fd n in
          if \<not> os_inet_pton os host then (-1, g\<lparr>net := os_close os fd n\<rparr>)
          else case os_connect os fd host (of_int port) n of (ok, n) \<Rightarrow>
            if \<not> ok then (-1, g\<lparr>net := os_close os fd n\<rparr>)
            else (0, g\<lparr>net := n, sockFd := fd\<rparr>))"

definition tcp_disconnect :: "'n sock_os \<Rightarrow> 'n TCP_CTX \<Rightarrow> 'n TCP_CTX" where
  "tcp_disconnect os g = (if sockFd g \<ge> 0 then g\<lparr>net := os_close os (sockFd g) (net g), sockFd := -1\<rparr> else g)"

section \<open>The trusted root\<close>

abbreviation (input) PATH_MAX :: nat where "PATH_MAX \<equiv> 4096"

definition load_der :: "'n sock_os \<Rightarrow> string \<Rightarrow> (bytes \<times> word32) option" where
  "load_der os path =
     (case os_fopen os path of
        None \<Rightarrow> None
      | Some f \<Rightarrow>
          if \<not> seekEnd f then None
          else if tell f \<le> 0 then None
          else if \<not> os_malloc os (nat (tell f)) then None
          else let buf = take (nat (tell f)) (content f) in
            if length buf \<noteq> nat (tell f) then None else Some (buf, of_int (tell f)))"

definition sanitize_emu_path :: "'n sock_os \<Rightarrow> string option \<Rightarrow> nat \<Rightarrow> string option" where
  "sanitize_emu_path os emuPath outSz =
     (case emuPath of
        None \<Rightarrow> None
      | Some p \<Rightarrow>
          if length p = 0 \<or> length p > PATH_MAX - 32 then None
          else if list_ex (\<lambda>c. (of_char c :: byte) < 0x20 \<or> (of_char c :: byte) = 0x7F) p then None
          else case os_realpath os p of
            None \<Rightarrow> None
          | Some resolved \<Rightarrow> if length resolved \<ge> outSz then None else Some resolved)"

definition allowedCertDirs :: "string list" where
  "allowedCertDirs = [''ecp256'', ''ecp384'', ''ecp521'', ''mldsa44'', ''mldsa65'', ''mldsa87'']"

definition load_trusted_ca :: "'n sock_os \<Rightarrow> 'w WOLFSPDM_CTX \<Rightarrow> int \<times> 'w WOLFSPDM_CTX" where
  "load_trusted_ca os c =
     (case sanitize_emu_path os (os_getenv os ''SPDM_EMU_PATH'') PATH_MAX of
        None \<Rightarrow> (-1, c)
      | Some realEmu \<Rightarrow>
          let certDir = (case os_getenv os ''SPDM_EMU_CERT_DIR'' of None \<Rightarrow> ''ecp384'' | Some d \<Rightarrow> if d = [] then ''ecp384'' else d) in
          case find (\<lambda>d. certDir = d) allowedCertDirs of
            None \<Rightarrow> (-1, c)
          | Some safeDir \<Rightarrow>
              let path = realEmu @ ''/'' @ safeDir @ ''/ca.cert.der'' in
              if length path \<ge> PATH_MAX then (-1, c)
              else case load_der os path of
                None \<Rightarrow> (-1, c)
              | Some (der, derSz) \<Rightarrow>
                  (case wolfSPDM_SetTrustedCAs (take (unat derSz) der) c of
                     (Inl _, d) \<Rightarrow> (-1, d)
                   | (Inr _, d) \<Rightarrow> (0, d)))"

section \<open>The scenarios\<close>

definition do_session :: "wc_env \<Rightarrow> ('w, unit) cop" where
  "do_session K = wolfSPDM_Connect K"

definition do_meas :: "wc_env \<Rightarrow> bool \<Rightarrow> ('w, unit) cop" where
  "do_meas K withSig = thenE (do_session K) (wolfSPDM_GetMeasurements K 0xFF withSig)"

definition do_challenge :: "wc_env \<Rightarrow> 'n sock_os \<Rightarrow> ('w, unit) cop" where
  "do_challenge K os =
     thenE (wolfSPDM_GetVersion K)
     (thenE (wolfSPDM_GetCapabilities K)
     (thenE (wolfSPDM_NegotiateAlgorithms K)
     (thenE (wolfSPDM_GetDigests K)
     (thenE (wolfSPDM_GetCertificate K 0)
     (thenE (\<lambda>c. case load_trusted_ca os c of (rc, d) \<Rightarrow> guardE (rc = 0) E_INVALID_ARG d)
     (wolfSPDM_Challenge K 0 0xFF))))))"

definition do_heartbeat :: "wc_env \<Rightarrow> ('w, unit) cop" where
  "do_heartbeat K = thenE (do_session K) (wolfSPDM_Heartbeat K)"

definition do_key_update :: "wc_env \<Rightarrow> ('w, unit) cop" where
  "do_key_update K = thenE (do_session K) (wolfSPDM_KeyUpdate K True)"

definition getTid :: bytes where
  "getTid = [0x01, 0x80, 0x00, 0x02]"

definition do_app_data :: "wc_env \<Rightarrow> ('w, unit) cop" where
  "do_app_data K =
     thenE (do_session K)
     (thenE (wolfSPDM_SendData K getTid)
     (bindE (wolfSPDM_ReceiveData K 64) (\<lambda>rsp.
      guardE (\<not> (length rsp \<noteq> 6 \<or> rsp ! 0 \<noteq> getTid ! 0 \<or> rsp ! 1 \<noteq> 0x00 \<or> rsp ! 2 \<noteq> getTid ! 2 \<or>
                rsp ! 3 \<noteq> getTid ! 3 \<or> rsp ! 4 \<noteq> 0x00)) E_FRAMING)))"

section \<open>The program\<close>

text \<open>What \<^verbatim>\<open>getopt_long\<close> returns, one option with its argument after the other, is the program's input.\<close>

datatype demo_mode = MODE_SESSION | MODE_MEAS | MODE_CHALLENGE | MODE_HEARTBEAT | MODE_KEY_UPDATE | MODE_APP_DATA

record demo_opts =
  optMode :: "demo_mode option"
  optWithSig :: bool
  optDebug :: bool
  optMaxVer :: byte
  optKexEcdheOnly :: bool
  optKexKemOnly :: word16

definition parse_version :: "string \<Rightarrow> byte" where
  "parse_version s = (if s = ''1.2'' then SPDM_VERSION_12 else if s = ''1.3'' then SPDM_VERSION_13
     else if s = ''1.4'' then SPDM_VERSION_14 else 0)"

definition demoOption :: "char \<Rightarrow> string \<Rightarrow> demo_opts \<Rightarrow> int + demo_opts" where
  "demoOption opt arg o' =
     (if opt = CHR ''e'' then Inr (o'\<lparr>optMode := Some MODE_SESSION\<rparr>)
      else if opt = CHR ''m'' then Inr (o'\<lparr>optMode := Some MODE_MEAS\<rparr>)
      else if opt = CHR ''n'' then Inr (o'\<lparr>optWithSig := False\<rparr>)
      else if opt = CHR ''c'' then Inr (o'\<lparr>optMode := Some MODE_CHALLENGE\<rparr>)
      else if opt = CHR ''b'' then Inr (o'\<lparr>optMode := Some MODE_HEARTBEAT\<rparr>)
      else if opt = CHR ''k'' then Inr (o'\<lparr>optMode := Some MODE_KEY_UPDATE\<rparr>)
      else if opt = CHR ''a'' then Inr (o'\<lparr>optMode := Some MODE_APP_DATA\<rparr>)
      else if opt = CHR ''d'' then Inr (o'\<lparr>optDebug := True\<rparr>)
      else if opt = CHR ''v'' then
        (if parse_version arg = 0 then Inl 1 else Inr (o'\<lparr>optMaxVer := parse_version arg\<rparr>))
      else if opt = CHR ''K'' then
        (if arg = ''ecdhe'' then Inr (o'\<lparr>optKexEcdheOnly := True\<rparr>)
         else if arg = ''mlkem512'' then Inr (o'\<lparr>optKexKemOnly := 0x0001\<rparr>)
         else if arg = ''mlkem768'' then Inr (o'\<lparr>optKexKemOnly := 0x0002\<rparr>)
         else if arg = ''mlkem1024'' then Inr (o'\<lparr>optKexKemOnly := 0x0004\<rparr>)
         else Inl 1)
      else if opt = CHR ''h'' then Inl 0
      else Inl 1)"

definition demoDefaults :: demo_opts where
  "demoDefaults = \<lparr>optMode = None, optWithSig = True, optDebug = False, optMaxVer = 0, optKexEcdheOnly = False, optKexKemOnly = 0\<rparr>"

fun demoOptions :: "(char \<times> string) list \<Rightarrow> demo_opts \<Rightarrow> int + demo_opts" where
  "demoOptions [] o' = Inr o'"
| "demoOptions ((opt, arg) # rest) o' = (case demoOption opt arg o' of Inl rc \<Rightarrow> Inl rc | Inr o'' \<Rightarrow> demoOptions rest o'')"

definition demoScenario :: "wc_env \<Rightarrow> 'n sock_os \<Rightarrow> demo_mode \<Rightarrow> bool \<Rightarrow> ('w, unit) cop" where
  "demoScenario K os m withSig =
     (case m of
        MODE_SESSION \<Rightarrow> do_session K
      | MODE_MEAS \<Rightarrow> do_meas K withSig
      | MODE_CHALLENGE \<Rightarrow> do_challenge K os
      | MODE_HEARTBEAT \<Rightarrow> do_heartbeat K
      | MODE_KEY_UPDATE \<Rightarrow> do_key_update K
      | MODE_APP_DATA \<Rightarrow> do_app_data K)"

text \<open>From the version limit to the label \<^verbatim>\<open>done\<close>; the result of the disconnect is not looked at.\<close>

definition demoRun :: "wc_env \<Rightarrow> 'n sock_os \<Rightarrow> demo_mode \<Rightarrow> demo_opts \<Rightarrow> ('w, unit) cop" where
  "demoRun K os m o' =
     thenE (if optMaxVer o' \<noteq> 0 then wolfSPDM_SetMaxVersion (optMaxVer o') else retE ())
     (thenE (if optKexEcdheOnly o' \<or> optKexKemOnly o' \<noteq> 0
             then wolfSPDM_SetKeyExchangePref (optKexEcdheOnly o') (optKexKemOnly o') else retE ())
     (thenE (demoScenario K os m (optWithSig o'))
     (modE (\<lambda>c. if wolfSPDM_IsConnected c then snd (wolfSPDM_Disconnect K c) else c))))"

text \<open>
  The context is created in \<^verbatim>\<open>g_ctxBuf\<close> and points to the global \<^verbatim>\<open>g_tcpCtx\<close>: its \<open>ioUserCtx\<close> is the
  value of that global, which is read back before the context is freed.
\<close>

abbreviation (input) CTX_BUF_SIZE :: int where "CTX_BUF_SIZE \<equiv> 73728"

definition demo_main :: "wc_env \<Rightarrow> 'n sock_os \<Rightarrow> int \<Rightarrow> (char \<times> string) list \<Rightarrow> 'n TCP_CTX \<Rightarrow> int \<times> 'n TCP_CTX" where
  "demo_main K os sizeofCtx opts g =
     (case demoOptions opts demoDefaults of
        Inl rc \<Rightarrow> (rc, g)
      | Inr o' \<Rightarrow> (case optMode o' of
          None \<Rightarrow> (1, g)
        | Some m \<Rightarrow>
            if sizeofCtx > CTX_BUF_SIZE then (1, g)
            else case tcp_connect os ''127.0.0.1'' 2323 g of (rc, g1) \<Rightarrow>
              if rc < 0 then (1, g1)
              else case wolfSPDM_InitStatic K g1 sizeofCtx CTX_BUF_SIZE (zero_ctx g1) of
                (Inl _, _) \<Rightarrow> (1, tcp_disconnect os g1)
              | (Inr _, c) \<Rightarrow>
                  let c1 = snd (wolfSPDM_SetIO (Some (tcpIo os)) g1 c);
                      c2 = (if optDebug o' then wolfSPDM_SetDebug True c1 else c1);
                      c3 = snd (wolfSPDM_AllowUntrustedCerts True c2);
                      (r, d) = demoRun K os m o' c3;
                      g2 = ioUserCtx d;
                      freed = wolfSPDM_Free g2 d
                  in (case r of Inl _ \<Rightarrow> 1 | Inr _ \<Rightarrow> 0, tcp_disconnect os g2)))"

section \<open>The transport over a stream socket\<close>

text \<open>
  What TCP promises on a connected socket: \<^verbatim>\<open>send\<close> takes some of what it is given, \<^verbatim>\<open>recv\<close> gives some
  of what is still to come, in order, and neither is interrupted for ever. \<open>out\<close> is what was sent,
  \<open>inp\<close> what the peer's side of the stream still holds, \<open>stalls\<close> bounds the interruptions.
\<close>

definition tcp_ok :: "'n sock_os \<Rightarrow> int \<Rightarrow> ('n \<Rightarrow> bytes) \<Rightarrow> ('n \<Rightarrow> bytes) \<Rightarrow> ('n \<Rightarrow> nat) \<Rightarrow> bool" where
  "tcp_ok os fd out inp stalls \<longleftrightarrow>
     (\<forall>p w. p \<noteq> [] \<longrightarrow> (case os_send os fd p w of (r, w') \<Rightarrow> inp w' = inp w \<and>
        (case r of Done k \<Rightarrow> 0 < k \<and> k \<le> length p \<and> out w' = out w @ take k p
         | EINTR \<Rightarrow> out w' = out w \<and> stalls w' < stalls w | SysErr \<Rightarrow> False))) \<and>
     (\<forall>n w. 0 < n \<and> inp w \<noteq> [] \<longrightarrow> (case os_recv os fd n w of (r, w') \<Rightarrow> out w' = out w \<and>
        (case r of Done xs \<Rightarrow> xs \<noteq> [] \<and> length xs \<le> n \<and> inp w = xs @ inp w'
         | EINTR \<Rightarrow> inp w' = inp w \<and> stalls w' < stalls w | SysErr \<Rightarrow> False)))"

lemma send_all_sends:
  assumes ok: "tcp_ok os fd out inp stalls"
  shows "\<exists>w'. send_all os fd p w = Some (0, w') \<and> out w' = out w @ p \<and> inp w' = inp w"
proof (induction "(p, w)" arbitrary: p w rule: wf_induct_rule [OF wf_measures [of "[\<lambda>(p, w). length p, \<lambda>(p, w). stalls w]"]])
  case (1 p w)
  show ?case
  proof (cases "p = []")
    case False
    obtain r v where s: "os_send os fd p w = (r, v)" by (cases "os_send os fd p w")
    have k: "inp v = inp w" "case r of Done k \<Rightarrow> 0 < k \<and> k \<le> length p \<and> out v = out w @ take k p
         | EINTR \<Rightarrow> out v = out w \<and> stalls v < stalls w | SysErr \<Rightarrow> False"
      using ok False s unfolding tcp_ok_def by (auto dest!: spec [of _ p] spec [of _ w])
    show ?thesis
    proof (cases r)
      case (Done n)
      with 1 [of "drop n p" v] k False obtain w' where
        "send_all os fd (drop n p) v = Some (0, w')" "out w' = out v @ drop n p" "inp w' = inp v" by auto
      with Done k s False show ?thesis by (subst send_all.simps) simp
    next
      case EINTR
      with 1 [of p v] k obtain w' where "send_all os fd p v = Some (0, w')" "out w' = out v @ p" "inp w' = inp v" by auto
      with EINTR k s False show ?thesis by (subst send_all.simps) simp
    qed (use k in simp)
  qed (subst send_all.simps, simp)
qed

lemma recv_all_receives:
  assumes ok: "tcp_ok os fd out inp stalls" and i: "inp w = xs @ rest"
  shows "\<exists>w'. recv_all os fd got (length xs) w = Some (Some (got @ xs), w') \<and> out w' = out w \<and> inp w' = rest"
  using i
proof (induction "(xs, w)" arbitrary: xs w got rule: wf_induct_rule [OF wf_measures [of "[\<lambda>(p, w). length p, \<lambda>(p, w). stalls w]"]])
  case (1 xs w got)
  show ?case
  proof (cases "xs = []")
    case False
    obtain r v where s: "os_recv os fd (length xs) w = (r, v)" by (cases "os_recv os fd (length xs) w")
    have k: "out v = out w" "case r of Done ys \<Rightarrow> ys \<noteq> [] \<and> length ys \<le> length xs \<and> inp w = ys @ inp v
         | EINTR \<Rightarrow> inp v = inp w \<and> stalls v < stalls w | SysErr \<Rightarrow> False"
      using ok False s 1(2) unfolding tcp_ok_def by (auto dest!: spec [of _ "length xs"] spec [of _ w])
    show ?thesis
    proof (cases r)
      case (Done ys)
      then have "xs = ys @ drop (length ys) xs" "inp v = drop (length ys) xs @ rest"
        using k(2) 1(2) by (auto simp: append_eq_append_conv2)
      moreover from this obtain zs where zs: "xs = ys @ zs" "inp v = zs @ rest" by blast
      moreover have "length zs < length xs" using zs(1) Done k(2) by simp
      ultimately obtain w' where "recv_all os fd (got @ ys) (length zs) v = Some (Some ((got @ ys) @ zs), w')" "out w' = out v" "inp w' = rest"
        using 1(1) [of zs v "got @ ys"] by auto
      with Done k s False zs(1) show ?thesis by (subst recv_all.simps) simp
    next
      case EINTR
      with 1(1) [of xs v got] k 1(2) obtain w' where "recv_all os fd got (length xs) v = Some (Some (got @ xs), w')" "out w' = out v" "inp w' = rest"
        by auto
      with EINTR k s False show ?thesis by (subst recv_all.simps) simp
    qed (use k in simp)
  qed (subst recv_all.simps, use 1(2) in simp)
qed

text \<open>Whatever portions the socket takes and gives: one frame out, the next frame in.\<close>

lemma tcp_callback_delivers:
  assumes ok: "tcp_ok os (sockFd w) out inp stalls" and fd: "0 \<le> sockFd w" and tx: "length tx \<le> 4083"
    and i: "inp (net w) = hdr @ [ty] @ rx @ rest" "length hdr = 12" "SPDM_Get32BE hdr 8 = of_nat (1 + length rx)"
    and n: "length rx \<le> room" "1 + length rx < 2 ^ 32"
  shows "\<exists>v. tcp_io_callback os sid (Some tx) (Some room) w = Some ((0, rx), w\<lparr>net := v\<rparr>) \<and>
     out v = out (net w) @ sendBuf sid tx \<and> inp v = rest"
proof -
  obtain v0 where s: "send_all os (sockFd w) (sendBuf sid tx) (net w) = Some (0, v0)" "out v0 = out (net w) @ sendBuf sid tx" "inp v0 = inp (net w)"
    using send_all_sends [OF ok] by blast
  obtain v1 where a: "recv_all os (sockFd w) [] 12 v0 = Some (Some hdr, v1)" "out v1 = out v0" "inp v1 = [ty] @ rx @ rest"
    using recv_all_receives [OF ok, of v0 hdr _ "[]"] s(3) i(1,2) by auto
  obtain v2 where b: "recv_all os (sockFd w) [] 1 v1 = Some (Some [ty], v2)" "out v2 = out v1" "inp v2 = rx @ rest"
    using recv_all_receives [OF ok a(3), of "[]"] by auto
  obtain v3 where d: "recv_all os (sockFd w) [] (length rx) v2 = Some (Some rx, v3)" "out v3 = out v2" "inp v3 = rest"
    using recv_all_receives [OF ok b(3), of "[]"] by auto
  have u: "unat (of_nat k :: word32) = k" if "k < 2 ^ 32" for k using that by (intro unat_of_nat_small) simp
  have "SPDM_Get32BE hdr 8 - 1 = of_nat (length rx)" unfolding i(3) by simp
  moreover have "1 \<le> unat (SPDM_Get32BE hdr 8)" unfolding i(3) u [OF n(2)] by simp
  ultimately have z: "\<not> SPDM_Get32BE hdr 8 < 1" "unat (SPDM_Get32BE hdr 8 - 1) = length rx"
    using u [of "length rx"] n(2) by (simp_all add: word_less_nat_alt)
  show ?thesis
    using fd tx n(1) s a b d z by (intro exI [of _ v3]) (simp del: One_nat_def add: tcp_io_callback_def tcpReceive_def Let_def)
qed

text \<open>An exchange of the library over such a socket.\<close>

lemma exchange_over_tcp:
  fixes c :: "'n TCP_CTX WOLFSPDM_CTX"
  defines "w \<equiv> ioUserCtx c"
  assumes c: "ioCb c = Some (tcpIo os)" "\<not> wolfSPDM_IsTcgMode c"
    and ok: "tcp_ok os (sockFd w) out inp stalls" "0 \<le> sockFd w" "length tx \<le> 4083"
      "inp (net w) = hdr @ [ty] @ rx @ rest" "length hdr = 12" "SPDM_Get32BE hdr 8 = of_nat (1 + length rx)"
      "length rx \<le> cap" "1 + length rx < 2 ^ 32"
  shows "\<exists>v. wolfSPDM_SendReceive tx cap c = (Inr rx, c\<lparr>ioUserCtx := w\<lparr>net := v\<rparr>\<rparr>) \<and>
     out v = out (net w) @ sendBuf (wolfSPDM_GetSessionId c) tx \<and> inp v = rest"
proof -
  obtain v where "tcp_io_callback os (wolfSPDM_GetSessionId c) (Some tx) (Some cap) w = Some ((0, rx), w\<lparr>net := v\<rparr>)"
      "out v = out (net w) @ sendBuf (wolfSPDM_GetSessionId c) tx" "inp v = rest"
    using tcp_callback_delivers [OF ok] by blast
  then show ?thesis
    using c ok(7) by (intro exI [of _ v]) (simp add: wolfSPDM_SendReceive_def callIo_def tcpIo_def w_def opE_defs)
qed

text \<open>
  The message type: a session id does not start like a version, so that the first bytes of a
  message tell a record of the session from a clear message.
\<close>

lemma session_id_first_byte:
  assumes "ctxWf c" "wolfSPDM_GetSessionId c \<noteq> 0"
  shows "\<not> (0x10 \<le> (ucast (wolfSPDM_GetSessionId c) :: byte) \<and> (ucast (wolfSPDM_GetSessionId c) :: byte) \<le> 0x1F)"
proof -
  let ?s = "sessionId c"
  have e: "(ucast ?s AND 0xFF :: word16) = ucast (ucast ?s :: byte)"
    by (rule bit_word_eqI) (auto simp: bit_simps bit_255)
  have "sidOk (ucast ?s)" "wolfSPDM_GetSessionId c = ?s"
    using assms by (auto simp: ctx_defs wolfSPDM_GetSessionId_def split: if_splits)
  moreover have "unat (ucast b :: word16) = unat b" for b :: byte
    using unsigned_less [of b, where ?'a = nat] by (simp add: unsigned_ucast_eq take_bit_nat_eq_self)
  ultimately show ?thesis unfolding sidOk_def e by (simp add: word_le_nat_alt)
qed

lemma clear_not_secured:
  assumes "ctxWf c" "buf \<noteq> []" "0x10 \<le> buf ! 0" "buf ! 0 \<le> 0x1F"
  shows "\<not> is_secured_spdm (wolfSPDM_GetSessionId c) buf"
proof
  assume a: "is_secured_spdm (wolfSPDM_GetSessionId c) buf"
  have "(ucast (SPDM_Get32LE buf 0) :: byte) = buf ! 0"
    unfolding SPDM_Get32LE_def by (rule bit_word_eqI) (auto simp: bit_simps)
  with a session_id_first_byte [OF assms(1)] assms(3,4) show False by (auto simp: is_secured_spdm_def split: if_splits)
qed

lemma record_secured:
  assumes "wolfSPDM_EncryptRecord K appMsg plain cap c = (Inr enc, d)" "\<not> wolfSPDM_IsTcgMode c" "wolfSPDM_GetSessionId d \<noteq> 0"
  shows "is_secured_spdm (wolfSPDM_GetSessionId d) enc"
proof -
  obtain n pt where "sealRecord K (mctpRecordHdr (sessionId c) (reqSeqNum c) n) pt c = (Inr enc, d)"
    using assms(1,2) by (auto simp: wolfSPDM_EncryptRecord_def opE_defs Let_def split: if_splits)
  then obtain ct tag where "enc = mctpRecordHdr (sessionId c) (reqSeqNum c) n @ ct @ tag" "d = c\<lparr>reqSeqNum := reqSeqNum c + 1\<rparr>"
    by (rule sealRecord_spec)
  with assms(3) show ?thesis
    by (simp add: is_secured_spdm_def wolfSPDM_GetSessionId_def mctpRecordHdr_fields split: if_splits)
qed

section \<open>What the exit status says\<close>

text \<open>The root is read from one of six files below the resolved directory.\<close>

definition rootFrom :: "'n sock_os \<Rightarrow> bytes \<Rightarrow> bool" where
  "rootFrom os root \<longleftrightarrow> root \<noteq> [] \<and> (\<exists>real dir der n. sanitize_emu_path os (os_getenv os ''SPDM_EMU_PATH'') PATH_MAX = Some real \<and>
     dir \<in> set allowedCertDirs \<and> load_der os (real @ ''/'' @ dir @ ''/ca.cert.der'') = Some (der, n) \<and> root = take (unat n) der)"

lemma load_trusted_ca_root:
  assumes "load_trusted_ca os c = (0, d)"
  shows "rootFrom os (trustedCA d)"
proof -
  define certDir where "certDir = (case os_getenv os ''SPDM_EMU_CERT_DIR'' of None \<Rightarrow> ''ecp384'' | Some d \<Rightarrow> if d = [] then ''ecp384'' else d)"
  obtain real dir der n where r: "sanitize_emu_path os (os_getenv os ''SPDM_EMU_PATH'') PATH_MAX = Some real" "find (\<lambda>d. certDir = d) allowedCertDirs = Some dir"
      "load_der os (real @ ''/'' @ dir @ ''/ca.cert.der'') = Some (der, n)" "wolfSPDM_SetTrustedCAs (take (unat n) der) c = (Inr (), d)"
    using assms unfolding load_trusted_ca_def certDir_def [symmetric] Let_def
    by (auto split: option.splits if_splits sum.splits prod.splits)
  from r(2) have "dir \<in> set allowedCertDirs" by (auto simp: find_Some_iff)
  moreover from r(4) have "trustedCA d = take (unat n) der" "take (unat n) der \<noteq> []"
    by (auto simp: wolfSPDM_SetTrustedCAs_def opE_defs split: if_splits)
  ultimately show ?thesis using r(1,3) unfolding rootFrom_def by metis
qed

text \<open>
  What a scenario that ended in \<open>d\<close> has shown from the context \<open>c\<close> it was started in. A challenge:
  the root was read after the retrieval, and the device holds the key of a chain below it, although
  the program also allows chains without a root. Any other scenario: a session authenticated for
  the configuration of \<open>c\<close>, and in that session the signed report, the updated keys or the answer
  that was asked for.
\<close>

definition demoRetrieve :: "wc_env \<Rightarrow> ('w, unit) cop" where
  "demoRetrieve K = thenE (wolfSPDM_GetVersion K) (thenE (wolfSPDM_GetCapabilities K) (thenE (wolfSPDM_NegotiateAlgorithms K)
     (thenE (wolfSPDM_GetDigests K) (wolfSPDM_GetCertificate K 0))))"

definition challengeShown :: "wc_env \<Rightarrow> 'n sock_os \<Rightarrow> 'w WOLFSPDM_CTX \<Rightarrow> 'w WOLFSPDM_CTX \<Rightarrow> bool" where
  "challengeShown K os c d \<longleftrightarrow> (\<exists>e0 e. demoRetrieve K c = (Inr (), e0) \<and> load_trusted_ca os e0 = (0, e) \<and>
     rootFrom os (trustedCA e) \<and> wolfSPDM_Challenge K 0 0xFF e = (Inr (), d) \<and>
     chainTrusted K e (snd (wolfSPDM_ValidateCertChain K e)) \<and> challengeSigned K e 0)"

definition demoShown :: "wc_env \<Rightarrow> 'n sock_os \<Rightarrow> demo_mode \<Rightarrow> bool \<Rightarrow> 'w WOLFSPDM_CTX \<Rightarrow> 'w WOLFSPDM_CTX \<Rightarrow> bool" where
  "demoShown K os m withSig c d \<longleftrightarrow>
     (if m = MODE_CHALLENGE then challengeShown K os c d
      else \<exists>s. wolfSPDM_Connect K c = (Inr (), s) \<and> authenticated K c s \<and>
        (case m of
           MODE_MEAS \<Rightarrow> wolfSPDM_GetMeasurements K 0xFF withSig s = (Inr (), d) \<and>
             length (measRecord d) \<le> WOLFSPDM_MAX_MEAS_RECORD \<and> measRecordWf (measRecord d) (unat (measBlockCount d)) \<and>
             (if withSig then signedReport K (s\<lparr>measBlockCount := 0, measRecord := []\<rparr>) d else True)
         | MODE_HEARTBEAT \<Rightarrow> wolfSPDM_Heartbeat K s = (Inr (), d)
         | MODE_KEY_UPDATE \<Rightarrow> wolfSPDM_KeyUpdate K True s = (Inr (), d) \<and> keysUpdated K True s d
         | MODE_APP_DATA \<Rightarrow> \<exists>t tid. wolfSPDM_SendData K getTid s = (Inr (), t) \<and>
             wolfSPDM_ReceiveData K 64 t = (Inr [0x01, 0x00, 0x00, 0x02, 0x00, tid], d)
         | _ \<Rightarrow> d = s))"

lemma load_trusted_ca_guard:
  "(\<lambda>c. case load_trusted_ca os c of (rc, d) \<Rightarrow> guardE (rc = 0) E_INVALID_ARG d) c = (Inr (), e) \<longleftrightarrow>
     load_trusted_ca os c = (0, e)"
  by (auto simp: opE_defs split: prod.splits)

lemma do_challenge_shows:
  fixes c :: "'w WOLFSPDM_CTX"
  assumes "do_challenge K os c = (Inr (), d)"
  shows "challengeShown K os c d"
proof -
  have "do_challenge K os = thenE (demoRetrieve K :: ('w, unit) cop)
      (thenE (\<lambda>c. case load_trusted_ca os c of (rc, d) \<Rightarrow> guardE (rc = 0) E_INVALID_ARG d) (wolfSPDM_Challenge K 0 0xFF))"
    by (simp add: do_challenge_def demoRetrieve_def bindE_assoc)
  with assms obtain e0 e where e: "demoRetrieve K c = (Inr (), e0)" "load_trusted_ca os e0 = (0, e)" "wolfSPDM_Challenge K 0 0xFF e = (Inr (), d)"
    by (auto simp: succ_bind load_trusted_ca_guard)
  from e(3) obtain e' where "wolfSPDM_ValidateCertChain K e = (Inr (), e')"
    by (auto simp: wolfSPDM_Challenge_def succ_simps)
  then have "chainTrusted K e (snd (wolfSPDM_ValidateCertChain K e))" using ValidateCertChain_trusted(1) by simp
  with e load_trusted_ca_root [OF e(2)] Challenge_signed [OF e(3)] show ?thesis unfolding challengeShown_def by blast
qed

lemma six_bytes:
  assumes "length rsp = 6"
  shows "rsp = [rsp ! 0, rsp ! 1, rsp ! 2, rsp ! 3, rsp ! 4, rsp ! 5]"
  using assms by (auto simp: nth_equalityI less_Suc_eq eval_nat_numeral intro!: nth_equalityI)

lemma do_app_data_answer:
  assumes "do_app_data K c = (Inr (), d)"
  shows "\<exists>s t tid. wolfSPDM_Connect K c = (Inr (), s) \<and> wolfSPDM_SendData K getTid s = (Inr (), t) \<and>
     wolfSPDM_ReceiveData K 64 t = (Inr [0x01, 0x00, 0x00, 0x02, 0x00, tid], d)"
proof -
  from assms obtain s t rsp where "wolfSPDM_Connect K c = (Inr (), s)" "wolfSPDM_SendData K getTid s = (Inr (), t)"
    "wolfSPDM_ReceiveData K 64 t = (Inr rsp, d)" "length rsp = 6" "rsp ! 0 = 1" "rsp ! 1 = 0" "rsp ! 2 = 0" "rsp ! 3 = 2" "rsp ! 4 = 0"
    by (auto simp: do_app_data_def do_session_def succ_simps getTid_def)
  with six_bytes [of rsp] show ?thesis by auto
qed

lemma do_meas_report:
  assumes "wolfSPDM_GetMeasurements K 0xFF withSig s = (Inr (), d)"
  shows "length (measRecord d) \<le> WOLFSPDM_MAX_MEAS_RECORD \<and> measRecordWf (measRecord d) (unat (measBlockCount d))"
    "withSig \<Longrightarrow> signedReport K (s\<lparr>measBlockCount := 0, measRecord := []\<rparr>) d"
proof -
  show "length (measRecord d) \<le> WOLFSPDM_MAX_MEAS_RECORD \<and> measRecordWf (measRecord d) (unat (measBlockCount d))"
    using wpE_Inr [OF GetMeasurements_report assms] by simp
  show "signedReport K (s\<lparr>measBlockCount := 0, measRecord := []\<rparr>) d" if withSig
    using assms that by (intro fetchMeasurements_signed [of K "0xFF" _ "()"]) (auto simp: wolfSPDM_GetMeasurements_def succ_simps)
qed

lemma demoScenario_shows:
  fixes c :: "'w WOLFSPDM_CTX"
  assumes "demoScenario K os m withSig c = (Inr (), d)"
  shows "demoShown K os m withSig c d"
proof -
  have auth: "authenticated K c s" if "wolfSPDM_Connect K c = (Inr (), s)" for s
    using Connect_outcome [of K c] that by (auto simp: wpE_iff)
  show ?thesis
  proof (cases m)
    case MODE_CHALLENGE
    then show ?thesis using assms do_challenge_shows [of K os c d] by (simp add: demoScenario_def demoShown_def)
  next
    case MODE_APP_DATA
    then show ?thesis using assms do_app_data_answer [of K c d] auth by (auto simp: demoScenario_def demoShown_def)
  next
    case MODE_MEAS
    then show ?thesis using assms do_meas_report [of K withSig _ d] auth
      by (auto simp: demoScenario_def demoShown_def do_meas_def do_session_def succ_simps)
  qed (use assms auth succ_KeyUpdate in \<open>auto simp: demoScenario_def demoShown_def do_session_def do_heartbeat_def do_key_update_def succ_simps\<close>)
qed

text \<open>The context the scenario is started in: created, given the transport and the options.\<close>

definition demoCtx :: "wc_env \<Rightarrow> 'n sock_os \<Rightarrow> int \<Rightarrow> demo_opts \<Rightarrow> 'n TCP_CTX \<Rightarrow> 'n TCP_CTX WOLFSPDM_CTX" where
  "demoCtx K os sizeofCtx o' g1 =
     (let c = snd (wolfSPDM_InitStatic K g1 sizeofCtx CTX_BUF_SIZE (zero_ctx g1));
          c1 = snd (wolfSPDM_SetIO (Some (tcpIo os)) g1 c);
          c2 = (if optDebug o' then wolfSPDM_SetDebug True c1 else c1)
      in snd (wolfSPDM_AllowUntrustedCerts True c2))"

definition demoLimits :: "demo_opts \<Rightarrow> ('w, unit) cop" where
  "demoLimits o' =
     thenE (if optMaxVer o' \<noteq> 0 then wolfSPDM_SetMaxVersion (optMaxVer o') else retE ())
     (if optKexEcdheOnly o' \<or> optKexKemOnly o' \<noteq> 0
      then wolfSPDM_SetKeyExchangePref (optKexEcdheOnly o') (optKexKemOnly o') else retE ())"

definition demoEnd :: "wc_env \<Rightarrow> 'w WOLFSPDM_CTX \<Rightarrow> 'w WOLFSPDM_CTX" where
  "demoEnd K c = (if wolfSPDM_IsConnected c then snd (wolfSPDM_Disconnect K c) else c)"

lemma demoRun_parts: "demoRun K os m o' = thenE (demoLimits o') (thenE (demoScenario K os m (optWithSig o')) (modE (demoEnd K)))"
  by (simp add: demoRun_def demoLimits_def bindE_assoc demoEnd_def [abs_def])

lemma demo_main_eq:
  "demo_main K os sz opts g =
     (case demoOptions opts demoDefaults of
        Inl rc \<Rightarrow> (rc, g)
      | Inr o' \<Rightarrow> (case optMode o' of
          None \<Rightarrow> (1, g)
        | Some m \<Rightarrow>
            if sz > CTX_BUF_SIZE then (1, g)
            else case tcp_connect os ''127.0.0.1'' 2323 g of (rc, g1) \<Rightarrow>
              if rc < 0 then (1, g1)
              else case fst (wolfSPDM_InitStatic K g1 sz CTX_BUF_SIZE (zero_ctx g1)) of
                Inl _ \<Rightarrow> (1, tcp_disconnect os g1)
              | Inr _ \<Rightarrow> (case demoRun K os m o' (demoCtx K os sz o' g1) of (r, d) \<Rightarrow>
                  (case r of Inl _ \<Rightarrow> 1 | Inr _ \<Rightarrow> 0, tcp_disconnect os (ioUserCtx d)))))"
  unfolding demo_main_def demoCtx_def Let_def
  by (simp only: fst_conv snd_conv split: sum.split option.split prod.split) auto

text \<open>The ways the program ends.\<close>

lemma demo_main_ends:
  assumes "demo_main K os sz opts g = (rc, g')"
  obtains "g' = g"
    | rc' where "tcp_connect os ''127.0.0.1'' 2323 g = (rc', g')" "rc' < 0"
    | rc' g1 where "tcp_connect os ''127.0.0.1'' 2323 g = (rc', g1)" "\<not> rc' < 0" "g' = tcp_disconnect os g1"
    | rc' g1 m o' r d where "tcp_connect os ''127.0.0.1'' 2323 g = (rc', g1)" "\<not> rc' < 0"
        "demoRun K os m o' (demoCtx K os sz o' g1) = (r, d)" "g' = tcp_disconnect os (ioUserCtx d)"
  using assms
  by (auto simp: demo_main_eq split: option.splits if_splits sum.splits prod.splits)

text \<open>
  The status is 0 only after a call for help or this run: the socket was connected, the options were
  accepted, the scenario succeeded from the configured context, the session was ended and the socket
  of that run closed.
\<close>

definition demoSucceeded :: "wc_env \<Rightarrow> 'n sock_os \<Rightarrow> int \<Rightarrow> demo_opts \<Rightarrow> 'n TCP_CTX \<Rightarrow> 'n TCP_CTX \<Rightarrow> bool" where
  "demoSucceeded K os sizeofCtx o' g g' \<longleftrightarrow> (\<exists>m g1 c d. optMode o' = Some m \<and>
     tcp_connect os ''127.0.0.1'' 2323 g = (0, g1) \<and> demoLimits o' (demoCtx K os sizeofCtx o' g1) = (Inr (), c) \<and>
     demoScenario K os m (optWithSig o') c = (Inr (), d) \<and> demoShown K os m (optWithSig o') c d \<and>
     g' = tcp_disconnect os (ioUserCtx (demoEnd K d)))"

lemma tcp_connect_status: "tcp_connect os h p g = (rc, g1) \<Longrightarrow> \<not> rc < 0 \<Longrightarrow> rc = 0"
  by (auto simp: tcp_connect_def Let_def split: prod.splits if_splits)

lemma demo_main_status:
  assumes "demo_main K os sz opts g = (0, g')" "demoOptions opts demoDefaults = Inr o'"
  shows "demoSucceeded K os sz o' g g'"
proof -
  obtain m rc g1 d where m: "optMode o' = Some m" "tcp_connect os ''127.0.0.1'' 2323 g = (rc, g1)" "\<not> rc < 0"
      "demoRun K os m o' (demoCtx K os sz o' g1) = (Inr (), d)" "g' = tcp_disconnect os (ioUserCtx d)"
    using assms by (auto simp: demo_main_eq split: option.splits if_splits sum.splits prod.splits)
  from m(4) obtain c d' where "demoLimits o' (demoCtx K os sz o' g1) = (Inr (), c)" "demoScenario K os m (optWithSig o') c = (Inr (), d')" "d = demoEnd K d'"
    by (auto simp: demoRun_parts succ_simps)
  with m tcp_connect_status [OF m(2,3)] demoScenario_shows show ?thesis unfolding demoSucceeded_def by blast
qed

section \<open>The socket is closed\<close>

text \<open>
  What POSIX promises of descriptors, with \<open>fds\<close> the open ones: a new socket has a fresh descriptor,
  \<^verbatim>\<open>close\<close> removes one, and the other calls leave the set alone.
\<close>

definition fd_ok :: "'n sock_os \<Rightarrow> ('n \<Rightarrow> int set) \<Rightarrow> bool" where
  "fd_ok os fds \<longleftrightarrow>
     (\<forall>n. case os_socket os n of (fd, n') \<Rightarrow>
        if fd < 0 then fds n' = fds n else fd \<notin> fds n \<and> fds n' = insert fd (fds n)) \<and>
     (\<forall>fd n. fds (os_setsockopt os fd n) = fds n) \<and>
     (\<forall>fd host port n. fds (snd (os_connect os fd host port n)) = fds n) \<and>
     (\<forall>fd n. fds (os_close os fd n) = fds n - {fd}) \<and>
     (\<forall>fd p n. fds (snd (os_send os fd p n)) = fds n) \<and>
     (\<forall>fd k n. fds (snd (os_recv os fd k n)) = fds n)"

lemma fd_okD:
  assumes "fd_ok os fds"
  shows "os_socket os n = (fd, n') \<Longrightarrow> fd < 0 \<Longrightarrow> fds n' = fds n"
    "os_socket os n = (fd, n') \<Longrightarrow> \<not> fd < 0 \<Longrightarrow> fd \<notin> fds n \<and> fds n' = insert fd (fds n)"
    "fds (os_setsockopt os fd n) = fds n" "os_connect os fd host port n = (ok, n') \<Longrightarrow> fds n' = fds n"
    "fds (os_close os fd n) = fds n - {fd}" "os_send os fd p n = (r, n') \<Longrightarrow> fds n' = fds n"
    "os_recv os fd k n = (r', n') \<Longrightarrow> fds n' = fds n"
  using assms unfolding fd_ok_def by (auto split: prod.splits; metis snd_conv)+

lemma send_all_fds:
  assumes "send_all os fd p w = Some x"
  shows "fd_ok os fds \<longrightarrow> fds (snd x) = fds w"
proof (rule send_all.raw_induct [where P = "\<lambda>os _ _ w x. fd_ok os fds \<longrightarrow> fds (snd x) = fds w", OF _ assms], goal_cases)
  case (1 send_all os fd p w x)
  then show ?case by (auto split: if_splits prod.splits sys.splits dest: fd_okD(6))
qed

lemma recv_all_fds:
  assumes "recv_all os fd got left w = Some x"
  shows "fd_ok os fds \<longrightarrow> fds (snd x) = fds w"
proof (rule recv_all.raw_induct [where P = "\<lambda>os _ _ _ w x. fd_ok os fds \<longrightarrow> fds (snd x) = fds w", OF _ assms], goal_cases)
  case (1 recv_all os fd got left w x)
  then show ?case by (auto split: if_splits prod.splits sys.splits dest: fd_okD(7))
qed

abbreviation (input) sockHeld :: "('n \<Rightarrow> int set) \<Rightarrow> int \<Rightarrow> int set \<Rightarrow> 'n TCP_CTX \<Rightarrow> bool" where
  "sockHeld fds fd S w \<equiv> sockFd w = fd \<and> fds (net w) = S"

lemma tcpIo_keeps:
  assumes "fd_ok os fds"
  shows "ioKeeps (tcpIo os) (sockHeld fds fd S)"
proof -
  have s: "fds n = fds w" if "send_all os f p w = Some (r, n)" for f p w r n
    using send_all_fds [OF that, of fds] assms by simp
  have r: "fds n = fds w" if "recv_all os f got left w = Some (x, n)" for f got left w x n
    using recv_all_fds [OF that, of fds] assms by simp
  have rx: "sockFd w' = sockFd w \<and> fds (net w') = fds (net w)" if "tcpReceive os rxSz w = Some (x, w')" for rxSz w x w'
    using that by (auto simp: tcpReceive_def Let_def split: option.splits prod.splits if_splits) (metis r)+
  have "sockFd w' = sockFd w \<and> fds (net w') = fds (net w)" if "tcp_io_callback os sid tx room w = Some (x, w')" for sid tx room w x w'
    using that unfolding tcp_io_callback_def by (auto split: option.splits prod.splits if_splits) (use s rx in fastforce)+
  then show ?thesis
    by (auto simp: ioKeeps_def tcpIo_def split: option.split)
qed

lemma load_trusted_ca_io: "load_trusted_ca os c = (rc, d) \<Longrightarrow> ioView d = ioView c"
  by (auto simp: load_trusted_ca_def wolfSPDM_SetTrustedCAs_def opE_defs Let_def split: option.splits if_splits)

lemma world_demoRun:
  fixes io :: "'w WOLFSPDM_IO_CB"
  assumes "ioKeeps io P"
  shows "holdsE (worldInv io P) (demoRun K os m o')"
proof -
  have l: "holdsE (worldInv io P) (demoLimits o')"
    unfolding demoLimits_def wolfSPDM_SetMaxVersion_def wolfSPDM_SetKeyExchangePref_def by (intro world_keeps keeps_intros; simp)
  have ca: "holdsE (worldInv io P) (\<lambda>c. case load_trusted_ca os c of (rc, d) \<Rightarrow> guardE (rc = 0) E_INVALID_ARG d)"
    unfolding holdsE_def by (auto simp: worldInv_def opE_defs dest!: load_trusted_ca_io split: prod.split)
  have e: "worldInv io P (demoEnd K c)" if "worldInv io P c" for c
    using that world_life(3) [OF assms, of K] by (auto simp: demoEnd_def holdsE_def)
  have s: "holdsE (worldInv io P) (demoScenario K os m withSig)" for withSig
    unfolding demoScenario_def do_session_def do_meas_def do_challenge_def do_heartbeat_def do_key_update_def do_app_data_def
    by (cases m; simp only: demo_mode.case; intro holds_intros ca world_steps [OF assms] world_life [OF assms])
  show ?thesis unfolding demoRun_parts by (intro holds_intros l s e)
qed

lemma demo_main_closes:
  assumes ok: "fd_ok os fds" and g: "sockFd g < 0"
  and r: "demo_main K os sz opts g = (rc, g')"
  shows "sockFd g' < 0 \<and> fds (net g') = fds (net g)"
proof -
  have c: "if rc < 0 then sockFd g1 < 0 \<and> fds (net g1) = fds (net g)
      else 0 \<le> sockFd g1 \<and> sockFd g1 \<notin> fds (net g) \<and> fds (net g1) = insert (sockFd g1) (fds (net g))"
    if "tcp_connect os h p g = (rc, g1)" for h p rc g1
  proof -
    obtain fd n where so: "os_socket os (net g) = (fd, n)" by fastforce
    show ?thesis
    proof (cases "fd < 0")
      case True
      with that so have "rc = -1" "g1 = g\<lparr>net := n\<rparr>" by (simp_all add: tcp_connect_def)
      with g fd_okD(1) [OF ok so True] show ?thesis by simp
    next
      case False
      note new = fd_okD(2) [OF ok so False]
      obtain b n2 where co: "os_connect os fd h (of_int p) (os_setsockopt os fd n) = (b, n2)" by fastforce
      have f: "fds n2 = insert fd (fds (net g))" "insert fd (fds (net g)) - {fd} = fds (net g)"
        using new fd_okD(4) [OF ok co] fd_okD(3) [OF ok, of fd n] by auto
      have "fds (os_close os fd (os_setsockopt os fd n)) = fds (net g)" "fds (os_close os fd n2) = fds (net g)"
        using new f fd_okD(3,5) [OF ok] by simp_all
      moreover have "rc = -1 \<and> (g1 = g\<lparr>net := os_close os fd (os_setsockopt os fd n)\<rparr> \<or> g1 = g\<lparr>net := os_close os fd n2\<rparr>) \<or>
          rc = 0 \<and> g1 = g\<lparr>net := n2, sockFd := fd\<rparr>"
        using that so co False by (cases "os_inet_pton os h"; cases b) (simp_all add: tcp_connect_def)
      ultimately show ?thesis using g False new f by (elim disjE conjE) simp_all
    qed
  qed
  have d: "sockFd (tcp_disconnect os w) < 0 \<and> fds (net (tcp_disconnect os w)) = fds (net g)"
    if "0 \<le> sockFd g1" "sockFd g1 \<notin> fds (net g)" "fds (net g1) = insert (sockFd g1) (fds (net g))" "sockHeld fds (sockFd g1) (fds (net g1)) w" for g1 w
    using that by (simp add: tcp_disconnect_def fd_okD(5) [OF ok])
  have run: "sockHeld fds (sockFd g1) (fds (net g1)) (ioUserCtx d)"
    if "demoRun K os m o' (demoCtx K os sz o' g1) = (r, d)" for m o' g1 r d
  proof -
    have "worldInv (tcpIo os) (sockHeld fds (sockFd g1) (fds (net g1))) (demoCtx K os sz o' g1)"
      by (simp add: worldInv_def demoCtx_def wolfSPDM_SetIO_def wolfSPDM_SetDebug_def wolfSPDM_AllowUntrustedCerts_def Let_def opE_defs)
    from holdsE_D [OF world_demoRun [OF tcpIo_keeps [OF ok]] this that] show ?thesis by (simp add: worldInv_def)
  qed
  from r show ?thesis
  proof (cases rule: demo_main_ends)
    case 1
    with g show ?thesis by simp
  next
    case (2 rc')
    with c [OF 2(1)] show ?thesis by simp
  next
    case (3 rc' g1)
    with c [OF 3(1)] d [of g1 g1] show ?thesis by simp
  next
    case (4 rc' g1 m o' r d')
    with c [OF 4(1)] d [OF _ _ _ run [OF 4(3)]] show ?thesis by simp
  qed
qed

end
