(* ===== verification/Spdm_Instance.thy ===== *)
theory Spdm_Instance
  imports Spdm_Provision Spdm_Demo
begin

text \<open>
  A concrete environment: simple total functions in place of wolfCrypt, contexts and peers
  built from them. It shows that the hypotheses the theorems place on wolfCrypt and on a
  peer can hold together, and carries the evaluated examples.
\<close>

section \<open>wolfCrypt by simple functions\<close>

definition fit :: "nat \<Rightarrow> bytes \<Rightarrow> bytes" where
  "fit n xs = take n (xs @ replicate n 0)"

lemma length_fit [simp]: "length (fit n xs) = n"
  by (simp add: fit_def)

definition simpleTag :: bytes where
  "simpleTag = replicate 16 0x77"

definition simpleWc :: wc_env where
  "simpleWc = \<lparr>wc_InitRng = Some [], wc_RNG_GenerateBlock = (\<lambda>r n. (Some (replicate n 0xA5), r)),
     wc_InitSha384 = True, wc_Sha384Update = (\<lambda>_ _. True), wc_Sha384Final = (\<lambda>d. Some (fit 48 d)),
     wc_Hmac = (\<lambda>k d. Some (fit 48 (k @ d))), wc_HKDF_Extract = (\<lambda>s k. Some (fit 48 (k @ s))),
     wc_HKDF_Expand = (\<lambda>k i n. Some (fit n (k @ i))), wc_AesGcmSetKey = (\<lambda>_. True),
     wc_AesGcmEncrypt = (\<lambda>k v p a. Some (p, simpleTag)),
     wc_AesGcmDecrypt = (\<lambda>k v ct t a. if t = simpleTag then Some ct else None),
     wc_ecc_make_key = (\<lambda>r. (Some (replicate 96 1), r)),
     wc_ecc_export_public_raw = (\<lambda>k. Some (take 48 k, drop 48 k)),
     wc_ecc_import_unsigned = (\<lambda>x y d. Some (x @ y)), wc_ecc_check_key = (\<lambda>_. True),
     wc_ecc_shared_secret = (\<lambda>a b r. (Some (fit 48 a), r)),
     wc_ecc_sign_hash = (\<lambda>h k r. (Some (fit 96 h), r)),
     wc_ecc_sig_to_rs = (\<lambda>s. Some (take 48 s, drop 48 s)),
     wc_ecc_rs_raw_to_sig = (\<lambda>x y. Some (x @ y)), wc_ecc_verify_hash = (\<lambda>s h k. Some (take 48 s = h)),
     wc_MlKemKey_Init = (\<lambda>_. False), wc_MlKemKey_MakeKey = (\<lambda>_ r. (None, r)),
     wc_MlKemKey_PublicKeySize = (\<lambda>_. None), wc_MlKemKey_EncodePublicKey = (\<lambda>_. None),
     wc_MlKemKey_CipherTextSize = (\<lambda>_. None), wc_MlKemKey_SharedSecretSize = (\<lambda>_. None),
     wc_MlKemKey_Decapsulate = (\<lambda>_ _. None), wc_MlDsaKey_VerifyCtx = (\<lambda>_ _ _ _ _. None),
     wc_ParseCert = (\<lambda>_. None), wc_EccPublicKeyDecode = Some, wc_ecc_is_P384 = (\<lambda>_. True),
     WOLFSPDM_DATA_TRANSFER_SIZE = 1024\<rparr>"

lemma simpleWc_ok: "wc_gcm_ok simpleWc" "wc_rng_ok simpleWc"
  by (simp_all add: wc_gcm_ok_def wc_rng_ok_def simpleWc_def simpleTag_def)

section \<open>Contexts\<close>

definition connectedCtx :: "WOLFSPDM_MODE \<Rightarrow> unit WOLFSPDM_CTX" where
  "connectedCtx m = (zero_ctx ())\<lparr>state := WOLFSPDM_STATE_CONNECTED, mode := m, spdmVersion := 0x13,
     sessionId := 0x00010001, reqSessionId := 1,
     flags := zero_flags\<lparr>initialized := True, rngInitialized := True\<rparr>\<rparr>"

lemma connectedCtx_mirrored: "mirrored (connectedCtx m) (connectedCtx m)"
  by (simp add: mirrored_def connectedCtx_def zero_ctx_def)

section \<open>Peers\<close>

text \<open>A responder that serves the chunks \<open>cs\<close>, and one that records what it is sent.\<close>

definition chunkServer :: "byte \<Rightarrow> bytes list \<Rightarrow> bytes \<Rightarrow> nat \<Rightarrow> (unit, bytes) cop" where
  "chunkServer h cs req cap d = (Inr (chunkResponse d h cs (unat (wolfSPDM_ChunkGetSeq d req 4))), d)"

definition chunkLog :: "bytes \<Rightarrow> nat \<Rightarrow> (bytes list, bytes) cop" where
  "chunkLog req cap d =
     (Inr ([spdmVersion d, SPDM_CHUNK_SEND_ACK, 0, req ! 3] @ take (wolfSPDM_ChunkSeqSz d) (drop 4 req)),
      d\<lparr>ioUserCtx := ioUserCtx d @ [req]\<rparr>)"

section \<open>A requester and its responder\<close>

lemma simpleWc_works: "wc_works simpleWc"
  unfolding wc_works_def using simpleWc_ok by (simp add: simpleWc_def)

lemma simpleWc_ecc_works: "wc_ecc_works simpleWc"
proof -
  have "eccKey simpleWc k \<longleftrightarrow> k = replicate 96 1" for k by (auto simp: eccKey_def simpleWc_def)
  then show ?thesis by (simp add: wc_ecc_works_def) (simp add: simpleWc_def)
qed

lemma simpleWc_pair: "eccPair simpleWc priv pub"
proof -
  have "take 48 (fit 96 h) = h" "length (take 48 (fit 96 h)) = 48" "length (drop 48 (fit 96 h)) = 48" if "length h = 48" for h
    using that by (simp_all add: fit_def)
  then show ?thesis by (simp add: eccPair_def simpleWc_def wolfSPDM_LeftPadToSize_def)
qed

text \<open>A TPM that echoes its commands and keeps a log of them; a connected pair of contexts.\<close>

definition echoTpm :: "bytes list WOLFSPDM_RESP_TPM_CB" where
  "echoTpm cmd cap log = ((0, cmd), log @ [cmd])"

definition livePair :: "(unit, bytes list) WOLFSPDM_RESP_CTX WOLFSPDM_CTX" where
  "livePair = (zero_ctx ((zero_resp () [])\<lparr>rctx := connectedCtx MODE_NATIONS_PSK, respInitialized := True, usePsk := True,
       tpmCb := Some echoTpm\<rparr>))
     \<lparr>state := WOLFSPDM_STATE_CONNECTED, mode := MODE_NATIONS_PSK, spdmVersion := 0x13, sessionId := 0x00010001, reqSessionId := 1,
       ioCb := Some (respIo simpleWc), flags := zero_flags\<lparr>initialized := True, rngInitialized := True\<rparr>\<rparr>"

lemma livePair_live: "live simpleWc livePair" "tpmCb (ioUserCtx livePair) = Some echoTpm" "tpmCbUserCtx (ioUserCtx livePair) = []"
  by (simp_all add: livePair_def live_def link_defs connectedCtx_def zero_ctx_def zero_resp_def zero_flags_def
      Let_def wolfSPDM_IsTcgMode_def zeros_def word_le_nat_alt)

text \<open>The same pair before the finish, under handshake keys.\<close>

definition keyedPair :: "(unit, bytes list) WOLFSPDM_RESP_CTX WOLFSPDM_CTX" where
  "keyedPair = livePair\<lparr>state := WOLFSPDM_STATE_KEY_EX, sessionId := 0xFFFE0001,
     ioUserCtx := (ioUserCtx livePair)\<lparr>rctx := (connectedCtx MODE_NATIONS_PSK)\<lparr>state := WOLFSPDM_STATE_KEY_EX, sessionId := 0xFFFE0001\<rparr>\<rparr>\<rparr>"

lemma keyedPair_keyed: "keyed simpleWc False keyedPair"
  by (simp add: keyedPair_def livePair_def keyed_def link_defs connectedCtx_def zero_ctx_def zero_resp_def zero_flags_def
      Let_def wolfSPDM_IsTcgMode_def zeros_def word_le_nat_alt)

text \<open>A responder without a key and its requester.\<close>

definition blankPeer :: "(unit, bytes list) WOLFSPDM_RESP_CTX" where
  "blankPeer = snd (blankResponder simpleWc () [] (zero_resp () []))"

definition blankPair :: "(unit, bytes list) WOLFSPDM_RESP_CTX WOLFSPDM_CTX" where
  "blankPair = snd (blankRequester simpleWc (zero_resp () []) (respIo simpleWc) blankPeer (zero_ctx (zero_resp () [])))"

lemma blankPair_made:
  "blankResponder simpleWc () [] (zero_resp () []) = (Inr (), blankPeer)"
  "blankRequester simpleWc (zero_resp () []) (respIo simpleWc) blankPeer (zero_ctx (zero_resp () [])) = (Inr (), blankPair)"
  by (simp_all add: blankPeer_def blankPair_def blankResponder_def blankRequester_def wolfSPDM_RespInit_def wolfSPDM_Init_def
      wolfSPDM_RespSetMode_def wolfSPDM_SetIO_def wolfSPDM_SetMode_def zoomE_def simpleWc_def opE_defs)

section \<open>A slow socket\<close>

text \<open>
  A network that interrupts before every transfer, takes at most 5 bytes and gives at most 3. Its
  state is what was sent, what is still to come, and the interruptions ahead.
\<close>

definition slowOs :: "(bytes \<times> bytes \<times> nat) sock_os" where
  "slowOs = \<lparr>os_socket = (\<lambda>n. (3, n)), os_setsockopt = (\<lambda>_ n. n), os_inet_pton = (\<lambda>_. True), os_connect = (\<lambda>_ _ _ n. (True, n)),
     os_close = (\<lambda>_ n. n),
     os_send = (\<lambda>_ p (sent, inc, k). if k > 0 then (EINTR, (sent, inc, k - 1)) else (Done (min 5 (length p)), (sent @ take 5 p, inc, 1))),
     os_recv = (\<lambda>_ m (sent, inc, k). if k > 0 then (EINTR, (sent, inc, k - 1)) else (Done (take (min 3 m) inc), (sent, drop (min 3 m) inc, 1))),
     os_getenv = (\<lambda>_. None), os_realpath = Some, os_fopen = (\<lambda>_. None), os_malloc = (\<lambda>_. True)\<rparr>"

lemma slowOs_ok: "tcp_ok slowOs fd fst (\<lambda>n. fst (snd n)) (\<lambda>n. snd (snd n))"
  by (auto simp: tcp_ok_def slowOs_def min_def split: prod.splits)

text \<open>A requester on it, and a VERSION response on its way.\<close>

definition versionIn :: bytes where
  "versionIn = [0x10, 0x04, 0x00, 0x00, 0x00, 0x01, 0x00, 0x12]"

definition slowCtx :: "(bytes \<times> bytes \<times> nat) TCP_CTX WOLFSPDM_CTX" where
  "slowCtx = (zero_ctx \<lparr>sockFd = 3, net = ([], [0, 0, 0, 1, 0, 0, 0, 1, 0, 0, 0, 9] @ [0x05] @ versionIn @ [], 1)\<rparr>)
     \<lparr>ioCb := Some (tcpIo slowOs)\<rparr>"

text \<open>
  An operating system that only keeps its descriptors: a new one is above all others, nothing can be
  sent.
\<close>

definition fdOs :: "nat list sock_os" where
  "fdOs = \<lparr>os_socket = (\<lambda>ns. (int (Suc (sum_list ns)), Suc (sum_list ns) # ns)), os_setsockopt = (\<lambda>_ ns. ns), os_inet_pton = (\<lambda>_. True),
     os_connect = (\<lambda>_ _ _ ns. (True, ns)), os_close = (\<lambda>fd ns. filter (\<lambda>n. int n \<noteq> fd) ns), os_send = (\<lambda>_ _ ns. (SysErr, ns)),
     os_recv = (\<lambda>_ _ ns. (SysErr, ns)), os_getenv = (\<lambda>_. None), os_realpath = Some, os_fopen = (\<lambda>_. None), os_malloc = (\<lambda>_. True)\<rparr>"

lemma fdOs_ok: "fd_ok fdOs (\<lambda>ns. int ` set ns)"
proof -
  have "Suc (sum_list ns) \<notin> set ns" for ns using member_le_sum_list [of "Suc (sum_list ns)" ns] by auto
  then have "int (Suc (sum_list ns)) \<notin> int ` set ns" for ns by (simp only: inj_image_mem_iff [OF inj_of_nat] not_False_eq_True)
  moreover have "int ` set (filter (\<lambda>n. int n \<noteq> fd) ns) = int ` set ns - {fd}" for fd ns by auto
  ultimately show ?thesis by (simp add: fd_ok_def fdOs_def)
qed

end
