(* ===== verification/Spdm_RespProps.thy ===== *)
theory Spdm_RespProps
  imports Spdm_RespRules
begin

text \<open>
  The responder as a state machine: the invariant of its context, and the phases a message can
  move it through.
\<close>

section \<open>The invariant\<close>

definition respWf :: "('w, 't) WOLFSPDM_RESP_CTX \<Rightarrow> bool" where
  "respWf r \<longleftrightarrow>
     (pskProvisioned r \<longleftrightarrow> pskStore r \<noteq> []) \<and> (clearAuthSet r \<longrightarrow> pskStore r \<noteq> []) \<and>
     length (pskStore r) \<le> WOLFSPDM_PSK_MAX_SIZE \<and> length (pskHintStore r) \<le> WOLFSPDM_PSK_HINT_MAX \<and>
     (hasIdKey r \<longrightarrow> length (idPrivKey r) = WOLFSPDM_ECC_KEY_SIZE \<and> length (idPubKey r) = WOLFSPDM_ECC_POINT_SIZE) \<and>
     (pendingAsym r \<longrightarrow> hasIdKey r) \<and>
     (sessionAsym r \<longrightarrow> state (rctx r) = WOLFSPDM_STATE_CONNECTED) \<and>
     (state (rctx r) = WOLFSPDM_STATE_CONNECTED \<longrightarrow> (sessionAsym r \<longleftrightarrow> pendingAsym r)) \<and>
     state (rctx r) \<in> {WOLFSPDM_STATE_INIT, WOLFSPDM_STATE_VERSION, WOLFSPDM_STATE_KEY_EX, WOLFSPDM_STATE_CONNECTED} \<and>
     (state (rctx r) \<in> {WOLFSPDM_STATE_KEY_EX, WOLFSPDM_STATE_CONNECTED} \<longrightarrow>
        sessionId (rctx r) \<noteq> 0 \<and> spdmVersion (rctx r) \<noteq> 0) \<and>
     spdmVersion (rctx r) \<in> {0, SPDM_VERSION_12, SPDM_VERSION_13} \<and>
     length (transcript (rctx r)) \<le> WOLFSPDM_MAX_TRANSCRIPT"

lemma respWf_scratch [simp]:
  "respWf (s\<lparr>secureInPlain := x\<rparr>) = respWf s" "respWf (s\<lparr>secureOutPlain := x\<rparr>) = respWf s"
  by (simp_all add: respWf_def)

text \<open>A negotiated version and the ids of a session in the making.\<close>

definition respReady :: "('w, 't) WOLFSPDM_RESP_CTX \<Rightarrow> bool" where
  "respReady r \<longleftrightarrow> respWf r \<and> sessionId (rctx r) \<noteq> 0 \<and> spdmVersion (rctx r) \<noteq> 0 \<and>
     state (rctx r) \<noteq> WOLFSPDM_STATE_CONNECTED"

lemmas resp_frame = respWf_def respReady_def frame_simps RespSwapDataDir_def

lemma session_id_nonzero: "(ucast (req :: word16) OR push_bit 16 (ucast (0xFFFE :: word16)) :: word32) \<noteq> 0"
proof -
  have "push_bit 16 (ucast (0xFFFE :: word16)) \<noteq> (0 :: word32)" by simp
  then show ?thesis by (metis or_word_eq_0)
qed

lemma respReady_ids:
  assumes "respWf r" "spdmVersion (rctx r) \<noteq> 0" "state (rctx r) \<in> {WOLFSPDM_STATE_INIT, WOLFSPDM_STATE_VERSION}"
  shows "respReady (r\<lparr>rctx := respSessionIds inb (respPskLoad r (rctx r))\<rparr>)"
    "respReady (r\<lparr>rctx := respSessionIds inb (rctx r)\<rparr>)"
  using assms session_id_nonzero
  by (simp_all add: respWf_def respReady_def respSessionIds_def respPskLoad_def) (elim conjE disjE; simp)+

lemma holdsE_PskReply: "holdsE respReady (respPskReply K)"
  unfolding respPskReply_def
  by (intro holds_intros; (intro keeps_holds keeps_intros)?; simp add: resp_frame; blast)

lemma holdsE_KexReply: "holdsE (\<lambda>r. respReady r \<and> hasIdKey r) (respKexReply K inb)"
  unfolding respKexReply_def
  by (intro holds_intros; (intro keeps_holds keeps_intros)?; simp add: resp_frame; blast)

text \<open>A finish handler runs in a handshake of its own kind.\<close>

definition respFinishing :: "bool \<Rightarrow> ('w, 't) WOLFSPDM_RESP_CTX \<Rightarrow> bool" where
  "respFinishing isAsym r \<longleftrightarrow> respWf r \<and> sessionId (rctx r) \<noteq> 0 \<and> spdmVersion (rctx r) \<noteq> 0 \<and>
     (pendingAsym r \<longleftrightarrow> isAsym)"

lemma holdsE_Finish: "holdsE (respFinishing isAsym) (respFinish K code isAsym inb cap)"
  unfolding respFinish_def
  by (intro holds_intros; (intro keeps_holds keeps_intros)?; simp add: resp_frame respFinishing_def; blast)

lemma holdsE_putOut [holds_intros]: "holdsE respWf (putOut x)"
  unfolding putOut_def by (intro holds_intros; simp add: respWf_def)

lemma holdsE_PskSet [holds_intros]: "holdsE respWf (respPskSet payload)"
  by (cases "payload = []") (simp_all add: holdsE_iff respPskSet_def wp_simps Let_def respWf_def)

lemma holdsE_PskClear [holds_intros]: "holdsE respWf (respPskClear K payload)"
  unfolding respPskClear_def
  by (intro holds_intros; (intro keeps_holds keeps_intros)?; simp add: resp_frame; blast)

lemma holdsE_TpmCmd [holds_intros]: "holdsE respWf (respTpmCmd payload)"
  unfolding respTpmCmd_def by (intro holds_intros; simp add: respWf_def)

lemma holdsE_VendorCmd [holds_intros]: "holdsE respWf (respVendorCmd K vd payload)"
  unfolding respVendorCmd_def
  by (intro holds_intros; simp add: respWf_def)

lemma holdsE_Vendor: "holdsE respWf (RespHandleVendorDefined K inb cap sec)"
  unfolding RespHandleVendorDefined_def RespHandleVendorDefinedInner_def
  by (intro holds_intros; (intro keeps_holds keeps_intros)?; simp add: resp_frame; blast)

lemma wf_PskExchange:
  assumes "respWf r" "spdmVersion (rctx r) \<noteq> 0" "state (rctx r) \<in> {WOLFSPDM_STATE_INIT, WOLFSPDM_STATE_VERSION}"
  shows "wpE (RespBuildPskExchangeRsp K inb cap) (\<lambda>_. respWf) (\<lambda>_. respWf) r"
  using assms(1) wpE_mono [OF holdsE_wpE [OF holdsE_PskReply respReady_ids(1) [OF assms]], of "\<lambda>_. respWf" "\<lambda>_. respWf"]
  by (simp add: RespBuildPskExchangeRsp_def wp_simps respReady_def)

lemma wf_KeyExchange:
  assumes "respWf r" "spdmVersion (rctx r) \<noteq> 0" "state (rctx r) \<in> {WOLFSPDM_STATE_INIT, WOLFSPDM_STATE_VERSION}"
  shows "wpE (RespBuildKeyExchangeRsp K inb cap) (\<lambda>_. respWf) (\<lambda>_. respWf) r"
  using assms(1) wpE_mono [OF holdsE_wpE [OF holdsE_KexReply [of K inb], of "r\<lparr>rctx := respSessionIds inb (rctx r)\<rparr>"],
      of "\<lambda>_. respWf" "\<lambda>_. respWf"] respReady_ids(2) [OF assms]
  by (simp add: RespBuildKeyExchangeRsp_def wp_simps respReady_def)

lemma respWf_reset: "respWf r \<Longrightarrow> respWf (wolfSPDM_RespReset r)"
  by (simp add: wolfSPDM_RespReset_def respWf_def wolfSPDM_TranscriptReset_def wolfSPDM_FreeEphemeralKey_def)

lemma respWf_restart:
  "respWf r \<Longrightarrow> respWf (respRestart r)"
  "respWf ((respRestart r)\<lparr>rctx := (rctx (respRestart r))\<lparr>transcript := t\<rparr>\<rparr>) \<Longrightarrow>
   respWf ((respRestart r)\<lparr>rctx := (rctx (respRestart r))\<lparr>transcript := t, spdmVersion := 0, state := WOLFSPDM_STATE_VERSION\<rparr>\<rparr>)"
  by (rule respWf_reset) (simp_all add: respWf_def wolfSPDM_TranscriptReset_def wolfSPDM_RespReset_def)

lemma respWf_transcript:
  "respWf s \<Longrightarrow> length t \<le> WOLFSPDM_MAX_TRANSCRIPT \<Longrightarrow> respWf (s\<lparr>rctx := (rctx s)\<lparr>transcript := t\<rparr>\<rparr>)"
  by (simp add: respWf_def)

lemma respWf_idle:
  assumes "respWf s" "isIdle r" "entered r s"
  shows "state (rctx s) \<in> {WOLFSPDM_STATE_INIT, WOLFSPDM_STATE_VERSION}"
proof -
  have "isIdle s" using assms(2,3) by (simp add: entered_idle)
  with assms(1) show ?thesis unfolding respWf_def isIdle_def by blast
qed

lemma holdsE_DispatchClear: "holdsE respWf (RespDispatchClear K inb cap)"
  unfolding holdsE_iff
proof (intro allI impI)
  fix r :: "('a, 'b) WOLFSPDM_RESP_CTX" assume r: "respWf r"
  have sel: "respWf (r\<lparr>rctx := (rctx r)\<lparr>spdmVersion := v\<rparr>\<rparr>)"
    if "state (rctx r) = WOLFSPDM_STATE_VERSION" "v = SPDM_VERSION_12 \<or> v = SPDM_VERSION_13" for v
    using that r by (elim disjE) (simp_all add: respWf_def)
  show "wpE (RespDispatchClear K inb cap) (\<lambda>_. respWf) (\<lambda>_. respWf) r"
    by (rule wp_DispatchClear)
       (simp_all del: One_nat_def add: r sel respWf_transcript respWf_restart wf_PskExchange [OF _ _ respWf_idle]
          wf_KeyExchange [OF _ _ respWf_idle] holdsE_wpE [OF holdsE_Vendor])
qed

lemma wf_SecuredSwitch:
  assumes "respWf r" "sessionId (rctx r) \<noteq> 0" "spdmVersion (rctx r) \<noteq> 0"
  shows "wpE (respSecuredSwitch K code plain) (\<lambda>_. respWf) (\<lambda>_. respWf) r"
proof (rule wp_SecuredSwitch)
  fix c isAsym assume "pendingAsym r = isAsym"
  with assms have "respFinishing isAsym r" by (simp add: respFinishing_def)
  from holdsE_wpE [OF holdsE_Finish this]
  show "wpE (respFinish K c isAsym plain WOLFSPDM_MAX_MSG_SIZE) (\<lambda>_. respWf) (\<lambda>_. respWf) r"
    by (rule wpE_mono) (simp_all add: respFinishing_def)
qed (use assms(1) holdsE_wpE [OF holdsE_Vendor] in simp_all)

lemma holdsE_DispatchSecured: "holdsE respWf (RespDispatchSecured K enc cap)"
  unfolding holdsE_iff
proof (intro allI impI)
  fix r :: "('a, 'b) WOLFSPDM_RESP_CTX" assume r: "respWf r"
  let ?P = "\<lambda>s :: ('a, 'b) WOLFSPDM_RESP_CTX. respWf s \<and> sessionId (rctx s) = sessionId (rctx r) \<and>
      spdmVersion (rctx s) = spdmVersion (rctx r)"
  have dec: "holdsE ?P (zoomE (RespDecrypt K enc m))" for m
    by (intro holds_intros keeps_holds keeps_intros; simp add: resp_frame)
  have seal: "holdsE respWf (zoomE (RespEncrypt K resp cap))" "holdsE respWf (zoomE (wolfSPDM_DeriveAppDataKeys K))" for resp
    by (intro holds_intros; (intro keeps_holds keeps_intros)?; simp add: resp_frame)+
  have d: "?P (r\<lparr>rctx := c\<rparr>)"
    if "RespDecrypt K enc m (rctx r) = (x, c)" for m x c
    using holdsE_D [OF dec, of r m x "r\<lparr>rctx := c\<rparr>"] r that by (simp add: zoomE_def)
  show "wpE (RespDispatchSecured K enc cap) (\<lambda>_. respWf) (\<lambda>_. respWf) r"
  proof (rule wp_DispatchSecured)
    fix plain c
    assume a: "state (rctx r) = WOLFSPDM_STATE_KEY_EX \<or> state (rctx r) = WOLFSPDM_STATE_CONNECTED"
      "sessionId (rctx r) \<noteq> 0" "RespDecrypt K enc WOLFSPDM_MAX_MSG_SIZE (rctx r) = (Inr plain, c)"
    have "spdmVersion (rctx r) \<noteq> 0" using a(1) r unfolding respWf_def by blast
    moreover have "respWf (r\<lparr>rctx := c, secureInPlain := plain\<rparr>)"
      using d [OF a(3)] by simp
    ultimately show "wpE (respSecuredSwitch K (plain ! 1) plain) (\<lambda>_. respWf) (\<lambda>_. respWf)
        (r\<lparr>rctx := c, secureInPlain := plain\<rparr>)"
      using d [OF a(3)] a(2) by (intro wf_SecuredSwitch) simp_all
  qed (use r d seal in \<open>auto simp: respWf_reset\<close>)
qed

text \<open>Every message, well-formed or not, leaves a well-formed responder.\<close>

lemma holdsE_HandleMessage: "holdsE respWf (wolfSPDM_RespHandleMessage K inBuf cap)"
  unfolding wolfSPDM_RespHandleMessage_def
  by (intro holds_intros holdsE_DispatchClear holdsE_DispatchSecured; simp add: respWf_def)

section \<open>Reachable responders\<close>

text \<open>The calls an application makes on a responder after initialising it.\<close>

datatype 't resp_call =
    CallSetMode bool bool | CallSetPSK bytes "bytes option" | CallSetIdentityKey bytes bytes
  | CallSetTpmCallback "'t WOLFSPDM_RESP_TPM_CB option" 't | CallSetDebug bool | CallReset
  | CallHandleMessage bytes nat

primrec respCall :: "wc_env \<Rightarrow> 't resp_call \<Rightarrow> ('w, 't) WOLFSPDM_RESP_CTX \<Rightarrow> ('w, 't) WOLFSPDM_RESP_CTX" where
  "respCall K (CallSetMode a b) r = snd (wolfSPDM_RespSetMode a b r)"
| "respCall K (CallSetPSK k h) r = snd (wolfSPDM_RespSetPSK k h r)"
| "respCall K (CallSetIdentityKey x y) r = snd (wolfSPDM_RespSetIdentityKey x y r)"
| "respCall K (CallSetTpmCallback cb u) r = snd (wolfSPDM_RespSetTpmCallback cb u r)"
| "respCall K (CallSetDebug b) r = wolfSPDM_RespSetDebug b r"
| "respCall K CallReset r = wolfSPDM_RespReset r"
| "respCall K (CallHandleMessage m n) r = snd (wolfSPDM_RespHandleMessage K m n r)"

inductive respReach :: "wc_env \<Rightarrow> 'w \<Rightarrow> 't \<Rightarrow> ('w, 't) WOLFSPDM_RESP_CTX \<Rightarrow> bool" for K nul tnul where
  init: "wolfSPDM_RespInit K nul tnul r0 = (Inr (), r) \<Longrightarrow> respReach K nul tnul r"
| call: "respReach K nul tnul r \<Longrightarrow> respReach K nul tnul (respCall K a r)"

lemma respWf_init:
  assumes "wolfSPDM_RespInit K nul tnul r0 = (Inr (), r)"
  shows "respWf r"
  using assms
  by (auto simp: wolfSPDM_RespInit_def wolfSPDM_Init_def succ_simps respWf_def zero_resp_def zero_ctx_def)

lemma respWf_call: "respWf r \<Longrightarrow> respWf (respCall K a r)"
proof (cases a)
  case (CallHandleMessage m n)
  then show "respWf r \<Longrightarrow> ?thesis" by (simp add: holdsE_HandleMessage [unfolded holdsE_def])
next
  case (CallSetPSK k h)
  then show "respWf r \<Longrightarrow> ?thesis"
    by (cases h) (simp_all add: wolfSPDM_RespSetPSK_def wolfSPDM_SetPSK_def zoomE_def opE_defs respWf_def)
qed (simp_all add: wolfSPDM_RespSetMode_def wolfSPDM_RespSetIdentityKey_def wolfSPDM_RespSetTpmCallback_def
      wolfSPDM_RespSetDebug_def wolfSPDM_SetDebug_def respWf_reset opE_defs, simp_all add: respWf_def, auto)

lemma respReach_wf: "respReach K nul tnul r \<Longrightarrow> respWf r"
  by (induction rule: respReach.induct) (simp_all add: respWf_init respWf_call)

section \<open>Phases\<close>

datatype resp_phase = Idle | Versioned | Exchanged bool | Connected bool

definition phaseView :: "('w, 't) WOLFSPDM_RESP_CTX \<Rightarrow> nat \<times> bool \<times> bool" where
  "phaseView r = (state (rctx r), sessionAsym r, pendingAsym r)"

definition phaseOf :: "nat \<times> bool \<times> bool \<Rightarrow> resp_phase" where
  "phaseOf v = (case v of (st, sessAsym, pendAsym) \<Rightarrow>
     if st = WOLFSPDM_STATE_CONNECTED then Connected sessAsym
     else if st = WOLFSPDM_STATE_KEY_EX then Exchanged pendAsym
     else if st = WOLFSPDM_STATE_VERSION then Versioned else Idle)"

definition respPhase :: "('w, 't) WOLFSPDM_RESP_CTX \<Rightarrow> resp_phase" where
  "respPhase r = phaseOf (phaseView r)"

text \<open>The protocol a message may follow: a session is entered through the exchange of its own kind only.\<close>

inductive respStep :: "resp_phase \<Rightarrow> resp_phase \<Rightarrow> bool" where
  stay: "respStep p p"
| ended: "respStep p Idle"
| version: "respStep p Versioned"
| exchange: "p = Idle \<or> p = Versioned \<Longrightarrow> respStep p (Exchanged a)"
| finish: "respStep (Exchanged a) (Connected a)"

inductive_cases respStep_to_Connected: "respStep p (Connected a)"
inductive_cases respStep_to_Exchanged: "respStep p (Exchanged a)"

lemma keeps_view_vendor [keeps_intros]: "keeps phaseView (RespHandleVendorDefined K inb cap sec)"
  unfolding RespHandleVendorDefined_def RespHandleVendorDefinedInner_def respVendorCmd_def respTpmCmd_def
    respPskSet_def respPskClear_def putOut_def
  by (intro keeps_intros; simp add: phaseView_def)

lemma keeps_phaseView_crypto [keeps_intros]:
  "keeps phaseView (zoomE (wolfSPDM_TranscriptAdd x))" "keeps phaseView (zoomE (RespDecrypt K e n))"
  "keeps phaseView (zoomE (RespEncrypt K e n))" "keeps phaseView (zoomE (wolfSPDM_DeriveAppDataKeys K))"
  "keeps phaseView (zoomE (RespSelectVersion v b))"
  unfolding RespSelectVersion_def
  by (intro keeps_intros; simp add: phaseView_def frame_simps RespSwapDataDir_def)+

lemma phase_PskReply:
  assumes "\<And>st x y. G (st, x, y) \<Longrightarrow> G (WOLFSPDM_STATE_KEY_EX, x, False)"
  shows "holdsE (\<lambda>r. G (phaseView r)) (respPskReply K)"
  unfolding respPskReply_def phaseView_def
  by (intro holds_intros; (intro keeps_holds keeps_intros)?; simp add: frame_simps assms)

lemma phase_KexReply:
  assumes "\<And>st x y. G (st, x, y) \<Longrightarrow> G (WOLFSPDM_STATE_KEY_EX, x, True)"
  shows "holdsE (\<lambda>r. G (phaseView r)) (respKexReply K inb)"
  unfolding respKexReply_def phaseView_def
  by (intro holds_intros; (intro keeps_holds keeps_intros)?; simp add: frame_simps assms)

lemma phase_Finish:
  assumes "\<And>st x y. G (st, x, y) \<Longrightarrow> G (WOLFSPDM_STATE_CONNECTED, isAsym, y)"
  shows "holdsE (\<lambda>r. G (phaseView r)) (respFinish K code isAsym inb cap)"
  unfolding respFinish_def phaseView_def
  by (intro holds_intros; (intro keeps_holds keeps_intros)?; simp add: frame_simps assms)

text \<open>\<open>follows p r\<close>: \<open>r\<close> is where a step from \<open>p\<close> may lead.\<close>

definition follows :: "resp_phase \<Rightarrow> ('w, 't) WOLFSPDM_RESP_CTX \<Rightarrow> bool" where
  "follows p r \<longleftrightarrow> respStep p (respPhase r)"

lemma follows_eq: "follows p = (\<lambda>r. respStep p (phaseOf (phaseView r)))"
  by (simp add: fun_eq_iff follows_def respPhase_def)

lemma follows_holds: "keeps phaseView m \<Longrightarrow> holdsE (follows p) m"
  by (auto simp: holdsE_def keeps_def follows_def respPhase_def)

lemma follows_wp: "keeps phaseView m \<Longrightarrow> follows p r \<Longrightarrow> wpE m (\<lambda>_. follows p) (\<lambda>_. follows p) r"
  by (rule holdsE_wpE [OF follows_holds])

lemma follows_Exchange:
  assumes "p = Idle \<or> p = Versioned" "follows p r"
  shows "wpE (RespBuildPskExchangeRsp K inb cap) (\<lambda>_. follows p) (\<lambda>_. follows p) r"
    "wpE (RespBuildKeyExchangeRsp K inb cap) (\<lambda>_. follows p) (\<lambda>_. follows p) r"
proof -
  have f: "follows p (r\<lparr>rctx := respSessionIds inb c\<rparr>) = follows p (r\<lparr>rctx := c\<rparr>)"
    "follows p (r\<lparr>rctx := respPskLoad r0 c\<rparr>) = follows p (r\<lparr>rctx := c\<rparr>)" for c r0
    by (simp_all add: follows_def respPhase_def phaseView_def respSessionIds_def respPskLoad_def)
  have x: "holdsE (follows p) (respPskReply K)" "holdsE (follows p) (respKexReply K inb)"
    unfolding follows_eq
    by (intro phase_PskReply phase_KexReply; use assms(1) in \<open>simp add: phaseOf_def respStep.exchange\<close>)+
  note w = x [THEN holdsE_wpE]
  show "wpE (RespBuildPskExchangeRsp K inb cap) (\<lambda>_. follows p) (\<lambda>_. follows p) r"
    "wpE (RespBuildKeyExchangeRsp K inb cap) (\<lambda>_. follows p) (\<lambda>_. follows p) r"
    using assms(2) by (auto simp: RespBuildPskExchangeRsp_def RespBuildKeyExchangeRsp_def wp_simps f intro!: w)
qed

lemma follows_reset: "follows p (wolfSPDM_RespReset r)"
proof -
  have "respPhase (wolfSPDM_RespReset r) = Idle"
    by (simp add: respPhase_def phaseView_def phaseOf_def wolfSPDM_RespReset_def)
  then show ?thesis by (simp add: follows_def respStep.ended)
qed

lemma entered_phase: "entered r s \<Longrightarrow> phaseView s = phaseView r"
  by (auto simp: entered_def phaseView_def)

lemma isIdle_phase: "isIdle r \<Longrightarrow> respPhase r = Idle \<or> respPhase r = Versioned"
  by (simp add: isIdle_def respPhase_def phaseOf_def phaseView_def)

lemma follows_self: "phaseView s = phaseView r \<Longrightarrow> follows (respPhase r) s"
  by (simp add: follows_def respPhase_def respStep.stay)

lemma follows_DispatchClear:
  fixes r :: "('w, 't) WOLFSPDM_RESP_CTX"
  assumes "follows p r" "isIdle r \<Longrightarrow> p = Idle \<or> p = Versioned"
  shows "wpE (RespDispatchClear K inb cap) (\<lambda>_. follows p) (\<lambda>_. follows p) r"
proof -
  have tr: "follows p (s\<lparr>rctx := (rctx s)\<lparr>transcript := t\<rparr>\<rparr>) = follows p s"
    "follows p (s\<lparr>rctx := (rctx s)\<lparr>spdmVersion := v\<rparr>\<rparr>) = follows p s"
    for s :: "('w, 't) WOLFSPDM_RESP_CTX" and t v by (simp_all add: follows_def respPhase_def phaseView_def)
  have ver: "follows p (s\<lparr>rctx := (rctx s)\<lparr>transcript := t, spdmVersion := 0, state := WOLFSPDM_STATE_VERSION\<rparr>\<rparr>)"
    for s :: "('w, 't) WOLFSPDM_RESP_CTX" and t
    by (simp add: follows_def respPhase_def phaseView_def phaseOf_def respStep.version)
  show ?thesis
    by (rule wp_DispatchClear)
       (simp_all del: One_nat_def add: tr ver assms follows_reset follows_Exchange follows_wp keeps_view_vendor)
qed

lemma follows_SecuredSwitch:
  "wpE (respSecuredSwitch K code plain) (\<lambda>_. follows (respPhase r)) (\<lambda>_. follows (respPhase r)) r"
proof (rule wp_SecuredSwitch)
  fix c isAsym
  assume "state (rctx r) = WOLFSPDM_STATE_KEY_EX" "pendingAsym r = isAsym"
  then have "respPhase r = Exchanged isAsym" by (simp add: respPhase_def phaseOf_def phaseView_def)
  then have "holdsE (follows (respPhase r)) (respFinish K c isAsym plain WOLFSPDM_MAX_MSG_SIZE)"
    unfolding follows_eq by (intro phase_Finish) (simp add: phaseOf_def respStep.finish)
  then show "wpE (respFinish K c isAsym plain WOLFSPDM_MAX_MSG_SIZE) (\<lambda>_. follows (respPhase r))
      (\<lambda>_. follows (respPhase r)) r" by (rule holdsE_wpE) (simp add: follows_self)
qed (simp_all add: follows_self follows_wp keeps_view_vendor)

lemma follows_DispatchSecured:
  "wpE (RespDispatchSecured K enc cap) (\<lambda>_. follows (respPhase r)) (\<lambda>_. follows (respPhase r)) r"
proof -
  have d: "phaseView (r\<lparr>rctx := c\<rparr>) = phaseView r" if "RespDecrypt K enc n (rctx r) = (x, c)" for n x c
    using keepsD [OF keeps_phaseView_crypto(2), of K enc n r x "r\<lparr>rctx := c\<rparr>"] that by (simp add: zoomE_def)
  have view: "phaseView (s\<lparr>secureInPlain := x\<rparr>) = phaseView s" "phaseView (s\<lparr>secureOutPlain := x\<rparr>) = phaseView s"
    for s :: "('a, 'b) WOLFSPDM_RESP_CTX" and x by (simp_all add: phaseView_def)
  show ?thesis
  proof (rule wp_DispatchSecured)
    fix plain c
    assume "RespDecrypt K enc WOLFSPDM_MAX_MSG_SIZE (rctx r) = (Inr plain, c)"
    then have "respPhase (r\<lparr>rctx := c, secureInPlain := plain\<rparr>) = respPhase r"
      using d view by (simp add: respPhase_def)
    then show "wpE (respSecuredSwitch K (plain ! 1) plain) (\<lambda>_. follows (respPhase r)) (\<lambda>_. follows (respPhase r))
        (r\<lparr>rctx := c, secureInPlain := plain\<rparr>)"
      using follows_SecuredSwitch [of K "plain ! 1" plain "r\<lparr>rctx := c, secureInPlain := plain\<rparr>"] by simp
  qed (auto simp: follows_reset [unfolded follows_eq] follows_eq view d respPhase_def respStep.stay
        intro!: follows_holds [unfolded follows_eq] keeps_intros)
qed

text \<open>A message moves the responder along its protocol, whatever it contains and however it is answered.\<close>

lemma follows_HandleMessage:
  "wpE (wolfSPDM_RespHandleMessage K inBuf cap) (\<lambda>_. follows (respPhase r)) (\<lambda>_. follows (respPhase r)) r"
proof -
  have hdr: "respPhase (respHdr x y r) = respPhase r" for x y
    by (simp add: respPhase_def phaseView_def respHdr_def)
  show ?thesis
    using follows_DispatchSecured [of K _ _ "respHdr x y r" for x y] isIdle_phase [of "respHdr x y r" for x y]
    by (intro wp_HandleMessage follows_DispatchClear) (simp_all add: hdr follows_def respStep.stay)
qed

end
