(* ===== verification/Spdm_RespAuth.thy ===== *)
theory Spdm_RespAuth
  imports Spdm_RespProps
begin

text \<open>
  What only an authenticated requester can do to a responder: reach the TPM behind the tunnel,
  move the SPDM-only lock, open a session, or replace the pre-shared key.
\<close>

section \<open>The tunnel\<close>

definition tunnelView :: "('w, 't) WOLFSPDM_RESP_CTX \<Rightarrow> bool \<times> 't" where
  "tunnelView r = (spdmOnlyLock r, tpmCbUserCtx r)"

lemma keeps_tunnel_small [keeps_intros]:
  "keeps tunnelView (putOut x)" "keeps tunnelView (respPskSet p)" "keeps tunnelView (respPskClear K p)"
  unfolding putOut_def respPskSet_def respPskClear_def Let_def by (intro keeps_intros; simp add: tunnelView_def)+

lemma keeps_tunnel_zoom [keeps_intros]: "keeps tunnelView (zoomE m)"
  by (intro keeps_intros) (simp add: tunnelView_def keeps_def)

lemma keeps_tunnel_handlers [keeps_intros]:
  "keeps tunnelView (respPskReply K)" "keeps tunnelView (respSign K h)" "keeps tunnelView (respKexReply K inb)"
  "keeps tunnelView (respFinish K code isAsym inb cap)"
  unfolding respPskReply_def respKexReply_def respFinish_def respSign_def Let_def
  by (intro keeps_intros; simp add: tunnelView_def)+

lemma keeps_tunnel_exchange [keeps_intros]:
  "keeps tunnelView (RespBuildPskExchangeRsp K inb cap)" "keeps tunnelView (RespBuildKeyExchangeRsp K inb cap)"
  unfolding RespBuildPskExchangeRsp_def RespBuildKeyExchangeRsp_def
  by (intro keeps_intros; simp add: tunnelView_def)+

lemma keeps_tunnel_VendorCmd:
  assumes "vd \<noteq> WOLFSPDM_VDCODE_TPM2_CMD" "vd \<noteq> WOLFSPDM_VDCODE_SPDMONLY"
  shows "keeps tunnelView (respVendorCmd K vd payload)"
  unfolding respVendorCmd_def by (intro keeps_intros; simp add: assms)

text \<open>A vendor command from a clear frame, or under handshake keys, leaves the tunnel alone.\<close>

lemma tunnel_Vendor:
  assumes "\<not> (sec \<and> state (rctx r) = WOLFSPDM_STATE_CONNECTED)"
  shows "wpE (RespHandleVendorDefined K inb cap sec) (\<lambda>_ d. tunnelView d = tunnelView r)
     (\<lambda>_ d. tunnelView d = tunnelView r) r"
proof -
  have vd: "wpE (bindE (respVendorCmd K vd p) g) (\<lambda>_ d. tunnelView d = tunnelView r) (\<lambda>_ d. tunnelView d = tunnelView r)
      (r\<lparr>vdInPayload := p\<rparr>)"
    if "vd \<noteq> WOLFSPDM_VDCODE_TPM2_CMD" "vd \<noteq> WOLFSPDM_VDCODE_SPDMONLY" "\<And>x. keeps tunnelView (g x)" for vd p
      and g :: "bytes \<Rightarrow> ('a, 'b, bytes \<times> bytes) rop"
  proof -
    have "keeps tunnelView (bindE (respVendorCmd K vd p) g)"
      by (intro keeps_bind keeps_tunnel_VendorCmd that)
    from keeps_wpE [OF this, of "r\<lparr>vdInPayload := p\<rparr>"] show ?thesis by (simp add: tunnelView_def)
  qed
  have wipe: "tunnelView (d\<lparr>vdInPayload := x, vdOutPayload := y\<rparr>) = tunnelView d" "tunnelView (d\<lparr>vdInPayload := x\<rparr>) = tunnelView d"
    for d :: "('a, 'b) WOLFSPDM_RESP_CTX" and x y
    by (simp_all add: tunnelView_def)
  have codes: "WOLFSPDM_VDCODE_GIVE_PUB \<noteq> WOLFSPDM_VDCODE_TPM2_CMD" "WOLFSPDM_VDCODE_GIVE_PUB \<noteq> WOLFSPDM_VDCODE_SPDMONLY"
    by (simp_all add: WOLFSPDM_VDCODE_GIVE_PUB_def WOLFSPDM_VDCODE_TPM2_CMD_def WOLFSPDM_VDCODE_SPDMONLY_def cstr_def)
  have parse: "wpE (wolfSPDM_ParseVendorDefined inb n) (\<lambda>_ d. d = r) (\<lambda>_ d. d = r) r" for n
    using keeps_wpE [OF keeps_ParseVendorDefined [of id], of inb n r] by simp
  show ?thesis
    unfolding RespHandleVendorDefined_def RespHandleVendorDefinedInner_def wpE_finally wipe
      wpE_bind [of "wolfSPDM_ParseVendorDefined _ _"]
    apply (rule wpE_mono [OF parse])
    subgoal for a t
      using assms codes
      by (cases a)
        (auto simp: wpE_bind [of "modE _"] wpE_mod wpE_bind [of "getE _"] wpE_get wpE_bind [of "guardE _ _"] wpE_guard
          wipe vendorSecuredOnly_def intro!: vd keeps_intros)
    by simp
qed

lemma tunnel_restart: "tunnelView (wolfSPDM_RespReset s) = tunnelView s" "tunnelView (s\<lparr>rctx := c\<rparr>) = tunnelView s"
  by (simp_all add: tunnelView_def wolfSPDM_RespReset_def)

lemma keeps_at: "keeps f m \<Longrightarrow> f r = v \<Longrightarrow> wpE m (\<lambda>_ d. f d = v) (\<lambda>_ d. f d = v) r"
  using keeps_wpE [of f m r] by simp

lemma tunnel_DispatchClear:
  fixes r :: "('w, 't) WOLFSPDM_RESP_CTX"
  assumes "tunnelView r = v"
  shows "wpE (RespDispatchClear K inb cap) (\<lambda>_ d. tunnelView d = v) (\<lambda>_ d. tunnelView d = v) r"
proof (rule wp_DispatchClear)
  fix s :: "('w, 't) WOLFSPDM_RESP_CTX" assume "tunnelView s = v"
  with tunnel_Vendor [of False s K inb cap]
  show "wpE (RespHandleVendorDefined K inb cap False) (\<lambda>_ d. tunnelView d = v) (\<lambda>_ d. tunnelView d = v) s"
    by simp
qed (simp_all del: One_nat_def add: assms tunnel_restart keeps_at keeps_tunnel_exchange)

lemma RespDecrypt_authentic:
  assumes "RespDecrypt K enc n c = (Inr plain, d)"
  shows "recordAuthentic K (RespSwapDataDir c) enc"
proof -
  obtain t where "wolfSPDM_DecryptRecord K False enc n (RespSwapDataDir c) = (Inr plain, t)"
    using assms by (auto simp: RespDecrypt_def wolfSPDM_DecryptInternal_def succ_simps)
  then show ?thesis using wpE_Inr [OF DecryptRecord_authentic] by blast
qed

lemma tunnel_SecuredSwitch:
  assumes "state (rctx r) \<noteq> WOLFSPDM_STATE_CONNECTED" "tunnelView r = v"
  shows "wpE (respSecuredSwitch K code plain) (\<lambda>_ d. tunnelView d = v) (\<lambda>_ d. tunnelView d = v) r"
  using assms tunnel_Vendor [of True r K plain WOLFSPDM_MAX_MSG_SIZE]
  by (intro wp_SecuredSwitch keeps_at [OF keeps_tunnel_handlers(4)]) simp_all

text \<open>
  The TPM sees a command, and the lock moves, only for a record of a connected session that
  authenticates under the requester's traffic key.
\<close>

definition tunnelOpen :: "wc_env \<Rightarrow> ('w, 't) WOLFSPDM_RESP_CTX \<Rightarrow> bytes \<Rightarrow> bool" where
  "tunnelOpen K r inBuf \<longleftrightarrow> SPDM_Get16BE inBuf 0 = WOLFSPDM_TCG_TAG_SECURED \<and>
     state (rctx r) = WOLFSPDM_STATE_CONNECTED \<and>
     recordAuthentic K (RespSwapDataDir (rctx r)) (framePayload inBuf)"

lemma HandleMessage_tunnel:
  "wpE (wolfSPDM_RespHandleMessage K inBuf cap)
     (\<lambda>_ d. tunnelView d = tunnelView r \<or> tunnelOpen K r inBuf)
     (\<lambda>_ d. tunnelView d = tunnelView r \<or> tunnelOpen K r inBuf) r"
proof (cases "tunnelOpen K r inBuf")
  case True then show ?thesis by (simp add: wpE_iff)
next
  case False
  let ?v = "tunnelView r"
  have hdr: "tunnelView (respHdr x y r) = ?v" "state (rctx (respHdr x y r)) = state (rctx r)"
    "recordAuthentic K (RespSwapDataDir (rctx (respHdr x y r))) e = recordAuthentic K (RespSwapDataDir (rctx r)) e" for x y e
    by (simp_all add: tunnelView_def respHdr_def recordAuthentic_def RespSwapDataDir_def wolfSPDM_IsTcgMode_def)
  have sec: "wpE (RespDispatchSecured K (framePayload inBuf) n) (\<lambda>_ d. tunnelView d = ?v) (\<lambda>_ d. tunnelView d = ?v) (respHdr x y r)"
    if "SPDM_Get16BE inBuf 0 = WOLFSPDM_TCG_TAG_SECURED" for x y n
  proof (rule wp_DispatchSecured)
    fix plain c
    assume a: "RespDecrypt K (framePayload inBuf) WOLFSPDM_MAX_MSG_SIZE (rctx (respHdr x y r)) = (Inr plain, c)"
    have "state c = state (rctx r)"
      using keepsD [OF keeps_RespDecrypt [of state] a] hdr(2) [of x y] by (simp add: RespSwapDataDir_def)
    moreover have "state (rctx r) \<noteq> WOLFSPDM_STATE_CONNECTED"
      using False that RespDecrypt_authentic [OF a] by (auto simp: tunnelOpen_def hdr)
    ultimately show "wpE (respSecuredSwitch K (plain ! 1) plain) (\<lambda>_ d. tunnelView d = ?v) (\<lambda>_ d. tunnelView d = ?v)
        ((respHdr x y r)\<lparr>rctx := c, secureInPlain := plain\<rparr>)"
      using hdr(1) [of x y] by (intro tunnel_SecuredSwitch) (simp_all add: tunnelView_def)
  qed (auto simp: hdr tunnel_restart intro!: keeps_holdsE [where f = tunnelView and P = "\<lambda>v. v = ?v"] keeps_intros,
       simp_all add: tunnelView_def)
  show ?thesis
    using False sec by (intro wp_HandleMessage) (simp_all add: hdr tunnel_DispatchClear)
qed

section \<open>Opening a session\<close>

definition finishVerified :: "wc_env \<Rightarrow> ('w, 't) WOLFSPDM_RESP_CTX \<Rightarrow> bytes \<Rightarrow> bool" where
  "finishVerified K r plain \<longleftrightarrow>
     4 + WOLFSPDM_HASH_SIZE \<le> length plain \<and>
     plain ! 1 = (if pendingAsym r then SPDM_FINISH else SPDM_PSK_FINISH) \<and>
     (\<exists>h hmac. fst (wolfSPDM_Sha384Hash K (transcript (rctx r) @ take 4 plain) [] [] ()) = Inr h \<and>
        wc_Hmac K (reqFinishedKey (rctx r)) h = Some hmac \<and>
        wolfSPDM_ConstCompare hmac (take WOLFSPDM_HASH_SIZE (drop 4 plain)) WOLFSPDM_HASH_SIZE = 0)"

text \<open>What a frame has to carry to open a session: a sealed FINISH of the pending kind whose verify data is right.\<close>

definition sessionOpened :: "wc_env \<Rightarrow> ('w, 't) WOLFSPDM_RESP_CTX \<Rightarrow> bytes \<Rightarrow> bool" where
  "sessionOpened K r inBuf \<longleftrightarrow>
     SPDM_Get16BE inBuf 0 = WOLFSPDM_TCG_TAG_SECURED \<and> state (rctx r) = WOLFSPDM_STATE_KEY_EX \<and>
     recordAuthentic K (RespSwapDataDir (rctx r)) (framePayload inBuf) \<and>
     (\<exists>plain. fst (RespDecrypt K (framePayload inBuf) WOLFSPDM_MAX_MSG_SIZE (rctx r)) = Inr plain \<and>
        finishVerified K r plain)"

lemma Finish_verified:
  assumes "plain ! 1 = (if pendingAsym r then SPDM_FINISH else SPDM_PSK_FINISH)"
  shows "wpE (respFinish K code isAsym plain cap) (\<lambda>_ d. finishVerified K r plain)
     (\<lambda>_ d. state (rctx d) = state (rctx r)) r"
  using assms
  by (auto simp: respFinish_def wp_simps wolfSPDM_TranscriptHash_def wpE_Sha384Hash wolfSPDM_TranscriptAdd_def
      wolfSPDM_ComputeVerifyData_def Let_def finishVerified_def split: sum.splits option.splits)

lemma follows_Idle: "follows Idle s \<longleftrightarrow> state (rctx s) \<noteq> WOLFSPDM_STATE_CONNECTED"
  by (auto simp: follows_def respPhase_def phaseOf_def phaseView_def
      elim: respStep_to_Connected intro: respStep.intros)

lemma opens_DispatchSecured:
  fixes r :: "('w, 't) WOLFSPDM_RESP_CTX"
  assumes "follows Idle r"
    and "\<And>plain. state (rctx r) = WOLFSPDM_STATE_KEY_EX \<Longrightarrow>
      fst (RespDecrypt K enc WOLFSPDM_MAX_MSG_SIZE (rctx r)) = Inr plain \<Longrightarrow> \<not> finishVerified K r plain"
  shows "wpE (RespDispatchSecured K enc cap) (\<lambda>_. follows Idle) (\<lambda>_. follows Idle) r"
proof -
  have view: "follows p (s\<lparr>secureInPlain := x\<rparr>) = follows p s" "follows p (s\<lparr>secureOutPlain := x\<rparr>) = follows p s"
    for p x and s :: "('w, 't) WOLFSPDM_RESP_CTX" by (simp_all add: follows_def respPhase_def phaseView_def)
  have d: "state c = state (rctx r) \<and> transcript c = transcript (rctx r) \<and> reqFinishedKey c = reqFinishedKey (rctx r)"
    if "RespDecrypt K enc n (rctx r) = (x, c)" for n x c
    using keepsD [OF keeps_RespDecrypt [of "\<lambda>c. (state c, transcript c, reqFinishedKey c)"] that]
    by (simp add: RespSwapDataDir_def)
  show ?thesis
  proof (rule wp_DispatchSecured)
    fix plain c
    assume a: "RespDecrypt K enc WOLFSPDM_MAX_MSG_SIZE (rctx r) = (Inr plain, c)"
    let ?r = "r\<lparr>rctx := c, secureInPlain := plain\<rparr>"
    have v: "finishVerified K ?r plain = finishVerified K r plain" "follows Idle ?r"
      using d [OF a] assms(1) by (simp_all add: finishVerified_def follows_Idle)
    show "wpE (respSecuredSwitch K (plain ! 1) plain) (\<lambda>_. follows Idle) (\<lambda>_. follows Idle) ?r"
    proof (rule wp_SecuredSwitch)
      fix isAsym code
      assume b: "plain ! 1 = (if isAsym then SPDM_FINISH else SPDM_PSK_FINISH)"
        "state (rctx ?r) = WOLFSPDM_STATE_KEY_EX" "pendingAsym ?r = isAsym"
      show "wpE (respFinish K code isAsym plain WOLFSPDM_MAX_MSG_SIZE) (\<lambda>_. follows Idle) (\<lambda>_. follows Idle) ?r"
        by (rule wpE_mono [OF Finish_verified])
           (use b v assms(2) [of plain] a d [OF a] in \<open>auto simp: follows_Idle\<close>)
    qed (use v(2) in \<open>simp_all add: follows_wp keeps_view_vendor\<close>)
  qed (use assms(1) d in \<open>auto simp: view follows_reset follows_Idle intro!: follows_holds [unfolded follows_Idle] keeps_intros\<close>)
qed

text \<open>Decryption does not look at the frame header's handle and indicator.\<close>

definition sameResult :: "'s \<Rightarrow> 's \<Rightarrow> ('s, 'a) op \<Rightarrow> bool" where
  "sameResult s t m \<longleftrightarrow> fst (m s) = fst (m t)"

definition constResult :: "('s, 'a) op \<Rightarrow> bool" where
  "constResult m \<longleftrightarrow> (\<forall>s t. sameResult s t m)"

lemma sameResult_bind: "sameResult s t m \<Longrightarrow> (\<And>a. constResult (n a)) \<Longrightarrow> sameResult s t (bindE m n)"
  unfolding constResult_def sameResult_def
  by (cases "m s"; cases "m t"; cases "fst (m t)") (simp_all add: bindE_def)

lemma constResultD: "constResult m \<Longrightarrow> fst (m s) = fst (m t)"
  by (simp add: constResult_def sameResult_def)

lemma constResult_basic:
  "constResult (retE a)" "constResult (guardE b e)" "constResult (liftE e z)" "constResult (modE g)"
  by (simp_all add: constResult_def sameResult_def opE_defs split: option.splits)

lemma constResult_bind: "constResult m \<Longrightarrow> (\<And>a. constResult (n a)) \<Longrightarrow> constResult (bindE m n)"
  using sameResult_bind [of _ _ m n] by (simp add: constResult_def)

lemma constResult_let: "constResult (k x) \<Longrightarrow> constResult (let y = x in k y)"
  by simp

lemmas constResult_intros = constResult_basic constResult_bind constResult_let

lemma constResult_open: "constResult (openRecord K k i n a c t)" "constResult (tcgPayload d m)" "constResult (mctpPayload b d m)"
  unfolding openRecord_def tcgPayload_def mctpPayload_def by (intro constResult_intros)+

lemma bind_get: "bindE (getE f) n s = n (f s) s"
  by (simp add: opE_defs)

lemma RespDecrypt_hdr:
  "fst (RespDecrypt K enc n (c\<lparr>connectionHandle := x, fipsIndicator := y\<rparr>)) = fst (RespDecrypt K enc n c)"
proof -
  have opn: "sameResult (d\<lparr>connectionHandle := x, fipsIndicator := y\<rparr>) d (tcgOpen K enc)"
    "sameResult (d\<lparr>connectionHandle := x, fipsIndicator := y\<rparr>) d (mctpOpen K enc)" for d :: "'a WOLFSPDM_CTX"
    unfolding sameResult_def tcgOpen_def mctpOpen_def bind_get
    by (simp, rule constResultD, intro constResult_intros constResult_open)+
  have "sameResult (d\<lparr>connectionHandle := x, fipsIndicator := y\<rparr>) d (wolfSPDM_DecryptRecord K False enc n)" for d :: "'a WOLFSPDM_CTX"
    using sameResult_bind [OF opn(1), of "\<lambda>d. tcgPayload d n"] sameResult_bind [OF opn(2), of "\<lambda>d. mctpPayload False d n"]
    by (simp add: sameResult_def wolfSPDM_DecryptRecord_def bind_get wolfSPDM_IsTcgMode_def constResult_open)
  note this [of "RespSwapDataDir c", unfolded sameResult_def]
  moreover have "fst (RespDecrypt K enc n d) = fst (wolfSPDM_DecryptRecord K False enc n (RespSwapDataDir d))" for d :: "'a WOLFSPDM_CTX"
    by (simp add: RespDecrypt_def wolfSPDM_DecryptInternal_def opE_defs case_prod_unfold)
  moreover have "RespSwapDataDir (c\<lparr>connectionHandle := x, fipsIndicator := y\<rparr>) =
      (RespSwapDataDir c)\<lparr>connectionHandle := x, fipsIndicator := y\<rparr>"
    by (simp add: RespSwapDataDir_def)
  ultimately show ?thesis by simp
qed

lemma HandleMessage_opens:
  "wpE (wolfSPDM_RespHandleMessage K inBuf cap)
     (\<lambda>_ d. state (rctx d) = WOLFSPDM_STATE_CONNECTED \<longrightarrow> state (rctx r) = WOLFSPDM_STATE_CONNECTED \<or> sessionOpened K r inBuf)
     (\<lambda>_ d. state (rctx d) = WOLFSPDM_STATE_CONNECTED \<longrightarrow> state (rctx r) = WOLFSPDM_STATE_CONNECTED \<or> sessionOpened K r inBuf) r"
proof (cases "state (rctx r) = WOLFSPDM_STATE_CONNECTED \<or> sessionOpened K r inBuf")
  case True then show ?thesis by (auto simp: wpE_iff)
next
  case False
  have hdr: "state (rctx (respHdr x y r)) = state (rctx r)" "finishVerified K (respHdr x y r) plain = finishVerified K r plain"
    "fst (RespDecrypt K e n (rctx (respHdr x y r))) = fst (RespDecrypt K e n (rctx r))" for x y e n plain
    by (simp_all add: respHdr_def finishVerified_def RespDecrypt_hdr)
  have auth: "recordAuthentic K (RespSwapDataDir (rctx r)) e" if "fst (RespDecrypt K e n (rctx r)) = Inr plain" for e n plain
    using RespDecrypt_authentic [of K e n "rctx r" plain "snd (RespDecrypt K e n (rctx r))"] that by (simp add: prod_eq_iff)
  have "wpE (wolfSPDM_RespHandleMessage K inBuf cap) (\<lambda>_. follows Idle) (\<lambda>_. follows Idle) r"
    using False auth by (intro wp_HandleMessage follows_DispatchClear opens_DispatchSecured)
      (auto simp: follows_Idle hdr sessionOpened_def)
  with False show ?thesis by (auto simp: follows_Idle elim!: wpE_mono)
qed

end
