(* ===== verification/Spdm_RespReplay.thy ===== *)
theory Spdm_RespReplay
  imports Spdm_RespAuth
begin

text \<open>
  Replay: a record that reached the TPM or moved the lock is spent. The same frame is refused
  afterwards, whatever room the caller offers for the answer, and the tunnel stays as it is.
\<close>

section \<open>Replayed records\<close>

text \<open>The record was consumed: the session is over, or it has moved on to the next sequence number.\<close>

definition seqView :: "('w, 't) WOLFSPDM_RESP_CTX \<Rightarrow> nat \<times> 64 word \<times> bool" where
  "seqView r = (state (rctx r), reqSeqNum (rctx r), wolfSPDM_IsTcgMode (rctx r))"

lemma keeps_seq_Vendor: "keeps seqView (RespHandleVendorDefined K inb cap sec)"
  unfolding RespHandleVendorDefined_def RespHandleVendorDefinedInner_def respVendorCmd_def respTpmCmd_def respPskSet_def respPskClear_def
    putOut_def Let_def
  by (intro keeps_intros; simp add: seqView_def wolfSPDM_IsTcgMode_def)

lemma swap_fields: "state (RespSwapDataDir c) = state c" "reqSeqNum (RespSwapDataDir c) = rspSeqNum c" "rspSeqNum (RespSwapDataDir c) = reqSeqNum c"
    "wolfSPDM_IsTcgMode (RespSwapDataDir c) = wolfSPDM_IsTcgMode c"
  by (simp_all add: RespSwapDataDir_def wolfSPDM_IsTcgMode_def)

lemma keeps_seq_Encrypt: "keeps (seqView :: ('a, 'b) WOLFSPDM_RESP_CTX \<Rightarrow> _) (zoomE (RespEncrypt K resp cap))"
proof -
  have "keeps (\<lambda>c :: 'a WOLFSPDM_CTX. (state c, rspSeqNum c, wolfSPDM_IsTcgMode c)) (wolfSPDM_EncryptInternal K resp cap)"
    by (intro keeps_intros; simp add: wolfSPDM_IsTcgMode_def)
  moreover have "snd (RespEncrypt K resp cap c) = RespSwapDataDir (snd (wolfSPDM_EncryptInternal K resp cap (RespSwapDataDir c)))" for c :: "'a WOLFSPDM_CTX"
    by (simp add: RespEncrypt_def opE_defs split: prod.split)
  ultimately have "keeps (\<lambda>c :: 'a WOLFSPDM_CTX. (state c, reqSeqNum c, wolfSPDM_IsTcgMode c)) (RespEncrypt K resp cap)"
    unfolding keeps_def by (simp add: swap_fields)
  then show ?thesis by (intro keeps_zoom) (simp add: seqView_def)
qed

lemma RespDecrypt_next:
  assumes "RespDecrypt K enc n c = (Inr plain, d)"
  shows "d = c\<lparr>reqSeqNum := reqSeqNum c + 1\<rparr>"
proof -
  obtain t where "wolfSPDM_DecryptRecord K False enc n (RespSwapDataDir c) = (Inr plain, t)" "d = RespSwapDataDir t"
    using assms by (auto simp: RespDecrypt_def wolfSPDM_DecryptInternal_def succ_simps)
  then show ?thesis using wpE_Inr [OF DecryptRecord_authentic, of K False enc n "RespSwapDataDir c" plain t] by (simp add: RespSwapDataDir_def)
qed


definition consumed :: "wc_env \<Rightarrow> ('w, 't) WOLFSPDM_RESP_CTX \<Rightarrow> ('w, 't) WOLFSPDM_RESP_CTX \<Rightarrow> bool" where
  "consumed K r s \<longleftrightarrow> isIdle s \<or> seqView s = (state (rctx r), reqSeqNum (rctx r) + 1, wolfSPDM_IsTcgMode (rctx r))"

lemma consumed_reset: "consumed K r (wolfSPDM_RespReset s)"
  by (simp add: consumed_def isIdle_def wolfSPDM_RespReset_def wolfSPDM_ResetSession_def Let_def)

lemma tunnel_consumes:
  fixes r :: "('w, 't) WOLFSPDM_RESP_CTX"
  assumes "state (rctx r) = WOLFSPDM_STATE_CONNECTED"
  shows "wpE (RespDispatchSecured K enc cap) (\<lambda>_ s. tunnelView s = tunnelView r \<or> consumed K r s)
     (\<lambda>_ s. tunnelView s = tunnelView r \<or> consumed K r s) r"
proof -
  have view: "seqView s = seqView t \<Longrightarrow> consumed K r s = consumed K r t" for s t :: "('w, 't) WOLFSPDM_RESP_CTX"
    by (simp add: consumed_def isIdle_def seqView_def)
  let ?P = "\<lambda>s. tunnelView s = tunnelView r \<or> consumed K r s"
  show ?thesis
  proof (rule wp_DispatchSecured_keyed)
  fix plain c
  assume a: "RespDecrypt K enc WOLFSPDM_MAX_MSG_SIZE (rctx r) = (Inr plain, c)"
  have c: "seqView (r\<lparr>rctx := c, secureInPlain := plain\<rparr>) = (state (rctx r), reqSeqNum (rctx r) + 1, wolfSPDM_IsTcgMode (rctx r))"
    by (simp add: RespDecrypt_next [OF a] seqView_def wolfSPDM_IsTcgMode_def)
  have "wpE (RespHandleVendorDefined K plain WOLFSPDM_MAX_MSG_SIZE True) (\<lambda>_. ?P) (\<lambda>_. ?P) (r\<lparr>rctx := c, secureInPlain := plain\<rparr>)"
    by (rule wpE_mono [OF keeps_wpE [OF keeps_seq_Vendor]]) (simp_all add: consumed_def c)
  then show "wpE (respSecuredSwitch K (plain ! 1) plain) (\<lambda>_. ?P) (\<lambda>_. ?P) (r\<lparr>rctx := c, secureInPlain := plain\<rparr>)"
    using c assms by (intro wp_SecuredSwitch) (simp_all add: consumed_def seqView_def)
next
  show "holdsE (\<lambda>s. tunnelView s = tunnelView r \<or> consumed K r s) (zoomE (RespEncrypt K resp cap))" for resp
    unfolding holdsE_def
  proof (intro allI impI)
    fix s :: "('w, 't) WOLFSPDM_RESP_CTX"
    assume "tunnelView s = tunnelView r \<or> consumed K r s"
    then show "tunnelView (snd (zoomE (RespEncrypt K resp cap) s)) = tunnelView r \<or> consumed K r (snd (zoomE (RespEncrypt K resp cap) s))"
      using view [OF keeps_seq_Encrypt [unfolded keeps_def, rule_format, of K resp cap s]]
        keeps_tunnel_zoom [unfolded keeps_def, rule_format, of "RespEncrypt K resp cap" s] by simp
  qed
  next
    show "tunnelView (wolfSPDM_RespReset s) = tunnelView r \<or> consumed K r (wolfSPDM_RespReset s)" for s by (simp add: consumed_reset)
  qed (use assms in \<open>simp_all add: consumed_reset tunnelView_def consumed_def isIdle_def seqView_def\<close>)
qed

lemma consumed_refuses:
  assumes "tunnelOpen K r inBuf" "consumed K r s"
  shows "wpE (wolfSPDM_RespHandleMessage K inBuf cap) (\<lambda>_ _. False) (\<lambda>_ d. tunnelView d = tunnelView s) s"
proof -
  let ?e = "framePayload inBuf"
  have no: "\<not> recordAuthentic K (RespSwapDataDir (rctx s)) ?e" if "\<not> isIdle s"
    using assms that by (auto simp: tunnelOpen_def consumed_def seqView_def recordAuthentic_def Let_def RespSwapDataDir_def wolfSPDM_IsTcgMode_def
        split: if_splits)
  have hdr: "rctx (respHdr x y s) = (rctx s)\<lparr>connectionHandle := x, fipsIndicator := y\<rparr>" for x y by (simp add: respHdr_def)
  have fails: "wpE (RespDispatchSecured K ?e n) (\<lambda>_ _. False) (\<lambda>_ _. True) (respHdr x y s)" for n x y
  proof -
    have "\<not> recordAuthentic K (RespSwapDataDir (rctx (respHdr x y s))) ?e" if "\<not> isIdle s"
      using no [OF that] by (simp add: hdr recordAuthentic_def RespSwapDataDir_def wolfSPDM_IsTcgMode_def)
    then show ?thesis
      using RespDecrypt_authentic [of K ?e WOLFSPDM_MAX_MSG_SIZE "rctx (respHdr x y s)"]
      by (auto simp: RespDispatchSecured_def RespDispatchSecuredInner_def wpE_finally wpE_bind [of "getE _"] wpE_get
          wpE_bind [of "guardE _ _"] wpE_guard wpE_bind [of "zoomE (RespDecrypt _ _ _)"] wpE_zoom wpE_iff [of "RespDecrypt _ _ _"]
          isIdle_def hdr)
  qed
  have "wpE (wolfSPDM_RespHandleMessage K inBuf cap) (\<lambda>_ _. False) (\<lambda>_ _. True) s"
    unfolding wolfSPDM_RespHandleMessage_def Let_def framePayload_def [symmetric] wpE_bind wpE_get
      wpE_guard wpE_zoom wpE_mod id_apply respHdr_def [symmetric] wpE_if
    using assms(1) by (auto simp: tunnelOpen_def intro!: wpE_mono [OF fails])
  moreover have "wpE (wolfSPDM_RespHandleMessage K inBuf cap) (\<lambda>_ d. tunnelView d = tunnelView s) (\<lambda>_ d. tunnelView d = tunnelView s) s"
    by (rule wpE_mono [OF HandleMessage_tunnel]) (use no in \<open>auto simp: tunnelOpen_def isIdle_def\<close>)
  ultimately show ?thesis by (rule wpE_mono [OF wpE_conj]) simp_all
qed

lemma HandleMessage_once:
  "wpE (wolfSPDM_RespHandleMessage K inBuf cap)
     (\<lambda>_ s. tunnelView s = tunnelView r \<or>
        (\<forall>n. wpE (wolfSPDM_RespHandleMessage K inBuf n) (\<lambda>_ _. False) (\<lambda>_ d. tunnelView d = tunnelView s) s))
     (\<lambda>_ s. tunnelView s = tunnelView r \<or>
        (\<forall>n. wpE (wolfSPDM_RespHandleMessage K inBuf n) (\<lambda>_ _. False) (\<lambda>_ d. tunnelView d = tunnelView s) s)) r"
proof (cases "tunnelOpen K r inBuf")
  case True
  have hdr: "tunnelView (respHdr x y r) = tunnelView r" "state (rctx (respHdr x y r)) = state (rctx r)"
    "consumed K (respHdr x y r) = consumed K r" for x y
    by (simp_all add: tunnelView_def respHdr_def consumed_def fun_eq_iff wolfSPDM_IsTcgMode_def)
  have "wpE (wolfSPDM_RespHandleMessage K inBuf cap) (\<lambda>_ s. tunnelView s = tunnelView r \<or> consumed K r s)
      (\<lambda>_ s. tunnelView s = tunnelView r \<or> consumed K r s) r"
    using True tunnel_consumes [of "respHdr x y r" K for x y, unfolded hdr]
    by (intro wp_HandleMessage) (simp_all add: hdr tunnelOpen_def)
  then show ?thesis by (rule wpE_mono) (auto intro: consumed_refuses [OF True])
next
  case False
  then show ?thesis using wpE_mono [OF HandleMessage_tunnel [of K inBuf cap r]] by simp
qed

end
