(* ===== verification/Spdm_RespSecrets.thy ===== *)
theory Spdm_RespSecrets
  imports Spdm_RespAuth
begin

text \<open>
  The secrets a responder keeps: who may change the stored pre-shared key over the wire, and
  that no decrypted command or response stays in a scratch buffer after a message.
\<close>

section \<open>The pre-shared key\<close>

definition pskView :: "('w, 't) WOLFSPDM_RESP_CTX \<Rightarrow> bytes \<times> bytes \<times> bool \<times> bool \<times> bytes" where
  "pskView r = (pskStore r, clearAuthDigest r, clearAuthSet r, pskProvisioned r, pskHintStore r)"

text \<open>
  The message a frame carries: the payload of a clear frame, what an authentic record opens to in a
  secured one. A vendor command of the frame is a code and a payload of that message.
\<close>

definition carried :: "wc_env \<Rightarrow> ('w, 't) WOLFSPDM_RESP_CTX \<Rightarrow> bytes \<Rightarrow> bytes \<Rightarrow> bool" where
  "carried K r inBuf msg \<longleftrightarrow>
     SPDM_Get16BE inBuf 0 = WOLFSPDM_TCG_TAG_CLEAR \<and> msg = framePayload inBuf \<or>
     SPDM_Get16BE inBuf 0 = WOLFSPDM_TCG_TAG_SECURED \<and>
       recordAuthentic K (RespSwapDataDir (rctx r)) (framePayload inBuf) \<and>
       fst (RespDecrypt K (framePayload inBuf) WOLFSPDM_MAX_MSG_SIZE (rctx r)) = Inr msg"

definition vendorCommand :: "wc_env \<Rightarrow> ('w, 't) WOLFSPDM_RESP_CTX \<Rightarrow> bytes \<Rightarrow> bytes \<Rightarrow> bytes \<Rightarrow> bool" where
  "vendorCommand K r inBuf code payload \<longleftrightarrow>
     (\<exists>msg. carried K r inBuf msg \<and> fst (wolfSPDM_ParseVendorDefined msg WOLFSPDM_MAX_TPM_MSG_SIZE ()) = Inr (code, payload))"

text \<open>The payload is the secret behind a clear-authorisation digest.\<close>

definition clearAuthorised :: "wc_env \<Rightarrow> bytes \<Rightarrow> bytes \<Rightarrow> bool" where
  "clearAuthorised K authDigest secret \<longleftrightarrow> length secret = 32 \<and>
     (\<exists>h. fst (wolfSPDM_Sha384Hash K secret [] [] ()) = Inr h \<and> wolfSPDM_ConstCompare h authDigest WOLFSPDM_HASH_SIZE = 0)"

text \<open>
  What may happen to the stored key when \<open>got\<close> says which commands arrived: nothing; PSK_SET stores
  the key and the digest of its payload, over nothing or over the same key; PSK_CLR whose payload is
  the secret behind the stored digest erases both.
\<close>

definition pskStep :: "wc_env \<Rightarrow> (bytes \<Rightarrow> bytes \<Rightarrow> bool) \<Rightarrow> ('w, 't) WOLFSPDM_RESP_CTX \<Rightarrow> ('w, 't) WOLFSPDM_RESP_CTX \<Rightarrow> bool" where
  "pskStep K got r d \<longleftrightarrow>
     pskView d = pskView r \<or>
     (\<exists>p. got WOLFSPDM_NATIONS_VDCODE_PSK_SET p \<and> length p = WOLFSPDM_PSK_MAX_SIZE + WOLFSPDM_HASH_SIZE \<and>
        \<not> clearAuthSet r \<and> (pskStore r = [] \<or> pskStore r = take WOLFSPDM_PSK_MAX_SIZE p) \<and>
        pskView d = (take WOLFSPDM_PSK_MAX_SIZE p, drop WOLFSPDM_PSK_MAX_SIZE p, True, True, pskHintStore r)) \<or>
     (\<exists>p. got WOLFSPDM_NATIONS_VDCODE_PSK_CLEAR p \<and> pskProvisioned r \<and> clearAuthorised K (clearAuthDigest r) p \<and>
        pskView d = ([], zeros WOLFSPDM_HASH_SIZE, False, False, pskHintStore r))"

definition pskChange :: "wc_env \<Rightarrow> ('w, 't) WOLFSPDM_RESP_CTX \<Rightarrow> bytes \<Rightarrow> ('w, 't) WOLFSPDM_RESP_CTX \<Rightarrow> bool" where
  "pskChange K r inBuf = pskStep K (vendorCommand K r inBuf) r"

lemma pskStep_view: "pskView d = pskView r \<Longrightarrow> pskStep K got r d"
  by (simp add: pskStep_def)

lemma pskStep_cong: "pskView d = pskView e \<Longrightarrow> pskStep K got r d = pskStep K got r e"
  "pskView r = pskView s \<Longrightarrow> pskStep K got r = pskStep K got s"
  by (simp_all only: fun_eq_iff pskStep_def) (simp add: pskView_def)

lemma ParseVendorDefined_pure:
  "wolfSPDM_ParseVendorDefined inb n s = (fst (wolfSPDM_ParseVendorDefined inb n ()), s)"
  by (simp add: wolfSPDM_ParseVendorDefined_def opE_defs Let_def)

lemma pskView_frame [simp]:
  "pskView (r\<lparr>rctx := c\<rparr>) = pskView r" "pskView (r\<lparr>secureInPlain := x\<rparr>) = pskView r"
  "pskView (r\<lparr>secureOutPlain := x\<rparr>) = pskView r" "pskView (r\<lparr>vdInPayload := x\<rparr>) = pskView r"
  "pskView (r\<lparr>vdOutPayload := x\<rparr>) = pskView r" "pskView (wolfSPDM_RespReset r) = pskView r"
  by (simp_all add: pskView_def wolfSPDM_RespReset_def)

lemma entered_pskView: "entered r s \<Longrightarrow> pskView s = pskView r"
  by (auto simp: entered_def)

lemma holds_pskStep: "keeps pskView m \<Longrightarrow> holdsE (pskStep K got r) m"
  unfolding holdsE_def keeps_def using pskStep_cong(1) by blast

lemma keeps_psk_small [keeps_intros]:
  "keeps pskView (zoomE m)" "keeps pskView (putOut x)" "keeps pskView (respTpmCmd p)"
  unfolding putOut_def respTpmCmd_def Let_def
  by (intro keeps_intros; simp add: pskView_def keeps_def)+

lemma keeps_psk_handlers [keeps_intros]:
  "keeps pskView (respPskReply K)" "keeps pskView (respSign K h)" "keeps pskView (respKexReply K inb)"
  "keeps pskView (respFinish K code isAsym inb cap)"
  "keeps pskView (RespBuildPskExchangeRsp K inb cap)" "keeps pskView (RespBuildKeyExchangeRsp K inb cap)"
  unfolding respPskReply_def respKexReply_def respFinish_def respSign_def Let_def
    RespBuildPskExchangeRsp_def RespBuildKeyExchangeRsp_def
  by (intro keeps_intros; simp add: pskView_def)+

lemma psk_Set:
  assumes "got WOLFSPDM_NATIONS_VDCODE_PSK_SET payload"
  shows "wpE (respPskSet payload) (\<lambda>_. pskStep K got r) (\<lambda>_. pskStep K got r) r"
proof -
  have "take WOLFSPDM_PSK_MAX_SIZE payload = pskStore r"
    if "length payload = WOLFSPDM_PSK_MAX_SIZE + WOLFSPDM_HASH_SIZE" "length (pskStore r) = WOLFSPDM_PSK_MAX_SIZE"
      "wolfSPDM_ConstCompare (pskStore r) payload WOLFSPDM_PSK_MAX_SIZE = 0"
    using that by (simp add: wolfSPDM_ConstCompare_eq_0)
  with assms show ?thesis
    by (auto simp: respPskSet_def wp_simps Let_def pskStep_def pskView_def intro!: exI [of _ payload])
qed

lemma psk_Clear:
  assumes "got WOLFSPDM_NATIONS_VDCODE_PSK_CLEAR payload"
  shows "wpE (respPskClear K payload) (\<lambda>_. pskStep K got r) (\<lambda>_. pskStep K got r) r"
proof -
  have "clearAuthorised K (clearAuthDigest r) payload" if "length payload = 32"
    "fst (wolfSPDM_Sha384Hash K payload [] [] ()) = Inr h" "wolfSPDM_ConstCompare h (clearAuthDigest r) WOLFSPDM_HASH_SIZE = 0" for h
    using that by (simp add: clearAuthorised_def)
  with assms show ?thesis
    by (auto simp: respPskClear_def wp_simps wpE_Sha384Hash pskStep_def pskView_def intro!: exI [of _ payload] split: sum.splits)
qed

lemma psk_VendorCmd:
  fixes t :: "('w, 't) WOLFSPDM_RESP_CTX"
  assumes "pskView t = pskView r" "got vd payload"
  shows "wpE (respVendorCmd K vd payload) (\<lambda>_. pskStep K got r) (\<lambda>_. pskStep K got r) t"
proof -
  have put: "holdsE (pskStep K got r) (putOut x)" for x by (intro holds_pskStep keeps_intros)
  note view = pskStep_cong(2) [OF assms(1) [symmetric], of K got]
  have sets: "wpE (thenE (respPskSet payload) (putOut x)) (\<lambda>_. pskStep K got r) (\<lambda>_. pskStep K got r) t"
      if "vd = WOLFSPDM_NATIONS_VDCODE_PSK_SET" for x
    using assms(2) that unfolding view by (intro wpE_then [OF psk_Set] put [unfolded view]) simp
  have clears: "wpE (thenE (respPskClear K payload) (putOut x)) (\<lambda>_. pskStep K got r) (\<lambda>_. pskStep K got r) t"
      if "vd = WOLFSPDM_NATIONS_VDCODE_PSK_CLEAR" for x
    using assms(2) that unfolding view by (intro wpE_then [OF psk_Clear] put [unfolded view]) simp
  have quiet: "wpE m (\<lambda>_. pskStep K got r) (\<lambda>_. pskStep K got r) t" if "keeps pskView m" for m :: "('w, 't, bytes) rop"
    by (intro holdsE_wpE holds_pskStep that pskStep_view assms(1))
  show ?thesis
    unfolding respVendorCmd_def wpE_bind [of "getE _"] wpE_get wpE_if if_bool_eq_conj
    by (intro conjI impI)
       ((rule sets clears, assumption) | (rule quiet, (intro keeps_intros; simp add: pskView_def)))+
qed

lemma psk_Vendor:
  fixes r s :: "('w, 't) WOLFSPDM_RESP_CTX"
  assumes "pskView s = pskView r"
    and got: "\<And>vd p. fst (wolfSPDM_ParseVendorDefined inb WOLFSPDM_MAX_TPM_MSG_SIZE ()) = Inr (vd, p) \<Longrightarrow> got vd p"
  shows "wpE (RespHandleVendorDefined K inb cap sec) (\<lambda>_. pskStep K got r) (\<lambda>_. pskStep K got r) s"
proof -
  have parse: "wpE (wolfSPDM_ParseVendorDefined inb WOLFSPDM_MAX_TPM_MSG_SIZE) (\<lambda>(vd, p) d. d = s \<and> got vd p) (\<lambda>_ d. d = s) s"
    using got by (auto simp: wpE_iff ParseVendorDefined_pure [of _ _ s])
  have wipe: "pskStep K got r (d\<lparr>vdInPayload := x, vdOutPayload := y\<rparr>) = pskStep K got r d" for d :: "('w, 't) WOLFSPDM_RESP_CTX" and x y
    by (rule pskStep_cong) simp
  have rest: "holdsE (pskStep K got r) (thenE (guardE (f resp) E_BUFFER_SMALL) (bindE (zoomE (getE spdmVersion)) (\<lambda>ver. retE (g ver resp))))"
    for f resp and g :: "byte \<Rightarrow> bytes \<Rightarrow> bytes \<times> bytes" by (intro holds_pskStep keeps_intros)
  show ?thesis
    unfolding RespHandleVendorDefined_def RespHandleVendorDefinedInner_def wpE_finally wipe
      wpE_bind [of "wolfSPDM_ParseVendorDefined _ _"]
    apply (rule wpE_mono [OF parse])
    subgoal for a t
      using assms(1) pskStep_view [of _ r K got]
      by (cases a)
        (auto simp: wpE_bind [of "modE _"] wpE_mod wpE_bind [of "getE _"] wpE_get wpE_bind [of "guardE _ _"] wpE_guard
          intro!: wpE_then [OF psk_VendorCmd] rest)
    by (simp add: assms(1) pskStep_view)
qed

lemma psk_DispatchClear:
  fixes r s :: "('w, 't) WOLFSPDM_RESP_CTX"
  assumes "pskView s = pskView r"
    and got: "\<And>vd p. fst (wolfSPDM_ParseVendorDefined inb WOLFSPDM_MAX_TPM_MSG_SIZE ()) = Inr (vd, p) \<Longrightarrow> got vd p"
  shows "wpE (RespDispatchClear K inb n) (\<lambda>_. pskStep K got r) (\<lambda>_. pskStep K got r) s"
proof (rule wp_DispatchClear)
  fix t :: "('w, 't) WOLFSPDM_RESP_CTX"
  assume "entered s t \<or> entered (respRestart s) t"
  then have "pskView t = pskView r" using assms(1) by (auto dest: entered_pskView)
  then show "wpE (RespHandleVendorDefined K inb n False) (\<lambda>_. pskStep K got r) (\<lambda>_. pskStep K got r) t"
    by (rule psk_Vendor) (rule got)
qed (use assms(1) in \<open>auto intro: pskStep_view holdsE_wpE [OF holds_pskStep] keeps_psk_handlers
      simp: pskStep_cong(1) [of "_\<lparr>rctx := _\<rparr>"]\<close>)

lemma psk_DispatchSecured:
  fixes r s :: "('w, 't) WOLFSPDM_RESP_CTX"
  assumes "pskView s = pskView r"
    and got: "\<And>msg vd p. fst (RespDecrypt K enc WOLFSPDM_MAX_MSG_SIZE (rctx s)) = Inr msg \<Longrightarrow>
        fst (wolfSPDM_ParseVendorDefined msg WOLFSPDM_MAX_TPM_MSG_SIZE ()) = Inr (vd, p) \<Longrightarrow> got vd p"
  shows "wpE (RespDispatchSecured K enc n) (\<lambda>_. pskStep K got r) (\<lambda>_. pskStep K got r) s"
proof (rule wp_DispatchSecured)
  fix plain c
  assume "RespDecrypt K enc WOLFSPDM_MAX_MSG_SIZE (rctx s) = (Inr plain, c)"
  then have g: "got vd p" if "fst (wolfSPDM_ParseVendorDefined plain WOLFSPDM_MAX_TPM_MSG_SIZE ()) = Inr (vd, p)" for vd p
    using got that by simp
  have v: "pskView (s\<lparr>rctx := c, secureInPlain := plain\<rparr>) = pskView r" using assms(1) by simp
  show "wpE (respSecuredSwitch K (plain ! 1) plain) (\<lambda>_. pskStep K got r) (\<lambda>_. pskStep K got r)
      (s\<lparr>rctx := c, secureInPlain := plain\<rparr>)"
    by (intro wp_SecuredSwitch psk_Vendor v g pskStep_view holdsE_wpE [OF holds_pskStep] keeps_psk_handlers)
qed (use assms(1) in \<open>auto intro!: pskStep_view holds_pskStep keeps_intros pskStep_cong(1)
      simp: pskStep_cong(1) [of "wolfSPDM_RespReset _"]\<close>)

text \<open>
  A message stores a key only where there is none, never replaces one by another, and removes one
  only when it carries the secret whose digest was stored with it.
\<close>

lemma HandleMessage_psk:
  "wpE (wolfSPDM_RespHandleMessage K inBuf cap) (\<lambda>_. pskChange K r inBuf) (\<lambda>_. pskChange K r inBuf) r"
proof -
  have hdr: "fst (RespDecrypt K e n (rctx (respHdr x y r))) = fst (RespDecrypt K e n (rctx r))"
    "pskView (respHdr x y r) = pskView r" for e n x y
    by (simp_all add: respHdr_def RespDecrypt_hdr)
  have auth: "recordAuthentic K (RespSwapDataDir (rctx r)) e" if "fst (RespDecrypt K e n (rctx r)) = Inr plain" for e n plain
    using RespDecrypt_authentic [of K e n "rctx r" plain "snd (RespDecrypt K e n (rctx r))"] that by (simp add: prod_eq_iff)
  show ?thesis
    unfolding pskChange_def
    by (intro wp_HandleMessage psk_DispatchClear psk_DispatchSecured)
       (auto simp: hdr pskStep_view vendorCommand_def carried_def intro: auth)
qed

section \<open>Scratch buffers\<close>

definition scratchClean :: "('w, 't) WOLFSPDM_RESP_CTX \<Rightarrow> bool" where
  "scratchClean r \<longleftrightarrow> secureInPlain r = [] \<and> secureOutPlain r = [] \<and> vdInPayload r = [] \<and> vdOutPayload r = []"

definition scratchView :: "('w, 't) WOLFSPDM_RESP_CTX \<Rightarrow> bytes \<times> bytes \<times> bytes \<times> bytes" where
  "scratchView r = (secureInPlain r, secureOutPlain r, vdInPayload r, vdOutPayload r)"

lemma scratchClean_view: "scratchClean r \<longleftrightarrow> scratchView r = ([], [], [], [])"
  by (simp add: scratchClean_def scratchView_def)

lemma scratch_frame [simp]: "scratchView (r\<lparr>rctx := c\<rparr>) = scratchView r" "scratchClean (r\<lparr>rctx := c\<rparr>) = scratchClean r"
  "scratchClean (wolfSPDM_RespReset r)"
  by (simp_all add: scratchView_def scratchClean_def wolfSPDM_RespReset_def)

lemma keeps_scratch_zoom [keeps_intros]: "keeps scratchView (zoomE m)"
  by (intro keeps_intros) (simp add: keeps_def)

lemma keeps_scratch [keeps_intros]:
  "keeps scratchView (respPskReply K)" "keeps scratchView (respSign K h)"
  "keeps scratchView (respKexReply K inb)" "keeps scratchView (respFinish K code isAsym inb cap)"
  "keeps scratchView (RespBuildPskExchangeRsp K inb cap)" "keeps scratchView (RespBuildKeyExchangeRsp K inb cap)"
proof -
  note zoom = keeps_scratch_zoom
  show sign: "keeps scratchView (respSign K h)" for K h
    unfolding respSign_def Let_def by (intro keeps_bind keeps_get zoom)
  show psk: "keeps scratchView (respPskReply K)" for K
    unfolding respPskReply_def by (intro keeps_bind keeps_mod keeps_ret zoom) (simp add: scratchView_def)
  show kex: "keeps scratchView (respKexReply K inb)" for K inb
    unfolding respKexReply_def
    by (intro keeps_bind keeps_mod keeps_ret keeps_case_prod zoom sign) (simp add: scratchView_def)
  show "keeps scratchView (respFinish K code isAsym inb cap)"
    unfolding respFinish_def Let_def by (intro keeps_bind keeps_mod keeps_ret keeps_guard zoom) (simp add: scratchView_def)
  show "keeps scratchView (RespBuildPskExchangeRsp K inb cap)" "keeps scratchView (RespBuildKeyExchangeRsp K inb cap)"
    unfolding RespBuildPskExchangeRsp_def RespBuildKeyExchangeRsp_def
    by (intro keeps_bind keeps_mod keeps_guard keeps_get zoom psk kex; simp)+
qed

lemma holds_scratch: "keeps scratchView m \<Longrightarrow> holdsE scratchClean m"
  by (auto simp: holdsE_def keeps_def scratchClean_view)

text \<open>A vendor command wipes its two buffers on every path, a secured message its own two.\<close>

lemma scratch_Vendor:
  assumes "scratchClean r"
  shows "wpE (RespHandleVendorDefined K inb cap sec) (\<lambda>_. scratchClean) (\<lambda>_. scratchClean) r"
proof -
  have k: "keeps (\<lambda>r. (secureInPlain r, secureOutPlain r)) (RespHandleVendorDefinedInner K inb cap sec)"
    unfolding RespHandleVendorDefinedInner_def respVendorCmd_def respTpmCmd_def respPskSet_def respPskClear_def putOut_def Let_def
    by (intro keeps_intros; simp add: keeps_def)
  show ?thesis
    unfolding RespHandleVendorDefined_def wpE_finally
    by (rule wpE_mono [OF keeps_wpE [OF k, of r]]) (use assms in \<open>simp_all add: scratchClean_def\<close>)
qed

lemma scratch_DispatchClear:
  "scratchClean r \<Longrightarrow> wpE (RespDispatchClear K inb cap) (\<lambda>_. scratchClean) (\<lambda>_. scratchClean) r"
  by (rule wp_DispatchClear) (simp_all add: scratch_Vendor holdsE_wpE [OF holds_scratch] keeps_scratch)

lemma scratch_DispatchSecured:
  fixes r :: "('w, 't) WOLFSPDM_RESP_CTX"
  assumes "scratchClean r"
  shows "wpE (RespDispatchSecured K enc cap) (\<lambda>_. scratchClean) (\<lambda>_. scratchClean) r"
proof -
  let ?P = "\<lambda>s :: ('w, 't) WOLFSPDM_RESP_CTX. vdInPayload s = [] \<and> vdOutPayload s = []"
  have hs: "holdsE ?P m" if "keeps scratchView m" for m :: "('w, 't, 'c) rop"
    using that by (auto simp: holdsE_def keeps_def scratchView_def)
  have vd: "wpE (RespHandleVendorDefined K plain n True) (\<lambda>_. ?P) (\<lambda>_. ?P) s" for plain n s
    unfolding RespHandleVendorDefined_def wpE_finally by (rule wpE_any) simp_all
  have sw: "wpE (respSecuredSwitch K code plain) (\<lambda>_. ?P) (\<lambda>_. ?P) s" if "?P s" for code plain s
    by (rule wp_SecuredSwitch [OF that holdsE_wpE [OF hs [OF keeps_scratch(4)] that] vd])
  have "wpE (RespDispatchSecured K enc cap) (\<lambda>_. ?P) (\<lambda>_. ?P) r"
    by (rule wp_DispatchSecured)
       (use assms in \<open>auto simp: scratchClean_def wolfSPDM_RespReset_def intro!: sw hs keeps_scratch_zoom\<close>)
  moreover have "wpE (RespDispatchSecured K enc cap) (\<lambda>_ s. secureInPlain s = [] \<and> secureOutPlain s = [])
      (\<lambda>_ s. secureInPlain s = [] \<and> secureOutPlain s = []) r"
    unfolding RespDispatchSecured_def wpE_finally by (rule wpE_any) simp_all
  ultimately show ?thesis
    by (rule wpE_mono [OF wpE_conj]) (simp_all add: scratchClean_def)
qed

lemma scratch_HandleMessage: "holdsE scratchClean (wolfSPDM_RespHandleMessage K inBuf cap)"
  unfolding holdsE_iff
  by (intro allI impI wp_HandleMessage scratch_DispatchClear scratch_DispatchSecured)
     (simp_all add: respHdr_def)

lemma respReach_scratch: "respReach K nul tnul r \<Longrightarrow> scratchClean r"
proof (induction rule: respReach.induct)
  case (init r0 r)
  then show ?case
    by (auto simp: wolfSPDM_RespInit_def wolfSPDM_Init_def succ_simps scratchClean_def zero_resp_def)
next
  case (call r a)
  show ?case
  proof (cases a)
    case (CallSetPSK k h)
    then show ?thesis using call.IH
      by (cases h) (simp_all add: wolfSPDM_RespSetPSK_def wolfSPDM_SetPSK_def zoomE_def opE_defs scratchClean_def)
  next
    case (CallHandleMessage m n)
    then show ?thesis using call.IH by (simp add: scratch_HandleMessage [unfolded holdsE_def])
  qed (use call.IH in \<open>simp_all add: wolfSPDM_RespSetMode_def
      wolfSPDM_RespSetIdentityKey_def wolfSPDM_RespSetTpmCallback_def wolfSPDM_RespSetDebug_def opE_defs\<close>,
      simp_all add: scratchClean_def)
qed

end
