(* ===== verification/Spec2Isabelle.thy ===== *)
theory Spec2Isabelle
  imports Spdm_Instance Spdm_RespReplay Spdm_RespSecrets Spdm_Bounded Spdm_Api
begin

text \<open>
  wolfSPDM, a C library for the DMTF Security Protocol and Data Model (SPDM 1.2 to 1.4): a
  requester that authenticates a device and opens an encrypted session with it, over MCTP or over
  the TCG binding for TPMs, and a responder for the TCG binding that tunnels TPM commands. The
  model is the full build: certificates, chunking, measurements, challenge, ML-DSA and ML-KEM,
  pre-shared keys, the TCG binding, the responder, the three vendor adapters, and the demo program
  that drives a requester over TCP.

  \<^bold>\<open>How the parts interact.\<close> A context (\<open>WOLFSPDM_CTX\<close>) holds the state of one requester. The
  configuration calls fill it; \<open>wolfSPDM_Connect\<close> runs the handshake of its mode: a clear exchange
  builds a request, appends it to the transcript, sends it through the I/O callback, and parses
  the answer; the transcript feeds the key schedule; after the finish, records protect every
  message. A responder context embeds a requester context and swaps its two directions to seal
  and open records. Every operation is a function from a context to a result or an error and the
  new context (\<open>op\<close> of \<open>Spdm_Prelude\<close>); each early return of the code is a branch that
  keeps what was written before it. A buffer with its length is a list; an output buffer is the
  returned list with the caller's size as an argument; machine integers have their C widths.

  \<^bold>\<open>The theories and the sources under\<close> \<^verbatim>\<open>src/\<close>.
  \<^item> \<open>Spdm_Prelude\<close>: the error and state monad, the rules for what an operation establishes
    (\<open>wpE\<close>), leaves alone (\<open>keeps\<close>) and preserves (\<open>holdsE\<close>), and lemmas on lists and words.
  \<^item> \<open>Spdm_Types\<close>: \<^verbatim>\<open>wolfspdm/spdm_types.h\<close>, \<^verbatim>\<open>spdm_error.h\<close>, \<^verbatim>\<open>spdm.h\<close> and the context
    structure of \<^verbatim>\<open>src/spdm_internal.h\<close>.
  \<^item> \<open>Spdm_Bytes\<close>: the inline helpers of \<^verbatim>\<open>spdm_internal.h\<close>; the locale \<open>fixed_codec\<close> states once
    what a fixed-width integer codec gives and is interpreted for the five codecs of the code.
  \<^item> \<open>Spdm_Crypto\<close>: \<^verbatim>\<open>spdm_transcript.c\<close>, \<^verbatim>\<open>spdm_crypto.c\<close>, \<^verbatim>\<open>spdm_kdf.c\<close>.
  \<^item> \<open>Spdm_Context\<close>, \<open>Spdm_Connect\<close>, \<open>Spdm_Api\<close>: \<^verbatim>\<open>spdm_context.c\<close> (and the setters of the other
    files): initialisation, configuration, connect, disconnect, accessors, error texts.
  \<^item> \<open>Spdm_Transport\<close>: the I/O callback, \<open>wolfSPDM_SendReceive\<close> and the TCG frames; the locale
    \<open>exchange\<close> is the interface of a request and response, which the chunk layer uses and which is
    interpreted for the clear and the secured transports.
  \<^item> \<open>Spdm_Secured\<close>: \<^verbatim>\<open>spdm_secured.c\<close>. \<open>Spdm_Chunk\<close>: \<^verbatim>\<open>spdm_chunk.c\<close>. \<open>Spdm_Msg\<close>: \<^verbatim>\<open>spdm_msg.c\<close>.
  \<^item> \<open>Spdm_Cert\<close>, \<open>Spdm_Standard\<close>: \<^verbatim>\<open>spdm_standard.c\<close>. \<open>Spdm_Session\<close>: \<^verbatim>\<open>spdm_session.c\<close>.
    \<open>Spdm_Attest\<close>: \<^verbatim>\<open>spdm_attest.c\<close>. \<open>Spdm_Psk\<close>: \<^verbatim>\<open>spdm_psk.c\<close>. \<open>Spdm_Tcg\<close>: \<^verbatim>\<open>spdm_tcg.c\<close> and
    \<^verbatim>\<open>vendor/\<close>.
  \<^item> \<open>Spdm_Responder\<close>: \<^verbatim>\<open>spdm_responder.c\<close>. \<open>Spdm_RespRules\<close> has one proof rule per dispatcher;
    \<open>Spdm_RespProps\<close>, \<open>Spdm_RespAuth\<close>, \<open>Spdm_RespReplay\<close> and \<open>Spdm_RespSecrets\<close> use them.
  \<^item> The requester with the responder as its peer: \<open>Spdm_Handshake\<close> has what every connection shares,
    \<open>Spdm_Tunnel\<close> a session at work, \<open>Spdm_PskConnect\<close> the pre-shared key, \<open>Spdm_IdClear\<close> and
    \<open>Spdm_IdConnect\<close> the identity key; \<open>Spdm_EndToEnd\<close> starts both sides from their configuration;
    \<open>Spdm_Provision\<close> has the vendor adapters against the responder.
  \<^item> \<open>Spdm_Bounded\<close>: how often a requester calls its peer. \<open>Spdm_World\<close>: what the I/O callback keeps of its
    own state, the requester keeps.
  \<^item> \<open>Spdm_Demo\<close>: \<^verbatim>\<open>examples/spdm_demo.c\<close>, the socket transport it gives the library as I/O callback,
    its scenarios and its \<^verbatim>\<open>main\<close>.
  \<^item> \<open>Spdm_Instance\<close>: a concrete environment, contexts and peers for the witnesses.

  \<^bold>\<open>What the theorems show.\<close>
  \<^item> Authentication (C1, C4, C5, C6, C18, C26, C28): a connection, a session's parameters, a
    certificate chain, algorithms, measurements and a challenge are accepted only after the check
    the protocol prescribes.
  \<^item> Records (C2, C3, C8): round trip, authenticity and replay, distinct nonces. C8 observes the IVs at
    AES-GCM itself, by running the code on a wolfCrypt that gives them back (\<open>gcmProbe\<close>).
  \<^item> Secrets (C7, C13, C14, C23): what is erased, restored, or changed by which command; an update of
    keys derives the new ones from the old secrets or leaves everything.
  \<^item> The responder (C9 to C14, C39): a state invariant over every sequence of calls, a refinement of
    the abstract protocol of phases (\<open>respStep\<close>), and what only an authentic record can reach.
  \<^item> Messages (C15, C16, C18 to C22, C25, C27): negotiation within what was offered, rollback of the
    three exchanges built on \<open>wolfSPDM_ExchangeMsg\<close>, bounds and chunking.
  \<^item> Both sides together (C29 to C31, C33 to C35): a configured pair does connect, with a pre-shared key or
    with an identity key, and agrees on the session, a TPM command passes through the tunnel and
    back, the session ends on both sides, a vendor's lock is set in the session and reported, and a
    key is provisioned, used and removed.
  \<^item> The API (C36, C37): connecting makes a bounded number of calls, and every reachable context is
    well-formed.
  \<^item> The demo program (C17, C32, C38): its transport delivers over any stream socket, marks messages
    rightly, its exit status means what it says, and it closes every descriptor it opens.
  \<^item> Two defects (C24, C40): a failed update of the requester's key restarts the sequence number
    under the old key; a finish whose answer cannot be sealed leaves the responder connected
    under the handshake keys.

  \<^bold>\<open>Bounds and loops.\<close> No definition uses fuel. The two socket loops of the demo try again as long as
  they are interrupted and are partial functions; C38 shows that they return on a socket that is not
  interrupted for ever. The certificate and chunk loops recurse on what is
  still to be transferred, with a termination proof: each portion the peer sends is non-empty or
  the loop fails. \<open>connectCalls\<close> adds the portions of the largest certificate chain and the chunks
  of the largest message up; it is what the buffers allow, not a tight bound. C34 bounds a TPM
  command and its answer by 6983 bytes: the 17 bytes of the vendor header more are at most 7000, which
  the transfer buffer holds with padding and tag.

  \<^bold>\<open>Parameters.\<close> wolfCrypt is the record \<open>wc_env\<close> of functions, X.509 decoding included; \<open>wc_gcm_ok\<close>
  (decryption inverts encryption), \<open>wc_rng_ok\<close> (a generator gives the length asked for), \<open>wc_works\<close>
  (the primitives succeed on valid sizes), \<open>wc_ecc_works\<close> and \<open>eccPair\<close> (generated keys agree on a
  secret, a key pair verifies what it signs) are the only facts used of it, and \<open>Spdm_Instance\<close>
  has an instance of all. The I/O callback and the TPM behind a responder are
  functions on a state of their own. The operating system under the demo is the record \<open>sock_os\<close>,
  \<open>tcp_ok\<close> is what TCP promises of its two transfer calls and \<open>fd_ok\<close> what POSIX promises of
  descriptors; \<open>slowOs\<close> and \<open>fdOs\<close> are instances.

  \<^bold>\<open>Not modelled.\<close> Debug printing (no state depends on it), the allocator and the sizes of C
  structures, NULL arguments except where a NULL selects a behaviour, the splitting of a command
  line by \<^verbatim>\<open>getopt_long\<close>, the script of \<^verbatim>\<open>examples/\<close> and the tests. A scratch buffer of the responder is what
  was last left in it. The side channel that \<open>wolfSPDM_ConstCompare\<close> avoids is not a matter of
  values. The library has no responder for the standard mode, so C31 and C33 have no counterpart
  there; what a standard connection proves when it succeeds is C1.
\<close>

section \<open>Sessions\<close>

text \<open>
  C1. A connection that \<^verbatim>\<open>wolfSPDM_Connect\<close> reports as established is authenticated: in the
  standard mode the certificate chain was trusted and KEY_EXCHANGE_RSP was signed with its
  leaf key, in a TCG mode the signature was checked under the configured responder key, in
  the PSK mode the responder proved the configured key, which is then gone. On any failure
  the context is in the error state, or the call was refused before the handshake began.
\<close>

theorem Connect_authenticated:
  "wpE (wolfSPDM_Connect K) (\<lambda>_ d. authenticated K c d)
     (\<lambda>e d. state d = WOLFSPDM_STATE_ERROR \<or>
        (e = E_BAD_STATE \<or> e = E_IO_FAIL) \<and> (d = c \<or> d = wolfSPDM_ResetSession c)) c"
  by (rule Connect_outcome)

text \<open>
  C2. A record sealed by one side opens at a peer set up as its mirror with the same payload,
  leaves the two sides in step, and is rejected with a sequence error when it is replayed; a
  failed seal leaves the outgoing sequence number alone.
\<close>

theorem secured_record_roundtrip:
  assumes "wc_gcm_ok K" "wc_rng_ok K" "mirrored c d" "plain \<noteq> []" "length plain \<le> cap'"
  shows "case wolfSPDM_EncryptRecord K a plain cap c of
      (Inr enc, c') \<Rightarrow> (\<exists>d'. wolfSPDM_DecryptRecord K a enc cap' d = (Inr plain, d') \<and> mirrored c' d' \<and>
         wolfSPDM_DecryptRecord K a enc cap' d' = (Inl E_SEQUENCE, d'))
    | (Inl e, c') \<Rightarrow> reqSeqNum c' = reqSeqNum c"
  using EncryptRecord_opens [OF assms(1-3)] assms(4,5) EncryptRecord_seq [of K a plain cap c]
  by (auto simp: wpE_def split: prod.splits sum.splits)

theorem secured_record_roundtrip_witness:
  "case wolfSPDM_EncryptRecord simpleWc False [1, 2, 3] 100 (connectedCtx MODE_AUTO) of
      (Inr enc, c') \<Rightarrow> (\<exists>d'. wolfSPDM_DecryptRecord simpleWc False enc 100 (connectedCtx MODE_AUTO) = (Inr [1, 2, 3], d') \<and>
         mirrored c' d' \<and> wolfSPDM_DecryptRecord simpleWc False enc 100 d' = (Inl E_SEQUENCE, d'))
    | (Inl e, c') \<Rightarrow> reqSeqNum c' = reqSeqNum (connectedCtx MODE_AUTO)"
  by (rule secured_record_roundtrip [OF simpleWc_ok connectedCtx_mirrored]) simp_all

text \<open>
  C3. Only an authentic record is accepted: it names this session and the expected sequence
  number and its tag verifies under the incoming key. The incoming sequence number moves
  only for an authentic record, and a payload never exceeds the caller's room.
\<close>

theorem decrypt_only_authentic:
  "wpE (wolfSPDM_DecryptRecord K a enc cap)
     (\<lambda>p d. recordAuthentic K c enc \<and> d = nextRsp c \<and> length p \<le> cap)
     (\<lambda>_ d. d = c \<or> recordAuthentic K c enc \<and> d = nextRsp c) c"
  by (rule DecryptRecord_authentic)

text \<open>
  C4. KEY_EXCHANGE_RSP commits a session only when the responder's signature and its HMAC over
  the transcript were both verified; otherwise state, session ids and mutual-authentication
  parameters are as before.
\<close>

theorem key_exchange_commits_verified:
  "wpE (wolfSPDM_ParseKeyExchangeRsp K buf)
     (\<lambda>_ d. kexVerified K c buf d \<and> state d = WOLFSPDM_STATE_KEY_EX)
     (\<lambda>_ d. kexCommit d = kexCommit c) c"
  using ParseKeyExchangeRsp_verified [of K buf c] failKeepsD [OF ParseKeyExchangeRsp_failKeeps, of K buf c]
  by (auto simp: wpE_iff)

text \<open>
  C5. A responder key taken from a certificate chain is used only when a trusted chain reaches
  the leaf that carries it; a chain that is not trusted loses the key it brought.
\<close>

theorem cert_chain_trust:
  "wpE (wolfSPDM_ValidateCertChain K) (\<lambda>_ d. chainTrusted K c d \<and> hasRspPubKey (flags d))
     (\<lambda>_ d. d = dropCertKey c) c"
  by (rule ValidateCertChain_outcome)

text \<open>
  C6. PSK_EXCHANGE_RSP commits a session only when the responder proved the configured
  pre-shared key, which is erased from the context by then; a failure commits nothing.
\<close>

theorem psk_exchange_commits_verified:
  "wpE (wolfSPDM_ParsePskExchangeRsp K buf)
     (\<lambda>_ d. pskVerified K c buf d \<and> state d = WOLFSPDM_STATE_KEY_EX \<and> psk d = [])
     (\<lambda>_ d. pskCommit d = pskCommit c) c"
  using ParsePskExchangeRsp_verified [of K buf c] failKeepsD [OF ParsePskExchangeRsp_failKeeps, of K buf c]
  by (auto simp: wpE_iff)

text \<open>
  C7. Disconnecting wipes the session whatever the peer answers: every traffic key and secret
  is zero, the shared secret and the ephemeral key are gone, the session id and both sequence
  numbers are zero.
\<close>

theorem disconnect_wipes:
  "let d = snd (wolfSPDM_Disconnect K c) in
     state d = WOLFSPDM_STATE_INIT \<and> sessionId d = 0 \<and> reqSeqNum d = 0 \<and> rspSeqNum d = 0 \<and>
     set (concat (session_keys d)) \<subseteq> {0} \<and> sharedSecret d = [] \<and> \<not> ephemeralKeyInit (flags d)"
proof -
  obtain s where "snd (wolfSPDM_Disconnect K c) = wolfSPDM_ResetSession s" using Disconnect_wipes by blast
  with ResetSession_wipes [of s] show ?thesis by (auto simp: Let_def)
qed

text \<open>
  C8. No nonce is used twice under one key: the IVs with which AES-GCM is called for the records a
  sequence of fewer than \<open>2 ^ 64\<close> sends gives away are pairwise distinct, whichever of the sends
  fail, and each of the records is what AES-GCM made under the outgoing key with its IV.
\<close>

theorem nonces_distinct:
  assumes "length (reqDataIv c) = WOLFSPDM_AEAD_IV_SIZE" "length ss < 2 ^ 64"
  shows "distinct (sealIvs K ss c) \<and> list_all2 (sealedWith K c) (sealIvs K ss c) (sealAll K ss c)"
  using assms sealIvs_distinct [of c ss K] sealIvs_spec [of ss K c] by simp

theorem nonces_distinct_witness:
  "let c = connectedCtx MODE_AUTO; ss = [(False, [1], 100), (True, [2, 3], 100), (False, [4], 1)] in
     distinct (sealIvs simpleWc ss c) \<and> list_all2 (sealedWith simpleWc c) (sealIvs simpleWc ss c) (sealAll simpleWc ss c) \<and>
     length (sealAll simpleWc ss c) = 2"
proof -
  let ?c = "connectedCtx MODE_AUTO" and ?ss = "[(False, [1], 100), (True, [2, 3], 100), (False, [4], 1)]"
  have "distinct (sealIvs simpleWc ?ss ?c) \<and> list_all2 (sealedWith simpleWc ?c) (sealIvs simpleWc ?ss ?c) (sealAll simpleWc ?ss ?c)"
    by (rule nonces_distinct) (simp_all add: connectedCtx_def zero_ctx_def zeros_def)
  moreover have "length (sealAll simpleWc ?ss ?c) = 2"
    by (simp add: wolfSPDM_EncryptRecord_def sealRecord_def wolfSPDM_IsTcgMode_def connectedCtx_def simpleWc_def
        zero_ctx_def opE_defs Let_def)
  ultimately show ?thesis by (simp add: Let_def)
qed

section \<open>The responder\<close>

text \<open>
  C9. Whatever an application calls and whatever messages arrive, an initialised responder is
  well-formed: stored keys have their lengths, a session has an id and a version, the label
  of a session is the kind of exchange that opened it, and the transcript fits its buffer.
\<close>

theorem responder_invariant:
  assumes "respReach K nul tnul r"
  shows "respWf r"
  using assms by (rule respReach_wf)

theorem responder_invariant_witness:
  "respWf (respCall simpleWc (CallHandleMessage [0x81, 0x01] 100) (respCall simpleWc (CallSetMode True True)
     (snd (wolfSPDM_RespInit simpleWc () () (zero_resp () ())))))"
proof (rule responder_invariant)
  have "wolfSPDM_RespInit simpleWc () () (zero_resp () ()) =
      (Inr (), snd (wolfSPDM_RespInit simpleWc () () (zero_resp () ())))"
    by (simp add: wolfSPDM_RespInit_def wolfSPDM_Init_def zoomE_def simpleWc_def opE_defs)
  then show "respReach simpleWc () () (respCall simpleWc (CallHandleMessage [0x81, 0x01] 100)
      (respCall simpleWc (CallSetMode True True) (snd (wolfSPDM_RespInit simpleWc () () (zero_resp () ())))))"
    by (intro respReach.call) (rule respReach.init)
qed

text \<open>
  C10. A message moves the responder along its protocol, whatever it contains and however it
  is answered: a session is entered only from a completed exchange of the same kind, an
  exchange only when no other is pending.
\<close>

theorem responder_protocol:
  "wpE (wolfSPDM_RespHandleMessage K inBuf cap) (\<lambda>_ d. respStep (respPhase r) (respPhase d))
     (\<lambda>_ d. respStep (respPhase r) (respPhase d)) r"
  by (rule wpE_mono [OF follows_HandleMessage]) (simp_all add: follows_def)

text \<open>
  C11. A responder becomes connected only for a sealed record that authenticates under the
  handshake keys and carries the FINISH of the pending exchange with the right HMAC.
\<close>

theorem responder_opens_session:
  "wpE (wolfSPDM_RespHandleMessage K inBuf cap)
     (\<lambda>_ d. if state (rctx d) = WOLFSPDM_STATE_CONNECTED
            then state (rctx r) = WOLFSPDM_STATE_CONNECTED \<or> sessionOpened K r inBuf else True)
     (\<lambda>_ d. if state (rctx d) = WOLFSPDM_STATE_CONNECTED
            then state (rctx r) = WOLFSPDM_STATE_CONNECTED \<or> sessionOpened K r inBuf else True) r"
  by (rule wpE_mono [OF HandleMessage_opens]) simp_all

text \<open>
  C12. The TPM behind the tunnel sees a command, and the SPDM-only lock moves, only for a
  record of a connected session that authenticates under the requester's traffic key.
\<close>

theorem responder_tunnel:
  "wpE (wolfSPDM_RespHandleMessage K inBuf cap)
     (\<lambda>_ d. (spdmOnlyLock d, tpmCbUserCtx d) = (spdmOnlyLock r, tpmCbUserCtx r) \<or> tunnelOpen K r inBuf)
     (\<lambda>_ d. (spdmOnlyLock d, tpmCbUserCtx d) = (spdmOnlyLock r, tpmCbUserCtx r) \<or> tunnelOpen K r inBuf) r"
  using HandleMessage_tunnel [of K inBuf cap r] by (simp add: tunnelView_def)

text \<open>
  C13. Whatever a message does, the stored pre-shared key changes only by the vendor command that the
  message carries, in a clear frame or in an authentic record: PSK_SET stores the key and the clear
  authorisation of its payload where there is no key, or adds the authorisation to the same key
  while there is none; PSK_CLR erases both when its payload is a secret of 32 bytes with the stored
  digest. The hint never changes.
\<close>

theorem responder_psk_store:
  "wpE (wolfSPDM_RespHandleMessage K inBuf cap) (\<lambda>_ d. pskChange K r inBuf d) (\<lambda>_ d. pskChange K r inBuf d) r"
  by (rule HandleMessage_psk)

text \<open>
  C14. No decrypted command or response outlives the message it belongs to: the four scratch
  buffers of every reachable responder are wiped.
\<close>

theorem responder_scratch_wiped:
  assumes "respReach K nul tnul r"
  shows "secureInPlain r = [] \<and> secureOutPlain r = [] \<and> vdInPayload r = [] \<and> vdOutPayload r = []"
  using respReach_scratch [OF assms] by (simp add: scratchClean_def)

theorem responder_scratch_wiped_witness:
  "let r = snd (wolfSPDM_RespInit simpleWc () () (zero_resp () ())) in
     secureInPlain r = [] \<and> secureOutPlain r = [] \<and> vdInPayload r = [] \<and> vdOutPayload r = []"
  unfolding Let_def
proof (rule responder_scratch_wiped)
  have "wolfSPDM_RespInit simpleWc () () (zero_resp () ()) =
      (Inr (), snd (wolfSPDM_RespInit simpleWc () () (zero_resp () ())))"
    by (simp add: wolfSPDM_RespInit_def wolfSPDM_Init_def zoomE_def simpleWc_def opE_defs)
  then show "respReach simpleWc () () (snd (wolfSPDM_RespInit simpleWc () () (zero_resp () ())))"
    by (rule respReach.init)
qed

section \<open>Messages and negotiation\<close>

text \<open>
  C15. The scan over a version response computes the maximum of the versions both sides speak; a
  response that shares none, or is malformed, changes neither version nor state.
\<close>

theorem version_negotiation:
  "wpE (wolfSPDM_ParseVersion buf)
     (\<lambda>_ d. state d = WOLFSPDM_STATE_VERSION \<and> mutualVersions c buf \<noteq> {} \<and> spdmVersion d = Max (mutualVersions c buf))
     (\<lambda>_ d. state d = state c \<and> spdmVersion d = spdmVersion c) c"
  by (rule wpE_mono [OF ParseVersion_spec]) (auto intro!: Max_eqI [symmetric])


text \<open>
  C18. An ALGORITHMS response is accepted only when everything it selects was offered: the hash, the
  one signature algorithm, the AEAD, the key schedule and the one key exchange are each one bit of
  what the NEGOTIATE_ALGORITHMS request of the same context offers, for the negotiated version, and
  the context has recorded the post-quantum signature and the KEM of the response, if any. A refused
  response leaves the earlier selections or none.
\<close>

theorem algorithms_sound:
  "wpE (wolfSPDM_ParseAlgorithms buf) (\<lambda>_ d. algorithmsAgreed c buf d)
     (\<lambda>_ d. (pqcAsymSel d, kemAlgSel d) \<in> {(pqcAsymSel c, kemAlgSel c), (0, 0)}) c"
  using ParseAlgorithms_agreed [of buf c] ParseAlgorithms_failure [of buf c] by (auto simp: wpE_iff)

text \<open>
  C19. A certificate chain that was retrieved fits its buffer, is as long as its own header
  says, and the chain hash is the hash of it.
\<close>

theorem certificate_retrieval:
  "wpE (wolfSPDM_GetCertificate K slot)
     (\<lambda>_ d. state d = WOLFSPDM_STATE_CERT \<and> WOLFSPDM_CERT_CHAIN_HDR_SZ < length (certChain d) \<and>
        length (certChain d) \<le> WOLFSPDM_MAX_CERT_CHAIN \<and>
        unat (SPDM_Get16LE (certChain d) 0) = length (certChain d) \<and>
        fst (wolfSPDM_Sha384Hash K (certChain d) [] [] ()) = Inr (certChainHash d))
     (\<lambda>_ _. True) c"
  by (rule GetCertificate_sound)

section \<open>Large messages\<close>

text \<open>
  C20. The chunks a responder serves are reassembled to the message they were cut from: the
  loop ends and returns exactly their concatenation.
\<close>

theorem chunks_reassembled:
  fixes c :: "'w WOLFSPDM_CTX"
  assumes "\<And>d :: 'w WOLFSPDM_CTX. \<And>i. spdmVersion d = spdmVersion c \<Longrightarrow> i < length cs \<Longrightarrow>
       \<exists>d'. xfer (chunkGetMsg d h i) (WOLFSPDM_DATA_TRANSFER_SIZE K) d = (Inr (chunkResponse d h cs i), d') \<and>
            spdmVersion d' = spdmVersion c"
    and "cs \<noteq> []" "[] \<notin> set cs" "length (concat cs) \<le> cap" "cap \<le> WOLFSPDM_MAX_MSG_SIZE"
    and "spdmVersion c \<ge> SPDM_VERSION_14 \<or> length cs \<le> 0x10000"
  shows "\<exists>d. wolfSPDM_ChunkGetLoop K xfer h cap 0 [] 0 c = (Inr (concat cs), d)"
  using ChunkGetLoop_reassembles [of "spdmVersion c" cs xfer h K cap 0 c 0] assms by simp

lemma chunkServer_serves:
  assumes "spdmVersion d = 0x13" "i < 2"
  shows "chunkServer 7 [[1, 2], [3]] (chunkGetMsg d 7 i) n d = (Inr (chunkResponse d 7 [[1, 2], [3]] i), d)"
proof -
  have ok: "wolfSPDM_ChunkSeqOk d i" using assms by (simp add: wolfSPDM_ChunkSeqOk_def)
  have "unat (of_nat i :: word32) = i" using assms(2) by (simp add: unat_of_nat_small)
  then show ?thesis
    using ChunkGetSeq_SetSeq [OF ok, of "[spdmVersion d, SPDM_CHUNK_GET, 0x00, 7]" "[]"]
    by (simp add: chunkServer_def chunkGetMsg_def)
qed

theorem chunks_reassembled_witness:
  "\<exists>d. wolfSPDM_ChunkGetLoop simpleWc (chunkServer 7 [[1, 2], [3]]) 7 100 0 [] 0 (connectedCtx MODE_AUTO) = (Inr [1, 2, 3], d)"
  using chunks_reassembled [of "connectedCtx MODE_AUTO" "[[1, 2], [3]]" "chunkServer 7 [[1, 2], [3]]" 7 simpleWc 100]
  by (simp add: connectedCtx_def chunkServer_serves)

text \<open>
  C21. A large request leaves the requester whole: when the send loop ends well, the payloads
  of the chunks that were transferred are the request, and no chunk exceeds the transfer limit.
\<close>

theorem chunks_delivered:
  fixes c :: "'w WOLFSPDM_CTX" and sentLog :: "'w WOLFSPDM_CTX \<Rightarrow> bytes list"
  assumes "\<And>tx n d rsp d'. xfer tx n d = (Inr rsp, d') \<Longrightarrow> sentLog d' = sentLog d @ [tx]"
    and "\<And>d x. sentLog (d\<lparr>lastPeerErrorCode := x\<rparr>) = sentLog d" "16 \<le> limit"
  shows "wpE (wolfSPDM_ChunkSendLoop K xfer limit h ah req cap 0 0)
     (\<lambda>_ d. \<exists>msgs. sentLog d = sentLog c @ msgs \<and> chunkPayloads 0 msgs = req \<and>
        list_all (\<lambda>m. length m \<le> limit) msgs) (\<lambda>_ _. True) c"
  using ChunkSendLoop_delivers [of xfer sentLog limit 0 req K h ah cap 0 c] assms
  by (auto elim!: wpE_mono simp: list_all_iff)

theorem chunks_delivered_witness:
  "wpE (wolfSPDM_ChunkSendLoop simpleWc chunkLog 20 0 6 [1, 2, 3, 4, 5, 6] 100 0 0)
     (\<lambda>_ d. \<exists>msgs. ioUserCtx d = ioUserCtx (zero_ctx []) @ msgs \<and> chunkPayloads 0 msgs = [1, 2, 3, 4, 5, 6] \<and>
        list_all (\<lambda>m. length m \<le> 20) msgs) (\<lambda>_ _. True) (zero_ctx [])"
  by (rule chunks_delivered [where sentLog = ioUserCtx]) (auto simp: chunkLog_def)

text \<open>
  C22. What an exchange returns fits the caller's buffer, chunked or not, in the clear and
  inside a session.
\<close>

theorem exchanges_fit:
  "wpE (wolfSPDM_ClearExchange K req cap) (\<lambda>rsp _. length rsp \<le> cap) (\<lambda>_ _. True) c \<and>
   wpE (wolfSPDM_SecuredExchange K req cap) (\<lambda>rsp _. length rsp \<le> cap) (\<lambda>_ _. True) c"
  by (auto simp: wpE_iff dest: clear_exchange.xfer_fits secured_exchange.xfer_fits)

section \<open>Key update\<close>

text \<open>
  C23. A key update that succeeds has moved the outgoing direction, and for an update of all keys
  the incoming one too, to the secret, key and IV that the key schedule derives from the old secret.
  Opening the acknowledgement is all or nothing: either it was an authentic record under the keys in
  place and only the incoming sequence number moved, or, for an update of all keys, both directions
  have rotated, nothing else has changed, and the record was the first one under the new incoming
  key; after a failure every key, secret and sequence number is as before, up to the incoming
  number when an authentic record had been taken.
\<close>

theorem key_update_all_or_nothing:
  "wpE (wolfSPDM_KeyUpdate K updateAll) (\<lambda>_ d. keysUpdated K updateAll c d) (\<lambda>_ _. True) c \<and>
   wpE (keyUpdateOpen K updateAll raw)
     (\<lambda>(rx, rotated) d. if rotated then updateAll \<and> keysRotated K raw c d else d = nextRsp c \<and> recordAuthentic K c raw)
     (\<lambda>e d. d = c \<or> d = nextRsp c \<and> recordAuthentic K c raw) c"
  using keyUpdateOpen_spec [of K updateAll raw c] succ_KeyUpdate [of K updateAll c] by (simp add: wpE_iff [of "wolfSPDM_KeyUpdate _ _"])

text \<open>
  C24. The update of the requester's key alone is not: when the derivation fails, the call
  reports the failure but the outgoing sequence number starts again from zero under the
  unchanged key, so the next record repeats the nonce of the session's first one.
\<close>

theorem key_update_failure_repeats_nonce:
  "let (r, d) = keyUpdateReqOnly (K\<lparr>wc_HKDF_Expand := (\<lambda>_ _ _. None)\<rparr>) c in
     r = Inl E_CRYPTO_FAIL \<and> state d = state c \<and> trafficKeys d = trafficKeys c \<and>
     wolfSPDM_BuildIV (reqDataIv d) (reqSeqNum d) = wolfSPDM_BuildIV (reqDataIv c) 0"
  using keyUpdateReqOnly_failure [of "K\<lparr>wc_HKDF_Expand := (\<lambda>_ _ _. None)\<rparr>" c] by (simp add: trafficKeys_def)

section \<open>Attestation\<close>

text \<open>
  C25. A measurement record that was accepted is a sequence of whole blocks that fits its
  buffer; a call that fails after its checks leaves no older record behind.
\<close>

theorem measurements_report:
  "wpE (wolfSPDM_GetMeasurements K op sig)
     (\<lambda>_ d. measRecordWf (measRecord d) (unat (measBlockCount d)) \<and>
        length (measRecord d) \<le> WOLFSPDM_MAX_MEAS_RECORD)
     (\<lambda>e d. measReport d = ([], 0) \<or> d = c \<and> (e = E_NOT_CONNECTED \<or> e = E_CAPS_MISMATCH)) c"
  by (rule GetMeasurements_report)

text \<open>
  C26. A signed report is signed: the responder's signature over the hash of the transcript
  prefix, the request and the response up to the signature was verified.
\<close>

theorem measurements_signed:
  "wpE (fetchMeasurements K op True) (\<lambda>_ d. signedReport K c d) (\<lambda>_ _. True) c"
  using fetchMeasurements_signed [of K op c] by (auto simp: wpE_iff)

text \<open>
  C27. Reading a block of a well-formed record stays inside the record, and a value that is
  returned has the size that is reported.
\<close>

theorem measurement_block_bounds:
  assumes "measRecordWf (measRecord c) (unat (measBlockCount c))"
  shows "case wolfSPDM_GetMeasurementBlock c i sz of Inl e \<Rightarrow> e = E_INVALID_ARG
     | Inr b \<Rightarrow> mbSize b \<le> length (measRecord c) \<and>
         (case mbValue b of None \<Rightarrow> mbSize b > sz | Some v \<Rightarrow> length v = mbSize b)"
proof (cases "wolfSPDM_GetMeasurementBlock c i sz")
  case (Inl e)
  then show ?thesis by (simp add: wolfSPDM_GetMeasurementBlock_def Let_def split: if_split_asm)
next
  case (Inr b)
  then have "mbValue b = None \<Longrightarrow> mbSize b > sz"
    by (auto simp: wolfSPDM_GetMeasurementBlock_def Let_def split: if_split_asm)
  with GetMeasurementBlock_bounds [OF assms Inr] Inr show ?thesis by (simp split: option.split)
qed

theorem measurement_block_bounds_witness:
  "let c = (connectedCtx MODE_AUTO)\<lparr>measRecord := [1, 0, 2, 0, 9, 9], measBlockCount := 1\<rparr> in
   case wolfSPDM_GetMeasurementBlock c 0 8 of Inl e \<Rightarrow> e = E_INVALID_ARG
     | Inr b \<Rightarrow> mbSize b \<le> length (measRecord c) \<and>
         (case mbValue b of None \<Rightarrow> mbSize b > 8 | Some v \<Rightarrow> length v = mbSize b)"
  unfolding Let_def
  by (rule measurement_block_bounds) code_simp

text \<open>
  C28. A challenge that succeeds was answered for the certificate chain the requester holds,
  under a verified signature over everything exchanged so far.
\<close>

theorem challenge_signed:
  "wpE (wolfSPDM_Challenge K slotId mh) (\<lambda>_ _. challengeSigned K c slotId) (\<lambda>_ _. True) c"
  using Challenge_signed [of K slotId mh c] by (auto simp: wpE_iff)

section \<open>Requester and responder together\<close>

text \<open>
  C33. A requester and a responder that were set up for a pre-shared-key session through their
  configuration calls, with the same key, do connect: over a wolfCrypt that works
  \<^verbatim>\<open>wolfSPDM_Connect\<close> returns success, both sides are connected with the same version, session
  id, keys, transcript and sequence numbers, and the requester has erased the pre-shared key.
\<close>

theorem psk_connection_completes:
  assumes "wc_works K" "configResponder K nul tnul key hint cb tpm r0 = (Inr (), r)"
    "configRequester K rnul (respIo K) r key hint' c0 = (Inr (), c)"
  shows "\<exists>d. wolfSPDM_Connect K c = (Inr (), d) \<and> live K d \<and> psk d = []"
  using psk_connect_agrees [OF assms(1) configured_ready(1) [OF assms(2,3)]] by blast

theorem psk_connection_completes_witness:
  "\<exists>d. wolfSPDM_Connect simpleWc (snd (configRequester simpleWc (zero_resp () []) (respIo simpleWc)
       (snd (configResponder simpleWc () [] [1, 2, 3] None (Some echoTpm) [] (zero_resp () []))) [1, 2, 3] (Some [7])
       (zero_ctx (zero_resp () [])))) = (Inr (), d) \<and> live simpleWc d \<and> psk d = []"
proof (rule psk_connection_completes [OF simpleWc_works])
  show "configResponder simpleWc () [] [1, 2, 3] None (Some echoTpm) [] (zero_resp () []) =
      (Inr (), snd (configResponder simpleWc () [] [1, 2, 3] None (Some echoTpm) [] (zero_resp () [])))"
    by (simp add: configResponder_def wolfSPDM_RespInit_def wolfSPDM_Init_def wolfSPDM_RespSetMode_def wolfSPDM_RespSetPSK_def
        wolfSPDM_SetPSK_def wolfSPDM_RespSetTpmCallback_def zoomE_def simpleWc_def opE_defs)
  show "configRequester simpleWc (zero_resp () []) (respIo simpleWc) r [1, 2, 3] (Some [7]) (zero_ctx (zero_resp () [])) =
      (Inr (), snd (configRequester simpleWc (zero_resp () []) (respIo simpleWc) r [1, 2, 3] (Some [7]) (zero_ctx (zero_resp () []))))"
    for r :: "(unit, bytes list) WOLFSPDM_RESP_CTX"
    by (simp add: configRequester_def wolfSPDM_Init_def wolfSPDM_SetIO_def wolfSPDM_SetMode_def wolfSPDM_SetPSK_def simpleWc_def opE_defs)
qed

text \<open>
  C31. A requester and a responder that were set up for an identity-key session do connect, in each
  of the three modes for TPMs and with or without a key of the requester's own: when the pinned key
  is the public half of the responder's key pair, over a wolfCrypt that works, \<^verbatim>\<open>wolfSPDM_Connect\<close>
  returns success, both sides are connected and agree on the session, the responder reports the
  session as made with that key, and the TPM behind it has not been touched.
\<close>

theorem identity_connection_completes:
  assumes "wc_works K" "wc_ecc_works K" "eccPair K priv pub"
    "configIdResponder K nul tnul pskOn priv pub cb tpm r0 = (Inr (), r)"
    "configIdRequester K rnul (respIo K) r md pub own c0 = (Inr (), c)" "md = MODE_TCG \<or> md = MODE_NUVOTON \<or> md = MODE_NATIONS"
  shows "\<exists>d. wolfSPDM_Connect K c = (Inr (), d) \<and> live K d \<and> wolfSPDM_RespGetIdentityKey (ioUserCtx d) = Some pub \<and>
     tpmCb (ioUserCtx d) = cb \<and> tpmCbUserCtx (ioUserCtx d) = tpm"
  using assms by (rule configured_id_connects)

theorem identity_connection_completes_witness:
  "\<exists>d. wolfSPDM_Connect simpleWc (snd (configIdRequester simpleWc (zero_resp () []) (respIo simpleWc)
       (snd (configIdResponder simpleWc () [] False (replicate 48 3) (replicate 96 5) (Some echoTpm) [] (zero_resp () []))) MODE_TCG
       (replicate 96 5) (Some (replicate 48 7, replicate 96 9, [1, 2])) (zero_ctx (zero_resp () [])))) = (Inr (), d) \<and> live simpleWc d \<and>
     wolfSPDM_RespGetIdentityKey (ioUserCtx d) = Some (replicate 96 5) \<and> tpmCb (ioUserCtx d) = Some echoTpm \<and> tpmCbUserCtx (ioUserCtx d) = []"
proof (rule identity_connection_completes [OF simpleWc_works simpleWc_ecc_works simpleWc_pair])
  show "configIdResponder simpleWc () [] False (replicate 48 3) (replicate 96 5) (Some echoTpm) [] (zero_resp () []) =
      (Inr (), snd (configIdResponder simpleWc () [] False (replicate 48 3) (replicate 96 5) (Some echoTpm) [] (zero_resp () [])))"
    by (simp add: configIdResponder_def wolfSPDM_RespInit_def wolfSPDM_Init_def wolfSPDM_RespSetMode_def wolfSPDM_RespSetIdentityKey_def
        wolfSPDM_RespSetTpmCallback_def zero_resp_def zero_ctx_def zoomE_def simpleWc_def opE_defs)
  show "configIdRequester simpleWc (zero_resp () []) (respIo simpleWc) r MODE_TCG (replicate 96 5) (Some (replicate 48 7, replicate 96 9, [1, 2]))
        (zero_ctx (zero_resp () [])) =
      (Inr (), snd (configIdRequester simpleWc (zero_resp () []) (respIo simpleWc) r MODE_TCG (replicate 96 5)
        (Some (replicate 48 7, replicate 96 9, [1, 2])) (zero_ctx (zero_resp () []))))"
    for r :: "(unit, bytes list) WOLFSPDM_RESP_CTX"
    by (simp add: configIdRequester_def wolfSPDM_Init_def wolfSPDM_SetIO_def wolfSPDM_SetMode_def wolfSPDM_SetResponderPubKey_def
        wolfSPDM_SetRequesterKeyPair_def wolfSPDM_SetRequesterKeyTPMT_def simpleWc_def opE_defs)
qed simp

text \<open>
  C34. In a connected session a TPM command goes through the tunnel and its answer comes back
  unchanged: the vendor message the requester builds reaches the TPM behind the responder
  exactly once with the command as its payload, the requester parses the TPM's answer out of the
  record it receives, and the session is as ready for the next command as it was for this one.
\<close>

theorem tpm_tunnel_end_to_end:
  assumes "wc_works K" "live K c" "tpmCb (ioUserCtx c) = Some cb"
    "cb cmd (WOLFSPDM_MAX_TPM_MSG_SIZE - 17) (tpmCbUserCtx (ioUserCtx c)) = ((0, resp), w)"
    "length cmd \<le> 6983" "length resp \<le> 6983" "17 + length cmd \<le> txSz" "17 + length resp \<le> rxSz" "length resp \<le> cap"
  shows "\<exists>tx rx d. wolfSPDM_BuildVendorDefined (spdmVersion c) WOLFSPDM_VDCODE_TPM2_CMD cmd txSz c = (Inr tx, c) \<and>
     wolfSPDM_SecuredExchange K tx rxSz c = (Inr rx, d) \<and>
     wolfSPDM_ParseVendorDefined rx cap d = (Inr (WOLFSPDM_VDCODE_TPM2_CMD, resp), d) \<and>
     live K d \<and> tpmCbUserCtx (ioUserCtx d) = w \<and> reqSeqNum d = reqSeqNum c + 1 \<and> rspSeqNum d = rspSeqNum c + 1"
  using assms by (rule tpm_command_tunnelled)

theorem tpm_tunnel_end_to_end_witness:
  "\<exists>tx rx d. wolfSPDM_BuildVendorDefined (spdmVersion livePair) WOLFSPDM_VDCODE_TPM2_CMD [0x80, 0x01] 64 livePair = (Inr tx, livePair) \<and>
     wolfSPDM_SecuredExchange simpleWc tx 64 livePair = (Inr rx, d) \<and>
     wolfSPDM_ParseVendorDefined rx 16 d = (Inr (WOLFSPDM_VDCODE_TPM2_CMD, [0x80, 0x01]), d) \<and>
     live simpleWc d \<and> tpmCbUserCtx (ioUserCtx d) = [[0x80, 0x01]] \<and> reqSeqNum d = reqSeqNum livePair + 1 \<and>
     rspSeqNum d = rspSeqNum livePair + 1"
  by (rule tpm_tunnel_end_to_end [OF simpleWc_works livePair_live(1,2)]) (simp_all add: livePair_live(3) echoTpm_def)

text \<open>
  C35. Disconnecting a connected session ends it on both sides: the call succeeds, requester and
  responder are back in their initial state, and the responder's session keys are wiped.
\<close>

theorem session_ends_on_both_sides:
  assumes "wc_works K" "live K c"
  shows "\<exists>d. wolfSPDM_Disconnect K c = (Inr (), d) \<and> state d = WOLFSPDM_STATE_INIT \<and>
     state (rctx (ioUserCtx d)) = WOLFSPDM_STATE_INIT \<and> sessionId (rctx (ioUserCtx d)) = 0 \<and>
     set (concat (session_keys (rctx (ioUserCtx d)))) \<subseteq> {0}"
  using session_ends [OF assms] by blast

theorem session_ends_on_both_sides_witness:
  "\<exists>d. wolfSPDM_Disconnect simpleWc livePair = (Inr (), d) \<and> state d = WOLFSPDM_STATE_INIT \<and>
     state (rctx (ioUserCtx d)) = WOLFSPDM_STATE_INIT \<and> sessionId (rctx (ioUserCtx d)) = 0 \<and>
     set (concat (session_keys (rctx (ioUserCtx d)))) \<subseteq> {0}"
  by (rule session_ends_on_both_sides [OF simpleWc_works livePair_live(1)])

text \<open>
  C29. The life of a pre-shared key, with a responder that starts without one: provisioning it with
  the digest of a clear authorisation succeeds and the responder holds the key; a requester given the
  same key connects with it; after the disconnect the authorisation removes the key, and the responder
  holds none and reports none.
\<close>

theorem psk_life_cycle:
  assumes "wc_works K" "blankResponder K nul tnul r0 = (Inr (), r)" "blankRequester K rnul (respIo K) r c0 = (Inr (), c)"
    "length key = WOLFSPDM_PSK_MAX_SIZE" "length auth = 32" "length hint \<le> WOLFSPDM_PSK_HINT_MAX"
  shows "\<exists>c1 c2 c3 c4. wolfSPDM_Nations_PskSet (key @ shaOf K auth) c = (Inr (), c1) \<and> pskStore (ioUserCtx c1) = key \<and>
     thenE (wolfSPDM_SetPSK key (Some hint)) (wolfSPDM_Connect K) c1 = (Inr (), c2) \<and> live K c2 \<and> psk c2 = [] \<and>
     wolfSPDM_Disconnect K c2 = (Inr (), c3) \<and> wolfSPDM_Nations_PskClear auth c3 = (Inr (), c4) \<and>
     pskStore (ioUserCtx c4) = [] \<and> psk (rctx (ioUserCtx c4)) = [] \<and> \<not> pskProvisioned (ioUserCtx c4)"
  using assms by (rule psk_life)

theorem psk_life_cycle_witness:
  "\<exists>c1 c2 c3 c4. wolfSPDM_Nations_PskSet (replicate 64 3 @ shaOf simpleWc (replicate 32 5)) blankPair = (Inr (), c1) \<and> pskStore (ioUserCtx c1) = replicate 64 3 \<and>
     thenE (wolfSPDM_SetPSK (replicate 64 3) (Some [7])) (wolfSPDM_Connect simpleWc) c1 = (Inr (), c2) \<and> live simpleWc c2 \<and> psk c2 = [] \<and>
     wolfSPDM_Disconnect simpleWc c2 = (Inr (), c3) \<and> wolfSPDM_Nations_PskClear (replicate 32 5) c3 = (Inr (), c4) \<and>
     pskStore (ioUserCtx c4) = [] \<and> psk (rctx (ioUserCtx c4)) = [] \<and> \<not> pskProvisioned (ioUserCtx c4)"
  by (rule psk_life_cycle [OF simpleWc_works blankPair_made]) simp_all

text \<open>
  C30. Each vendor's \<^verbatim>\<open>SetOnlyMode\<close> reaches the responder through the session: it succeeds, the
  responder is locked or unlocked as asked, each vendor's \<^verbatim>\<open>GetStatus\<close>, which goes in the clear, then
  reports that lock, and the session is still connected on both sides.
\<close>

theorem spdm_only_lock_end_to_end:
  assumes "wc_works K" "live K c" "0x10 \<le> spdmVersion c" "spdmVersion c \<le> 0x1F"
    "lockCmd = wolfSPDM_Nuvoton_SetOnlyMode \<or> lockCmd = wolfSPDM_Nations_SetOnlyMode \<or> lockCmd = wolfSPDM_Infineon_SetOnlyMode"
  shows "\<exists>d. lockCmd K lock c = (Inr (), d) \<and> live K d \<and> wolfSPDM_RespIsLocked (ioUserCtx d) = lock \<and>
     (\<exists>st e. wolfSPDM_Nuvoton_GetStatus d = (Inr st, e) \<and> nuvSpdmOnlyLocked st = lock \<and> live K e) \<and>
     (\<exists>st e. wolfSPDM_Nations_GetStatus d = (Inr st, e) \<and> natSpdmOnlyLocked st = lock \<and> live K e) \<and>
     (\<exists>st e. wolfSPDM_Infineon_GetStatus d = (Inr st, e) \<and> ifxSpdmOnlyLocked st = lock \<and> live K e)"
proof -
  obtain d where d: "spdmOnlyCmd K lock c = (Inr (), d)" "live K d" "wolfSPDM_RespIsLocked (ioUserCtx d) = lock" "spdmVersion d = spdmVersion c"
    using requester_locks [OF assms(1,2)] by blast
  moreover have "lockCmd K lock c = spdmOnlyCmd K lock c"
    using assms(5) by (auto simp: wolfSPDM_Nuvoton_SetOnlyMode_def wolfSPDM_Nations_SetOnlyMode_def wolfSPDM_Infineon_SetOnlyMode_def)
  moreover note lock_reported [OF d(2), unfolded d(3,4), OF assms(3,4)]
  ultimately show ?thesis by (intro exI [of _ d]) simp
qed

theorem spdm_only_lock_end_to_end_witness:
  "\<exists>d. wolfSPDM_Nations_SetOnlyMode simpleWc True livePair = (Inr (), d) \<and> live simpleWc d \<and> wolfSPDM_RespIsLocked (ioUserCtx d) = True \<and>
     (\<exists>st e. wolfSPDM_Nuvoton_GetStatus d = (Inr st, e) \<and> nuvSpdmOnlyLocked st = True \<and> live simpleWc e) \<and>
     (\<exists>st e. wolfSPDM_Nations_GetStatus d = (Inr st, e) \<and> natSpdmOnlyLocked st = True \<and> live simpleWc e) \<and>
     (\<exists>st e. wolfSPDM_Infineon_GetStatus d = (Inr st, e) \<and> ifxSpdmOnlyLocked st = True \<and> live simpleWc e)"
  by (rule spdm_only_lock_end_to_end [OF simpleWc_works livePair_live(1)]) (simp_all add: livePair_def word_le_nat_alt)

section \<open>The requester API\<close>

text \<open>
  C36. Connecting ends after a bounded number of messages, whatever the peer answers: no mode,
  no size the peer announces and no portion or chunk it sends makes \<^verbatim>\<open>wolfSPDM_Connect\<close> call the
  I/O callback more than \<^term>\<open>connectCalls\<close> times.
\<close>

theorem connect_calls_bounded:
  assumes "counts io cnt" "ioCb c = Some io"
  shows "cnt (ioUserCtx (snd (wolfSPDM_Connect K c))) \<le> cnt (ioUserCtx c) + connectCalls"
  using spends_Connect [OF assms(1)] assms(2) by (simp add: spends_def)

theorem connect_calls_bounded_witness:
  "id (ioUserCtx (snd (wolfSPDM_Connect simpleWc ((zero_ctx 0)\<lparr>ioCb := Some (\<lambda>sid tx cap n. ((0, []), n + 1))\<rparr>)))) \<le>
     id (ioUserCtx ((zero_ctx (0 :: nat))\<lparr>ioCb := Some (\<lambda>sid tx cap n. ((0, []), n + 1))\<rparr>)) + connectCalls"
  by (rule connect_calls_bounded [of "\<lambda>sid tx cap n. ((0, []), n + 1)"]) (simp_all add: counts_def)

text \<open>
  C37. Every requester context that the API can reach is well-formed, whatever the peer answers:
  its state is one of the enumeration, everything it stores fits its buffer, the session ids it
  offers and uses cannot be taken for the start of a clear message, and the measurement record it
  holds divides into the counted blocks.
\<close>

theorem requester_invariant:
  assumes "reqReach K nul c"
  shows "ctxWf c"
  using assms by (rule reqReach_wf)

theorem requester_invariant_witness:
  "ctxWf (reqCall simpleWc (CallStep CallConnect) (reqCall simpleWc (CallConfig (CallSetReqPSK [1, 2, 3] None))
     (snd (wolfSPDM_Init simpleWc () (zero_ctx ())))))"
proof (rule requester_invariant)
  have "wolfSPDM_Init simpleWc () (zero_ctx ()) = (Inr (), snd (wolfSPDM_Init simpleWc () (zero_ctx ())))"
    by (simp add: wolfSPDM_Init_def simpleWc_def opE_defs)
  then show "reqReach simpleWc () (reqCall simpleWc (CallStep CallConnect)
      (reqCall simpleWc (CallConfig (CallSetReqPSK [1, 2, 3] None)) (snd (wolfSPDM_Init simpleWc () (zero_ctx ())))))"
    by (intro reqReach.call) (rule reqReach.init)
qed

section \<open>The demo program\<close>

text \<open>
  C38. Over a TCP socket that takes and gives bytes in any portions and may be interrupted, an exchange of
  the library through the demo's callback returns: exactly one frame with the request and its message
  type is sent, the response is the payload of the next frame, and what follows it stays unread.
\<close>

theorem demo_exchange_over_tcp:
  assumes "ioCb c = Some (tcpIo os)" "\<not> wolfSPDM_IsTcgMode c" "tcp_ok os (sockFd (ioUserCtx c)) out inp stalls" "0 \<le> sockFd (ioUserCtx c)"
    "length tx \<le> 4083" "inp (net (ioUserCtx c)) = hdr @ [ty] @ rx @ rest" "length hdr = 12" "SPDM_Get32BE hdr 8 = of_nat (1 + length rx)"
    "length rx \<le> cap" "1 + length rx < 2 ^ 32"
  shows "\<exists>v. wolfSPDM_SendReceive tx cap c = (Inr rx, c\<lparr>ioUserCtx := (ioUserCtx c)\<lparr>net := v\<rparr>\<rparr>) \<and>
     out v = out (net (ioUserCtx c)) @ sendBuf (wolfSPDM_GetSessionId c) tx \<and> inp v = rest"
  using assms by (rule exchange_over_tcp)

theorem demo_exchange_over_tcp_witness:
  "\<exists>v. wolfSPDM_SendReceive [0x10, 0x84, 0x00, 0x00] 32 slowCtx = (Inr versionIn, slowCtx\<lparr>ioUserCtx := (ioUserCtx slowCtx)\<lparr>net := v\<rparr>\<rparr>) \<and>
     fst v = fst (net (ioUserCtx slowCtx)) @ sendBuf (wolfSPDM_GetSessionId slowCtx) [0x10, 0x84, 0x00, 0x00] \<and> fst (snd v) = []"
proof (rule demo_exchange_over_tcp [OF _ _ slowOs_ok])
  show "fst (snd (net (ioUserCtx slowCtx))) = [0, 0, 0, 1, 0, 0, 0, 1, 0, 0, 0, 9] @ [0x05] @ versionIn @ []" by (simp add: slowCtx_def zero_ctx_def)
qed (simp_all add: slowCtx_def versionIn_def zero_ctx_def wolfSPDM_IsTcgMode_def SPDM_Get32BE_def)

text \<open>
  C17. The demo tells the message types apart: in a well-formed context a message that starts with an SPDM
  version goes out as a clear message, and a record the library has just sealed as a secured one.
\<close>

theorem demo_message_types:
  assumes "ctxWf c"
  shows "(\<forall>buf. buf \<noteq> [] \<and> 0x10 \<le> buf ! 0 \<and> buf ! 0 \<le> 0x1F \<longrightarrow> sendBuf (wolfSPDM_GetSessionId c) buf ! 12 = 0x05) \<and>
     (\<forall>appMsg plain cap enc d. wolfSPDM_EncryptRecord K appMsg plain cap c = (Inr enc, d) \<and> \<not> wolfSPDM_IsTcgMode c \<and>
        wolfSPDM_GetSessionId d \<noteq> 0 \<longrightarrow> sendBuf (wolfSPDM_GetSessionId d) enc ! 12 = 0x06)"
proof -
  have t: "sendBuf sid buf ! 12 = (if is_secured_spdm sid buf then 0x06 else 0x05)" for sid buf
    by (simp add: sendBuf_def nth_append)
  show ?thesis unfolding t by (auto simp: clear_not_secured [OF assms] dest: record_secured)
qed

theorem demo_message_types_witness:
  "sendBuf (wolfSPDM_GetSessionId (connectedCtx MODE_AUTO)) [0x13, 0xE0, 0x00, 0x00] ! 12 = 0x05 \<and>
     (\<exists>enc d. wolfSPDM_EncryptRecord simpleWc False [0x13, 0xE8, 0x00, 0x00] 64 (connectedCtx MODE_AUTO) = (Inr enc, d) \<and>
        sendBuf (wolfSPDM_GetSessionId d) enc ! 12 = 0x06)"
proof -
  have wf: "ctxWf (connectedCtx MODE_AUTO)"
    by (simp add: connectedCtx_def zero_ctx_def ctx_defs sidOk_def word_le_nat_alt)
  obtain enc d where e: "wolfSPDM_EncryptRecord simpleWc False [0x13, 0xE8, 0x00, 0x00] 64 (connectedCtx MODE_AUTO) = (Inr enc, d)"
      "wolfSPDM_GetSessionId d \<noteq> 0"
    by (simp add: wolfSPDM_EncryptRecord_def sealRecord_def connectedCtx_def zero_ctx_def wolfSPDM_IsTcgMode_def wolfSPDM_GetSessionId_def
        simpleWc_def opE_defs Let_def)
  moreover have "\<not> wolfSPDM_IsTcgMode (connectedCtx MODE_AUTO)" by (simp add: connectedCtx_def wolfSPDM_IsTcgMode_def)
  ultimately have "sendBuf (wolfSPDM_GetSessionId d) enc ! 12 = 0x06" using demo_message_types [OF wf, of simpleWc] by blast
  moreover have "sendBuf (wolfSPDM_GetSessionId (connectedCtx MODE_AUTO)) [0x13, 0xE0, 0x00, 0x00] ! 12 = 0x05"
    using demo_message_types [OF wf, of simpleWc] by (simp add: word_le_nat_alt)
  ultimately show ?thesis using e(1) by blast
qed

text \<open>
  C32. The demo ends with status 0 only after a call for help or after this run: the socket was
  connected, the context it configured was given the options, and the scenario that was asked for
  succeeded from there and has shown what it is for. A challenge has shown that the device signed
  for a chain below the root that was read from one of the six certificate directories; any other
  scenario a session authenticated for that configuration, which allows chains without a root, and in
  it a well-formed and, when asked for, signed report, both directions on updated keys, or the
  answer to the application message. However the program ends, every descriptor it opened is closed.
\<close>

theorem demo_exit_status:
  assumes "fd_ok os fds" "sockFd g < 0"
  shows "case demo_main K os sz opts g of (rc, g') \<Rightarrow>
     sockFd g' < 0 \<and> fds (net g') = fds (net g) \<and>
     (if rc = 0 then (case demoOptions opts demoDefaults of Inl n \<Rightarrow> n = 0 | Inr o' \<Rightarrow> demoSucceeded K os sz o' g g') else True)"
proof -
  obtain rc g' where r: "demo_main K os sz opts g = (rc, g')" by (cases "demo_main K os sz opts g")
  then have "n = rc" if "demoOptions opts demoDefaults = Inl n" for n using that by (simp add: demo_main_eq)
  with r demo_main_status [of K os sz opts g g'] demo_main_closes [OF assms r] show ?thesis by (auto split: sum.split)
qed

theorem demo_exit_status_witness:
  "tcp_connect fdOs ''127.0.0.1'' 2323 \<lparr>sockFd = -1, net = [0]\<rparr> = (0, \<lparr>sockFd = 1, net = [1, 0]\<rparr>) \<and>
   (case demo_main simpleWc fdOs 1000 [(CHR ''e'', [])] \<lparr>sockFd = -1, net = [0]\<rparr> of (rc, g') \<Rightarrow>
     sockFd g' < 0 \<and> int ` set (net g') = int ` set (net \<lparr>sockFd = -1, net = [0]\<rparr>) \<and>
     (if rc = 0 then (case demoOptions [(CHR ''e'', [])] demoDefaults of Inl n \<Rightarrow> n = 0
        | Inr o' \<Rightarrow> demoSucceeded simpleWc fdOs 1000 o' \<lparr>sockFd = -1, net = [0]\<rparr> g') else True))"
proof
  show "tcp_connect fdOs ''127.0.0.1'' 2323 \<lparr>sockFd = -1, net = [0]\<rparr> = (0, \<lparr>sockFd = 1, net = [1, 0]\<rparr>)"
    by (simp add: tcp_connect_def fdOs_def)
qed (rule demo_exit_status [OF fdOs_ok], simp)

section \<open>Records at the responder\<close>

text \<open>
  C39. A frame that reached the TPM or moved the SPDM-only lock cannot be replayed: delivered to
  the responder again it is refused, whatever room there is for an answer, and neither the TPM
  nor the lock sees it a second time.
\<close>

theorem responder_rejects_replay:
  "wpE (wolfSPDM_RespHandleMessage K inBuf cap)
     (\<lambda>_ s. tunnelView s = tunnelView r \<or>
        (\<forall>n. wpE (wolfSPDM_RespHandleMessage K inBuf n) (\<lambda>_ _. False) (\<lambda>_ d. tunnelView d = tunnelView s) s))
     (\<lambda>_ s. tunnelView s = tunnelView r \<or>
        (\<forall>n. wpE (wolfSPDM_RespHandleMessage K inBuf n) (\<lambda>_ _. False) (\<lambda>_ d. tunnelView d = tunnelView s) s)) r"
  by (rule HandleMessage_once)

text \<open>
  C40. A verified PSK_FINISH whose answer cannot be sealed, here because the caller's buffer is too
  small, is reported as an error but leaves the responder connected: it stays in that state under
  the handshake keys, since the application keys are derived only after the answer was sealed.
\<close>

theorem unanswered_finish_connects:
  assumes "wc_works K" "keyed K False c" "cap < 30"
  shows "\<exists>fin c1 enc c2 s. wolfSPDM_BuildPskFinish K 64 c = (Inr fin, c1) \<and> wolfSPDM_EncryptInternal K fin 8272 c1 = (Inr enc, c2) \<and>
     RespDispatchSecured K enc cap (ioUserCtx c) = (Inl E_BUFFER_SMALL, s) \<and> state (rctx s) = WOLFSPDM_STATE_CONNECTED \<and>
     reqDataKey (rctx s) = reqDataKey c \<and> rspDataKey (rctx s) = rspDataKey c \<and>
     reqSeqNum (rctx s) = reqSeqNum c + 1 \<and> rspSeqNum (rctx s) = rspSeqNum c"
  using assms by (rule finish_answer_unsealed)

theorem unanswered_finish_connects_witness:
  "\<exists>fin c1 enc c2 s. wolfSPDM_BuildPskFinish simpleWc 64 keyedPair = (Inr fin, c1) \<and>
     wolfSPDM_EncryptInternal simpleWc fin 8272 c1 = (Inr enc, c2) \<and>
     RespDispatchSecured simpleWc enc 0 (ioUserCtx keyedPair) = (Inl E_BUFFER_SMALL, s) \<and> state (rctx s) = WOLFSPDM_STATE_CONNECTED \<and>
     reqDataKey (rctx s) = reqDataKey keyedPair \<and> rspDataKey (rctx s) = rspDataKey keyedPair \<and>
     reqSeqNum (rctx s) = reqSeqNum keyedPair + 1 \<and> rspSeqNum (rctx s) = rspSeqNum keyedPair"
  by (rule unanswered_finish_connects [OF simpleWc_works keyedPair_keyed]) simp

end
